(* ===== verification/Upnp_Prelude.thy ===== *)
theory Upnp_Prelude
  imports Main "HOL-Library.Word" "HOL-Library.Char_ord" "HOL-Library.List_Lexorder"
begin

text \<open>
  Shared ground of the development: the exceptions the C++ code can raise, the
  state-and-exception actions in which the stateful handlers are written, C and C++ strings, and
  the theorem collections of the library.  Nothing here is specific to one component.
\<close>

named_theorems act_simps \<open>running the state-and-exception actions\<close>
named_theorems xml_simps \<open>evaluating the XML builder\<close>
named_theorems field_simps_upnp \<open>field access after a parse step\<close>

section \<open>Exceptions and actions\<close>

text \<open>
  The ways in which a call can end abnormally: the exceptions of the standard library and of
  the libraries the code calls, a failed \<^verbatim>\<open>assert\<close>, and the two kinds of undefined behaviour
  the code can reach (a null pointer that is dereferenced, a signed overflow).
\<close>

datatype exn =
    Out_of_range        \<comment> \<open>\<^verbatim>\<open>std::out_of_range\<close>: \<open>at\<close>, \<open>stoi\<close>\<close>
  | Invalid_argument    \<comment> \<open>\<^verbatim>\<open>std::invalid_argument\<close>: \<open>stoi\<close>\<close>
  | Bad_lexical_cast    \<comment> \<open>\<^verbatim>\<open>boost::bad_lexical_cast\<close>\<close>
  | Parse_error         \<comment> \<open>\<^verbatim>\<open>rapidxml_ns::parse_error\<close>\<close>
  | System_error int    \<comment> \<open>\<^verbatim>\<open>std::system_error\<close> with its code\<close>
  | Assertion           \<comment> \<open>a failed \<^verbatim>\<open>assert\<close>\<close>
  | Null_deref          \<comment> \<open>undefined: null pointer dereferenced\<close>
  | Signed_overflow     \<comment> \<open>undefined: signed arithmetic overflow\<close>

type_synonym 'a res = "exn + 'a"

type_synonym ('s, 'a) act = "'s \<Rightarrow> 'a res \<times> 's"

definition ret :: "'a \<Rightarrow> ('s, 'a) act" where
  "ret x = (\<lambda>s. (Inr x, s))"

definition throw :: "exn \<Rightarrow> ('s, 'a) act" where
  "throw e = (\<lambda>s. (Inl e, s))"

definition andthen :: "('s, 'a) act \<Rightarrow> ('a \<Rightarrow> ('s, 'b) act) \<Rightarrow> ('s, 'b) act" where
  "andthen m f = (\<lambda>s. case m s of (Inl e, s') \<Rightarrow> (Inl e, s') | (Inr x, s') \<Rightarrow> f x s')"

definition update :: "('s \<Rightarrow> 's) \<Rightarrow> ('s, unit) act" where
  "update f = (\<lambda>s. (Inr (), f s))"

text \<open>Statements in sequence, and a pure result that may be an exception.\<close>

abbreviation seq :: "('s, unit) act \<Rightarrow> ('s, 'b) act \<Rightarrow> ('s, 'b) act" where
  "seq m k \<equiv> andthen m (\<lambda>_. k)"

definition lift_res :: "'a res \<Rightarrow> ('s, 'a) act" where
  "lift_res r = (\<lambda>s. (r, s))"

fun for_each :: "('x \<Rightarrow> ('s, unit) act) \<Rightarrow> 'x list \<Rightarrow> ('s, unit) act" where
  "for_each f [] = ret ()"
| "for_each f (x # xs) = seq (f x) (for_each f xs)"

definition res_bind :: "'a res \<Rightarrow> ('a \<Rightarrow> 'b res) \<Rightarrow> 'b res" where
  "res_bind r f = (case r of Inl e \<Rightarrow> Inl e | Inr x \<Rightarrow> f x)"

lemma res_bind_simps [simp]: "res_bind (Inl e) f = Inl e" "res_bind (Inr x) f = f x"
  by (simp_all add: res_bind_def)

lemma res_bind_eq_Inr [simp]:
  "res_bind r f = Inr y \<longleftrightarrow> (\<exists>x. r = Inr x \<and> f x = Inr y)"
  by (cases r) auto

lemma ret_run [simp, act_simps]: "ret x s = (Inr x, s)"
  by (simp add: ret_def)

lemma throw_run [simp, act_simps]: "throw e s = (Inl e, s)"
  by (simp add: throw_def)

lemma update_run [simp, act_simps]: "update f s = (Inr (), f s)"
  by (simp add: update_def)

lemma lift_res_run [simp, act_simps]: "lift_res r s = (r, s)"
  by (simp add: lift_res_def)

lemma andthen_run [act_simps]:
  "m s = (Inr x, s') \<Longrightarrow> andthen m f s = f x s'"
  "m s = (Inl e, s') \<Longrightarrow> andthen m f s = (Inl e, s')"
  by (simp_all add: andthen_def)

text \<open>The run equations make \<open>Pair\<close> the normal form of an action that does not touch the state.\<close>

lemma andthen_Pair [simp, act_simps]:
  "andthen (Pair (Inr x)) f = f x"
  "andthen (Pair (Inl e)) f = Pair (Inl e)"
  by (simp_all add: andthen_def fun_eq_iff)

lemma andthen_Pair_res [act_simps]:
  "andthen (Pair r) f = (case r of Inl e \<Rightarrow> Pair (Inl e) | Inr x \<Rightarrow> f x)"
  by (cases r) simp_all

lemma andthen_lift [simp, act_simps]:
  "andthen (lift_res (Inr x)) f = f x"
  "andthen (lift_res (Inl e)) f = Pair (Inl e)"
  by (simp_all add: andthen_def lift_res_def fun_eq_iff)

lemma andthen_update: "andthen (update g) f s = f () (g s)"
  by (simp add: andthen_def)

text \<open>
  Evaluation of a sequence on a given state.  The congruence rule makes the simplifier run the first
  action to its result before it looks at the continuation.
\<close>

definition resume :: "'a res \<times> 's \<Rightarrow> ('a \<Rightarrow> ('s, 'b) act) \<Rightarrow> 'b res \<times> 's" where
  "resume p f = (case p of (Inl e, s) \<Rightarrow> (Inl e, s) | (Inr x, s) \<Rightarrow> f x s)"

lemma resume_cong [cong]: "p = q \<Longrightarrow> resume p f = resume q f"
  by simp

lemma resume_simps [simp]:
  "resume (Inl e, s) f = (Inl e, s)" "resume (Inr x, s) f = f x s"
  by (simp_all add: resume_def)

lemma andthen_apply: "andthen m f s = resume (m s) f"
  by (simp add: andthen_def resume_def split: prod.splits sum.splits)

lemma andthen_assoc: "andthen (andthen m f) g = andthen m (\<lambda>x. andthen (f x) g)"
  by (auto simp: andthen_def fun_eq_iff split: prod.splits sum.splits)

lemma andthen_Inr:
  "andthen m f s = (Inr y, s'') \<longleftrightarrow> (\<exists>x s'. m s = (Inr x, s') \<and> f x s' = (Inr y, s''))"
  by (auto simp: andthen_def split: prod.splits sum.splits)

lemma for_each_append: "for_each f (xs @ ys) = seq (for_each f xs) (for_each f ys)"
  by (induction xs) (simp_all add: andthen_assoc)

text \<open>
  The contract that several operations share: an action that, when it returns normally, relates
  the states before and after by a given relation.  A loop over such actions keeps every
  reflexive and transitive relation; the lemma is proved once, here, for all of them.
\<close>

definition act_keeps :: "('s \<Rightarrow> 's \<Rightarrow> bool) \<Rightarrow> ('s, 'a) act \<Rightarrow> bool" where
  "act_keeps rel m \<longleftrightarrow> (\<forall>s. rel s (snd (m s)))"

lemma act_keepsD: "act_keeps rel m \<Longrightarrow> rel s (snd (m s))"
  by (simp add: act_keeps_def)

locale step_rel =
  fixes rel :: "'s \<Rightarrow> 's \<Rightarrow> bool"
  assumes refl: "rel s s"
    and trans: "rel s t \<Longrightarrow> rel t u \<Longrightarrow> rel s u"
begin

lemma keeps_Pair [simp]: "act_keeps rel (Pair r)"
  by (simp add: act_keeps_def refl)

lemma keeps_andthen:
  assumes "act_keeps rel m" "\<And>x. act_keeps rel (f x)"
  shows "act_keeps rel (andthen m f)"
  unfolding act_keeps_def
proof
  fix s
  obtain r s' where m: "m s = (r, s')" by (cases "m s")
  with assms(1) have first: "rel s s'" by (auto dest: act_keepsD [where s = s])
  show "rel s (snd (andthen m f s))"
  proof (cases r)
    case (Inl e)
    with m first show ?thesis by (simp add: andthen_def)
  next
    case (Inr x)
    from assms(2) have "rel s' (snd (f x s'))" by (rule act_keepsD)
    with Inr m first show ?thesis by (auto simp: andthen_def intro: trans)
  qed
qed

lemma keeps_for_each:
  assumes "\<And>x. act_keeps rel (f x)"
  shows "act_keeps rel (for_each f xs)"
  by (induction xs) (simp_all add: assms keeps_andthen)

end

lemma map_of_rev_distinct: "distinct (map fst ps) \<Longrightarrow> map_of (rev ps) = map_of ps"
  by (rule map_of_inject_set [THEN iffD2]) (simp_all flip: rev_map)

section \<open>Strings\<close>

text \<open>
  \<^verbatim>\<open>std::string\<close> is a byte sequence; its order is the lexicographic order of unsigned bytes,
  which is the order \<open>List_Lexorder\<close> and \<open>Char_ord\<close> put on \<^typ>\<open>string\<close>.  The C view of a
  string ends at its first NUL.
\<close>

definition c_str :: "string \<Rightarrow> string" where
  "c_str s = takeWhile (\<lambda>c. c \<noteq> CHR 0x00) s"

definition nul_free :: "string \<Rightarrow> bool" where
  "nul_free s \<longleftrightarrow> CHR 0x00 \<notin> set s"

lemma c_str_nul_free [simp]: "nul_free s \<Longrightarrow> c_str s = s"
  by (simp add: c_str_def nul_free_def takeWhile_eq_all_conv) (metis)

lemma nul_free_c_str [simp]: "nul_free (c_str s)"
  by (auto simp: c_str_def nul_free_def dest: set_takeWhileD)

lemma c_str_idem [simp]: "c_str (c_str s) = c_str s"
  by simp

lemma nul_free_append [simp]: "nul_free (s @ t) \<longleftrightarrow> nul_free s \<and> nul_free t"
  by (auto simp: nul_free_def)

lemma nul_free_Nil [simp]: "nul_free []"
  by (simp add: nul_free_def)

lemma nul_free_Cons [simp]: "nul_free (c # s) \<longleftrightarrow> c \<noteq> CHR 0x00 \<and> nul_free s"
  by (auto simp: nul_free_def)

text \<open>\<^verbatim>\<open>std::string::find\<close>: the first position at which the needle occurs.\<close>

fun is_prefix :: "'a list \<Rightarrow> 'a list \<Rightarrow> bool" where
  "is_prefix [] t = True"
| "is_prefix (c # s) [] = False"
| "is_prefix (c # s) (d # t) = (c = d \<and> is_prefix s t)"

fun str_find :: "string \<Rightarrow> string \<Rightarrow> nat option" where
  "str_find needle [] = (if needle = [] then Some 0 else None)"
| "str_find needle (c # s) =
     (if is_prefix needle (c # s) then Some 0 else map_option Suc (str_find needle s))"

lemma is_prefix_iff: "is_prefix s t \<longleftrightarrow> (\<exists>u. t = s @ u)"
  by (induction s t rule: is_prefix.induct) auto

lemma is_prefix_append [simp]: "is_prefix s (s @ t)"
  by (auto simp: is_prefix_iff)

lemma str_find_None_iff: "str_find n s = None \<longleftrightarrow> (\<nexists>a b. s = a @ n @ b)"
proof (induction s)
  case Nil
  then show ?case by simp
next
  case (Cons c s)
  show ?case
  proof (cases "is_prefix n (c # s)")
    case True
    then have "c # s = [] @ n @ drop (length n) (c # s)"
      by (auto simp: is_prefix_iff)
    with True show ?thesis by (auto simp del: append.simps)
  next
    case False
    then have "(\<exists>a b. c # s = a @ n @ b) \<longleftrightarrow> (\<exists>a b. s = a @ n @ b)"
      by (auto simp: is_prefix_iff Cons_eq_append_conv)
    with False Cons.IH show ?thesis by simp
  qed
qed

lemma str_find_infix: "str_find n (a @ n @ b) \<noteq> None"
  by (auto simp: str_find_None_iff)

lemma str_find_Nil [simp]: "str_find [] s = Some 0"
  by (cases s) auto

lemma str_find_empty_None: "n \<noteq> [] \<Longrightarrow> str_find n [] = None"
  by simp

end
