(* ===== verification/Xml.thy ===== *)
theory Xml
  imports Upnp_Prelude
begin

text \<open>
  The two sides of the XML handling of \<^verbatim>\<open>src/src/_utils.h\<close>.  Reading: the tree \<^verbatim>\<open>rapidxml_ns\<close>
  parses into, as far as the code looks at it (local name, value, children), and the loop \<open>FOR\<close>
  over the children of a node.  Writing: the document the code builds with \<open>element\<close> and
  \<open>attr\<close>.  A node pointer is the path of child indices that leads to the node from the
  document, so a pointer stays valid when nodes are appended anywhere, as it does in C++.
  Parsing and printing themselves are code of the XML library and parameters of the model.
\<close>

section \<open>Reading: the parsed tree\<close>

text \<open>
  A parsed node; text inside an element is a child node with the empty name, and the first text
  of an element is also its value.
\<close>

datatype pnode = PNode (local_name: string) (pvalue: string) (pkids: "pnode list")

text \<open>
  \<open>FOR(local_name, root_node, fn)\<close> calls \<open>fn\<close> on every child whose local name is the given one,
  or on every child when the name is an asterisk.
\<close>

definition for_matches :: "string \<Rightarrow> pnode \<Rightarrow> bool" where
  "for_matches nm n \<longleftrightarrow> nm = ''*'' \<or> local_name n = nm"

fun FOR_siblings :: "string \<Rightarrow> pnode list \<Rightarrow> (pnode \<Rightarrow> 's \<Rightarrow> 's) \<Rightarrow> 's \<Rightarrow> 's" where
  "FOR_siblings nm [] fn s = s"
| "FOR_siblings nm (n # ns) fn s = FOR_siblings nm ns fn (if for_matches nm n then fn n s else s)"

definition FOR :: "string \<Rightarrow> pnode \<Rightarrow> (pnode \<Rightarrow> 's \<Rightarrow> 's) \<Rightarrow> 's \<Rightarrow> 's" where
  "FOR nm root fn s = FOR_siblings nm (pkids root) fn s"

lemma FOR_siblings_fold: "FOR_siblings nm ns fn s = fold fn (filter (for_matches nm) ns) s"
  by (induction ns arbitrary: s) auto

lemma FOR_fold: "FOR nm root fn s = fold fn (filter (for_matches nm) (pkids root)) s"
  by (simp add: FOR_def FOR_siblings_fold)

lemma for_matches_star [simp]: "for_matches ''*'' n"
  by (simp add: for_matches_def)

lemma filter_for_matches:
  "nm \<noteq> ''*'' \<Longrightarrow> filter (for_matches nm) ns = filter (\<lambda>n. local_name n = nm) ns"
  by (rule filter_cong) (simp_all add: for_matches_def)

lemma FOR_star: "FOR ''*'' root fn s = fold fn (pkids root) s"
  by (simp add: FOR_fold)

text \<open>
  What most loops of the code do: a chain of \<open>if\<close>s on the child's name, each assigning one
  field from the child.  The contract of one such field: a step changes it exactly when the child
  has the field's name.  Then the loop leaves in the field what the last child of that name says,
  or the old content when there is none.
\<close>

definition last_named :: "string \<Rightarrow> pnode list \<Rightarrow> pnode option" where
  "last_named nm ns = List.find (\<lambda>n. local_name n = nm) (rev ns)"

lemma last_named_Nil [simp]: "last_named nm [] = None"
  by (simp add: last_named_def)

lemma find_append: "List.find P (xs @ ys) =
    (case List.find P xs of None \<Rightarrow> List.find P ys | Some x \<Rightarrow> Some x)"
  by (induction xs) auto

lemma last_named_snoc [simp]:
  "last_named nm (ns @ [n]) = (if local_name n = nm then Some n else last_named nm ns)"
  by (simp add: last_named_def)

lemma last_named_None: "last_named nm ns = None \<longleftrightarrow> (\<forall>n \<in> set ns. local_name n \<noteq> nm)"
  by (auto simp: last_named_def find_None_iff)

lemma last_named_Some: "last_named nm ns = Some n \<Longrightarrow> n \<in> set ns \<and> local_name n = nm"
  by (induction ns rule: rev_induct) (auto split: if_splits)

locale field_step =
  fixes step :: "pnode \<Rightarrow> 's \<Rightarrow> 's"
    and field :: "'s \<Rightarrow> 'v"
    and nm :: string
    and conv :: "pnode \<Rightarrow> 'v"
  assumes field_step: "field (step n s) = (if local_name n = nm then conv n else field s)"
begin

lemma field_fold:
  "field (fold step ns s) = (case last_named nm ns of None \<Rightarrow> field s | Some n \<Rightarrow> conv n)"
  by (induction ns rule: rev_induct) (auto simp: field_step)

lemma field_FOR:
  "field (FOR ''*'' root step s) =
     (case last_named nm (pkids root) of None \<Rightarrow> field s | Some n \<Rightarrow> conv n)"
  by (simp add: FOR_star field_fold)

end

lemma last_named_append:
  "last_named nm (xs @ ys) = (case last_named nm ys of None \<Rightarrow> last_named nm xs | Some n \<Rightarrow> Some n)"
  by (simp add: last_named_def find_append split: option.split)

text \<open>
  The same one level down: an outer loop that runs the inner loop on every child of one name.  The
  field is decided by the last matching grandchild, over all those children together.
\<close>

definition grandkids :: "string \<Rightarrow> pnode \<Rightarrow> pnode list" where
  "grandkids elem root = List.concat (map pkids (filter (\<lambda>n. local_name n = elem) (pkids root)))"

locale nested_field = field_step inner field nm conv
  for inner :: "pnode \<Rightarrow> 's \<Rightarrow> 's" and field :: "'s \<Rightarrow> 'v" and nm conv +
  fixes outer :: "pnode \<Rightarrow> 's \<Rightarrow> 's"
    and elem :: string
  assumes outer_step:
    "field (outer n s) = (if local_name n = elem then field (FOR ''*'' n inner s) else field s)"
begin

lemma outer_fold:
  "field (fold outer ns s) =
     (case last_named nm (List.concat (map pkids (filter (\<lambda>n. local_name n = elem) ns))) of
        None \<Rightarrow> field s | Some n \<Rightarrow> conv n)"
  by (induction ns rule: rev_induct)
    (auto simp: outer_step field_FOR last_named_append split: option.splits)

lemma outer_FOR:
  "field (FOR ''*'' root outer s) =
     (case last_named nm (grandkids elem root) of None \<Rightarrow> field s | Some n \<Rightarrow> conv n)"
  by (simp add: FOR_star outer_fold grandkids_def)

end

text \<open>
  The other kind of loop collects: a step appends what one child contributes to a list field.
\<close>

locale gather_step =
  fixes step :: "pnode \<Rightarrow> 's \<Rightarrow> 's"
    and field :: "'s \<Rightarrow> 'v list"
    and items :: "pnode \<Rightarrow> 'v list"
  assumes gather_step: "field (step n s) = field s @ items n"
begin

lemma gather_fold: "field (fold step ns s) = field s @ List.concat (map items ns)"
  by (induction ns arbitrary: s) (simp_all add: gather_step)

lemma gather_FOR:
  "field (FOR nm root step s) = field s @ List.concat (map items (filter (for_matches nm) (pkids root)))"
  by (simp add: FOR_fold gather_fold)

end

text \<open>A field that no step touches is a frame condition of the loop.\<close>

lemma fold_frame: "(\<And>n s. field (fn n s) = field s) \<Longrightarrow> field (fold fn ns s) = field s"
  by (induction ns arbitrary: s) auto

lemma FOR_frame: "(\<And>n s. field (fn n s) = field s) \<Longrightarrow> field (FOR nm root fn s) = field s"
  by (simp add: FOR_fold fold_frame)

section \<open>Writing: the document under construction\<close>

datatype xnode =
  XNode (xname: string) (xvalue: string) (xattrs: "(string \<times> string) list") (xkids: "xnode list")

text \<open>The document is itself a node, without a name; the empty path points to it.\<close>

type_synonym node_ptr = "nat list"

definition new_document :: xnode where
  "new_document = XNode [] [] [] []"

fun node_at :: "xnode \<Rightarrow> node_ptr \<Rightarrow> xnode option" where
  "node_at n [] = Some n"
| "node_at n (i # p) = (if i < length (xkids n) then node_at (xkids n ! i) p else None)"

fun modify_at :: "node_ptr \<Rightarrow> (xnode \<Rightarrow> xnode) \<Rightarrow> xnode \<Rightarrow> xnode" where
  "modify_at [] f n = f n"
| "modify_at (i # p) f n =
     (if i < length (xkids n)
      then XNode (xname n) (xvalue n) (xattrs n) ((xkids n)[i := modify_at p f (xkids n ! i)])
      else n)"

definition append_kid :: "xnode \<Rightarrow> xnode \<Rightarrow> xnode" where
  "append_kid k n = XNode (xname n) (xvalue n) (xattrs n) (xkids n @ [k])"

definition append_attr :: "string \<Rightarrow> string \<Rightarrow> xnode \<Rightarrow> xnode" where
  "append_attr a v n = XNode (xname n) (xvalue n) (xattrs n @ [(a, v)]) (xkids n)"

text \<open>
  \<open>element(doc, parent, name, value)\<close> appends a new node to the parent and returns a pointer to
  it; \<open>attr(doc, parent, name, value)\<close> appends an attribute.  Both copy C strings.
\<close>

definition kid_count :: "xnode \<Rightarrow> node_ptr \<Rightarrow> nat" where
  "kid_count doc p = (case node_at doc p of None \<Rightarrow> 0 | Some n \<Rightarrow> length (xkids n))"

definition element :: "node_ptr \<Rightarrow> string \<Rightarrow> string \<Rightarrow> (xnode, node_ptr) act" where
  "element parent nm v = (\<lambda>doc.
     (Inr (parent @ [kid_count doc parent]),
      modify_at parent (append_kid (XNode (c_str nm) (c_str v) [] [])) doc))"

definition attr :: "node_ptr \<Rightarrow> string \<Rightarrow> string \<Rightarrow> (xnode, unit) act" where
  "attr parent nm v = update (modify_at parent (append_attr (c_str nm) (c_str v)))"

lemma append_kid_sel [simp]:
  "xname (append_kid k n) = xname n" "xvalue (append_kid k n) = xvalue n"
  "xattrs (append_kid k n) = xattrs n" "xkids (append_kid k n) = xkids n @ [k]"
  by (simp_all add: append_kid_def)

lemma append_attr_sel [simp]:
  "xname (append_attr a v n) = xname n" "xvalue (append_attr a v n) = xvalue n"
  "xattrs (append_attr a v n) = xattrs n @ [(a, v)]" "xkids (append_attr a v n) = xkids n"
  by (simp_all add: append_attr_def)

subsection \<open>Pointers behave as pointers\<close>

text \<open>
  The contract of a document under construction: writing through a pointer changes the node it
  points to and no node beside it, and appending keeps every pointer.
\<close>

lemma node_at_modify_at:
  "node_at doc p = Some n \<Longrightarrow> node_at (modify_at p f doc) p = Some (f n)"
  by (induction doc p rule: node_at.induct) (auto split: if_splits)

lemma node_at_append: "node_at doc (p @ q) = (case node_at doc p of None \<Rightarrow> None | Some n \<Rightarrow> node_at n q)"
  by (induction doc p rule: node_at.induct) auto

lemma modify_at_id: "(\<And>n. f n = n) \<Longrightarrow> modify_at p f doc = doc"
  by (induction p f doc rule: modify_at.induct) auto

lemma modify_at_comp: "modify_at p f (modify_at p g doc) = modify_at p (\<lambda>n. f (g n)) doc"
  by (induction p g doc rule: modify_at.induct) auto

text \<open>Two pointers neither of which leads to the other name independent parts of the document.\<close>

definition apart :: "node_ptr \<Rightarrow> node_ptr \<Rightarrow> bool" where
  "apart p q \<longleftrightarrow> \<not> is_prefix p q \<and> \<not> is_prefix q p"

lemma node_at_modify_apart:
  "apart p q \<Longrightarrow> node_at (modify_at p f doc) q = node_at doc q"
proof (induction p f doc arbitrary: q rule: modify_at.induct)
  case (1 f n)
  then show ?case by (simp add: apart_def)
next
  case (2 i p f n)
  then show ?case by (cases q) (auto simp: apart_def nth_list_update)
qed

text \<open>
  A new element is found under the pointer that \<open>element\<close> returns, and what another pointer leads to
  stays as it was unless it encloses the parent.
\<close>

lemma node_at_element_new:
  assumes "node_at doc parent = Some n" "element parent nm v doc = (Inr p, doc')"
  shows "node_at doc' p = Some (XNode (c_str nm) (c_str v) [] [])"
  using assms by (auto simp: element_def kid_count_def node_at_append node_at_modify_at nth_append)

lemma node_at_element_old:
  assumes "node_at doc q = Some m" "\<not> is_prefix q parent"
  shows "node_at (snd (element parent nm v doc)) q = Some m"
  using assms
proof (induction parent arbitrary: doc q)
  case Nil
  then show ?case
    by (cases q) (auto simp: element_def nth_append split: if_splits)
next
  case (Cons i p)
  then show ?case
    by (cases q) (auto simp: element_def nth_list_update split: if_splits)
qed

text \<open>
  Evaluation of the builder on a document of known shape.  The equations apply to a call together
  with its document only, so that every call is evaluated before the next one.
\<close>

lemma element_run [xml_simps]:
  "element parent nm v doc =
     (Inr (parent @ [kid_count doc parent]),
      modify_at parent (append_kid (XNode (c_str nm) (c_str v) [] [])) doc)"
  by (simp add: element_def)

lemma attr_run [xml_simps]:
  "attr parent nm v doc = (Inr (), modify_at parent (append_attr (c_str nm) (c_str v)) doc)"
  by (simp add: attr_def)

lemma c_str_Cons [xml_simps]: "c_str (c # s) = (if c = CHR 0x00 then [] else c # c_str s)"
  by (simp add: c_str_def)

lemma c_str_Nil [simp]: "c_str [] = []"
  by (simp add: c_str_def)

lemmas build_run = andthen_apply element_run attr_run new_document_def kid_count_def
  append_kid_def append_attr_def c_str_Cons

end
