(* ===== verification/Numbers.thy ===== *)
theory Numbers
  imports Upnp_Prelude
begin

text \<open>
  The conversions between integers and text of the standard library that the code calls, and
  32-bit signed arithmetic: \<^verbatim>\<open>std::to_string\<close>, \<^verbatim>\<open>std::stoi\<close>, \<^verbatim>\<open>std::atoi\<close>, and the sum of two
  \<^verbatim>\<open>int\<close> values, whose overflow is undefined in C++ and is the exception
  \<^const>\<open>Signed_overflow\<close> here.
\<close>

abbreviation INT_MIN :: int where "INT_MIN \<equiv> - 2147483648"
abbreviation INT_MAX :: int where "INT_MAX \<equiv> 2147483647"
abbreviation LONG_MIN :: int where "LONG_MIN \<equiv> - 9223372036854775808"
abbreviation LONG_MAX :: int where "LONG_MAX \<equiv> 9223372036854775807"

definition int32 :: "int \<Rightarrow> bool" where
  "int32 i \<longleftrightarrow> INT_MIN \<le> i \<and> i \<le> INT_MAX"

definition add32 :: "int \<Rightarrow> int \<Rightarrow> int res" where
  "add32 a b = (if int32 (a + b) then Inr (a + b) else Inl Signed_overflow)"

lemma add32_Inr [simp]: "add32 a b = Inr c \<longleftrightarrow> int32 (a + b) \<and> c = a + b"
  by (auto simp: add32_def)

section \<open>Printing\<close>

definition digit_char :: "nat \<Rightarrow> char" where
  "digit_char d = char_of (48 + d)"

fun nat_digits :: "nat \<Rightarrow> string" where
  "nat_digits n =
     (if n < 10 then [digit_char n] else nat_digits (n div 10) @ [digit_char (n mod 10)])"

declare nat_digits.simps [simp del]

definition to_string :: "int \<Rightarrow> string" where
  "to_string i = (if i < 0 then ''-'' @ nat_digits (nat (- i)) else nat_digits (nat i))"

section \<open>Reading\<close>

text \<open>
  \<^verbatim>\<open>strtol\<close> in base 10, which \<^verbatim>\<open>stoi\<close> and \<^verbatim>\<open>atoi\<close> use: white space, a sign, then as many digits
  as there are.  \<open>None\<close> when there is no digit, and the value before any range check otherwise.
\<close>

definition is_digit :: "char \<Rightarrow> bool" where
  "is_digit c \<longleftrightarrow> 48 \<le> (of_char c :: nat) \<and> (of_char c :: nat) \<le> 57"

definition is_space :: "char \<Rightarrow> bool" where
  "is_space c \<longleftrightarrow> (of_char c :: nat) = 32 \<or> 9 \<le> (of_char c :: nat) \<and> (of_char c :: nat) \<le> 13"

definition digits_val :: "string \<Rightarrow> nat" where
  "digits_val ds = foldl (\<lambda>n c. 10 * n + (of_char c - 48)) 0 ds"

definition scan_digits :: "string \<Rightarrow> int option" where
  "scan_digits s =
     (let ds = takeWhile is_digit s in if ds = [] then None else Some (int (digits_val ds)))"

definition scan_int :: "string \<Rightarrow> int option" where
  "scan_int s =
     (case dropWhile is_space s of
        [] \<Rightarrow> None
      | c # t \<Rightarrow>
          if c = CHR ''-'' then map_option uminus (scan_digits t)
          else if c = CHR ''+'' then scan_digits t
          else scan_digits (c # t))"

definition stoi :: "string \<Rightarrow> int res" where
  "stoi s =
     (case scan_int (c_str s) of
        None \<Rightarrow> Inl Invalid_argument
      | Some v \<Rightarrow> if int32 v then Inr v else Inl Out_of_range)"

text \<open>
  \<^verbatim>\<open>atoi\<close> as the C library computes it: the saturated 64-bit \<^verbatim>\<open>strtol\<close> value cut to 32 bits,
  and 0 when there is no number.
\<close>

definition atoi :: "string \<Rightarrow> int" where
  "atoi s =
     (case scan_int s of
        None \<Rightarrow> 0
      | Some v \<Rightarrow> sint (word_of_int (max LONG_MIN (min LONG_MAX v)) :: 32 word))"

section \<open>Reading what was printed\<close>

lemma of_char_digit_char: "d < 10 \<Longrightarrow> (of_char (digit_char d) :: nat) = 48 + d"
  by (simp add: digit_char_def)

lemma is_digit_digit_char [simp]: "d < 10 \<Longrightarrow> is_digit (digit_char d)"
  by (simp add: is_digit_def of_char_digit_char)

lemma nat_digits_digits: "c \<in> set (nat_digits n) \<Longrightarrow> is_digit c"
proof (induction n rule: nat_digits.induct)
  case (1 n)
  then show ?case by (subst (asm) nat_digits.simps [of n]) (auto split: if_splits)
qed

lemma nat_digits_nonempty [simp]: "nat_digits n \<noteq> []"
  by (subst nat_digits.simps) simp

lemma digits_val_snoc [simp]: "digits_val (ds @ [c]) = 10 * digits_val ds + (of_char c - 48)"
  by (simp add: digits_val_def)

lemma digits_val_nat_digits [simp]: "digits_val (nat_digits n) = n"
proof (induction n rule: nat_digits.induct)
  case (1 n)
  show ?case
  proof (cases "n < 10")
    case True
    then show ?thesis
      by (subst nat_digits.simps) (simp add: digits_val_def of_char_digit_char)
  next
    case False
    with 1 show ?thesis
      by (subst nat_digits.simps) (simp add: of_char_digit_char)
  qed
qed

lemma takeWhile_nat_digits [simp]: "takeWhile is_digit (nat_digits n) = nat_digits n"
  by (simp add: takeWhile_eq_all_conv nat_digits_digits)

lemma scan_digits_nat_digits [simp]: "scan_digits (nat_digits n) = Some (int n)"
  by (simp add: scan_digits_def)

lemma nat_digits_head:
  obtains c t where "nat_digits n = c # t" "is_digit c"
  by (metis list.exhaust list.set_intros(1) nat_digits_digits nat_digits_nonempty)

lemma digit_not_special: "is_digit c \<Longrightarrow> \<not> is_space c \<and> c \<noteq> CHR ''-'' \<and> c \<noteq> CHR ''+'' \<and> c \<noteq> CHR 0x00"
  by (auto simp: is_digit_def is_space_def)

lemma scan_int_nat_digits: "scan_int (nat_digits n) = Some (int n)"
proof -
  obtain c t where ct: "nat_digits n = c # t" and "is_digit c" by (rule nat_digits_head)
  then have "\<not> is_space c" "c \<noteq> CHR ''-''" "c \<noteq> CHR ''+''" by (simp_all add: digit_not_special)
  with ct show ?thesis using scan_digits_nat_digits [of n] by (simp add: scan_int_def)
qed

lemma scan_int_to_string [simp]: "scan_int (to_string i) = Some i"
proof (cases "i < 0")
  case True
  then show ?thesis by (simp add: to_string_def scan_int_def is_space_def)
next
  case False
  then show ?thesis by (simp add: to_string_def scan_int_nat_digits)
qed

lemma nul_free_nat_digits [simp]: "nul_free (nat_digits n)"
  using digit_not_special nat_digits_digits by (auto simp: nul_free_def)

lemma nul_free_to_string [simp]: "nul_free (to_string i)"
  by (simp add: to_string_def)

lemma stoi_to_string: "int32 i \<Longrightarrow> stoi (to_string i) = Inr i"
  by (simp add: stoi_def)

lemma to_string_inj: "to_string i = to_string j \<Longrightarrow> i = j"
  by (metis option.inject scan_int_to_string)

lemma stoi_range: "stoi s = Inr i \<Longrightarrow> int32 i"
  by (auto simp: stoi_def split: option.splits if_splits)

lemma atoi_range: "int32 (atoi s)"
proof -
  have "int32 (sint w)" for w :: "32 word"
    using sint_range_size [of w] by (simp add: int32_def word_size)
  then show ?thesis by (auto simp: atoi_def int32_def split: option.splits)
qed

lemma atoi_to_string: "int32 i \<Longrightarrow> atoi (to_string i) = i"
  by (simp add: atoi_def int32_def sint_sbintrunc' signed_take_bit_int_eq_self)

end
