(* ===== verification/Environment.thy ===== *)
theory Environment
  imports Xml Numbers
begin

text \<open>
  The code the program calls but does not contain.  Each function of the third-party libraries
  (boost, fmt, rapidxml_ns, rapidjson, the http library) and each answer of the operating system
  is a field of the record \<open>env\<close>, an argument of every definition that uses it.  What a
  theorem relies on is a named law of the documented behaviour (\<open>fmt_law\<close>, \<open>upper_law\<close>, and
  so on), stated as a hypothesis where it is needed; \<open>std_env\<close> of the theory \<open>Reference\<close> is a
  concrete environment in which all the laws hold.

  Also here: what a handler sees of an HTTP request, and the calls it makes on the response.
\<close>

datatype json_value = JString string | JOther

record env =
  to_upper_copy :: "string \<Rightarrow> string"                 \<comment> \<open>\<^verbatim>\<open>boost::to_upper_copy\<close>\<close>
  erase_all_copy :: "string \<Rightarrow> string \<Rightarrow> string"      \<comment> \<open>\<^verbatim>\<open>boost::erase_all_copy(input, search)\<close>\<close>
  lexical_cast_time :: "string \<Rightarrow> int option"         \<comment> \<open>\<^verbatim>\<open>boost::lexical_cast<time_t>\<close>; \<open>None\<close>: throws\<close>
  trim_copy :: "string \<Rightarrow> string"                     \<comment> \<open>\<^verbatim>\<open>boost::trim\<close>\<close>
  boost_hash :: "string \<Rightarrow> 64 word"                   \<comment> \<open>\<^verbatim>\<open>boost::hash<std::string>\<close>\<close>
  format :: "string \<Rightarrow> string list \<Rightarrow> string"         \<comment> \<open>\<^verbatim>\<open>fmt::format\<close> on string arguments\<close>
  xml_parse :: "string \<Rightarrow> pnode list option"          \<comment> \<open>\<^verbatim>\<open>xml_document::parse<0>\<close>: the top nodes; \<open>None\<close>: throws\<close>
  xml_print :: "xnode \<Rightarrow> string"                      \<comment> \<open>\<^verbatim>\<open>rapidxml_ns::print\<close> with \<^verbatim>\<open>print_no_indenting\<close>\<close>
  json_write :: "(string \<times> string) list \<Rightarrow> string"    \<comment> \<open>a \<^verbatim>\<open>PrettyWriter\<close> between \<^verbatim>\<open>StartObject\<close> and \<^verbatim>\<open>EndObject\<close>\<close>
  json_parse :: "string \<Rightarrow> (string \<Rightarrow> json_value option) option"
                                                      \<comment> \<open>\<^verbatim>\<open>Document::Parse\<close>: the members; \<open>None\<close>: not an object\<close>
  url_host :: "string \<Rightarrow> string"                      \<comment> \<open>\<^verbatim>\<open>http::utils::UrlParser\<close>\<close>
  url_proto :: "string \<Rightarrow> string"
  url_path :: "string \<Rightarrow> string"
  HOST :: string                                       \<comment> \<open>the constants of \<^verbatim>\<open>http::header\<close>\<close>
  CACHE_CONTROL :: string
  CONTENT_LENGTH :: string
  CONTENT_TYPE :: string
  CONNECTION :: string
  CONNECTION_CLOSE :: string
  DATE :: string
  EXPIRES :: string
  SERVER :: string
  mime_XML :: string                                   \<comment> \<open>\<^verbatim>\<open>http::mime::mime_type\<close> of the kinds the code uses\<close>
  mime_JSON :: string
  mime_PNG :: string
  uts_sysname :: string                                \<comment> \<open>\<^verbatim>\<open>uname(2)\<close>\<close>
  uts_version :: string
  ctime :: "int \<Rightarrow> string"                             \<comment> \<open>\<^verbatim>\<open>std::ctime\<close>, in the local time zone\<close>

section \<open>Requests and responses\<close>

text \<open>What the handlers read of an \<^verbatim>\<open>http::Request\<close>.\<close>

record request =
  req_method :: string
  req_uri :: string
  req_parameter :: "string \<Rightarrow> string"
  req_contains_parameter :: "string \<Rightarrow> bool"
  req_str :: string
  req_attribute :: "string \<Rightarrow> string"

datatype http_status = OK | NOT_FOUND

text \<open>
  A response is the list of the calls made on it, in order, so that nothing is assumed about how
  the http library stores them.
\<close>

datatype resp_op =
    Set_parameter string string   \<comment> \<open>\<^verbatim>\<open>response.parameter(name, value)\<close>\<close>
  | Write string                  \<comment> \<open>\<^verbatim>\<open>response << text\<close> or \<^verbatim>\<open>response.write(text)\<close>\<close>
  | Set_status http_status        \<comment> \<open>\<^verbatim>\<open>response.status(s)\<close>\<close>

text \<open>What a handler does to the outside: the response, and the messages it publishes.\<close>

record world =
  response :: "resp_op list"
  published :: "(string \<times> string) list"

definition respond :: "resp_op \<Rightarrow> (world, unit) act" where
  "respond r = update (\<lambda>w. w\<lparr>response := response w @ [r]\<rparr>)"

definition publish :: "string \<Rightarrow> string \<Rightarrow> (world, unit) act" where
  "publish topic msg = update (\<lambda>w. w\<lparr>published := published w @ [(topic, msg)]\<rparr>)"

text \<open>The value a parameter has after the calls: the one set last.\<close>

definition parameter_of :: "resp_op list \<Rightarrow> string \<Rightarrow> string option" where
  "parameter_of ops k =
     map_of (rev (List.concat (map (\<lambda>r. case r of Set_parameter n v \<Rightarrow> [(n, v)] | _ \<Rightarrow> []) ops))) k"

text \<open>The text written so far.\<close>

definition body_of :: "resp_op list \<Rightarrow> string" where
  "body_of ops = List.concat (map (\<lambda>r. case r of Write s \<Rightarrow> s | _ \<Rightarrow> []) ops)"

lemma parameter_of_append [simp]:
  "parameter_of (xs @ ys) k = (case parameter_of ys k of Some v \<Rightarrow> Some v | None \<Rightarrow> parameter_of xs k)"
  by (simp add: parameter_of_def map_add_def split: option.split)

lemma parameter_of_Cons [simp]:
  "parameter_of [] k = None"
  "parameter_of (Set_parameter n v # ops) k =
     (case parameter_of ops k of Some u \<Rightarrow> Some u | None \<Rightarrow> if k = n then Some v else None)"
  "parameter_of (Write s # ops) k = parameter_of ops k"
  "parameter_of (Set_status t # ops) k = parameter_of ops k"
  by (simp_all add: parameter_of_def map_add_def split: option.split)

lemma body_of_append [simp]: "body_of (xs @ ys) = body_of xs @ body_of ys"
  by (simp add: body_of_def)

lemma body_of_simps [simp]:
  "body_of [] = []" "body_of [Write s] = s" "body_of (Set_parameter n v # ops) = body_of ops"
  "body_of (Write s # ops) = s @ body_of ops" "body_of (Set_status t # ops) = body_of ops"
  by (simp_all add: body_of_def)

section \<open>Documented behaviour of the libraries\<close>

text \<open>
  \<^verbatim>\<open>fmt::format\<close> with string arguments: \<open>{}\<close> is the next argument, \<open>{n}\<close> the n-th; \<open>None\<close> where
  the template is not of this form or has too few arguments.
\<close>

function fmt_subst :: "string list \<Rightarrow> nat \<Rightarrow> string \<Rightarrow> string option" where
  "fmt_subst args i [] = Some []"
| "fmt_subst args i (c # s) =
     (if c \<noteq> CHR ''{'' then map_option (Cons c) (fmt_subst args i s)
      else if s = [] then None
      else if hd s = CHR ''}'' then
        (if i < length args then map_option (append (args ! i)) (fmt_subst args (Suc i) (tl s)) else None)
      else if is_digit (hd s) \<and> tl s \<noteq> [] \<and> hd (tl s) = CHR ''}'' \<and> of_char (hd s) - 48 < length args
        then map_option (append (args ! (of_char (hd s) - 48))) (fmt_subst args i (tl (tl s)))
      else None)"
  by pat_completeness auto
termination
  by (relation "measure (\<lambda>(args, i, s). length s)") (auto simp: less_Suc_eq_le)

definition fmt_law :: "env \<Rightarrow> bool" where
  "fmt_law E \<longleftrightarrow> (\<forall>f args r. fmt_subst args 0 f = Some r \<longrightarrow> format E f args = r)"

lemma fmt_lawD: "fmt_law E \<Longrightarrow> fmt_subst args 0 f = Some r \<Longrightarrow> format E f args = r"
  by (simp add: fmt_law_def)

text \<open>\<^verbatim>\<open>boost::to_upper_copy\<close> in the C locale: ASCII letters.\<close>

definition upper_char :: "char \<Rightarrow> char" where
  "upper_char c = (if 97 \<le> (of_char c :: nat) \<and> (of_char c :: nat) \<le> 122
                   then char_of ((of_char c :: nat) - 32) else c)"

definition upper_law :: "env \<Rightarrow> bool" where
  "upper_law E \<longleftrightarrow> (\<forall>s. to_upper_copy E s = map upper_char s)"

text \<open>The header names of HTTP, in the spelling of the standard.\<close>

definition header_law :: "env \<Rightarrow> bool" where
  "header_law E \<longleftrightarrow> HOST E = ''Host'' \<and> CACHE_CONTROL E = ''Cache-Control''
     \<and> CONTENT_LENGTH E = ''Content-Length'' \<and> CONTENT_TYPE E = ''Content-Type''
     \<and> DATE E = ''Date'' \<and> SERVER E = ''Server'' \<and> EXPIRES E = ''Expires''"

text \<open>
  rapidjson reads back an object of string members that it wrote, provided no name occurs twice
  and no string contains a NUL (the writer takes C strings).
\<close>

definition json_law :: "env \<Rightarrow> bool" where
  "json_law E \<longleftrightarrow>
     (\<forall>ps. distinct (map fst ps) \<and> (\<forall>(k, v) \<in> set ps. nul_free k \<and> nul_free v) \<longrightarrow>
        json_parse E (c_str (json_write E ps)) = Some (\<lambda>k. map_option JString (map_of ps k)))"

section \<open>Running the handler actions\<close>

lemma respond_run [simp, act_simps]:
  "respond r w = (Inr (), w\<lparr>response := response w @ [r]\<rparr>)"
  by (simp add: respond_def)

lemma publish_run [simp, act_simps]:
  "publish t m w = (Inr (), w\<lparr>published := published w @ [(t, m)]\<rparr>)"
  by (simp add: publish_def)

text \<open>
  A handler never takes back a call on the response or a published message, whatever path it
  takes: both logs only grow.
\<close>

definition grows :: "world \<Rightarrow> world \<Rightarrow> bool" where
  "grows w w' \<longleftrightarrow> is_prefix (response w) (response w') \<and> is_prefix (published w) (published w')"

interpretation grows: step_rel grows
  by unfold_locales (auto simp: grows_def is_prefix_iff)

lemma grows_respond [simp]: "act_keeps grows (respond r)"
  by (simp add: act_keeps_def grows_def is_prefix_iff)

lemma grows_publish [simp]: "act_keeps grows (publish t m)"
  by (simp add: act_keeps_def grows_def is_prefix_iff)

end
