(* ===== verification/Std_Map.thy ===== *)
theory Std_Map
  imports Upnp_Prelude
begin

text \<open>
  \<^verbatim>\<open>std::map< std::string, std::string >\<close>, the container the code uses for headers, node
  attributes, SOAP arguments and SSDP namespaces.  The model keeps the entries as the list that
  iteration visits, in increasing key order without duplicates, because the code prints maps by
  iterating over them.  The interface the clients rely on is the locale \<open>keyed_store\<close>, and its
  ordered extension \<open>ordered_store\<close>.
\<close>

type_synonym std_map = "(string \<times> string) list"

text \<open>\<open>m[k] = v\<close>: overwrite, or insert at the place the key order gives.\<close>

fun map_set :: "('k::linorder \<times> 'v) list \<Rightarrow> 'k \<Rightarrow> 'v \<Rightarrow> ('k \<times> 'v) list" where
  "map_set [] k v = [(k, v)]"
| "map_set ((j, w) # m) k v =
     (if k < j then (k, v) # (j, w) # m
      else if k = j then (j, v) # m
      else (j, w) # map_set m k v)"

text \<open>\<open>m.find(k)\<close>: \<open>None\<close> is \<open>m.end()\<close>.\<close>

definition map_find :: "('k \<times> 'v) list \<Rightarrow> 'k \<Rightarrow> 'v option" where
  "map_find m k = map_of m k"

definition map_contains :: "('k \<times> 'v) list \<Rightarrow> 'k \<Rightarrow> bool" where
  "map_contains m k \<longleftrightarrow> map_find m k \<noteq> None"

text \<open>\<open>m.at(k)\<close> throws when the key is missing.\<close>

definition map_at :: "('k \<times> 'v) list \<Rightarrow> 'k \<Rightarrow> 'v res" where
  "map_at m k = (case map_find m k of None \<Rightarrow> Inl Out_of_range | Some v \<Rightarrow> Inr v)"

text \<open>\<open>m[k]\<close> as an rvalue: a missing key is inserted with the empty string.\<close>

definition map_index :: "('k::linorder \<times> string) list \<Rightarrow> 'k \<Rightarrow> string \<times> ('k \<times> string) list" where
  "map_index m k = (case map_find m k of Some v \<Rightarrow> (v, m) | None \<Rightarrow> ([], map_set m k []))"

definition sorted_keys :: "('k::linorder \<times> 'v) list \<Rightarrow> bool" where
  "sorted_keys m \<longleftrightarrow> sorted_wrt (<) (map fst m)"

section \<open>The interface\<close>

locale keyed_store =
  fixes empty :: 'm
    and put :: "'m \<Rightarrow> 'k \<Rightarrow> 'v \<Rightarrow> 'm"
    and find :: "'m \<Rightarrow> 'k \<Rightarrow> 'v option"
    and inv :: "'m \<Rightarrow> bool"
  assumes find_empty: "find empty k = None"
    and find_put: "inv m \<Longrightarrow> find (put m k v) j = (if j = k then Some v else find m j)"
    and inv_empty: "inv empty"
    and inv_put: "inv m \<Longrightarrow> inv (put m k v)"
begin

text \<open>A sequence of assignments: the last one to a key decides, and the invariant is kept.\<close>

lemma inv_puts: "inv m \<Longrightarrow> inv (foldl (\<lambda>m (k, v). put m k v) m kvs)"
  by (induction kvs arbitrary: m) (auto simp: inv_put)

lemma find_puts:
  "inv m \<Longrightarrow> find (foldl (\<lambda>m (k, v). put m k v) m kvs) j =
     (case map_of (rev kvs) j of Some v \<Rightarrow> Some v | None \<Rightarrow> find m j)"
  by (induction kvs arbitrary: m)
    (auto simp: find_put inv_put map_add_def split: option.splits)

lemma find_put_same: "inv m \<Longrightarrow> find (put m k v) k = Some v"
  by (simp add: find_put)

lemma find_put_other: "inv m \<Longrightarrow> j \<noteq> k \<Longrightarrow> find (put m k v) j = find m j"
  by (simp add: find_put)

end

text \<open>
  The ordered interface adds what iteration promises: the entries come in strictly increasing key
  order and say the same as \<open>find\<close>.  It follows that the contents alone fix the iteration, whatever
  the order of the assignments was.
\<close>

locale ordered_store = keyed_store empty put find inv
  for empty :: 'm and put :: "'m \<Rightarrow> 'k::linorder \<Rightarrow> 'v \<Rightarrow> 'm"
    and find :: "'m \<Rightarrow> 'k \<Rightarrow> 'v option" and inv :: "'m \<Rightarrow> bool" +
  fixes entries :: "'m \<Rightarrow> ('k \<times> 'v) list"
  assumes entries_sorted: "inv m \<Longrightarrow> sorted_wrt (<) (map fst (entries m))"
    and entries_find: "inv m \<Longrightarrow> map_of (entries m) k = find m k"
begin

lemma entries_mem: "inv m \<Longrightarrow> (k, v) \<in> set (entries m) \<longleftrightarrow> find m k = Some v"
proof -
  assume "inv m"
  then have "distinct (map fst (entries m))"
    using entries_sorted strict_sorted_iff by blast
  then show ?thesis
    using entries_find [OF \<open>inv m\<close>, of k] by (auto simp: map_of_eq_Some_iff)
qed

lemma entries_unique:
  assumes "inv m" "inv n" "\<And>k. find m k = find n k"
  shows "entries m = entries n"
proof -
  have "set (entries m) = set (entries n)"
    using assms by (auto simp: entries_mem)
  moreover have "sorted (map fst (entries m))" "distinct (map fst (entries m))"
    using entries_sorted [OF assms(1)] by (simp_all add: strict_sorted_iff)
  moreover have "sorted (map fst (entries n))" "distinct (map fst (entries n))"
    using entries_sorted [OF assms(2)] by (simp_all add: strict_sorted_iff)
  ultimately show ?thesis
    by (auto intro!: map_sorted_distinct_set_unique [where f = fst]
        simp: eq_key_imp_eq_value inj_on_def)
qed

end

section \<open>The model implements it\<close>

lemma map_of_map_set: "map_of (map_set m k v) = (map_of m)(k \<mapsto> v)"
  by (induction m k v rule: map_set.induct) (auto simp: fun_eq_iff)

lemma set_keys_map_set: "fst ` set (map_set m k v) = insert k (fst ` set m)"
  by (induction m k v rule: map_set.induct) auto

lemma sorted_keys_map_set: "sorted_keys m \<Longrightarrow> sorted_keys (map_set m k v)"
  unfolding sorted_keys_def
proof (induction m k v rule: map_set.induct)
  case (2 j w m k v)
  show ?case
  proof (cases "j < k")
    case True
    have "fst ` set (map_set m k v) = insert k (fst ` set m)" by (rule set_keys_map_set)
    with True 2 show ?thesis by (auto simp flip: set_map simp: set_keys_map_set)
  next
    case False
    with "2.prems" show ?thesis by (auto)
  qed
qed simp

interpretation smap: ordered_store "[]" map_set map_find sorted_keys "\<lambda>m. m"
  by unfold_locales
    (auto simp: map_find_def map_of_map_set sorted_keys_def
      intro: sorted_keys_map_set [unfolded sorted_keys_def])

lemma sorted_keys_Nil [simp]: "sorted_keys []"
  by (rule smap.inv_empty)

lemma map_set_puts [simp]: "sorted_keys m \<Longrightarrow> sorted_keys (map_set m k v)"
  by (rule smap.inv_put)

lemma map_at_simps [simp]:
  "map_find m k = Some v \<Longrightarrow> map_at m k = Inr v"
  "map_find m k = None \<Longrightarrow> map_at m k = Inl Out_of_range"
  by (simp_all add: map_at_def)

lemma map_at_Inr [simp]: "map_at m k = Inr v \<longleftrightarrow> map_find m k = Some v"
  by (simp add: map_at_def split: option.splits)

lemma map_find_set [simp]: "map_find (map_set m k v) j = (if j = k then Some v else map_find m j)"
  by (simp add: map_find_def map_of_map_set)

lemma map_find_Nil [simp]: "map_find [] k = None"
  by (simp add: map_find_def)

lemma map_find_Cons [simp]:
  "map_find ((j, w) # m) k = (if k = j then Some w else map_find m k)"
  by (simp add: map_find_def)

lemma map_find_mem: "map_find m k = Some v \<Longrightarrow> (k, v) \<in> set m"
  by (simp add: map_find_def map_of_SomeD)

end
