(* ===== verification/Datastore.thy ===== *)
theory Datastore
  imports Environment Std_Map
begin

text \<open>
  \<^verbatim>\<open>src/src/datastore.h\<close>: the content directory kept in redis.  The redis server and its client
  are parameters (\<open>redis\<close>); the definitions here are the keys, the commands and the
  conversions the header contains.  Members of the C++ struct \<open>data\<close> carry its name as a prefix.
\<close>

section \<open>The redis client\<close>

type_synonym command_t = "string list"

text \<open>
  A synchronous command of a given reply type (\<open>None\<close>: the reply is not \<open>ok()\<close>), the effect of
  an asynchronous command on the database once redis executes it, \<open>get\<close>, \<open>set\<close> and \<open>connect\<close>.
\<close>

record 'db redis =
  sync_vec :: "'db \<Rightarrow> command_t \<Rightarrow> string list option"
  sync_str :: "'db \<Rightarrow> command_t \<Rightarrow> string option"
  sync_int :: "'db \<Rightarrow> command_t \<Rightarrow> int option"
  run_command :: "command_t \<Rightarrow> 'db \<Rightarrow> 'db"
  redox_get :: "'db \<Rightarrow> string \<Rightarrow> string res"
  redox_set :: "string \<Rightarrow> string \<Rightarrow> 'db \<Rightarrow> 'db"
  redox_connect :: "string \<Rightarrow> int \<Rightarrow> bool"

section \<open>Names\<close>

text \<open>The redis commands, the attribute names and the key parts.\<close>

abbreviation redis_SADD :: string where "redis_SADD \<equiv> ''SADD''"
abbreviation redis_DEL :: string where "redis_DEL \<equiv> ''DEL''"
abbreviation redis_EXISTS :: string where "redis_EXISTS \<equiv> ''EXISTS''"
abbreviation redis_HGET :: string where "redis_HGET \<equiv> ''HGET''"
abbreviation redis_HGETALL :: string where "redis_HGETALL \<equiv> ''HGETALL''"
abbreviation redis_HMSET :: string where "redis_HMSET \<equiv> ''HMSET''"
abbreviation redis_LRANGE :: string where "redis_LRANGE \<equiv> ''LRANGE''"
abbreviation redis_SCARD :: string where "redis_SCARD \<equiv> ''SCARD''"
abbreviation redis_SMEMBERS :: string where "redis_SMEMBERS \<equiv> ''SMEMBERS''"
abbreviation redis_SUNION :: string where "redis_SUNION \<equiv> ''SUNION''"
abbreviation redis_SREM :: string where "redis_SREM \<equiv> ''SREM''"
abbreviation redis_ZADD :: string where "redis_ZADD \<equiv> ''ZADD''"
abbreviation redis_ZCARD :: string where "redis_ZCARD \<equiv> ''ZCARD''"
abbreviation redis_ZRANGE :: string where "redis_ZRANGE \<equiv> ''ZRANGE''"
abbreviation redis_ZREVRANGE :: string where "redis_ZREVRANGE \<equiv> ''ZREVRANGE''"
abbreviation redis_ZREM :: string where "redis_ZREM \<equiv> ''ZREM''"
abbreviation redis_FT_ADD :: string where "redis_FT_ADD \<equiv> ''FT.ADD''"
abbreviation redis_FT_CREATE :: string where "redis_FT_CREATE \<equiv> ''FT.CREATE''"
abbreviation redis_FT_DROP :: string where "redis_FT_DROP \<equiv> ''FT.DROP''"
abbreviation redis_FT_SEARCH :: string where "redis_FT_SEARCH \<equiv> ''FT.SEARCH''"
abbreviation redis_FT_SUGGADD :: string where "redis_FT_SUGGADD \<equiv> ''FT.SUGADD''"

abbreviation param_ALBUM :: string where "param_ALBUM \<equiv> ''album''"
abbreviation param_ARTIST :: string where "param_ARTIST \<equiv> ''artist''"
abbreviation param_AUTHOR :: string where "param_AUTHOR \<equiv> ''author''"
abbreviation param_AUDIO :: string where "param_AUDIO \<equiv> ''audio''"
abbreviation param_BACKDROP_PATH :: string where "param_BACKDROP_PATH \<equiv> ''backdrop_path''"
abbreviation param_BITRATE :: string where "param_BITRATE \<equiv> ''bitrate''"
abbreviation param_BPS :: string where "param_BPS \<equiv> ''bps''"
abbreviation param_CHANNELS :: string where "param_CHANNELS \<equiv> ''channels''"
abbreviation param_CLASS :: string where "param_CLASS \<equiv> ''cls''"
abbreviation param_CLEAN_STRING :: string where "param_CLEAN_STRING \<equiv> ''clean_string''"
abbreviation param_COMMENT :: string where "param_COMMENT \<equiv> ''comment''"
abbreviation param_COMPOSER :: string where "param_COMPOSER \<equiv> ''composer''"
abbreviation param_COVER :: string where "param_COVER \<equiv> ''cover''"
abbreviation param_DATE :: string where "param_DATE \<equiv> ''date''"
abbreviation param_DISC :: string where "param_DISC \<equiv> ''disc''"
abbreviation param_EBOOK :: string where "param_EBOOK \<equiv> ''ebook''"
abbreviation param_EPISODE :: string where "param_EPISODE \<equiv> ''episode''"
abbreviation param_EXT :: string where "param_EXT \<equiv> ''ext''"
abbreviation param_EXTENSION :: string where "param_EXTENSION \<equiv> ''ext''"
abbreviation param_FILE :: string where "param_FILE \<equiv> ''file''"
abbreviation param_FOLDER :: string where "param_FOLDER \<equiv> ''folder''"
abbreviation param_GENRE :: string where "param_GENRE \<equiv> ''genre''"
abbreviation param_HEIGHT :: string where "param_HEIGHT \<equiv> ''height''"
abbreviation param_HOMEPAGE :: string where "param_HOMEPAGE \<equiv> ''homepage''"
abbreviation param_IMDB_ID :: string where "param_IMDB_ID \<equiv> ''imdb_id''"
abbreviation param_IMAGE :: string where "param_IMAGE \<equiv> ''image''"
abbreviation param_ISBN :: string where "param_ISBN \<equiv> ''isbn''"
abbreviation param_LANGUAGE :: string where "param_LANGUAGE \<equiv> ''language''"
abbreviation param_MAKE :: string where "param_MAKE \<equiv> ''Make''"
abbreviation param_MED :: string where "param_MED \<equiv> ''med''"
abbreviation param_MIME_TYPE :: string where "param_MIME_TYPE \<equiv> ''mimeType''"
abbreviation param_MOVIE :: string where "param_MOVIE \<equiv> ''movie''"
abbreviation param_NAME :: string where "param_NAME \<equiv> ''name''"
abbreviation param_PARENT :: string where "param_PARENT \<equiv> ''parent''"
abbreviation param_PATH :: string where "param_PATH \<equiv> ''path''"
abbreviation param_PERFORMER :: string where "param_PERFORMER \<equiv> ''performer''"
abbreviation param_PLAYTIME :: string where "param_PLAYTIME \<equiv> ''playlength''"
abbreviation param_POSTER_PATH :: string where "param_POSTER_PATH \<equiv> ''poster_path''"
abbreviation param_PUBLISHER :: string where "param_PUBLISHER \<equiv> ''publisher''"
abbreviation param_ROOT :: string where "param_ROOT \<equiv> ''root''"
abbreviation param_SAMPLERATE :: string where "param_SAMPLERATE \<equiv> ''samplerate''"
abbreviation param_SEASON :: string where "param_SEASON \<equiv> ''season''"
abbreviation param_SERIE :: string where "param_SERIE \<equiv> ''serie''"
abbreviation param_SIZE :: string where "param_SIZE \<equiv> ''size''"
abbreviation param_STILL_IMAGE :: string where "param_STILL_IMAGE \<equiv> ''still_image''"
abbreviation param_THUMB :: string where "param_THUMB \<equiv> ''thumb''"
abbreviation param_TIMESTAMP :: string where "param_TIMESTAMP \<equiv> ''timestamp''"
abbreviation param_TITLE :: string where "param_TITLE \<equiv> ''title''"
abbreviation param_TMDB_ID :: string where "param_TMDB_ID \<equiv> ''tmdb_id''"
abbreviation param_TRACK :: string where "param_TRACK \<equiv> ''track''"
abbreviation param_WIDTH :: string where "param_WIDTH \<equiv> ''width''"
abbreviation param_YEAR :: string where "param_YEAR \<equiv> ''year''"

abbreviation key_CONFIG :: string where "key_CONFIG \<equiv> ''config:cds''"
abbreviation key_FS :: string where "key_FS \<equiv> ''fs''"
abbreviation key_GENRES :: string where "key_GENRES \<equiv> ''genres''"
abbreviation key_KEY :: string where "key_KEY \<equiv> ''key''"
abbreviation key_LIST :: string where "key_LIST \<equiv> ''list''"
abbreviation key_MIME :: string where "key_MIME \<equiv> ''fs:mime''"
abbreviation key_NEW :: string where "key_NEW \<equiv> ''new''"
abbreviation key_TAG :: string where "key_TAG \<equiv> ''tag''"
abbreviation key_TYPE :: string where "key_TYPE \<equiv> ''type''"
abbreviation key_INDEX :: string where "key_INDEX \<equiv> ''cds_index''"
abbreviation key_AUTO :: string where "key_AUTO \<equiv> ''autocomplete''"

definition NAMES :: "string list" where
  "NAMES = [param_FOLDER, param_AUDIO, param_MOVIE, param_SERIE, param_IMAGE, param_EBOOK,
            param_FILE, param_ALBUM, param_COVER, param_EPISODE, param_ARTIST]"

definition menu :: "std_map list" where
  "menu =
    [[(param_NAME, ''Albums''), (key_TYPE, param_ALBUM)],
     [(param_NAME, ''Artists''), (key_TYPE, param_ARTIST)],
     [(param_NAME, ''Photos''), (key_TYPE, param_IMAGE)],
     [(param_NAME, ''Movies''), (key_TYPE, param_MOVIE)],
     [(param_NAME, ''Series''), (key_TYPE, param_SERIE)],
     [(param_NAME, ''eBooks''), (key_TYPE, param_EBOOK)],
     [(param_NAME, ''Storage''), (key_TYPE, param_FILE)]]"

section \<open>Node types\<close>

datatype NodeType = folder | audio | movie | serie | image | ebook | "file" | album | cover | episode | artist

text \<open>The values of the enumeration.\<close>

fun NodeType_val :: "NodeType \<Rightarrow> nat" where
  "NodeType_val folder = 0"
| "NodeType_val audio = 1"
| "NodeType_val movie = 2"
| "NodeType_val serie = 3"
| "NodeType_val image = 4"
| "NodeType_val ebook = 5"
| "NodeType_val file = 6"
| "NodeType_val album = 7"
| "NodeType_val cover = 8"
| "NodeType_val episode = 9"
| "NodeType_val artist = 10"

text \<open>
  The types in the order of their values, as an unscoped enumeration of C++ compares them, and as a finite type whose
  quantifiers compute.
\<close>

lemma NodeType_val_inj [simp]: "NodeType_val t = NodeType_val u \<longleftrightarrow> t = u"
  by (cases t; cases u; simp)

instantiation NodeType :: linorder
begin

definition less_eq_NodeType :: "NodeType \<Rightarrow> NodeType \<Rightarrow> bool" where
  "t \<le> u \<longleftrightarrow> NodeType_val t \<le> NodeType_val u"

definition less_NodeType :: "NodeType \<Rightarrow> NodeType \<Rightarrow> bool" where
  "t < u \<longleftrightarrow> NodeType_val t < NodeType_val u"

instance
  by standard (auto simp: less_eq_NodeType_def less_NodeType_def)

end

instantiation NodeType :: enum
begin

definition enum_NodeType :: "NodeType list" where
  "enum_NodeType = [folder, audio, movie, serie, image, ebook, file, album, cover, episode, artist]"

definition enum_all_NodeType :: "(NodeType \<Rightarrow> bool) \<Rightarrow> bool" where
  "enum_all_NodeType P \<longleftrightarrow> list_all P enum_class.enum"

definition enum_ex_NodeType :: "(NodeType \<Rightarrow> bool) \<Rightarrow> bool" where
  "enum_ex_NodeType P \<longleftrightarrow> list_ex P enum_class.enum"

instance
proof
  have all: "t \<in> set enum_class.enum" for t :: NodeType
    by (cases t) (simp_all add: enum_NodeType_def)
  then show "UNIV = set (enum_class.enum :: NodeType list)" by auto
  show "distinct (enum_class.enum :: NodeType list)" by (simp add: enum_NodeType_def)
  show "enum_class.enum_all P \<longleftrightarrow> Ball UNIV P" "enum_class.enum_ex P \<longleftrightarrow> Bex UNIV P" for P :: "NodeType \<Rightarrow> bool"
    using all by (auto simp: enum_all_NodeType_def enum_ex_NodeType_def list_all_iff list_ex_iff)
qed

end

definition array_at :: "'a list \<Rightarrow> nat \<Rightarrow> 'a res" where
  "array_at xs i = (if i < length xs then Inr (xs ! i) else Inl Out_of_range)"

definition NodeType_str :: "NodeType \<Rightarrow> string res" where
  "NodeType_str t = array_at NAMES (NodeType_val t)"

definition NodeType_parse :: "string \<Rightarrow> NodeType" where
  "NodeType_parse s =
     (if s = param_FOLDER then folder
      else if s = param_AUDIO then audio
      else if s = param_MOVIE then movie
      else if s = param_SERIE then serie
      else if s = param_IMAGE then image
      else if s = param_EBOOK then ebook
      else if s = param_ALBUM then album
      else if s = param_COVER then cover
      else if s = param_ARTIST then artist
      else if s = param_EPISODE then episode
      else file)"

definition NodeType_valid :: "string \<Rightarrow> bool" where
  "NodeType_valid s \<longleftrightarrow> s \<in> set NAMES"

text \<open>\<^verbatim>\<open>__NAMES.at(type)\<close> never throws; the name of a type as a total function.\<close>

definition type_name :: "NodeType \<Rightarrow> string" where
  "type_name t = NAMES ! NodeType_val t"

lemma NodeType_str_eq [simp]: "NodeType_str t = Inr (type_name t)"
  by (cases t) (simp_all add: NodeType_str_def array_at_def type_name_def NAMES_def)

lemma type_name_simps [simp]:
  "type_name folder = param_FOLDER" "type_name audio = param_AUDIO"
  "type_name movie = param_MOVIE" "type_name serie = param_SERIE"
  "type_name image = param_IMAGE" "type_name ebook = param_EBOOK"
  "type_name file = param_FILE" "type_name album = param_ALBUM"
  "type_name cover = param_COVER" "type_name episode = param_EPISODE"
  "type_name artist = param_ARTIST"
  by (simp_all add: type_name_def NAMES_def)

text \<open>The table of the names has one entry for every type, in the order of the types, so the valid names are those of a type.\<close>

lemma names_in_order: "map type_name enum_class.enum = NAMES" "sorted (enum_class.enum :: NodeType list)"
  by code_simp+

lemma NodeType_valid_iff: "NodeType_valid s \<longleftrightarrow> s \<in> range type_name"
  by (simp add: NodeType_valid_def enum_UNIV flip: names_in_order(1) image_set)

lemma NodeType_parse_type_name [simp]: "NodeType_parse (type_name t) = t"
  by (cases t) (simp_all add: NodeType_parse_def)

lemma NodeType_parse_str: "NodeType_str t = Inr s \<Longrightarrow> NodeType_parse s = t"
  by auto

lemma NodeType_str_parse: "NodeType_valid s \<Longrightarrow> NodeType_str (NodeType_parse s) = Inr s"
  by (auto simp: NodeType_valid_iff)

lemma NodeType_parse_invalid: "\<not> NodeType_valid s \<Longrightarrow> NodeType_parse s = file"
  by (simp add: NodeType_valid_def NAMES_def NodeType_parse_def)

section \<open>Keys\<close>

definition is_mod :: "string \<Rightarrow> bool" where
  "is_mod path \<longleftrightarrow> list_ex (\<lambda>m. map_at m key_TYPE = Inr path) menu"

definition data_hash :: "env \<Rightarrow> string \<Rightarrow> string" where
  "data_hash E s =
     (if s = ''root'' \<or> is_mod s then s else nat_digits (unat (boost_hash E s)))"

text \<open>\<^verbatim>\<open>system_clock::now()\<close> in nanoseconds to milliseconds, as an \<^verbatim>\<open>unsigned long\<close>.\<close>

definition time_millis :: "int \<Rightarrow> 64 word" where
  "time_millis now_ns = word_of_int (sgn now_ns * (\<bar>now_ns\<bar> div 1000000))"

text \<open>\<^verbatim>\<open>__iterate_key\<close> appends a colon and a token for every token of the argument pack.\<close>

fun iterate_key :: "string \<Rightarrow> string list \<Rightarrow> string" where
  "iterate_key k [] = k"
| "iterate_key k (v # args) = iterate_key (k @ '':'' @ v) args"

definition make_key :: "string \<Rightarrow> string \<Rightarrow> string list \<Rightarrow> string" where
  "make_key prefix v args = iterate_key prefix (v # args)"

definition make_key_node :: "string \<Rightarrow> string" where
  "make_key_node k = make_key key_FS k [''node'']"

definition make_key_list :: "string \<Rightarrow> string" where
  "make_key_list k = make_key key_FS k [key_LIST]"

definition make_key_list_type :: "NodeType \<Rightarrow> string res" where
  "make_key_list_type t = res_bind (NodeType_str t) (\<lambda>s. Inr (make_key key_FS s [key_LIST]))"

definition make_key_types :: "string \<Rightarrow> NodeType \<Rightarrow> string res" where
  "make_key_types k t = res_bind (NodeType_str t) (\<lambda>s. Inr (make_key key_FS k [''types'', s]))"

section \<open>Reading and writing nodes\<close>

definition make_connection :: "'db redis \<Rightarrow> string \<Rightarrow> int \<Rightarrow> unit res" where
  "make_connection R db port =
     (if \<not> redox_connect R db port then Inl (System_error 300) else Inr ())"

definition data_get :: "'db redis \<Rightarrow> 'db \<Rightarrow> string \<Rightarrow> string \<Rightarrow> string" where
  "data_get R db k p =
     (case sync_str R db [redis_HGET, make_key_node k, p] of Some r \<Rightarrow> r | None \<Rightarrow> [])"

definition data_set :: "'db redis \<Rightarrow> string \<Rightarrow> string \<Rightarrow> string \<Rightarrow> 'db \<Rightarrow> 'db" where
  "data_set R k p v = run_command R [redis_HMSET, make_key_node k, p, v]"

fun push_pairs :: "(string \<times> string) list \<Rightarrow> command_t" where
  "push_pairs [] = []"
| "push_pairs ((f, v) # m) = f # v # push_pairs m"

definition data_save :: "'db redis \<Rightarrow> string \<Rightarrow> std_map \<Rightarrow> 'db \<Rightarrow> 'db" where
  "data_save R k m = run_command R ([redis_HMSET, make_key_node k] @ push_pairs m)"

text \<open>
  \<open>to_map\<close> asserts an even number of strings and then reads two at a time
  (\<^verbatim>\<open>for (i = 0; i < in.size(); ++++i)\<close>).
\<close>

fun to_map_loop :: "std_map \<Rightarrow> command_t \<Rightarrow> std_map" where
  "to_map_loop m (k # v # xs) = to_map_loop (map_set m k v) xs"
| "to_map_loop m xs = m"

definition to_map :: "command_t \<Rightarrow> std_map res" where
  "to_map xs = (if length xs mod 2 = 0 then Inr (to_map_loop [] xs) else Inl Assertion)"

definition data_node :: "'db redis \<Rightarrow> 'db \<Rightarrow> string \<Rightarrow> std_map res" where
  "data_node R db k =
     (case sync_vec R db [redis_HGETALL, make_key_node k] of
        Some r \<Rightarrow> to_map r
      | None \<Rightarrow> Inr [])"

text \<open>
  The last index of a window, \<open>index + count - 1\<close> in \<^verbatim>\<open>int\<close> arithmetic.
\<close>

definition last_index :: "int \<Rightarrow> int \<Rightarrow> int res" where
  "last_index index count = res_bind (add32 index count) (\<lambda>s. add32 s (- 1))"

definition children_command ::
  "string \<Rightarrow> int \<Rightarrow> int \<Rightarrow> string \<Rightarrow> string \<Rightarrow> string \<Rightarrow> command_t res" where
  "children_command k index count sort_by order_by flt =
     res_bind (last_index index count) (\<lambda>l.
       Inr (if flt \<noteq> [] \<and> flt \<noteq> ''*'' then
              [redis_FT_SEARCH, key_INDEX, flt, ''NOCONTENT'', ''LIMIT'', to_string index, to_string l]
            else if sort_by = ''default'' then
              [if order_by = ''desc'' then redis_ZREVRANGE else redis_ZRANGE,
               make_key_list k, to_string index, to_string l]
            else
              [redis_LRANGE, make_key (make_key_list k) ''sort'' [sort_by, order_by],
               to_string index, to_string l]))"

definition data_children ::
  "'db redis \<Rightarrow> 'db \<Rightarrow> string \<Rightarrow> int \<Rightarrow> int \<Rightarrow> string \<Rightarrow> string \<Rightarrow> string \<Rightarrow>
   (string \<Rightarrow> ('s, unit) act) \<Rightarrow> ('s, unit) act" where
  "data_children R db k index count sort_by order_by flt fn =
     andthen (lift_res (children_command k index count sort_by order_by flt)) (\<lambda>c.
       case sync_vec R db c of Some reply \<Rightarrow> for_each fn reply | None \<Rightarrow> ret ())"

definition data_files ::
  "'db redis \<Rightarrow> 'db \<Rightarrow> string \<Rightarrow> NodeType \<Rightarrow> int \<Rightarrow> int \<Rightarrow>
   (string \<Rightarrow> ('s, unit) act) \<Rightarrow> ('s, unit) act" where
  "data_files R db k t index count fn =
     andthen (lift_res (make_key_types k t)) (\<lambda>tk.
       andthen (lift_res (last_index index count)) (\<lambda>l.
         case sync_vec R db [redis_ZRANGE, tk, to_string index, to_string l] of
           Some reply \<Rightarrow> for_each fn reply
         | None \<Rightarrow> ret ()))"

definition children_count :: "'db redis \<Rightarrow> 'db \<Rightarrow> string \<Rightarrow> int" where
  "children_count R db k =
     (case sync_int R db [redis_ZCARD, make_key_list k] of Some n \<Rightarrow> n | None \<Rightarrow> 0)"

definition files_count :: "'db redis \<Rightarrow> 'db \<Rightarrow> string \<Rightarrow> NodeType \<Rightarrow> int res" where
  "files_count R db k t =
     res_bind (make_key_types k t) (\<lambda>tk.
       Inr (case sync_int R db [redis_ZCARD, tk] of Some n \<Rightarrow> n | None \<Rightarrow> 0))"

section \<open>Relations, tags, mime types, configuration\<close>

text \<open>\<^verbatim>\<open>std::to_string\<close> of the \<^verbatim>\<open>float\<close> score is taken as the argument \<open>score\<close>.\<close>

definition add_tag :: "'db redis \<Rightarrow> NodeType \<Rightarrow> string \<Rightarrow> string \<Rightarrow> string \<Rightarrow> string \<Rightarrow> 'db \<Rightarrow> 'db res" where
  "add_tag R t tag v n score db =
     res_bind (NodeType_str t) (\<lambda>s.
       let db = run_command R [redis_ZADD, make_key key_FS s [key_TAG, param_NAME], score, tag] db;
           db = run_command R [redis_ZADD, make_key key_FS s [key_TAG, tag], score, v] db;
           db = run_command R [redis_ZADD, make_key key_FS s [key_TAG, v], score, n] db
       in Inr db)"

definition data_eval :: "'db redis \<Rightarrow> string \<Rightarrow> int \<Rightarrow> string list \<Rightarrow> 'db \<Rightarrow> 'db" where
  "data_eval R script argc argv = run_command R ([''EVAL'', script, to_string argc] @ argv)"

definition add_types :: "'db redis \<Rightarrow> string \<Rightarrow> string \<Rightarrow> 64 word \<Rightarrow> 'db \<Rightarrow> 'db" where
  "add_types R parent k score =
     run_command R [redis_ZADD, make_key_list parent, nat_digits (unat score), k]"

definition rem_types :: "env \<Rightarrow> 'db redis \<Rightarrow> string \<Rightarrow> string \<Rightarrow> 'db \<Rightarrow> 'db" where
  "rem_types E R parent k = run_command R [redis_ZREM, make_key_list parent, data_hash E k]"

definition add_nodes :: "'db redis \<Rightarrow> NodeType \<Rightarrow> string \<Rightarrow> 64 word \<Rightarrow> 'db \<Rightarrow> 'db res" where
  "add_nodes R t k score db =
     res_bind (make_key_list_type t) (\<lambda>l. Inr (run_command R [redis_ZADD, l, nat_digits (unat score), k] db))"

definition rem_nodes :: "'db redis \<Rightarrow> NodeType \<Rightarrow> string \<Rightarrow> 'db \<Rightarrow> 'db res" where
  "rem_nodes R t k db =
     res_bind (make_key_list_type t) (\<lambda>l. Inr (run_command R [redis_ZREM, l, k] db))"

definition add_nodes_parent ::
  "'db redis \<Rightarrow> string \<Rightarrow> NodeType \<Rightarrow> string \<Rightarrow> 64 word \<Rightarrow> 'db \<Rightarrow> 'db res" where
  "add_nodes_parent R parent t k score db =
     res_bind (make_key_types parent t) (\<lambda>l. Inr (run_command R [redis_ZADD, l, nat_digits (unat score), k] db))"

definition rem_nodes_parent :: "'db redis \<Rightarrow> string \<Rightarrow> NodeType \<Rightarrow> string \<Rightarrow> 'db \<Rightarrow> 'db res" where
  "rem_nodes_parent R parent t k db =
     res_bind (make_key_types parent t) (\<lambda>l. Inr (run_command R [redis_ZREM, l, k] db))"

definition incr_mime :: "'db redis \<Rightarrow> string \<Rightarrow> 'db \<Rightarrow> 'db" where
  "incr_mime R mime db =
     run_command R [''INCR'', make_key key_MIME mime []]
       (run_command R [redis_SADD, key_MIME, mime] db)"

definition data_config :: "'db redis \<Rightarrow> 'db \<Rightarrow> string res" where
  "data_config R db = redox_get R db key_CONFIG"

definition data_config_store :: "'db redis \<Rightarrow> string \<Rightarrow> 'db \<Rightarrow> 'db" where
  "data_config_store R json = redox_set R key_CONFIG json"

definition config_exists :: "'db redis \<Rightarrow> 'db \<Rightarrow> bool" where
  "config_exists R db =
     (case sync_int R db [redis_EXISTS, key_CONFIG] of Some n \<Rightarrow> n \<noteq> 0 | None \<Rightarrow> False)"

section \<open>What the keys are\<close>

lemma iterate_key_concat: "iterate_key k vs = k @ List.concat (map (\<lambda>v. '':'' @ v) vs)"
  by (induction k vs rule: iterate_key.induct) auto

lemma make_key_concat: "make_key p v vs = p @ List.concat (map (\<lambda>v. '':'' @ v) (v # vs))"
  by (simp only: make_key_def iterate_key_concat)

lemma make_key_node_eq: "make_key_node k = ''fs:'' @ k @ '':node''"
  by (simp add: make_key_node_def make_key_concat)

lemma make_key_list_eq: "make_key_list k = ''fs:'' @ k @ '':list''"
  by (simp add: make_key_list_def make_key_concat)

lemma make_key_list_type_eq: "make_key_list_type t = Inr (make_key_list (type_name t))"
  by (simp add: make_key_list_type_def make_key_list_def)

lemma make_key_types_eq: "make_key_types k t = Inr (''fs:'' @ k @ '':types:'' @ type_name t)"
  by (simp add: make_key_types_def make_key_concat)

lemma node_key_not_list_key: "make_key_node k \<noteq> make_key_list j"
proof
  assume "make_key_node k = make_key_list j"
  then have "last (make_key_node k) = last (make_key_list j)" by simp
  then show False by (simp add: make_key_node_eq make_key_list_eq)
qed

section \<open>Documented behaviour of redis\<close>

text \<open>
  Ranges: both ends are inclusive, a negative index counts from the end, and indices out of range
  select what there is.
\<close>

definition redis_range :: "int \<Rightarrow> int \<Rightarrow> 'a list \<Rightarrow> 'a list" where
  "redis_range a b xs =
     (let n = int (length xs);
          a' = (if a < 0 then max 0 (n + a) else a);
          b' = (if b < 0 then n + b else b)
      in if b' < a' then [] else take (nat (b' - a' + 1)) (drop (nat a') xs))"

text \<open>
  Hashes: \<open>hashes db k\<close> is the hash stored at \<open>k\<close>; \<open>HMSET\<close> sets fields, the later of two equal
  ones winning; \<open>HGET\<close> reads one and \<open>HGETALL\<close> lists names and values alternately.
\<close>

definition alternate :: "(string \<times> string) list \<Rightarrow> string list" where
  "alternate ps = List.concat (map (\<lambda>(f, v). [f, v]) ps)"

definition hash_law :: "'db redis \<Rightarrow> ('db \<Rightarrow> string \<Rightarrow> string \<rightharpoonup> string) \<Rightarrow> bool" where
  "hash_law R hashes \<longleftrightarrow>
     (\<forall>db k f. sync_str R db [redis_HGET, k, f] = hashes db k f) \<and>
     (\<forall>db k. \<exists>ps. sync_vec R db [redis_HGETALL, k] = Some (alternate ps)
                 \<and> distinct (map fst ps) \<and> map_of ps = hashes db k) \<and>
     (\<forall>db k ps j. ps \<noteq> [] \<longrightarrow>
        hashes (run_command R ([redis_HMSET, k] @ alternate ps) db) j =
          (if j = k then hashes db k ++ map_of (rev ps) else hashes db j))"

lemma alternate_push_pairs: "alternate ps = push_pairs ps"
  by (induction ps rule: push_pairs.induct) (simp_all add: alternate_def)

lemmas hash_law_iff = hash_law_def [unfolded alternate_push_pairs]

text \<open>
  Sorted sets: \<open>zset db k\<close> lists the members of the set at \<open>k\<close> by score; \<open>ZADD\<close> makes its argument a
  member, \<open>ZREM\<close> removes one, \<open>ZRANGE\<close> and \<open>ZCARD\<close> read.
\<close>

definition zset_law :: "'db redis \<Rightarrow> ('db \<Rightarrow> string \<Rightarrow> string list) \<Rightarrow> bool" where
  "zset_law R zset \<longleftrightarrow>
     (\<forall>db k. distinct (zset db k)) \<and>
     (\<forall>db k a b. sync_vec R db [redis_ZRANGE, k, to_string a, to_string b] =
                   Some (redis_range a b (zset db k))) \<and>
     (\<forall>db k. sync_int R db [redis_ZCARD, k] = Some (int (length (zset db k)))) \<and>
     (\<forall>db k s m j. set (zset (run_command R [redis_ZADD, k, s, m] db) j) =
                   (if j = k then insert m (set (zset db k)) else set (zset db j))) \<and>
     (\<forall>db k m j. zset (run_command R [redis_ZREM, k, m] db) j =
                   (if j = k then removeAll m (zset db k) else zset db j))"

text \<open>Lists: \<open>LRANGE\<close> reads a window.\<close>

definition list_law :: "'db redis \<Rightarrow> ('db \<Rightarrow> string \<Rightarrow> string list) \<Rightarrow> bool" where
  "list_law R lst \<longleftrightarrow>
     (\<forall>db k a b. sync_vec R db [redis_LRANGE, k, to_string a, to_string b] =
                   Some (redis_range a b (lst db k)))"

text \<open>Strings: \<open>GET\<close> returns what \<open>SET\<close> stored, and the key exists.\<close>

definition string_law :: "'db redis \<Rightarrow> bool" where
  "string_law R \<longleftrightarrow>
     (\<forall>db k v. redox_get R (redox_set R k v db) k = Inr v) \<and>
     (\<forall>db k v. sync_int R (redox_set R k v db) [redis_EXISTS, k] = Some 1)"

lemma config_after_store:
  assumes "string_law R"
  shows "data_config R (data_config_store R json db) = Inr json" "config_exists R (data_config_store R json db)"
  using assms by (simp_all add: string_law_def data_config_def data_config_store_def config_exists_def)

lemma redis_range_window:
  assumes "0 \<le> i" "1 \<le> c"
  shows "redis_range i (i + c - 1) xs = take (nat c) (drop (nat i) xs)"
  using assms by (simp add: redis_range_def)

text \<open>The three cases of a window whose last index is two below its first.\<close>

lemma redis_range_minus2:
  assumes "0 \<le> i"
  shows "redis_range i (i - 2) xs =
           (if i = 0 then butlast xs else if i = 1 then tl xs else [])"
proof -
  consider "i = 0" | "i = 1" | "2 \<le> i" using assms by linarith
  then show ?thesis
  proof cases
    case 1
    then show ?thesis
      by (cases "length xs") (auto simp: redis_range_def Let_def butlast_conv_take nat_diff_distrib')
  next
    case 2
    then show ?thesis by (cases xs) (auto simp: redis_range_def Let_def)
  next
    case 3
    then show ?thesis by (simp add: redis_range_def Let_def)
  qed
qed

lemma lrange_reply: "list_law R lst \<Longrightarrow>
    sync_vec R db [redis_LRANGE, k, to_string a, to_string b] = Some (redis_range a b (lst db k))"
  by (simp add: list_law_def)

lemma zset_laws:
  assumes "zset_law R zset"
  shows zrange_reply: "sync_vec R db [redis_ZRANGE, k, to_string a, to_string b] =
                         Some (redis_range a b (zset db k))"
    and zcard_reply: "sync_int R db [redis_ZCARD, k] = Some (int (length (zset db k)))"
    and zadd_effect: "set (zset (run_command R [redis_ZADD, k, s, m] db) j) =
                         (if j = k then insert m (set (zset db k)) else set (zset db j))"
    and zrem_effect: "zset (run_command R [redis_ZREM, k, m] db) j =
                         (if j = k then removeAll m (zset db k) else zset db j)"
  using assms by (simp_all add: zset_law_def)

section \<open>Windows of children\<close>

text \<open>The key of the sorted list of children.\<close>

definition sort_key :: "string \<Rightarrow> string \<Rightarrow> string \<Rightarrow> string" where
  "sort_key k sort_by order_by = make_key (make_key_list k) ''sort'' [sort_by, order_by]"

lemma last_index_Inr [simp]:
  "last_index i c = Inr l \<longleftrightarrow> int32 (i + c) \<and> int32 (i + c - 1) \<and> l = i + c - 1"
  by (auto simp: last_index_def)

lemma data_children_sorted:
  assumes "list_law R lst" "last_index i c = Inr l" "sort_by \<noteq> ''default''" "flt = [] \<or> flt = ''*''"
  shows "data_children R db k i c sort_by order_by flt fn =
           for_each fn (redis_range i l (lst db (sort_key k sort_by order_by)))"
proof -
  from assms(3,4) have "children_command k i c sort_by order_by flt =
      Inr [redis_LRANGE, sort_key k sort_by order_by, to_string i, to_string l]"
    by (auto simp: children_command_def sort_key_def assms(2))
  then show ?thesis
    by (simp add: data_children_def lrange_reply [OF assms(1)])
qed

lemma data_files_range:
  assumes "zset_law R zset" "last_index i c = Inr l" "make_key_types k t = Inr tk"
  shows "data_files R db k t i c fn = for_each fn (redis_range i l (zset db tk))"
  by (simp add: data_files_def zrange_reply [OF assms(1)] assms(2,3))

text \<open>a window of the sorted children.  For a start index and a positive count, the callback is run
  on exactly the \<open>count\<close> children from \<open>index\<close> on, in order, and on fewer only where the list
  ends.
\<close>

theorem children_window:
  assumes "list_law R lst" "0 \<le> i" "1 \<le> c" "int32 (i + c)" "sort_by \<noteq> ''default''"
    "flt = [] \<or> flt = ''*''"
  shows "data_children R db k i c sort_by order_by flt fn =
           for_each fn (take (nat c) (drop (nat i) (lst db (sort_key k sort_by order_by))))"
proof -
  have "last_index i c = Inr (i + c - 1)"
    using assms(2-4) by (auto simp: int32_def)
  with assms show ?thesis
    by (simp add: data_children_sorted redis_range_window)
qed

text \<open>a window with count -1, the value \<^verbatim>\<open>Server::cds\<close> passes for "all children" (its comment:
  "Browse all is -1 in redis").  The last index becomes \<open>index - 2\<close>, so from index 0 the last child
  is left out, from index 1 all the rest is delivered, and from any later index nothing is.
\<close>

theorem children_count_minus_one:
  assumes "list_law R lst" "0 \<le> i" "i \<le> INT_MAX" "sort_by \<noteq> ''default''" "flt = [] \<or> flt = ''*''"
  shows "data_children R db k i (- 1) sort_by order_by flt fn =
           for_each fn (if i = 0 then butlast (lst db (sort_key k sort_by order_by))
                        else if i = 1 then tl (lst db (sort_key k sort_by order_by))
                        else [])"
proof -
  have "last_index i (- 1) = Inr (i - 2)"
    using assms(2,3) by (auto simp: int32_def)
  with assms show ?thesis
    by (simp add: data_children_sorted redis_range_minus2)
qed

text \<open>the files of a node of one type, as \<^verbatim>\<open>Server::cds\<close> asks for the tracks of an album: the
  window of the sorted set of that type.
\<close>

theorem files_window:
  assumes "zset_law R zset" "0 \<le> i" "1 \<le> c" "int32 (i + c)"
  shows "data_files R db k t i c fn =
           for_each fn (take (nat c) (drop (nat i) (zset db (''fs:'' @ k @ '':types:'' @ type_name t))))"
proof -
  have "last_index i c = Inr (i + c - 1)"
    using assms(2-4) by (auto simp: int32_def)
  with assms show ?thesis
    by (simp add: data_files_range make_key_types_eq redis_range_window)
qed

text \<open>A window whose end leaves the range of \<^verbatim>\<open>int\<close> is undefined before redis is asked.\<close>

lemma children_overflow:
  assumes "\<not> int32 (i + c)"
  shows "data_children R db k i c sort_by order_by flt fn s = (Inl Signed_overflow, s)"
  using assms by (simp add: data_children_def children_command_def last_index_def add32_def)

section \<open>Nodes\<close>

lemma make_key_node_inj [simp]: "make_key_node k = make_key_node j \<longleftrightarrow> k = j"
  by (simp add: make_key_node_eq)

lemma make_key_list_inj [simp]: "make_key_list k = make_key_list j \<longleftrightarrow> k = j"
  by (simp add: make_key_list_eq)

lemma to_map_loop_push_pairs:
  "to_map_loop m (push_pairs ps) = foldl (\<lambda>m (k, v). map_set m k v) m ps"
  by (induction ps arbitrary: m) auto

lemma length_push_pairs [simp]: "length (push_pairs ps) = 2 * length ps"
  by (induction ps rule: push_pairs.induct) auto

lemma to_map_push_pairs: "to_map (push_pairs ps) = Inr (foldl (\<lambda>m (k, v). map_set m k v) [] ps)"
  by (simp add: to_map_def to_map_loop_push_pairs)

lemma to_map_sorted: "to_map xs = Inr m \<Longrightarrow> sorted_keys m"
proof -
  have "sorted_keys m' \<Longrightarrow> sorted_keys (to_map_loop m' xs)" for m'
    by (induction m' xs rule: to_map_loop.induct) auto
  then show "to_map xs = Inr m \<Longrightarrow> sorted_keys m"
    by (auto simp: to_map_def split: if_splits)
qed

text \<open>a node attribute reads back as it was written, and writing it changes no other attribute of
  any node.
\<close>

theorem get_after_set:
  assumes "hash_law R hashes"
  shows "data_get R (data_set R k p v db) j q =
           (if j = k \<and> q = p then v else data_get R db j q)"
proof -
  have "hashes (run_command R ([redis_HMSET, make_key_node k] @ push_pairs [(p, v)]) db) (make_key_node j) =
          (if make_key_node j = make_key_node k
           then hashes db (make_key_node k) ++ map_of (rev [(p, v)]) else hashes db (make_key_node j))"
    using assms unfolding hash_law_iff by blast
  moreover have "sync_str R d [redis_HGET, x, f] = hashes d x f" for d x f
    using assms unfolding hash_law_iff by blast
  ultimately show ?thesis by (simp add: data_get_def data_set_def)
qed

text \<open>a node saved where there was none is read back exactly, with its attributes in key order.
\<close>

theorem node_after_save:
  assumes "hash_law R hashes" "sorted_keys m" "m \<noteq> []" "hashes db (make_key_node k) = Map.empty"
  shows "data_node R (data_save R k m db) k = Inr m"
proof -
  let ?db = "data_save R k m db"
  have dist: "distinct (map fst m)"
    using assms(2) by (simp add: sorted_keys_def strict_sorted_iff)
  have stored: "hashes ?db (make_key_node k) = map_of m"
  proof -
    have "hashes ?db (make_key_node k) = hashes db (make_key_node k) ++ map_of (rev m)"
      using assms(1,3) unfolding hash_law_iff data_save_def by (metis (no_types, lifting))
    with assms(4) dist show ?thesis by (simp add: map_of_rev_distinct)
  qed
  obtain ps where ps: "sync_vec R ?db [redis_HGETALL, make_key_node k] = Some (push_pairs ps)"
    "distinct (map fst ps)" "map_of ps = hashes ?db (make_key_node k)"
    using assms(1) unfolding hash_law_iff by blast
  let ?m = "foldl (\<lambda>m (k, v). map_set m k v) [] ps"
  have "map_find ?m x = map_find m x" for x
    using smap.find_puts [of "[]" ps x] ps(2,3) stored
    by (simp add: map_find_def map_of_rev_distinct split: option.splits)
  then have "?m = m"
    using smap.entries_unique [of ?m m] smap.inv_puts [of "[]" ps] assms(2) by simp
  with ps(1) show ?thesis by (simp add: data_node_def to_map_push_pairs)
qed

section \<open>Relations\<close>

text \<open>the global list of nodes of a type and the list of a parent's nodes of a type: adding makes the
  key a member, and removing it again restores the other members exactly.
\<close>

theorem rem_after_add_nodes:
  assumes "zset_law R zset"
    "add_nodes R t k score db = Inr db1" "rem_nodes R t k db1 = Inr db2"
    "add_nodes_parent R parent t k score db = Inr db3" "rem_nodes_parent R parent t k db3 = Inr db4"
  shows "set (zset db1 (make_key_list (type_name t))) = insert k (set (zset db (make_key_list (type_name t))))
    \<and> set (zset db2 j) = set (zset db j) - (if j = make_key_list (type_name t) then {k} else {})
    \<and> set (zset db4 j) =
           set (zset db j) - (if j = ''fs:'' @ parent @ '':types:'' @ type_name t then {k} else {})"
  using assms(2-) zset_laws [OF assms(1)]
  by (auto simp: add_nodes_def rem_nodes_def add_nodes_parent_def rem_nodes_parent_def
      make_key_list_type_eq make_key_types_eq split: if_splits)

text \<open>C36: \<open>rem_types\<close> undoes \<open>add_types\<close> only for keys that are their own hash.  \<open>add_types\<close> stores the key,
  \<open>rem_types\<close> removes the hash of the key; any other key stays in its parent's list.
\<close>

theorem rem_types_keeps_key:
  assumes "zset_law R zset"
  shows "k \<in> set (zset (rem_types E R parent k (add_types R parent k score db)) (make_key_list parent))
           \<longleftrightarrow> data_hash E k \<noteq> k"
  by (auto simp: rem_types_def add_types_def zset_laws [OF assms])

lemma nat_digits_not_reserved: "nat_digits n \<noteq> ''root'' \<and> \<not> is_mod (nat_digits n)"
proof -
  obtain c t where "nat_digits n = c # t" "is_digit c" by (rule nat_digits_head)
  then show ?thesis by (auto simp: is_mod_def menu_def map_at_def is_digit_def)
qed

text \<open>the hash of a key is the reserved key \<open>root\<close> or a menu key only for that key itself, so a hashed
  path never collides with them.
\<close>

theorem hash_reserved:
  "data_hash E s = r \<Longrightarrow> r = ''root'' \<or> is_mod r \<Longrightarrow> s = r"
  using nat_digits_not_reserved by (auto simp: data_hash_def split: if_splits)

text \<open>after \<open>add_tag\<close> the tag is listed among the tags of the type, the value among the values of the
  tag, and the node among the nodes of the value; nothing is removed from any list.
\<close>

theorem add_tag_members:
  assumes "zset_law R zset" "add_tag R t tag v n score db = Inr db'"
  shows "tag \<in> set (zset db' (make_key key_FS (type_name t) [key_TAG, param_NAME]))
    \<and> v \<in> set (zset db' (make_key key_FS (type_name t) [key_TAG, tag]))
    \<and> n \<in> set (zset db' (make_key key_FS (type_name t) [key_TAG, v]))
    \<and> set (zset db j) \<subseteq> set (zset db' j)"
  using assms(2) zset_laws [OF assms(1)] by (auto simp: add_tag_def Let_def)

text \<open>the type names.  A type is recovered from its name, a valid name from its type, and every
  string that is not a name is read as \<open>file\<close>.
\<close>

theorem NodeType_round_trip:
  "NodeType_str t = Inr (type_name t) \<and> NodeType_parse (type_name t) = t
   \<and> type_name (NodeType_parse s) = (if NodeType_valid s then s else param_FILE)"
  using NodeType_str_parse [of s] by (auto simp: NodeType_parse_invalid)

end
