(* ===== verification/Reference.thy ===== *)
theory Reference
  imports Datastore
begin

text \<open>
  A concrete environment and a concrete redis database in which the laws that stand for the documented
  behaviour of the libraries hold.  They are used to show that the hypotheses of the theorems can be met
  and to evaluate the model on examples; no definition of a component refers to them.
\<close>

section \<open>JSON objects of strings in a simple encoding\<close>

definition enc_string :: "string \<Rightarrow> string" where
  "enc_string s = List.concat (map (\<lambda>c. [CHR ''+'', c]) s) @ ''.''"

fun enc_pairs :: "(string \<times> string) list \<Rightarrow> string" where
  "enc_pairs [] = []"
| "enc_pairs ((k, v) # ps) = enc_string k @ enc_string v @ enc_pairs ps"

fun dec_string :: "string \<Rightarrow> (string \<times> string) option" where
  "dec_string (m # s) =
     (if m = CHR ''.'' then Some ([], s)
      else case s of [] \<Rightarrow> None | c # t \<Rightarrow> map_option (\<lambda>(u, r). (c # u, r)) (dec_string t))"
| "dec_string [] = None"

fun dec_pairs :: "nat \<Rightarrow> string \<Rightarrow> (string \<times> string) list option" where
  "dec_pairs 0 s = (if s = [] then Some [] else None)"
| "dec_pairs (Suc n) s =
     (if s = [] then Some []
      else case dec_string s of
        None \<Rightarrow> None
      | Some (k, s') \<Rightarrow>
          (case dec_string s' of
             None \<Rightarrow> None
           | Some (v, r) \<Rightarrow> map_option (Cons (k, v)) (dec_pairs n r)))"

lemma dec_enc_string [simp]: "dec_string (enc_string s @ r) = Some (s, r)"
  by (induction s) (simp_all add: enc_string_def)

lemma enc_string_ne [simp]: "enc_string s \<noteq> []"
  by (simp add: enc_string_def)

lemma dec_enc_pairs: "length ps \<le> n \<Longrightarrow> dec_pairs n (enc_pairs ps) = Some ps"
proof (induction ps arbitrary: n rule: enc_pairs.induct)
  case 1
  then show ?case by (cases n) simp_all
next
  case (2 k v ps)
  then obtain m where "n = Suc m" "length ps \<le> m" by (cases n) auto
  with 2 show ?case by simp
qed

lemma length_enc_pairs: "length ps \<le> length (enc_pairs ps)"
  by (induction ps rule: enc_pairs.induct) (auto simp: enc_string_def)

lemma nul_free_enc_string: "nul_free s \<Longrightarrow> nul_free (enc_string s)"
  by (induction s) (simp_all add: enc_string_def)

lemma nul_free_enc_pairs:
  "(\<forall>(k, v) \<in> set ps. nul_free k \<and> nul_free v) \<Longrightarrow> nul_free (enc_pairs ps)"
  by (induction ps rule: enc_pairs.induct) (simp_all add: nul_free_enc_string)

section \<open>The environment\<close>

definition std_env :: env where
  "std_env = \<lparr>
     to_upper_copy = map upper_char,
     erase_all_copy = (\<lambda>s t. filter (\<lambda>c. c \<notin> set t) s),
     lexical_cast_time = (\<lambda>s. if s \<noteq> [] \<and> list_all is_digit s then Some (int (digits_val s)) else None),
     trim_copy = (\<lambda>s. rev (dropWhile is_space (rev (dropWhile is_space s)))),
     boost_hash = (\<lambda>s. of_nat (length s)),
     format = (\<lambda>f args. case fmt_subst args 0 f of Some r \<Rightarrow> r | None \<Rightarrow> []),
     xml_parse = (\<lambda>s. None),
     xml_print = (\<lambda>n. xname n),
     json_write = enc_pairs,
     json_parse = (\<lambda>s. map_option (\<lambda>ps k. map_option JString (map_of ps k)) (dec_pairs (length s) s)),
     url_host = (\<lambda>u. ''localhost''),
     url_proto = (\<lambda>u. ''80''),
     url_path = (\<lambda>u. ''/''),
     HOST = ''Host'', CACHE_CONTROL = ''Cache-Control'', CONTENT_LENGTH = ''Content-Length'',
     CONTENT_TYPE = ''Content-Type'', CONNECTION = ''Connection'', CONNECTION_CLOSE = ''close'',
     DATE = ''Date'', EXPIRES = ''Expires'', SERVER = ''Server'',
     mime_XML = ''text/xml'', mime_JSON = ''application/json'', mime_PNG = ''image/png'',
     uts_sysname = ''Linux'', uts_version = ''1'',
     ctime = (\<lambda>t. ''Thu Jan  1 00:00:00 1970'')\<rparr>"

lemma std_fmt_law: "fmt_law std_env"
  by (simp add: fmt_law_def std_env_def)

lemma std_upper_law: "upper_law std_env"
  by (simp add: upper_law_def std_env_def)

lemma std_header_law: "header_law std_env"
  by (simp add: header_law_def std_env_def)

lemma dec_enc_c_str:
  "(\<forall>(k, v) \<in> set ps. nul_free k \<and> nul_free v) \<Longrightarrow>
     dec_pairs (length (c_str (enc_pairs ps))) (c_str (enc_pairs ps)) = Some ps"
  using nul_free_enc_pairs dec_enc_pairs [OF length_enc_pairs [of ps]] by simp

lemma std_json_law: "json_law std_env"
  unfolding json_law_def
proof (intro allI impI)
  fix ps :: "(string \<times> string) list"
  assume "distinct (map fst ps) \<and> (\<forall>(k, v) \<in> set ps. nul_free k \<and> nul_free v)"
  then have "dec_pairs (length (c_str (enc_pairs ps))) (c_str (enc_pairs ps)) = Some ps"
    by (intro dec_enc_c_str) simp
  then show "json_parse std_env (c_str (json_write std_env ps)) =
      Some (\<lambda>k. map_option JString (map_of ps k))"
    by (simp add: std_env_def)
qed

section \<open>The database\<close>

record store =
  st_hash :: "string \<Rightarrow> (string \<times> string) list"
  st_zset :: "string \<Rightarrow> string list"
  st_list :: "string \<Rightarrow> string list"
  st_str :: "string \<Rightarrow> string option"

definition empty_store :: store where
  "empty_store = \<lparr>st_hash = (\<lambda>_. []), st_zset = (\<lambda>_. []), st_list = (\<lambda>_. []), st_str = (\<lambda>_. None)\<rparr>"

fun pull_pairs :: "string list \<Rightarrow> (string \<times> string) list" where
  "pull_pairs (f # v # r) = (f, v) # pull_pairs r"
| "pull_pairs _ = []"

lemma pull_push [simp]: "pull_pairs (push_pairs ps) = ps"
  by (induction ps rule: push_pairs.induct) simp_all

definition norm_hash :: "(string \<times> string) list \<Rightarrow> (string \<times> string) list" where
  "norm_hash ps = foldl (\<lambda>m (k, v). map_set m k v) [] (rev ps)"

fun range_reply :: "'a list \<Rightarrow> string \<Rightarrow> string \<Rightarrow> 'a list option" where
  "range_reply xs a b =
     (case scan_int a of
        None \<Rightarrow> None
      | Some i \<Rightarrow> map_option (\<lambda>j. redis_range i j xs) (scan_int b))"

fun ref_vec :: "store \<Rightarrow> command_t \<Rightarrow> string list option" where
  "ref_vec db [c, k] = (if c = redis_HGETALL then Some (push_pairs (norm_hash (st_hash db k))) else None)"
| "ref_vec db [c, k, a, b] =
     (if c = redis_ZRANGE then range_reply (remdups (st_zset db k)) a b
      else if c = redis_ZREVRANGE then range_reply (rev (remdups (st_zset db k))) a b
      else if c = redis_LRANGE then range_reply (st_list db k) a b
      else None)"
| "ref_vec db _ = None"

fun ref_str :: "store \<Rightarrow> command_t \<Rightarrow> string option" where
  "ref_str db [c, k, f] = (if c = redis_HGET then map_of (st_hash db k) f else None)"
| "ref_str db _ = None"

fun ref_int :: "store \<Rightarrow> command_t \<Rightarrow> int option" where
  "ref_int db [c, k] =
     (if c = redis_ZCARD then Some (int (length (remdups (st_zset db k))))
      else if c = redis_EXISTS then Some (if st_str db k = None then 0 else 1)
      else None)"
| "ref_int db _ = None"

definition ref_run :: "command_t \<Rightarrow> store \<Rightarrow> store" where
  "ref_run c db =
     (case c of
        cmd # k # r \<Rightarrow>
          if cmd = redis_HMSET then db\<lparr>st_hash := (st_hash db)(k := rev (pull_pairs r) @ st_hash db k)\<rparr>
          else if cmd = redis_ZADD then db\<lparr>st_zset := (st_zset db)(k := st_zset db k @ [last r])\<rparr>
          else if cmd = redis_ZREM then db\<lparr>st_zset := (st_zset db)(k := removeAll (last r) (st_zset db k))\<rparr>
          else db
      | _ \<Rightarrow> db)"

definition ref_redis :: "store redis" where
  "ref_redis = \<lparr>
     sync_vec = ref_vec, sync_str = ref_str, sync_int = ref_int, run_command = ref_run,
     redox_get = (\<lambda>db k. case st_str db k of Some s \<Rightarrow> Inr s | None \<Rightarrow> Inl Invalid_argument),
     redox_set = (\<lambda>k v db. db\<lparr>st_str := (st_str db)(k := Some v)\<rparr>),
     redox_connect = (\<lambda>h p. True)\<rparr>"

definition ref_hashes :: "store \<Rightarrow> string \<Rightarrow> string \<rightharpoonup> string" where
  "ref_hashes db k = map_of (st_hash db k)"

definition ref_zset :: "store \<Rightarrow> string \<Rightarrow> string list" where
  "ref_zset db k = remdups (st_zset db k)"

lemma map_of_norm_hash: "map_of (norm_hash ps) = map_of ps"
proof
  fix k
  show "map_of (norm_hash ps) k = map_of ps k"
    using smap.find_puts [of "[]" "rev ps" k]
    by (simp add: norm_hash_def map_find_def split: option.splits)
qed

lemma distinct_norm_hash: "distinct (map fst (norm_hash ps))"
  using smap.inv_puts [of "[]" "rev ps"] by (simp add: norm_hash_def sorted_keys_def strict_sorted_iff)

lemma ref_hash_law: "hash_law ref_redis ref_hashes"
  unfolding hash_law_iff
proof (intro conjI allI impI)
  fix db k
  show "\<exists>ps. sync_vec ref_redis db [redis_HGETALL, k] = Some (push_pairs ps)
      \<and> distinct (map fst ps) \<and> map_of ps = ref_hashes db k"
    by (intro exI [of _ "norm_hash (st_hash db k)"])
      (simp add: ref_redis_def ref_hashes_def map_of_norm_hash distinct_norm_hash)
qed (auto simp: ref_redis_def ref_hashes_def ref_run_def)

lemma ref_zset_law: "zset_law ref_redis ref_zset"
  unfolding zset_law_def
  by (auto simp: ref_redis_def ref_zset_def ref_run_def remdups_filter [symmetric]
      removeAll_filter_not_eq)

lemma ref_list_law: "list_law ref_redis st_list"
  by (simp add: list_law_def ref_redis_def)

lemma ref_string_law: "string_law ref_redis"
  by (simp add: string_law_def ref_redis_def)

end
