(* ===== verification/Directory.thy ===== *)
theory Directory
  imports Datastore Reference
begin

text \<open>
  What the data store of \<^verbatim>\<open>src/src/datastore.h\<close> promises, without redis: a content directory is a set of nodes with
  attributes, the members of every list, and the files of every node by type.  Every operation of the store that changes
  the content is a change of this directory, and the operations that read the store read the directory; so any sequence
  of calls behaves as the directory does.  The laws of redis are the interface \<open>redis_server\<close>.
\<close>

section \<open>The interface of the database\<close>

text \<open>A command changes no values of another kind: hashes, sorted sets, and the rest (sets, counters, strings).\<close>

definition frame_law ::
  "'db redis \<Rightarrow> ('db \<Rightarrow> string \<Rightarrow> string \<rightharpoonup> string) \<Rightarrow> ('db \<Rightarrow> string \<Rightarrow> string list) \<Rightarrow> bool" where
  "frame_law R hashes zset \<longleftrightarrow>
     (\<forall>db k ps. zset (run_command R ([redis_HMSET, k] @ alternate ps) db) = zset db) \<and>
     (\<forall>db k s m. hashes (run_command R [redis_ZADD, k, s, m] db) = hashes db) \<and>
     (\<forall>db k m. hashes (run_command R [redis_ZREM, k, m] db) = hashes db) \<and>
     (\<forall>db k m. hashes (run_command R [redis_SADD, k, m] db) = hashes db
             \<and> zset (run_command R [redis_SADD, k, m] db) = zset db) \<and>
     (\<forall>db k. hashes (run_command R [''INCR'', k] db) = hashes db
           \<and> zset (run_command R [''INCR'', k] db) = zset db) \<and>
     (\<forall>db k v. hashes (redox_set R k v db) = hashes db \<and> zset (redox_set R k v db) = zset db)"

section \<open>The directory\<close>

record directory =
  attrs :: "string \<Rightarrow> string \<rightharpoonup> string"
  members :: "string \<Rightarrow> string set"
  typed_files :: "string \<Rightarrow> NodeType \<Rightarrow> string set"

text \<open>The operations that change the content, with the arguments the code takes.\<close>

datatype store_op =
    Set_attr string string string
  | Save_node string std_map
  | Add_types string string "64 word"
  | Rem_types string string
  | Add_nodes NodeType string "64 word"
  | Rem_nodes NodeType string
  | Add_nodes_parent string NodeType string "64 word"
  | Rem_nodes_parent string NodeType string
  | Incr_mime string
  | Store_config string

fun exec_op :: "env \<Rightarrow> 'db redis \<Rightarrow> store_op \<Rightarrow> 'db \<Rightarrow> 'db res" where
  "exec_op E R (Set_attr k p v) db = Inr (data_set R k p v db)"
| "exec_op E R (Save_node k m) db = Inr (data_save R k m db)"
| "exec_op E R (Add_types parent k score) db = Inr (add_types R parent k score db)"
| "exec_op E R (Rem_types parent k) db = Inr (rem_types E R parent k db)"
| "exec_op E R (Add_nodes t k score) db = add_nodes R t k score db"
| "exec_op E R (Rem_nodes t k) db = rem_nodes R t k db"
| "exec_op E R (Add_nodes_parent parent t k score) db = add_nodes_parent R parent t k score db"
| "exec_op E R (Rem_nodes_parent parent t k) db = rem_nodes_parent R parent t k db"
| "exec_op E R (Incr_mime mime) db = Inr (incr_mime R mime db)"
| "exec_op E R (Store_config json) db = Inr (data_config_store R json db)"

fun exec_ops :: "env \<Rightarrow> 'db redis \<Rightarrow> store_op list \<Rightarrow> 'db \<Rightarrow> 'db res" where
  "exec_ops E R [] db = Inr db"
| "exec_ops E R (op # ops) db = res_bind (exec_op E R op db) (exec_ops E R ops)"

text \<open>
  What they do to the directory.  The list of a parent and the global list of a type are lists of the same kind, and
  \<open>rem_types\<close> removes the hash of the key it is given.
\<close>

fun spec_op :: "env \<Rightarrow> store_op \<Rightarrow> directory \<Rightarrow> directory" where
  "spec_op E (Set_attr k p v) d = d\<lparr>attrs := (attrs d)(k := (attrs d k)(p \<mapsto> v))\<rparr>"
| "spec_op E (Save_node k m) d = d\<lparr>attrs := (attrs d)(k := attrs d k ++ map_of m)\<rparr>"
| "spec_op E (Add_types parent k score) d =
     d\<lparr>members := (members d)(parent := insert k (members d parent))\<rparr>"
| "spec_op E (Rem_types parent k) d =
     d\<lparr>members := (members d)(parent := members d parent - {data_hash E k})\<rparr>"
| "spec_op E (Add_nodes t k score) d =
     d\<lparr>members := (members d)(type_name t := insert k (members d (type_name t)))\<rparr>"
| "spec_op E (Rem_nodes t k) d =
     d\<lparr>members := (members d)(type_name t := members d (type_name t) - {k})\<rparr>"
| "spec_op E (Add_nodes_parent parent t k score) d =
     d\<lparr>typed_files := (typed_files d)(parent := (typed_files d parent)(t := insert k (typed_files d parent t)))\<rparr>"
| "spec_op E (Rem_nodes_parent parent t k) d =
     d\<lparr>typed_files := (typed_files d)(parent := (typed_files d parent)(t := typed_files d parent t - {k}))\<rparr>"
| "spec_op E (Incr_mime mime) d = d"
| "spec_op E (Store_config json) d = d"

text \<open>A node is saved with at least one attribute, and its attributes are a \<^verbatim>\<open>std::map\<close>.\<close>

fun wf_op :: "store_op \<Rightarrow> bool" where
  "wf_op (Save_node k m) \<longleftrightarrow> m \<noteq> [] \<and> sorted_keys m"
| "wf_op op \<longleftrightarrow> True"

definition types_key :: "string \<Rightarrow> NodeType \<Rightarrow> string" where
  "types_key k t = ''fs:'' @ k @ '':types:'' @ type_name t"

definition directory_of ::
  "('db \<Rightarrow> string \<Rightarrow> string \<rightharpoonup> string) \<Rightarrow> ('db \<Rightarrow> string \<Rightarrow> string list) \<Rightarrow> 'db \<Rightarrow> directory" where
  "directory_of hashes zset db =
     \<lparr>attrs = (\<lambda>k. hashes db (make_key_node k)),
      members = (\<lambda>k. set (zset db (make_key_list k))),
      typed_files = (\<lambda>k t. set (zset db (types_key k t)))\<rparr>"

section \<open>The keys\<close>

text \<open>Keys are compared by their last part.\<close>

lemma last_part:
  assumes "x @ '':'' @ a = y @ '':'' @ b" "CHR '':'' \<notin> set a" "CHR '':'' \<notin> set b"
  shows "a = b \<and> x = y"
proof -
  have part: "takeWhile ((\<noteq>) CHR '':'') (rev (z @ '':'' @ c)) = rev c" if "CHR '':'' \<notin> set c" for z c
    using that by (auto simp: takeWhile_append2 takeWhile_tail)
  have "rev a = rev b" using assms part [of a x] part [of b y] by simp
  with assms(1) show ?thesis by simp
qed

lemma type_name_no_colon [simp]: "CHR '':'' \<notin> set (type_name t)"
  by (cases t) simp_all

lemma type_name_inj [simp]: "type_name t = type_name u \<longleftrightarrow> t = u"
  by (metis NodeType_parse_type_name)

lemma type_name_not [simp]: "type_name t \<noteq> ''list''" "type_name t \<noteq> ''node''"
  by (cases t; simp)+

lemma types_key_inj [simp]: "types_key k t = types_key j u \<longleftrightarrow> k = j \<and> t = u"
proof
  assume "types_key k t = types_key j u"
  then have "type_name t = type_name u \<and> ''fs:'' @ k @ '':types'' = ''fs:'' @ j @ '':types''"
    by (intro last_part) (simp_all add: types_key_def)
  then show "k = j \<and> t = u" by simp
qed simp

lemma types_key_not_list [simp]: "types_key k t \<noteq> make_key_list j" "make_key_list j \<noteq> types_key k t"
  using last_part [of "''fs:'' @ k @ '':types''" "type_name t" "''fs:'' @ j" "''list''"]
  by (auto simp: types_key_def make_key_list_eq)

lemma types_key_not_node: "types_key k t \<noteq> make_key_node j"
  using last_part [of "''fs:'' @ k @ '':types''" "type_name t" "''fs:'' @ j" "''node''"]
  by (auto simp: types_key_def make_key_node_eq)

lemma make_key_types_key: "make_key_types k t = Inr (types_key k t)"
  by (simp add: make_key_types_eq types_key_def)

section \<open>The refinement\<close>

locale redis_server =
  fixes R :: "'db redis"
    and hashes :: "'db \<Rightarrow> string \<Rightarrow> string \<rightharpoonup> string"
    and zset :: "'db \<Rightarrow> string \<Rightarrow> string list"
  assumes hash_law: "hash_law R hashes"
    and zset_law: "zset_law R zset"
    and frame_law: "frame_law R hashes zset"
begin

lemma hmset: "ps \<noteq> [] \<Longrightarrow> hashes (run_command R (redis_HMSET # k # push_pairs ps) db) j =
    (if j = k then hashes db k ++ map_of (rev ps) else hashes db j)"
  using hash_law by (simp add: hash_law_iff)

lemma hget: "sync_str R db [redis_HGET, k, f] = hashes db k f"
  using hash_law by (simp add: hash_law_iff)

lemma hgetall: "\<exists>ps. sync_vec R db [redis_HGETALL, k] = Some (push_pairs ps)
    \<and> distinct (map fst ps) \<and> map_of ps = hashes db k"
  using hash_law by (simp add: hash_law_iff)

lemma frame:
  "zset (run_command R (redis_HMSET # k # push_pairs ps) db) = zset db"
  "hashes (run_command R [redis_ZADD, k, s, m] db) = hashes db"
  "hashes (run_command R [redis_ZREM, k, m] db) = hashes db"
  "hashes (run_command R [redis_SADD, k, m] db) = hashes db"
  "zset (run_command R [redis_SADD, k, m] db) = zset db"
  "hashes (run_command R [''INCR'', k] db) = hashes db"
  "zset (run_command R [''INCR'', k] db) = zset db"
  "hashes (redox_set R k v db) = hashes db"
  "zset (redox_set R k v db) = zset db"
  using frame_law by (simp_all add: frame_law_def alternate_push_pairs)

lemmas run_effects = hmset frame zset_laws [OF zset_law]

lemma save_effect:
  assumes "m \<noteq> []" "sorted_keys m"
  shows "directory_of hashes zset (data_save R k m db) = spec_op E (Save_node k m) (directory_of hashes zset db)"
proof -
  have "map_of (rev m) = map_of m"
    using assms(2) by (simp add: map_of_rev_distinct sorted_keys_def strict_sorted_iff)
  with assms(1) show ?thesis
    by (auto simp: directory_of_def data_save_def run_effects intro!: ext)
qed

lemma set_effect:
  "directory_of hashes zset (data_set R k p v db) = spec_op E (Set_attr k p v) (directory_of hashes zset db)"
  using hmset [of "[(p, v)]" "make_key_node k" db] frame(1) [of "make_key_node k" "[(p, v)]" db]
  by (simp add: directory_of_def data_set_def fun_eq_iff)

lemma exec_op_refines:
  assumes "wf_op op"
  shows "\<exists>db'. exec_op E R op db = Inr db'
    \<and> directory_of hashes zset db' = spec_op E op (directory_of hashes zset db)"
proof (cases op)
  case (Set_attr k p v)
  then show ?thesis using set_effect by simp
next
  case (Save_node k m)
  then show ?thesis using save_effect assms by simp
qed (auto simp: directory_of_def fun_eq_iff add_types_def rem_types_def add_nodes_def rem_nodes_def
    add_nodes_parent_def rem_nodes_parent_def incr_mime_def data_config_store_def
    make_key_list_type_eq make_key_types_key run_effects)

lemma exec_ops_refines:
  assumes "list_all wf_op ops"
  shows "\<exists>db'. exec_ops E R ops db = Inr db'
    \<and> directory_of hashes zset db' = foldl (\<lambda>d op. spec_op E op d) (directory_of hashes zset db) ops"
  using assms
proof (induction ops arbitrary: db)
  case (Cons op ops)
  obtain db1 where "exec_op E R op db = Inr db1"
      "directory_of hashes zset db1 = spec_op E op (directory_of hashes zset db)"
    using exec_op_refines [of op E db] Cons.prems by auto
  with Cons.IH [of db1] Cons.prems show ?case by simp
qed simp

lemma reads:
  "data_get R db k p = (case attrs (directory_of hashes zset db) k p of Some v \<Rightarrow> v | None \<Rightarrow> [])"
  "children_count R db k = int (card (members (directory_of hashes zset db) k))"
  "files_count R db k t = Inr (int (card (typed_files (directory_of hashes zset db) k t)))"
proof -
  have "length (zset db x) = card (set (zset db x))" for x
    using zset_law by (simp add: zset_law_def distinct_card)
  then show "children_count R db k = int (card (members (directory_of hashes zset db) k))"
    "files_count R db k t = Inr (int (card (typed_files (directory_of hashes zset db) k t)))"
    by (simp_all add: children_count_def files_count_def directory_of_def make_key_types_key
        zcard_reply [OF zset_law])
qed (simp add: data_get_def directory_of_def hget)

lemma reads_node:
  "\<exists>m. data_node R db k = Inr m \<and> sorted_keys m \<and> map_find m = attrs (directory_of hashes zset db) k"
proof -
  obtain ps where ps: "sync_vec R db [redis_HGETALL, make_key_node k] = Some (push_pairs ps)"
    "distinct (map fst ps)" "map_of ps = hashes db (make_key_node k)"
    using hgetall by blast
  let ?m = "foldl (\<lambda>m (k, v). map_set m k v) [] ps"
  have "map_find ?m = map_of ps"
    using smap.find_puts [of "[]" ps] ps(2)
    by (auto simp: fun_eq_iff map_find_def map_of_rev_distinct split: option.splits)
  with ps smap.inv_puts [of "[]" ps] show ?thesis
    by (auto simp: data_node_def to_map_push_pairs directory_of_def)
qed

end

text \<open>The database of the theory \<open>Reference\<close> is such a server.\<close>

lemma ref_frame_law: "frame_law ref_redis ref_hashes ref_zset"
  by (auto simp: frame_law_def ref_redis_def ref_hashes_def ref_zset_def ref_run_def fun_eq_iff)

interpretation ref_server: redis_server ref_redis ref_hashes ref_zset
  by unfold_locales (rule ref_hash_law ref_zset_law ref_frame_law)+



end
