(* ===== verification/Utils.thy ===== *)
theory Utils
  imports Environment Std_Map
begin

text \<open>
  The rest of \<^verbatim>\<open>src/src/_utils.h\<close>: the names of the UPnP protocol, the text of an SSDP message
  (\<open>create_header\<close>), SSDP responses and events, and the SOAP envelope of a browse response.
\<close>

section \<open>Names\<close>

abbreviation LOGGER :: string where "LOGGER \<equiv> ''upnp''"
abbreviation NS_ROOT :: string where "NS_ROOT \<equiv> ''root''"
abbreviation NS_ROOT_DEVICE :: string where "NS_ROOT_DEVICE \<equiv> ''upnp:rootdevice''"
abbreviation NS_MEDIASERVER :: string where "NS_MEDIASERVER \<equiv> ''urn:schemas-upnp-org:device:MediaServer:1''"
abbreviation NS_CONTENT_DIRECTORY :: string where "NS_CONTENT_DIRECTORY \<equiv> ''urn:schemas-upnp-org:service:ContentDirectory:1''"
abbreviation NS_CONNECTION_MANAGER :: string where "NS_CONNECTION_MANAGER \<equiv> ''urn:schemas-upnp-org:service:ConnectionManager:1''"
abbreviation NS_MEDIA_RECEIVER_REGISTRAR :: string where "NS_MEDIA_RECEIVER_REGISTRAR \<equiv> ''urn:microsoft.com:service:X_MS_MediaReceiverRegistrar:1''"
abbreviation OBJECT_ID :: string where "OBJECT_ID \<equiv> ''ObjectID''"
abbreviation BROWSE_FLAG :: string where "BROWSE_FLAG \<equiv> ''BrowseFlag''"
abbreviation BROWSE_METADATA :: string where "BROWSE_METADATA \<equiv> ''BrowseMetadata''"
abbreviation BROWSE_DIRECT_CHILDREN :: string where "BROWSE_DIRECT_CHILDREN \<equiv> ''BrowseDirectChildren''"
abbreviation BROWSE_RESPONSE :: string where "BROWSE_RESPONSE \<equiv> ''BrowseResponse''"
abbreviation DIDL_ROOT_NODE :: string where "DIDL_ROOT_NODE \<equiv> ''DIDL-Lite''"
abbreviation DIDL_ELEMENT_CONTAINER :: string where "DIDL_ELEMENT_CONTAINER \<equiv> ''container''"
abbreviation DIDL_ELEMENT_ITEM :: string where "DIDL_ELEMENT_ITEM \<equiv> ''item''"
abbreviation DIDL_ELEMENT_CLASS :: string where "DIDL_ELEMENT_CLASS \<equiv> ''class''"
abbreviation DIDL_ELEMENT_TITLE :: string where "DIDL_ELEMENT_TITLE \<equiv> ''title''"
abbreviation DIDL_ATTRIBUTE_ID :: string where "DIDL_ATTRIBUTE_ID \<equiv> ''id''"
abbreviation DIDL_ATTRIBUTE_PARENT_ID :: string where "DIDL_ATTRIBUTE_PARENT_ID \<equiv> ''parentID''"
abbreviation DIDL_ATTRIBUTE_RESTRICTED :: string where "DIDL_ATTRIBUTE_RESTRICTED \<equiv> ''restricted''"
abbreviation DIDL_ATTRIBUTE_CHILD_COUNT :: string where "DIDL_ATTRIBUTE_CHILD_COUNT \<equiv> ''childCount''"
abbreviation DIDL_ALBUM_ART_URI :: string where "DIDL_ALBUM_ART_URI \<equiv> ''albumArtURI''"
abbreviation XML_NS_DIDL :: string where "XML_NS_DIDL \<equiv> ''urn:schemas-upnp-org:metadata-1-0/DIDL-Lite/''"
abbreviation XML_NS_PURL :: string where "XML_NS_PURL \<equiv> ''http://purl.org/dc/elements/1.1/''"
abbreviation XML_NS_DLNA :: string where "XML_NS_DLNA \<equiv> ''urn:schemas-dlna-org:metadata-1-0/''"
abbreviation XML_NS_DLNA_METADATA :: string where "XML_NS_DLNA_METADATA \<equiv> ''urn:schemas-dlna-org:metadata-1-0/''"
abbreviation XML_NS_PV :: string where "XML_NS_PV \<equiv> ''http://www.pv.com/pvns/''"
abbreviation XML_NS_UPNP :: string where "XML_NS_UPNP \<equiv> ''urn:schemas-upnp-org:metadata-1-0/upnp/''"
abbreviation NUMBER_RESULT :: string where "NUMBER_RESULT \<equiv> ''NumberReturned''"
abbreviation TOTAL_MATCHES :: string where "TOTAL_MATCHES \<equiv> ''TotalMatches''"
abbreviation UPDATE_ID :: string where "UPDATE_ID \<equiv> ''UpdateID''"

definition uname :: "env \<Rightarrow> string" where
  "uname E = uts_sysname E @ ''/'' @ uts_version E"

section \<open>SSDP messages\<close>

record SsdpResponse =
  ssdp_status :: http_status
  ssdp_request_line :: string
  ssdp_headers :: std_map

definition CRLF :: string where
  "CRLF = [CHR 0x0D, CHR 0x0A]"

fun header_lines :: "std_map \<Rightarrow> string" where
  "header_lines [] = []"
| "header_lines ((k, v) # hs) = k @ '': '' @ v @ CRLF @ header_lines hs"

definition create_header :: "string \<Rightarrow> std_map \<Rightarrow> string" where
  "create_header request_line headers = request_line @ CRLF @ header_lines headers @ CRLF"

record SsdpEvent =
  ev_host :: string
  ev_location :: string
  ev_nt :: string
  ev_nts :: string
  ev_server :: string
  ev_usn :: string
  ev_last_seen :: int
  ev_cache_control :: int

definition SsdpEvent_json :: "SsdpEvent \<Rightarrow> string" where
  \<open>SsdpEvent_json e =
     ''{"host":"'' @ ev_host e @ ''","location":"'' @ ev_location e @ ''","nt":"'' @ ev_nt e @ ''",'' @
     ''"nts":"'' @ ev_nts e @ ''","server":"'' @ ev_server e @ ''","usn":"'' @ ev_usn e @ ''",'' @
     ''"last_seen":'' @ to_string (ev_last_seen e) @ '',"cache_control":'' @ to_string (ev_cache_control e) @ ''}''\<close>

section \<open>The SOAP envelope\<close>

definition soap_envelope_build :: "string \<Rightarrow> int \<Rightarrow> int \<Rightarrow> (xnode, unit) act" where
  "soap_envelope_build body results totals =
     andthen (element [] ''s:Envelope'' []) (\<lambda>root_n.
     seq (attr root_n ''xmlns:s'' ''http://schemas.xmlsoap.org/soap/envelope/'') (
     seq (attr root_n ''xmlns:xsi'' ''http://www.w3.org/2001/XMLSchema-instance'') (
     seq (attr root_n ''s:encodingStyle'' ''http://schemas.xmlsoap.org/soap/encoding/'') (
     andthen (element root_n ''s:Body'' []) (\<lambda>body_n.
     andthen (element body_n ''u:BrowseResponse'' []) (\<lambda>browseResponse_n.
     seq (attr browseResponse_n ''xmlns:u'' NS_CONTENT_DIRECTORY) (
     andthen (element browseResponse_n ''Result'' body) (\<lambda>result_n.
     seq (attr result_n ''xsi:type'' ''xsd:string'') (
     andthen (element browseResponse_n NUMBER_RESULT (to_string results)) (\<lambda>number_result_n.
     seq (attr number_result_n ''xsi:type'' ''xsd:int'') (
     andthen (element browseResponse_n TOTAL_MATCHES (to_string totals)) (\<lambda>total_n.
     seq (attr total_n ''xsi:type'' ''xsd:int'') (
     andthen (element browseResponse_n UPDATE_ID ''1'') (\<lambda>update_id_n.
     attr update_id_n ''xsi:type'' ''xsd:int''))))))))))))))"

definition soap_envelope_doc :: "string \<Rightarrow> int \<Rightarrow> int \<Rightarrow> xnode" where
  "soap_envelope_doc body results totals = snd (soap_envelope_build body results totals new_document)"

definition XML_DECL :: string where
  \<open>XML_DECL = ''<?xml version="1.0"?>'' @ [CHR 0x0A]\<close>

definition soap_envelope :: "env \<Rightarrow> string \<Rightarrow> int \<Rightarrow> int \<Rightarrow> string" where
  "soap_envelope E body results totals = XML_DECL @ xml_print E (soap_envelope_doc body results totals)"

section \<open>Lemmas\<close>

text \<open>the envelope.  It has exactly one browse response, whose four fields are the given document
  as a string, the number of results, the total, and the constant update id, in this order.
\<close>

theorem soap_envelope_shape:
  "soap_envelope_doc body results totals =
     XNode [] [] []
       [XNode ''s:Envelope'' []
          [(''xmlns:s'', ''http://schemas.xmlsoap.org/soap/envelope/''),
           (''xmlns:xsi'', ''http://www.w3.org/2001/XMLSchema-instance''),
           (''s:encodingStyle'', ''http://schemas.xmlsoap.org/soap/encoding/'')]
          [XNode ''s:Body'' [] []
             [XNode ''u:BrowseResponse'' [] [(''xmlns:u'', NS_CONTENT_DIRECTORY)]
                [XNode ''Result'' (c_str body) [(''xsi:type'', ''xsd:string'')] [],
                 XNode ''NumberReturned'' (to_string results) [(''xsi:type'', ''xsd:int'')] [],
                 XNode ''TotalMatches'' (to_string totals) [(''xsi:type'', ''xsd:int'')] [],
                 XNode ''UpdateID'' ''1'' [(''xsi:type'', ''xsd:int'')] []]]]]"
  by (simp add: soap_envelope_doc_def soap_envelope_build_def build_run)

subsection \<open>Reading an SSDP message back\<close>

text \<open>
  The reader an SSDP peer applies: lines end at CRLF, the first is the request line, an empty line
  ends the message, and every other line is a name and a value around the first colon and space.
\<close>

fun take_line :: "string \<Rightarrow> (string \<times> string) option" where
  "take_line (c # d # s) =
     (if c = CHR 0x0D \<and> d = CHR 0x0A then Some ([], s)
      else map_option (\<lambda>(l, r). (c # l, r)) (take_line (d # s)))"
| "take_line _ = None"

fun take_name :: "string \<Rightarrow> (string \<times> string) option" where
  "take_name (c # d # s) =
     (if c = CHR '':'' \<and> d = CHR '' '' then Some ([], s)
      else map_option (\<lambda>(l, r). (c # l, r)) (take_name (d # s)))"
| "take_name _ = None"

lemma take_line_length: "take_line s = Some (l, r) \<Longrightarrow> length r < length s"
  by (induction s arbitrary: l rule: take_line.induct) (auto split: if_splits)

function read_headers :: "string \<Rightarrow> (string \<times> string) list option" where
  "read_headers s =
     (case take_line s of
        None \<Rightarrow> None
      | Some (l, r) \<Rightarrow>
          if l = [] then (if r = [] then Some [] else None)
          else (case take_name l of
                  None \<Rightarrow> None
                | Some kv \<Rightarrow> map_option (Cons kv) (read_headers r)))"
  by pat_completeness auto
termination
  by (relation "measure length") (auto simp: take_line_length)

declare read_headers.simps [simp del]

definition read_message :: "string \<Rightarrow> (string \<times> (string \<times> string) list) option" where
  "read_message s =
     (case take_line s of
        None \<Rightarrow> None
      | Some (l, r) \<Rightarrow> map_option (Pair l) (read_headers r))"

text \<open>Text that stays on one line, and header names.\<close>

definition one_line :: "string \<Rightarrow> bool" where
  "one_line s \<longleftrightarrow> CHR 0x0D \<notin> set s"

definition header_name :: "string \<Rightarrow> bool" where
  "header_name s \<longleftrightarrow> one_line s \<and> CHR '':'' \<notin> set s"

lemma take_line_CRLF: "one_line l \<Longrightarrow> take_line (l @ CRLF @ r) = Some (l, r)"
proof (induction l)
  case Nil
  then show ?case by (simp add: CRLF_def)
next
  case (Cons c l)
  then have "c \<noteq> CHR 0x0D" "take_line (l @ CRLF @ r) = Some (l, r)"
    by (auto simp: one_line_def)
  then show ?case by (cases l) (simp_all add: CRLF_def)
qed

lemma take_name_colon: "CHR '':'' \<notin> set k \<Longrightarrow> take_name (k @ '': '' @ v) = Some (k, v)"
proof (induction k)
  case Nil
  then show ?case by simp
next
  case (Cons c k)
  then have "c \<noteq> CHR '':''" "take_name (k @ '': '' @ v) = Some (k, v)" by auto
  then show ?case by (cases k) simp_all
qed

lemma read_headers_lines:
  "(\<forall>(k, v) \<in> set hs. header_name k \<and> one_line v) \<Longrightarrow> read_headers (header_lines hs @ CRLF) = Some hs"
proof (induction hs rule: header_lines.induct)
  case 1
  then show ?case
    using take_line_CRLF [of "[]" "[]"] by (simp add: read_headers.simps [of CRLF] one_line_def)
next
  case (2 k v hs)
  let ?l = "k @ '': '' @ v"
  have "one_line ?l" using "2.prems" by (auto simp: one_line_def header_name_def)
  then have "take_line (?l @ CRLF @ header_lines hs @ CRLF) = Some (?l, header_lines hs @ CRLF)"
    by (rule take_line_CRLF)
  moreover have "take_name ?l = Some (k, v)"
    using "2.prems" by (intro take_name_colon) (simp add: header_name_def)
  moreover have "read_headers (header_lines hs @ CRLF) = Some hs"
    using "2.prems" by (intro "2.IH") simp
  ultimately show ?case
    by (simp add: read_headers.simps [of "k @ _"])
qed

lemma read_created:
  assumes "one_line request_line" "\<forall>(k, v) \<in> set headers. header_name k \<and> one_line v"
  shows "read_message (create_header request_line headers) = Some (request_line, headers)"
  using take_line_CRLF [OF assms(1)] read_headers_lines [OF assms(2)]
  by (simp add: read_message_def create_header_def)

text \<open>an SSDP message is read back as it was composed: the request line and exactly the headers, in
  order, provided none of the parts contains a line break and no header name a colon.  So no header
  value can add or hide a header.
\<close>

theorem create_header_read_back:
  assumes "one_line request_line" "\<forall>(k, v) \<in> set headers. header_name k \<and> one_line v"
  shows "read_message (create_header request_line headers) = Some (request_line, headers)"
  using assms by (rule read_created)

end
