(* ===== verification/Config.thy ===== *)
theory Config
  imports Environment
begin

text \<open>
  \<^verbatim>\<open>src/src/config.h\<close>: the configuration record, its completion with defaults (\<open>validate\<close>, which asks
  the network interfaces for an address), and its JSON form, which is how the two processes that use
  the database exchange it.
\<close>

record Config =
  listen_address :: string
  http_port :: string
  multicast_address :: string
  multicast_port :: string
  config_name :: string
  cds_uri :: string
  uuid :: string

definition new_Config :: Config where
  "new_Config = \<lparr>listen_address = [], http_port = [], multicast_address = [], multicast_port = [],
                 config_name = [], cds_uri = [], uuid = []\<rparr>"

section \<open>The interface address\<close>

text \<open>
  An entry of \<^verbatim>\<open>getifaddrs\<close>: its name and its address, which may be missing; an address is of the
  family \<^verbatim>\<open>AF_INET\<close> or not, and comes with its text (\<^verbatim>\<open>inet_ntop\<close>).
\<close>

record ifaddr =
  ifa_name :: string
  ifa_addr :: "(bool \<times> string) option"

fun get_ip_loop :: "string \<Rightarrow> ifaddr list \<Rightarrow> string res" where
  "get_ip_loop ip [] = Inr ip"
| "get_ip_loop ip (ifa # ifas) =
     (case ifa_addr ifa of
        None \<Rightarrow> Inl Null_deref
      | Some (is_inet, address_buffer) \<Rightarrow>
          get_ip_loop (if is_inet \<and> ifa_name ifa \<noteq> ''lo'' then address_buffer else ip) ifas)"

definition get_ip :: "ifaddr list \<Rightarrow> string res" where
  "get_ip ifas = get_ip_loop ''127.0.0.1'' ifas"

section \<open>Defaults\<close>

definition validate :: "env \<Rightarrow> ifaddr list \<Rightarrow> Config \<Rightarrow> (bool \<times> Config) res" where
  "validate E ifas c =
    (let c = (if http_port c = [] then c\<lparr>http_port := ''9003''\<rparr> else c);
         c = (if multicast_address c = [] then c\<lparr>multicast_address := ''239.255.255.250''\<rparr> else c);
         c = (if multicast_port c = [] then c\<lparr>multicast_port := ''1900''\<rparr> else c)
     in res_bind (if listen_address c = []
                  then res_bind (get_ip ifas) (\<lambda>ip. Inr (c\<lparr>listen_address := ip\<rparr>)) else Inr c) (\<lambda>c.
       let c = (if config_name c = []
                then c\<lparr>config_name := format E ''Squawk Media Server: {}'' [''1.0'']\<rparr> else c);
           c = (if cds_uri c = [] then c\<lparr>cds_uri := []\<rparr> else c);
           c = (if uuid c = [] then c\<lparr>uuid := ''7499a4b3-8c03-49a2-9bce-aebbf4512dc8''\<rparr> else c)
       in Inr (True, c)))"

section \<open>JSON\<close>

abbreviation CONFIG_HTTP_PORT :: string where "CONFIG_HTTP_PORT \<equiv> ''http_port''"
abbreviation CONFIG_MULTICAST_ADDRESS :: string where "CONFIG_MULTICAST_ADDRESS \<equiv> ''multicast_address''"
abbreviation CONFIG_MULTICAST_PORT :: string where "CONFIG_MULTICAST_PORT \<equiv> ''multicast_port''"
abbreviation CONFIG_LISTEN_ADDRESS :: string where "CONFIG_LISTEN_ADDRESS \<equiv> ''listen_address''"
abbreviation CONFIG_DISPLAY_NAME :: string where "CONFIG_DISPLAY_NAME \<equiv> ''name''"
abbreviation CONFIG_CDS_URI :: string where "CONFIG_CDS_URI \<equiv> ''cds_uri''"
abbreviation CONFIG_UUID :: string where "CONFIG_UUID \<equiv> ''uuid''"

definition json_of_Config :: "env \<Rightarrow> Config \<Rightarrow> string" where
  "json_of_Config E c = c_str (json_write E
     [(CONFIG_HTTP_PORT, c_str (http_port c)),
      (CONFIG_MULTICAST_ADDRESS, c_str (multicast_address c)),
      (CONFIG_MULTICAST_PORT, c_str (multicast_port c)),
      (CONFIG_LISTEN_ADDRESS, c_str (listen_address c)),
      (CONFIG_DISPLAY_NAME, c_str (config_name c)),
      (CONFIG_CDS_URI, c_str (cds_uri c)),
      (CONFIG_UUID, c_str (uuid c))])"

text \<open>\<open>document.HasMember(k) && document[k].IsString()\<close> guards every assignment.\<close>

definition read_member :: "(string \<Rightarrow> json_value option) \<Rightarrow> string \<Rightarrow> string \<Rightarrow> string" where
  "read_member doc k old = (case doc k of Some (JString s) \<Rightarrow> c_str s | _ \<Rightarrow> old)"

text \<open>\<open>HasMember\<close> asserts that the document is an object.\<close>

definition Config_of_json :: "env \<Rightarrow> string \<Rightarrow> Config res" where
  "Config_of_json E config =
     (case json_parse E (c_str config) of
        None \<Rightarrow> Inl Assertion
      | Some document \<Rightarrow>
          let c = new_Config;
              c = c\<lparr>http_port := read_member document CONFIG_HTTP_PORT (http_port c)\<rparr>;
              c = c\<lparr>multicast_address := read_member document CONFIG_MULTICAST_ADDRESS (multicast_address c)\<rparr>;
              c = c\<lparr>multicast_port := read_member document CONFIG_MULTICAST_PORT (multicast_port c)\<rparr>;
              c = c\<lparr>listen_address := read_member document CONFIG_LISTEN_ADDRESS (listen_address c)\<rparr>;
              c = c\<lparr>config_name := read_member document CONFIG_DISPLAY_NAME (config_name c)\<rparr>;
              c = c\<lparr>cds_uri := read_member document CONFIG_CDS_URI (cds_uri c)\<rparr>;
              c = c\<lparr>uuid := read_member document CONFIG_UUID (uuid c)\<rparr>
          in Inr c)"

section \<open>Lemmas\<close>

text \<open>The IPv4 addresses of the interfaces other than the loopback, in the order of the list.\<close>

fun outer_ip :: "ifaddr \<Rightarrow> string list" where
  "outer_ip ifa =
     (case ifa_addr ifa of
        Some (is_inet, a) \<Rightarrow> if is_inet \<and> ifa_name ifa \<noteq> ''lo'' then [a] else []
      | None \<Rightarrow> [])"

definition outer_ips :: "ifaddr list \<Rightarrow> string list" where
  "outer_ips ifas = List.concat (map outer_ip ifas)"

lemma get_ip_loop_eq:
  "get_ip_loop ip ifas =
     (if list_ex (\<lambda>ifa. ifa_addr ifa = None) ifas then Inl Null_deref
      else Inr (last (ip # outer_ips ifas)))"
proof (induction ifas arbitrary: ip)
  case (Cons ifa ifas)
  then show ?case by (cases "ifa_addr ifa") (auto simp: outer_ips_def)
qed (simp add: outer_ips_def)

lemma outer_ips_mem: "a \<in> set (outer_ips ifas) \<Longrightarrow> \<exists>ifa \<in> set ifas. ifa_addr ifa = Some (True, a)"
  by (fastforce simp: outer_ips_def split: option.splits if_splits)

text \<open>The last of them is the answer, the loopback address without any.\<close>

lemma get_ip_eq:
  "get_ip ifas =
     (if list_ex (\<lambda>ifa. ifa_addr ifa = None) ifas then Inl Null_deref
      else Inr (last (''127.0.0.1'' # outer_ips ifas)))"
  by (simp add: get_ip_def get_ip_loop_eq)

text \<open>A field that holds a value keeps it; an empty one gets its default.\<close>

definition default :: "string \<Rightarrow> string \<Rightarrow> string" where
  "default d s = (if s = [] then d else s)"

lemma default_simps [simp]:
  "d \<noteq> [] \<Longrightarrow> default d s \<noteq> []"
  "s \<noteq> [] \<Longrightarrow> default d s = s"
  by (simp_all add: default_def)

lemma set_default:
  "(if http_port c = [] then c\<lparr>http_port := d\<rparr> else c) = c\<lparr>http_port := default d (http_port c)\<rparr>"
  "(if multicast_address c = [] then c\<lparr>multicast_address := d\<rparr> else c) = c\<lparr>multicast_address := default d (multicast_address c)\<rparr>"
  "(if multicast_port c = [] then c\<lparr>multicast_port := d\<rparr> else c) = c\<lparr>multicast_port := default d (multicast_port c)\<rparr>"
  "(if config_name c = [] then c\<lparr>config_name := d\<rparr> else c) = c\<lparr>config_name := default d (config_name c)\<rparr>"
  "(if cds_uri c = [] then c\<lparr>cds_uri := d\<rparr> else c) = c\<lparr>cds_uri := default d (cds_uri c)\<rparr>"
  "(if uuid c = [] then c\<lparr>uuid := d\<rparr> else c) = c\<lparr>uuid := default d (uuid c)\<rparr>"
  by (simp_all add: default_def)

lemma default_Nil [simp]: "default [] s = s" "default d [] = d"
  by (simp_all add: default_def)

lemma validate_eq:
  "validate E ifas c =
     (if listen_address c = [] \<and> list_ex (\<lambda>ifa. ifa_addr ifa = None) ifas then Inl Null_deref
      else Inr (True, \<lparr>listen_address = default (last (''127.0.0.1'' # outer_ips ifas)) (listen_address c),
                       http_port = default ''9003'' (http_port c),
                       multicast_address = default ''239.255.255.250'' (multicast_address c),
                       multicast_port = default ''1900'' (multicast_port c),
                       config_name = default (format E ''Squawk Media Server: {}'' [''1.0'']) (config_name c),
                       cds_uri = cds_uri c,
                       uuid = default ''7499a4b3-8c03-49a2-9bce-aebbf4512dc8'' (uuid c)\<rparr>))"
  unfolding validate_def set_default Let_def
  by (cases c; cases "listen_address c = []"; cases "list_ex (\<lambda>ifa. ifa_addr ifa = None) ifas")
    (simp_all add: get_ip_eq)

lemma validate_complete:
  assumes "validate E ifas c = Inr (b, c')"
    and "fmt_law E" and "\<forall>ifa \<in> set ifas. \<forall>x. ifa_addr ifa \<noteq> Some (True, x) \<or> x \<noteq> []"
  shows "b \<and> (\<forall>f \<in> {http_port, multicast_address, multicast_port, listen_address, config_name, uuid}.
              f c' \<noteq> [] \<and> (f c \<noteq> [] \<longrightarrow> f c' = f c))
           \<and> cds_uri c' = cds_uri c \<and> validate E ifas' c' = Inr (True, c')"
proof -
  have ips: "last (''127.0.0.1'' # outer_ips ifas) \<noteq> []"
  proof (cases "outer_ips ifas = []")
    case False
    then have "last (outer_ips ifas) \<in> set (outer_ips ifas)" by simp
    with assms(3) have "last (outer_ips ifas) \<noteq> []"
      by (metis outer_ips_mem)
    with False show ?thesis by simp
  qed simp
  have name: "format E ''Squawk Media Server: {}'' [''1.0''] = ''Squawk Media Server: 1.0''"
    by (rule fmt_lawD [OF assms(2)]) simp
  from assms(1) have b: "b"
    and c': "c' = \<lparr>listen_address = default (last (''127.0.0.1'' # outer_ips ifas)) (listen_address c),
                  http_port = default ''9003'' (http_port c),
                  multicast_address = default ''239.255.255.250'' (multicast_address c),
                  multicast_port = default ''1900'' (multicast_port c),
                  config_name = default ''Squawk Media Server: 1.0'' (config_name c),
                  cds_uri = cds_uri c,
                  uuid = default ''7499a4b3-8c03-49a2-9bce-aebbf4512dc8'' (uuid c)\<rparr>"
    by (simp_all only: validate_eq name split: if_splits) simp_all
  with ips show ?thesis by (simp add: validate_eq)
qed


lemma json_reads:
  assumes "json_law E"
  shows "Config_of_json E (json_of_Config E c) =
           Inr \<lparr>listen_address = c_str (listen_address c), http_port = c_str (http_port c),
                multicast_address = c_str (multicast_address c), multicast_port = c_str (multicast_port c),
                config_name = c_str (config_name c), cds_uri = c_str (cds_uri c), uuid = c_str (uuid c)\<rparr>"
proof -
  let ?ps = "[(CONFIG_HTTP_PORT, c_str (http_port c)),
      (CONFIG_MULTICAST_ADDRESS, c_str (multicast_address c)),
      (CONFIG_MULTICAST_PORT, c_str (multicast_port c)),
      (CONFIG_LISTEN_ADDRESS, c_str (listen_address c)),
      (CONFIG_DISPLAY_NAME, c_str (config_name c)),
      (CONFIG_CDS_URI, c_str (cds_uri c)),
      (CONFIG_UUID, c_str (uuid c))]"
  have "distinct (map fst ?ps)" "\<forall>(k, v) \<in> set ?ps. nul_free k \<and> nul_free v" by simp_all
  with assms have "json_parse E (c_str (json_write E ?ps)) = Some (\<lambda>k. map_option JString (map_of ?ps k))"
    unfolding json_law_def by blast
  then show ?thesis
    by (simp add: Config_of_json_def json_of_Config_def read_member_def new_Config_def)
qed

text \<open>the JSON form of a configuration is read back field by field, each as the C string the
  writer was given.
\<close>

theorem json_round_trip:
  assumes "json_law E"
  shows "Config_of_json E (json_of_Config E c) =
           Inr \<lparr>listen_address = c_str (listen_address c), http_port = c_str (http_port c),
                multicast_address = c_str (multicast_address c), multicast_port = c_str (multicast_port c),
                config_name = c_str (config_name c), cds_uri = c_str (cds_uri c), uuid = c_str (uuid c)\<rparr>"
  using assms by (rule json_reads)

end
