(* ===== verification/Didl.thy ===== *)
theory Didl
  imports Datastore Utils Config
begin

text \<open>
  \<^verbatim>\<open>src/src/didl.h\<close> and \<^verbatim>\<open>src/src/didl.cpp\<close>: the DIDL-Lite document of a browse response.  A \<open>Didl\<close> object holds
  the document under construction and the number of entries written; \<open>write\<close> adds the entry of one node.
  The code works with pointers into the document; a theorem below shows that what it builds
  is the entry \<open>didl_entry\<close>, a function of the node's attributes.
\<close>

section \<open>The model of the code\<close>

record Didl =
  didl_doc :: xnode
  didl_result :: int

definition CLASS_NAMES :: "string list" where
  "CLASS_NAMES =
    [''object.container.storageFolder'', ''object.item.audioItem.musicTrack'', ''object.item.movie'',
     ''object.container.series'', ''object.item.photo'', ''object.item'', ''object.item'',
     ''object.container.album.musicAlbum'', ''object.item.photo'', ''object.item.movie'',
     ''object.container'']"

definition CLASS_CONTAINER :: "NodeType list" where
  "CLASS_CONTAINER = [album, artist, folder, serie]"

text \<open>The constructor makes the root node; the member \<open>root_node_\<close> points to it.\<close>

definition root_node :: node_ptr where
  "root_node = [0]"

definition Didl_build :: "(xnode, unit) act" where
  "Didl_build =
     andthen (element [] DIDL_ROOT_NODE []) (\<lambda>root_node.
     seq (attr root_node ''xmlns'' XML_NS_DIDL) (
     seq (attr root_node ''xmlns:dc'' XML_NS_PURL) (
     seq (attr root_node ''xmlns:dlna'' XML_NS_DLNA) (
     seq (attr root_node ''xmlns:upnp'' XML_NS_UPNP) (
     attr root_node ''xmlns:pv'' XML_NS_PV)))))"

definition new_Didl :: Didl where
  "new_Didl = \<lparr>didl_doc = snd (Didl_build new_document), didl_result = 0\<rparr>"

text \<open>
  The two recurring guards: when the attribute is present, append its value as an element, or as an
  attribute of an element.
\<close>

definition element_if :: "node_ptr \<Rightarrow> std_map \<Rightarrow> string \<Rightarrow> string \<Rightarrow> (xnode, unit) act" where
  "element_if p values k nm =
     (if map_contains values k
      then andthen (lift_res (map_at values k)) (\<lambda>v. andthen (element p nm v) (\<lambda>_. ret ()))
      else ret ())"

definition attr_if :: "node_ptr \<Rightarrow> std_map \<Rightarrow> string \<Rightarrow> string \<Rightarrow> (xnode, unit) act" where
  "attr_if p values k nm =
     (if map_contains values k
      then andthen (lift_res (map_at values k)) (\<lambda>v. attr p nm v)
      else ret ())"

definition write_title :: "env \<Rightarrow> node_ptr \<Rightarrow> NodeType \<Rightarrow> std_map \<Rightarrow> (xnode, unit) act" where
  "write_title E container_n t values =
     (if t = episode then
        andthen (lift_res (map_at values param_SEASON)) (\<lambda>season.
        andthen (lift_res (map_at values param_EPISODE)) (\<lambda>ep.
        andthen (lift_res (map_at values param_NAME)) (\<lambda>nm.
        andthen (element container_n ''dc:title'' (format E ''S{0}{1} {2}'' [season, ep, nm])) (\<lambda>_. ret ()))))
      else
        andthen (lift_res (map_at values param_NAME)) (\<lambda>nm.
        andthen (element container_n ''dc:title'' nm) (\<lambda>_. ret ())))"

definition write_meta :: "node_ptr \<Rightarrow> std_map \<Rightarrow> (xnode, unit) act" where
  "write_meta container_n values =
     seq (element_if container_n values param_YEAR ''dc:data'') (
     seq (element_if container_n values param_ARTIST ''upnp:artist'') (
     seq (element_if container_n values param_TRACK ''upnp:originalTrackNumber'') (
     seq (element_if container_n values param_ALBUM ''upnp:album'') (
     seq (element_if container_n values param_COMMENT ''upnp:description'') (
     seq (element_if container_n values param_YEAR ''dc:date'') (
     element_if container_n values param_GENRE ''upnp:genre''))))))"

definition write_cover ::
  "env \<Rightarrow> 'db redis \<Rightarrow> 'db \<Rightarrow> Config \<Rightarrow> node_ptr \<Rightarrow> NodeType \<Rightarrow> std_map \<Rightarrow> (xnode, unit) act" where
  "write_cover E R db config container_n t values =
     (if t = audio then
        andthen (lift_res (map_at values param_PARENT)) (\<lambda>parent.
        andthen (element container_n ''albumArtURI''
                   (format E ''{0}{1}'' [cds_uri config, data_get R db parent param_MED])) (\<lambda>cover_n.
        attr cover_n ''dlna:profileID'' ''JPEG_MED''))
      else if map_contains values param_THUMB then
        andthen (lift_res (map_at values param_THUMB)) (\<lambda>thumb.
        andthen (element container_n ''albumArtURI'' (format E ''{0}{1}'' [cds_uri config, thumb])) (\<lambda>cover_n.
        attr cover_n ''dlna:profileID'' ''JPEG_TN''))
      else ret ())"

text \<open>The \<open>res\<close> element and its protocol, with which every kind of resource begins.\<close>

definition PROTOCOL_INFO :: string where
  "PROTOCOL_INFO = ''http-get:*:{}:DLNA.ORG_OP=11;DLNA.ORG_FLAGS=01700000000000000000000000000000''"

definition begin_res :: "env \<Rightarrow> Config \<Rightarrow> node_ptr \<Rightarrow> string \<Rightarrow> std_map \<Rightarrow> (xnode, node_ptr) act" where
  "begin_res E config container_n key values =
     andthen (lift_res (map_at values ''ext'')) (\<lambda>ext.
     andthen (element container_n ''res'' (format E ''{0}/res/{1}{2}'' [cds_uri config, key, ext])) (\<lambda>res_n.
     andthen (lift_res (map_at values ''mimeType'')) (\<lambda>mime.
     seq (attr res_n ''protocolInfo'' (format E PROTOCOL_INFO [mime])) (
     ret res_n))))"

text \<open>Width and height together give the resolution; the last branch of the code does not test for them.\<close>

definition resolution :: "env \<Rightarrow> node_ptr \<Rightarrow> std_map \<Rightarrow> (xnode, unit) act" where
  "resolution E res_n values =
     andthen (lift_res (map_at values ''width'')) (\<lambda>w.
     andthen (lift_res (map_at values ''height'')) (\<lambda>h.
     attr res_n ''resolution'' (format E ''{0}x{1}'' [w, h])))"

definition resolution_if :: "env \<Rightarrow> node_ptr \<Rightarrow> std_map \<Rightarrow> (xnode, unit) act" where
  "resolution_if E res_n values =
     (if map_contains values ''width'' \<and> map_contains values ''height''
      then resolution E res_n values else ret ())"

definition write_res ::
  "env \<Rightarrow> Config \<Rightarrow> node_ptr \<Rightarrow> NodeType \<Rightarrow> string \<Rightarrow> std_map \<Rightarrow> (xnode, unit) act" where
  "write_res E config container_n t key values =
     (if t = file then
        andthen (begin_res E config container_n key values) (\<lambda>res_n.
        seq (attr_if res_n values ''size'' ''size'') (
        attr_if res_n values ''mimeType'' ''mime-type''))
      else if t = audio then
        andthen (begin_res E config container_n key values) (\<lambda>res_n.
        seq (attr_if res_n values ''size'' ''size'') (
        seq (attr_if res_n values ''mimeType'' ''mime-type'') (
        seq (attr_if res_n values ''playlength'' ''duration'') (
        seq (attr_if res_n values ''bitrate'' ''bitrate'') (
        seq (attr_if res_n values ''bps'' ''bitsPerSample'') (
        seq (attr_if res_n values ''samplerate'' ''sampleFrequency'') (
        attr_if res_n values ''channels'' ''nrAudioChannels'')))))))
      else if t = image \<or> t = cover then
        andthen (begin_res E config container_n key values) (\<lambda>res_n.
        seq (attr_if res_n values ''size'' ''size'') (
        seq (attr_if res_n values ''mimeType'' ''mime-type'') (
        seq (resolution_if E res_n values) (
        attr_if res_n values ''BitsPerSample'' ''colorDepth''))))
      else if t = movie then
        andthen (begin_res E config container_n key values) (\<lambda>res_n.
        seq (attr_if res_n values ''size'' ''size'') (
        seq (attr_if res_n values ''mimeType'' ''mime-type'') (
        seq (attr_if res_n values ''playlength'' ''duration'') (
        seq (attr_if res_n values ''bitrate'' ''bitrate'') (
        seq (resolution_if E res_n values) (
        attr_if res_n values ''BitsPerSample'' ''colorDepth''))))))
      else if t = movie then
        andthen (begin_res E config container_n key values) (\<lambda>res_n.
        seq (attr_if res_n values ''size'' ''size'') (
        seq (attr_if res_n values ''mimeType'' ''mime-type'') (
        seq (attr_if res_n values ''playlength'' ''duration'') (
        seq (attr_if res_n values ''bitrate'' ''bitrate'') (
        seq (resolution E res_n values) (
        attr_if res_n values ''BitsPerSample'' ''colorDepth''))))))
      else ret ())"

definition write_entry ::
  "env \<Rightarrow> 'db redis \<Rightarrow> 'db \<Rightarrow> Config \<Rightarrow> string \<Rightarrow> std_map \<Rightarrow> (xnode, unit) act" where
  "write_entry E R db config key values =
     andthen (lift_res (map_at values param_CLASS)) (\<lambda>cls.
     let t = NodeType_parse cls in
     andthen (element root_node
       (if t \<in> set CLASS_CONTAINER then DIDL_ELEMENT_CONTAINER else DIDL_ELEMENT_ITEM) []) (\<lambda>container_n.
     seq (attr container_n DIDL_ATTRIBUTE_ID (c_str key)) (
     andthen (lift_res (map_at values param_PARENT)) (\<lambda>parent.
     let parent_id = parent;
         parent_id = (if parent = [] then ''-1'' else parent_id);
         parent_id = (if parent = ''root'' then ''0'' else parent_id) in
     seq (attr container_n DIDL_ATTRIBUTE_PARENT_ID parent_id) (
     seq (attr container_n DIDL_ATTRIBUTE_RESTRICTED ''1'') (
     seq (attr container_n DIDL_ATTRIBUTE_CHILD_COUNT (to_string (children_count R db key))) (
     seq (write_title E container_n t values) (
     andthen (lift_res (array_at CLASS_NAMES (NodeType_val t))) (\<lambda>class_name.
     andthen (element container_n ''upnp:class'' class_name) (\<lambda>_.
     seq (write_meta container_n values) (
     seq (write_cover E R db config container_n t values) (
     write_res E config container_n t key values))))))))))))"

definition on_doc :: "(xnode, 'a) act \<Rightarrow> (Didl, 'a) act" where
  "on_doc m = (\<lambda>d. case m (didl_doc d) of (r, doc) \<Rightarrow> (r, d\<lparr>didl_doc := doc\<rparr>))"

definition Didl_write ::
  "env \<Rightarrow> 'db redis \<Rightarrow> 'db \<Rightarrow> Config \<Rightarrow> string \<Rightarrow> std_map \<Rightarrow> (Didl, unit) act" where
  "Didl_write E R db config key values =
     (if \<not> map_contains values param_CLASS then ret ()
      else seq (on_doc (write_entry E R db config key values)) (
           update (\<lambda>d. d\<lparr>didl_result := didl_result d + 1\<rparr>)))"

definition Didl_str :: "env \<Rightarrow> Didl \<Rightarrow> string" where
  "Didl_str E d = XML_DECL @ xml_print E (didl_doc d)"

definition Didl_count :: "Didl \<Rightarrow> int" where
  "Didl_count d = didl_result d"

section \<open>What an entry is\<close>

text \<open>Optional children and attributes: present exactly when the node has the value.\<close>

definition opt_kid :: "std_map \<Rightarrow> string \<Rightarrow> string \<Rightarrow> xnode list" where
  "opt_kid values k nm =
     (case map_find values k of None \<Rightarrow> [] | Some v \<Rightarrow> [XNode nm (c_str v) [] []])"

definition opt_attr :: "std_map \<Rightarrow> string \<Rightarrow> string \<Rightarrow> (string \<times> string) list" where
  "opt_attr values k nm = (case map_find values k of None \<Rightarrow> [] | Some v \<Rightarrow> [(nm, c_str v)])"

definition value_of :: "std_map \<Rightarrow> string \<Rightarrow> string" where
  "value_of values k = (case map_find values k of None \<Rightarrow> [] | Some v \<Rightarrow> v)"

definition entry_type :: "std_map \<Rightarrow> NodeType" where
  "entry_type values = NodeType_parse (value_of values param_CLASS)"

text \<open>The node types that are written with a resource.\<close>

definition has_res :: "NodeType \<Rightarrow> bool" where
  "has_res t \<longleftrightarrow> t \<in> {file, audio, image, cover, movie}"

text \<open>The attributes without which \<open>write\<close> throws.\<close>

definition required :: "std_map \<Rightarrow> string list" where
  "required values =
     [param_PARENT, param_NAME]
     @ (if entry_type values = episode then [param_SEASON, param_EPISODE] else [])
     @ (if has_res (entry_type values) then [''ext'', ''mimeType''] else [])"

definition complete :: "std_map \<Rightarrow> bool" where
  "complete values \<longleftrightarrow> list_all (map_contains values) (required values)"

definition entry_title :: "env \<Rightarrow> std_map \<Rightarrow> string" where
  "entry_title E values =
     (if entry_type values = episode
      then format E ''S{0}{1} {2}''
             [value_of values param_SEASON, value_of values param_EPISODE, value_of values param_NAME]
      else value_of values param_NAME)"

definition entry_parent :: "std_map \<Rightarrow> string" where
  "entry_parent values =
     (let p = value_of values param_PARENT in if p = ''root'' then ''0'' else if p = [] then ''-1'' else p)"

definition meta_kids :: "std_map \<Rightarrow> xnode list" where
  "meta_kids values =
     opt_kid values param_YEAR ''dc:data'' @ opt_kid values param_ARTIST ''upnp:artist''
     @ opt_kid values param_TRACK ''upnp:originalTrackNumber'' @ opt_kid values param_ALBUM ''upnp:album''
     @ opt_kid values param_COMMENT ''upnp:description'' @ opt_kid values param_YEAR ''dc:date''
     @ opt_kid values param_GENRE ''upnp:genre''"

definition cover_kids :: "env \<Rightarrow> 'db redis \<Rightarrow> 'db \<Rightarrow> Config \<Rightarrow> std_map \<Rightarrow> xnode list" where
  "cover_kids E R db config values =
     (if entry_type values = audio then
        [XNode ''albumArtURI''
           (c_str (format E ''{0}{1}''
              [cds_uri config, data_get R db (value_of values param_PARENT) param_MED]))
           [(''dlna:profileID'', ''JPEG_MED'')] []]
      else case map_find values param_THUMB of
        None \<Rightarrow> []
      | Some thumb \<Rightarrow>
          [XNode ''albumArtURI'' (c_str (format E ''{0}{1}'' [cds_uri config, thumb]))
             [(''dlna:profileID'', ''JPEG_TN'')] []])"

definition resolution_attr :: "env \<Rightarrow> std_map \<Rightarrow> (string \<times> string) list" where
  "resolution_attr E values =
     (if map_contains values ''width'' \<and> map_contains values ''height''
      then [(''resolution'', c_str (format E ''{0}x{1}'' [value_of values ''width'', value_of values ''height'']))]
      else [])"

definition res_attrs :: "env \<Rightarrow> std_map \<Rightarrow> NodeType \<Rightarrow> (string \<times> string) list" where
  "res_attrs E values t =
     opt_attr values ''size'' ''size'' @ opt_attr values ''mimeType'' ''mime-type''
     @ (if t = audio \<or> t = movie
        then opt_attr values ''playlength'' ''duration'' @ opt_attr values ''bitrate'' ''bitrate'' else [])
     @ (if t = audio
        then opt_attr values ''bps'' ''bitsPerSample'' @ opt_attr values ''samplerate'' ''sampleFrequency''
             @ opt_attr values ''channels'' ''nrAudioChannels'' else [])
     @ (if t = image \<or> t = cover \<or> t = movie
        then resolution_attr E values @ opt_attr values ''BitsPerSample'' ''colorDepth'' else [])"

definition res_kids :: "env \<Rightarrow> Config \<Rightarrow> string \<Rightarrow> std_map \<Rightarrow> xnode list" where
  "res_kids E config key values =
     (if has_res (entry_type values)
      then [XNode ''res'' (c_str (format E ''{0}/res/{1}{2}'' [cds_uri config, key, value_of values ''ext'']))
              ((''protocolInfo'', c_str (format E PROTOCOL_INFO [value_of values ''mimeType'']))
               # res_attrs E values (entry_type values)) []]
      else [])"

definition class_name :: "NodeType \<Rightarrow> string" where
  "class_name t = CLASS_NAMES ! NodeType_val t"

definition didl_entry :: "env \<Rightarrow> 'db redis \<Rightarrow> 'db \<Rightarrow> Config \<Rightarrow> string \<Rightarrow> std_map \<Rightarrow> xnode" where
  "didl_entry E R db config key values =
     XNode (if entry_type values \<in> set CLASS_CONTAINER then DIDL_ELEMENT_CONTAINER else DIDL_ELEMENT_ITEM) []
       [(''id'', c_str key), (''parentID'', c_str (entry_parent values)), (''restricted'', ''1''),
        (''childCount'', to_string (children_count R db key))]
       ([XNode ''dc:title'' (c_str (entry_title E values)) [] [],
         XNode ''upnp:class'' (class_name (entry_type values)) [] []]
        @ meta_kids values @ cover_kids E R db config values @ res_kids E config key values)"

section \<open>Writing through the pointer to the last entry\<close>

text \<open>
  While an entry is written, the document is a root with the finished entries and, last, the entry
  under construction.  The contract of a writing step: through the pointer to that entry it changes
  the entry alone, by a given function.
\<close>

definition open_doc :: "xnode \<Rightarrow> xnode list \<Rightarrow> xnode \<Rightarrow> xnode" where
  "open_doc root done c = XNode [] [] [] [XNode (xname root) (xvalue root) (xattrs root) (done @ [c])]"

definition add_kids :: "xnode list \<Rightarrow> xnode \<Rightarrow> xnode" where
  "add_kids ks c = XNode (xname c) (xvalue c) (xattrs c) (xkids c @ ks)"

definition add_attrs :: "(string \<times> string) list \<Rightarrow> xnode \<Rightarrow> xnode" where
  "add_attrs as c = XNode (xname c) (xvalue c) (xattrs c @ as) (xkids c)"

lemma add_kids_simps [simp]:
  "add_kids [] c = c" "add_kids ls (add_kids ks c) = add_kids (ks @ ls) c"
  "xkids (add_kids ks c) = xkids c @ ks"
  by (simp_all add: add_kids_def)

lemma add_attrs_simps [simp]:
  "add_attrs [] c = c" "add_attrs bs (add_attrs as c) = add_attrs (as @ bs) c"
  "xkids (add_attrs as c) = xkids c"
  by (simp_all add: add_attrs_def)

locale entry_step =
  fixes m :: "node_ptr \<Rightarrow> (xnode, unit) act"
    and f :: "xnode \<Rightarrow> xnode"
  assumes run: "m [0, length done] (open_doc root done c) = (Inr (), open_doc root done (f c))"
begin

lemma run_seq: "seq (m [0, length done]) k (open_doc root done c) = k (open_doc root done (f c))"
  by (simp add: andthen_apply run)

end

lemma element_open:
  "element [0, length done] nm v (open_doc root done c) =
     (Inr [0, length done, length (xkids c)], open_doc root done (add_kids [XNode (c_str nm) (c_str v) [] []] c))"
  by (simp add: element_run kid_count_def open_doc_def add_kids_def append_kid_def nth_append)

interpretation attr_entry: entry_step "\<lambda>p. attr p nm v" "add_attrs [(c_str nm, c_str v)]" for nm v
  by unfold_locales (simp add: attr_run open_doc_def add_attrs_def append_attr_def)

interpretation element_if_entry: entry_step "\<lambda>p. element_if p vs k nm"
    "add_kids (opt_kid vs k (c_str nm))" for vs k nm
  by unfold_locales
    (auto simp: element_if_def map_contains_def opt_kid_def andthen_apply element_open)

text \<open>The same through the pointer to the last child of the entry.\<close>

lemma attr_inner:
  "attr [0, length done, length ks] nm v (open_doc root done (add_kids [r] (XNode a b as ks))) =
     (Inr (), open_doc root done (add_kids [add_attrs [(c_str nm, c_str v)] r] (XNode a b as ks)))"
  by (simp add: attr_run open_doc_def add_kids_def add_attrs_def append_attr_def nth_append)

lemma attr_if_inner:
  "attr_if [0, length done, length ks] values k nm (open_doc root done (add_kids [r] (XNode a b as ks))) =
     (Inr (), open_doc root done (add_kids [add_attrs (opt_attr values k (c_str nm)) r] (XNode a b as ks)))"
  by (auto simp: attr_if_def map_contains_def opt_attr_def attr_inner)

lemma resolution_if_inner:
  "resolution_if E [0, length done, length ks] values (open_doc root done (add_kids [r] (XNode a b as ks))) =
     (Inr (), open_doc root done (add_kids [add_attrs (resolution_attr E values) r] (XNode a b as ks)))"
  by (auto simp: resolution_if_def resolution_def map_contains_def resolution_attr_def value_of_def
      attr_inner c_str_Cons)

lemma begin_res_open:
  assumes "map_find values ''ext'' = Some ext" "map_find values ''mimeType'' = Some mime"
  shows "begin_res E config [0, length done] key values (open_doc root done (XNode a b as ks)) =
    (Inr [0, length done, length ks],
     open_doc root done (add_kids
       [add_attrs [(''protocolInfo'', c_str (format E PROTOCOL_INFO [mime]))]
          (XNode ''res'' (c_str (format E ''{0}/res/{1}{2}'' [cds_uri config, key, ext])) [] [])]
       (XNode a b as ks)))"
  using assms
  by (simp add: begin_res_def andthen_apply element_open attr_inner c_str_Cons)

lemma begin_res_missing:
  assumes "map_find values ''ext'' = None \<or> map_find values ''mimeType'' = None"
  shows "fst (begin_res E config [0, length done] key values (open_doc root done c)) = Inl Out_of_range"
  using assms
  by (cases "map_find values ''ext''") (auto simp: begin_res_def andthen_apply element_open)

lemma attr_names [simp]:
  "c_str ''size'' = ''size''" "c_str ''mime-type'' = ''mime-type''" "c_str ''duration'' = ''duration''"
  "c_str ''bitrate'' = ''bitrate''" "c_str ''bitsPerSample'' = ''bitsPerSample''"
  "c_str ''sampleFrequency'' = ''sampleFrequency''" "c_str ''nrAudioChannels'' = ''nrAudioChannels''"
  "c_str ''colorDepth'' = ''colorDepth''"
  by (simp_all add: c_str_Cons)

lemmas write_res_run = write_res_def andthen_apply attr_if_inner resolution_if_inner res_kids_def
  has_res_def res_attrs_def value_of_def

lemma write_res_open:
  assumes "has_res (entry_type values) \<Longrightarrow> map_contains values ''ext'' \<and> map_contains values ''mimeType''"
  shows "write_res E config [0, length done] (entry_type values) key values (open_doc root done c) =
    (Inr (), open_doc root done (add_kids (res_kids E config key values) c))"
proof (cases "has_res (entry_type values)")
  case False
  then show ?thesis by (simp add: write_res_def res_kids_def has_res_def)
next
  case True
  with assms obtain ext mime
    where em: "map_find values ''ext'' = Some ext" "map_find values ''mimeType'' = Some mime"
    by (auto simp: map_contains_def)
  obtain a b as ks where c: "c = XNode a b as ks" by (cases c)
  from True show ?thesis
    by (cases "entry_type values")
      (simp_all add: write_res_run c begin_res_open [OF em] em add_attrs_def)
qed

lemma write_res_missing:
  assumes "has_res t" "map_find values ''ext'' = None \<or> map_find values ''mimeType'' = None"
  shows "fst (write_res E config [0, length done] t key values (open_doc root done c)) = Inl Out_of_range"
proof -
  obtain s where s: "begin_res E config [0, length done] key values (open_doc root done c) = (Inl Out_of_range, s)"
    using begin_res_missing [OF assms(2)] by (metis prod.collapse)
  show ?thesis using assms(1) by (auto simp: has_res_def write_res_def andthen_apply s)
qed

lemma write_cover_open:
  assumes "map_contains values param_PARENT"
  shows "write_cover E R db config [0, length done] (entry_type values) values (open_doc root done c) =
    (Inr (), open_doc root done (add_kids (cover_kids E R db config values) c))"
proof -
  obtain a b as ks where c: "c = XNode a b as ks" by (cases c)
  obtain parent where p: "map_find values param_PARENT = Some parent"
    using assms by (auto simp: map_contains_def)
  show ?thesis
    by (auto simp: write_cover_def c andthen_apply element_open attr_inner cover_kids_def p value_of_def
        map_contains_def c_str_Cons add_attrs_def)
qed

interpretation meta_entry: entry_step "\<lambda>p. write_meta p vs" "add_kids (meta_kids vs)" for vs
  by unfold_locales
    (simp add: write_meta_def element_if_entry.run_seq element_if_entry.run meta_kids_def c_str_Cons)

text \<open>The title needs the name, and for an episode the season and the episode number.\<close>

definition title_ok :: "std_map \<Rightarrow> bool" where
  "title_ok values \<longleftrightarrow> map_contains values param_NAME \<and>
     (entry_type values = episode \<longrightarrow> map_contains values param_SEASON \<and> map_contains values param_EPISODE)"

lemma write_title_open:
  "title_ok values \<Longrightarrow>
     write_title E [0, length done] (entry_type values) values (open_doc root done c) =
       (Inr (), open_doc root done (add_kids [XNode ''dc:title'' (c_str (entry_title E values)) [] []] c))"
  by (auto simp: title_ok_def map_contains_def write_title_def andthen_apply element_open entry_title_def
      value_of_def c_str_Cons)

lemma write_title_missing:
  "\<not> title_ok values \<Longrightarrow>
     fst (write_title E [0, length done] (entry_type values) values (open_doc root done c)) = Inl Out_of_range"
  by (cases "map_find values param_NAME"; cases "map_find values param_SEASON";
      cases "map_find values param_EPISODE")
    (auto simp: title_ok_def map_contains_def write_title_def andthen_apply element_open)

lemma complete_iff:
  "complete values \<longleftrightarrow> map_contains values param_PARENT \<and> title_ok values \<and>
     (has_res (entry_type values) \<longrightarrow> map_contains values ''ext'' \<and> map_contains values ''mimeType'')"
  by (auto simp: complete_def required_def title_ok_def)

section \<open>The whole entry\<close>

lemma element_root_open:
  "element root_node nm v (XNode [] [] [] [root]) =
     (Inr [0, length (xkids root)], open_doc root (xkids root) (XNode (c_str nm) (c_str v) [] []))"
  by (simp add: root_node_def element_run kid_count_def open_doc_def append_kid_def)

lemma close_doc: "open_doc root (xkids root) c = XNode [] [] [] [add_kids [c] root]"
  by (simp add: open_doc_def add_kids_def)

lemma class_name_at: "array_at CLASS_NAMES (NodeType_val t) = Inr (class_name t)"
  by (cases t) (simp_all add: array_at_def CLASS_NAMES_def class_name_def)

lemma c_str_class_name [simp]: "c_str (class_name t) = class_name t"
  by (cases t) (simp_all add: class_name_def CLASS_NAMES_def c_str_Cons)

lemma entry_names [simp]:
  "c_str ''container'' = ''container''" "c_str ''item'' = ''item''" "c_str ''id'' = ''id''"
  "c_str ''parentID'' = ''parentID''" "c_str ''restricted'' = ''restricted''" "c_str ''1'' = ''1''"
  "c_str ''childCount'' = ''childCount''" "c_str ''upnp:class'' = ''upnp:class''"
  by (simp_all add: c_str_Cons)

lemmas write_entry_run = write_entry_def andthen_apply element_root_open attr_entry.run element_open
  class_name_at meta_entry.run

lemma write_entry_complete:
  assumes "map_contains values param_CLASS" "complete values"
  shows "write_entry E R db config key values (XNode [] [] [] [root]) =
    (Inr (), XNode [] [] [] [add_kids [didl_entry E R db config key values] root])"
proof -
  from assms obtain cls parent
    where cls: "map_find values param_CLASS = Some cls" and parent: "map_find values param_PARENT = Some parent"
    by (auto simp: complete_iff map_contains_def)
  have t: "NodeType_parse cls = entry_type values" by (simp add: entry_type_def value_of_def cls)
  have title: "title_ok values"
    and res: "has_res (entry_type values) \<Longrightarrow> map_contains values ''ext'' \<and> map_contains values ''mimeType''"
    and par: "map_contains values param_PARENT"
    using assms(2) by (auto simp: complete_iff)
  have pid: "(if parent = ''root'' then ''0'' else if parent = [] then ''-1'' else parent) = entry_parent values"
    by (simp add: entry_parent_def value_of_def parent)
  show ?thesis
    by (simp add: write_entry_run cls parent t pid Let_def write_title_open [OF title]
        write_cover_open [OF par] write_res_open [OF res])
      (simp add: close_doc didl_entry_def add_kids_def add_attrs_def)
qed

lemma write_entry_incomplete:
  assumes "map_contains values param_CLASS" "\<not> complete values"
  shows "fst (write_entry E R db config key values (XNode [] [] [] [root])) = Inl Out_of_range"
proof -
  from assms(1) obtain cls where cls: "map_find values param_CLASS = Some cls"
    by (auto simp: map_contains_def)
  have t: "NodeType_parse cls = entry_type values" by (simp add: entry_type_def value_of_def cls)
  consider (parent) "map_find values param_PARENT = None"
    | (title) p where "map_find values param_PARENT = Some p" "\<not> title_ok values"
    | (res) p where "map_find values param_PARENT = Some p" "title_ok values" "has_res (entry_type values)"
        "map_find values ''ext'' = None \<or> map_find values ''mimeType'' = None"
    using assms(2) by (auto simp: complete_iff map_contains_def)
  then show ?thesis
  proof cases
    case parent
    then show ?thesis by (simp add: write_entry_run cls t Let_def)
  next
    case (title p)
    have "fst (resume (write_title E [0, length ks] (entry_type values) values (open_doc root ks c)) f)
        = Inl Out_of_range" for ks c and f :: "unit \<Rightarrow> (xnode, unit) act"
      using write_title_missing [OF title(2), of E ks root c]
      by (cases "write_title E [0, length ks] (entry_type values) values (open_doc root ks c)") simp
    with title(1) show ?thesis by (simp add: write_entry_run cls t Let_def)
  next
    case (res p)
    then have par: "map_contains values param_PARENT" by (simp add: map_contains_def)
    from res show ?thesis
      by (simp add: write_entry_run cls t Let_def write_title_open [OF res(2)] write_cover_open [OF par]
          write_res_missing [OF res(3,4)])
  qed
qed

lemma on_doc_run: "on_doc m d = (fst (m (didl_doc d)), d\<lparr>didl_doc := snd (m (didl_doc d))\<rparr>)"
  by (simp add: on_doc_def split: prod.splits)

text \<open>A document with its root element; the constructor makes one and \<open>write\<close> keeps it.\<close>

definition didl_root :: "Didl \<Rightarrow> xnode option" where
  "didl_root d =
     (case didl_doc d of XNode n v as ks \<Rightarrow> if n = [] \<and> v = [] \<and> as = [] \<and> length ks = 1 then Some (hd ks) else None)"

lemma didl_root_Some: "didl_root d = Some root \<longleftrightarrow> didl_doc d = XNode [] [] [] [root]"
  by (cases "didl_doc d") (auto simp: didl_root_def length_Suc_conv)

lemma new_Didl_root:
  "didl_root new_Didl = Some (XNode ''DIDL-Lite'' []
     [(''xmlns'', XML_NS_DIDL), (''xmlns:dc'', XML_NS_PURL), (''xmlns:dlna'', XML_NS_DLNA),
      (''xmlns:upnp'', XML_NS_UPNP), (''xmlns:pv'', XML_NS_PV)] [])"
  by (simp add: didl_root_Some new_Didl_def Didl_build_def build_run)

lemma Didl_write_complete:
  assumes "didl_root d = Some root" "map_contains values param_CLASS" "complete values"
  shows "Didl_write E R db config key values d =
    (Inr (), \<lparr>didl_doc = XNode [] [] [] [add_kids [didl_entry E R db config key values] root],
              didl_result = didl_result d + 1\<rparr>)"
  using assms by (simp add: Didl_write_def andthen_apply on_doc_run didl_root_Some write_entry_complete)

lemma Didl_write_incomplete:
  assumes "didl_root d = Some root" "map_contains values param_CLASS" "\<not> complete values"
  shows "\<exists>s. Didl_write E R db config key values d = (Inl Out_of_range, s) \<and> didl_result s = didl_result d"
proof -
  have "fst (write_entry E R db config key values (didl_doc d)) = Inl Out_of_range"
    using assms by (simp add: didl_root_Some write_entry_incomplete)
  with assms(2) show ?thesis by (simp add: Didl_write_def andthen_apply on_doc_run)
qed

lemma Didl_write_skip:
  "\<not> map_contains values param_CLASS \<Longrightarrow> Didl_write E R db config key values d = (Inr (), d)"
  by (simp add: Didl_write_def)

text \<open>C8: what \<open>Didl::write\<close> adds.  For a node that has a class and all the attributes its type requires, the
  document gains exactly one entry, after the earlier ones, which are unchanged; the entry is the
  \<open>didl_entry\<close> of the node, and the count goes up by one.
\<close>

theorem Didl_write_adds:
  assumes "didl_root d = Some root" "map_contains values param_CLASS" "complete values"
  shows "Didl_write E R db config key values d =
    (Inr (), \<lparr>didl_doc = XNode [] [] [] [add_kids [didl_entry E R db config key values] root],
              didl_result = didl_result d + 1\<rparr>)"
  using assms by (rule Didl_write_complete)

text \<open>C9: when \<open>Didl::write\<close> throws: for a node with a class, exactly when an attribute its type requires is
  missing (the parent and the name always, season and episode for an episode, extension and mime type
  for everything with a resource); the exception is \<^verbatim>\<open>std::out_of_range\<close>, and the count stays.  A node without
  a class is skipped and nothing changes.
\<close>

theorem Didl_write_throws:
  assumes "didl_root d = Some root"
  shows "(fst (Didl_write E R db config key values d) = Inl Out_of_range \<longleftrightarrow>
            map_contains values param_CLASS \<and> \<not> complete values)
    \<and> (\<forall>e s. Didl_write E R db config key values d = (Inl e, s) \<longrightarrow>
            e = Out_of_range \<and> didl_result s = didl_result d)
    \<and> (\<not> map_contains values param_CLASS \<longrightarrow> Didl_write E R db config key values d = (Inr (), d))"
proof (cases "map_contains values param_CLASS")
  case False
  then show ?thesis by (simp add: Didl_write_skip)
next
  case True
  then show ?thesis
    using Didl_write_complete [OF assms True, of E R db config key]
      Didl_write_incomplete [OF assms True, of E R db config key]
    by (cases "complete values") auto
qed

lemma class_names_in_order: "map class_name enum_class.enum = CLASS_NAMES"
  by code_simp

text \<open>an entry is written as a container exactly when its class name is that of a container, for every
  node type.
\<close>

theorem container_iff_class:
  "\<forall>t. t \<in> set CLASS_CONTAINER \<longleftrightarrow> is_prefix ''object.container'' (class_name t)"
  by code_simp

section \<open>A list of nodes\<close>

text \<open>The nodes with a class, in order, as entries.\<close>

definition entries_of ::
  "env \<Rightarrow> 'db redis \<Rightarrow> 'db \<Rightarrow> Config \<Rightarrow> (string \<times> std_map) list \<Rightarrow> xnode list" where
  "entries_of E R db config nodes =
     map (\<lambda>(key, values). didl_entry E R db config key values)
       (filter (\<lambda>(key, values). map_contains values param_CLASS) nodes)"

lemma Didl_write_list:
  assumes "didl_root d = Some root"
    "\<forall>(key, values) \<in> set nodes. map_contains values param_CLASS \<longrightarrow> complete values"
  shows "for_each (\<lambda>(key, values). Didl_write E R db config key values) nodes d =
    (Inr (), \<lparr>didl_doc = XNode [] [] [] [add_kids (entries_of E R db config nodes) root],
              didl_result = didl_result d + int (length (entries_of E R db config nodes))\<rparr>)"
  using assms
proof (induction nodes arbitrary: d root)
  case Nil
  then show ?case by (cases d) (simp add: entries_of_def didl_root_Some)
next
  case (Cons n nodes)
  obtain key vs where n: "n = (key, vs)" by (cases n)
  show ?case
  proof (cases "map_contains vs param_CLASS")
    case True
    let ?e = "didl_entry E R db config key vs"
    let ?d = "\<lparr>didl_doc = XNode [] [] [] [add_kids [?e] root], didl_result = didl_result d + 1\<rparr>"
    have "Didl_write E R db config key vs d = (Inr (), ?d)"
      using Cons.prems True by (intro Didl_write_complete) (auto simp: n)
    moreover have "didl_root ?d = Some (add_kids [?e] root)" by (simp add: didl_root_Some)
    ultimately show ?thesis
      using Cons.IH [of ?d "add_kids [?e] root"] Cons.prems(2) True
      by (simp add: n andthen_apply entries_of_def)
  next
    case False
    with Cons show ?thesis by (simp add: n andthen_apply entries_of_def Didl_write_skip)
  qed
qed

text \<open>One node that lacks an attribute ends the whole list with the exception, whatever stands before it.\<close>

lemma Didl_write_list_incomplete:
  assumes "didl_root d = Some root" "(key, values) \<in> set nodes" "map_contains values param_CLASS" "\<not> complete values"
  shows "\<exists>s. for_each (\<lambda>(key, values). Didl_write E R db config key values) nodes d = (Inl Out_of_range, s)"
  using assms
proof (induction nodes arbitrary: d root)
  case (Cons n nodes)
  obtain k vs where n: "n = (k, vs)" by (cases n)
  note rest = Cons.IH [OF _ _ Cons.prems(3,4)]
  consider "\<not> map_contains vs param_CLASS" | "map_contains vs param_CLASS" "complete vs"
    | "map_contains vs param_CLASS" "\<not> complete vs" by blast
  then show ?case
  proof cases
    case 1
    with Cons.prems(2,3) have "(key, values) \<in> set nodes" by (auto simp: n)
    with rest Cons.prems(1) show ?thesis by (simp add: n andthen_apply Didl_write_skip [OF 1])
  next
    case 2
    with Cons.prems(2,4) have "(key, values) \<in> set nodes" by (auto simp: n)
    with rest show ?thesis
      by (simp add: n andthen_apply Didl_write_complete [OF Cons.prems(1) 2] didl_root_Some)
  next
    case 3
    with Didl_write_incomplete [OF Cons.prems(1) 3, of E R db config k] show ?thesis
      by (auto simp: n andthen_apply)
  qed
qed simp

end
