(* ===== verification/Device.thy ===== *)
theory Device
  imports Environment
begin

text \<open>
  \<^verbatim>\<open>src/src/device.h\<close>: the description of a UPnP device, with its icons and services, the time-out
  of a device that is not seen any more, and the parser of a device description.  The accessors of
  the C++ structs are the selectors and updates of the records.
\<close>

section \<open>Records\<close>

record Icon =
  width :: int
  height :: int
  depth :: int
  mimeType :: string
  icon_url :: string

definition new_Icon :: Icon where
  "new_Icon = \<lparr>width = 0, height = 0, depth = 0, mimeType = [], icon_url = []\<rparr>"

record Service =
  serviceType :: string
  serviceId :: string
  scpdUrl :: string
  controlUrl :: string
  eventSubUrl :: string

definition new_Service :: Service where
  "new_Service = \<lparr>serviceType = [], serviceId = [], scpdUrl = [], controlUrl = [], eventSubUrl = []\<rparr>"

text \<open>Time points are nanoseconds of the clock; the time-out is in seconds.\<close>

record Device =
  versionMajor :: int
  versionMinor :: int
  deviceType :: string
  friendlyName :: string
  manufacturer :: string
  manufacturerUrl :: string
  modelDescription :: string
  modelName :: string
  modelNumber :: string
  modelUrl :: string
  serialNumber :: string
  udn :: string
  upc :: string
  presentationUrl :: string
  urlBase :: string
  iconList :: "Icon list"
  serviceList :: "Service list"
  timestamp :: int
  timeout_secs :: int

text \<open>The constructor leaves the two version numbers indeterminate: they are its first arguments.\<close>

definition new_Device :: "int \<Rightarrow> int \<Rightarrow> int \<Rightarrow> Device" where
  "new_Device vmaj vmin now =
     \<lparr>versionMajor = vmaj, versionMinor = vmin, deviceType = [], friendlyName = [], manufacturer = [],
      manufacturerUrl = [], modelDescription = [], modelName = [], modelNumber = [], modelUrl = [],
      serialNumber = [], udn = [], upc = [], presentationUrl = [], urlBase = [], iconList = [],
      serviceList = [], timestamp = now, timeout_secs = 1800\<rparr>"

definition addIcon :: "Icon \<Rightarrow> Device \<Rightarrow> Device" where
  "addIcon i d = d\<lparr>iconList := iconList d @ [i]\<rparr>"

definition addService :: "Service \<Rightarrow> Device \<Rightarrow> Device" where
  "addService s d = d\<lparr>serviceList := serviceList d @ [s]\<rparr>"

section \<open>Time-out\<close>

definition touch :: "int \<Rightarrow> Device \<Rightarrow> Device" where
  "touch now d = d\<lparr>timestamp := now\<rparr>"

text \<open>
  Nanoseconds to whole seconds, towards zero, in an \<^verbatim>\<open>unsigned int\<close>
  (\<^verbatim>\<open>duration_cast< duration< unsigned int > >\<close>).
\<close>

definition secs32 :: "int \<Rightarrow> int" where
  "secs32 dur = uint (word_of_int (sgn dur * (\<bar>dur\<bar> div 1000000000)) :: 32 word)"

definition timeout :: "int \<Rightarrow> Device \<Rightarrow> bool" where
  "timeout now d \<longleftrightarrow> secs32 (now - timestamp d) \<ge> timeout_secs d"

text \<open>The other overload of the name sets the number of seconds.\<close>

definition set_timeout :: "int \<Rightarrow> Device \<Rightarrow> Device" where
  "set_timeout secs d = d\<lparr>timeout_secs := secs\<rparr>"

section \<open>The parser\<close>

definition version_step :: "pnode \<Rightarrow> Device \<Rightarrow> Device" where
  "version_step version_node d =
     (if local_name version_node = ''major'' then d\<lparr>versionMajor := atoi (pvalue version_node)\<rparr>
      else if local_name version_node = ''minor'' then d\<lparr>versionMinor := atoi (pvalue version_node)\<rparr>
      else d)"

definition icon_step :: "pnode \<Rightarrow> Icon \<Rightarrow> Icon" where
  "icon_step icon_node i =
     (if local_name icon_node = ''mimetype'' then i\<lparr>mimeType := pvalue icon_node\<rparr>
      else if local_name icon_node = ''width'' then i\<lparr>width := atoi (pvalue icon_node)\<rparr>
      else if local_name icon_node = ''height'' then i\<lparr>height := atoi (pvalue icon_node)\<rparr>
      else if local_name icon_node = ''depth'' then i\<lparr>depth := atoi (pvalue icon_node)\<rparr>
      else if local_name icon_node = ''url'' then i\<lparr>icon_url := pvalue icon_node\<rparr>
      else i)"

definition service_step :: "pnode \<Rightarrow> Service \<Rightarrow> Service" where
  "service_step service_node s =
     (if local_name service_node = ''serviceType'' then s\<lparr>serviceType := pvalue service_node\<rparr>
      else if local_name service_node = ''serviceId'' then s\<lparr>serviceId := pvalue service_node\<rparr>
      else if local_name service_node = ''SCPDURL'' then s\<lparr>scpdUrl := pvalue service_node\<rparr>
      else if local_name service_node = ''controlURL'' then s\<lparr>controlUrl := pvalue service_node\<rparr>
      else if local_name service_node = ''eventSubURL'' then s\<lparr>eventSubUrl := pvalue service_node\<rparr>
      else s)"

definition iconlist_step :: "pnode \<Rightarrow> Device \<Rightarrow> Device" where
  "iconlist_step iconlist_node d = addIcon (FOR ''*'' iconlist_node icon_step new_Icon) d"

definition servicelist_step :: "pnode \<Rightarrow> Device \<Rightarrow> Device" where
  "servicelist_step servicelist_node d =
     addService (FOR ''*'' servicelist_node service_step new_Service) d"

definition device_step :: "pnode \<Rightarrow> Device \<Rightarrow> Device" where
  "device_step n d =
     (if local_name n = ''deviceType'' then d\<lparr>deviceType := pvalue n\<rparr>
      else if local_name n = ''presentationURL'' then d\<lparr>presentationUrl := pvalue n\<rparr>
      else if local_name n = ''friendlyName'' then d\<lparr>friendlyName := pvalue n\<rparr>
      else if local_name n = ''manufacturer'' then d\<lparr>manufacturer := pvalue n\<rparr>
      else if local_name n = ''manufacturerURL'' then d\<lparr>manufacturerUrl := pvalue n\<rparr>
      else if local_name n = ''modelNumber'' then d\<lparr>modelNumber := pvalue n\<rparr>
      else if local_name n = ''modelDescription'' then d\<lparr>modelDescription := pvalue n\<rparr>
      else if local_name n = ''modelName'' then d\<lparr>modelName := pvalue n\<rparr>
      else if local_name n = ''UDN'' then d\<lparr>udn := pvalue n\<rparr>
      else if local_name n = ''urlBase'' then d\<lparr>urlBase := pvalue n\<rparr>
      else if local_name n = ''serialNumber'' then d\<lparr>serialNumber := pvalue n\<rparr>
      else if local_name n = ''iconList'' then FOR ''icon'' n iconlist_step d
      else if local_name n = ''serviceList'' then FOR ''service'' n servicelist_step d
      else d)"

definition root_step :: "pnode \<Rightarrow> Device \<Rightarrow> Device" where
  "root_step body_node d =
     (if local_name body_node = ''specVersion'' then FOR ''*'' body_node version_step d
      else if local_name body_node = ''device'' then FOR ''*'' body_node device_step d
      else if local_name body_node = ''URLBase'' then d\<lparr>urlBase := pvalue body_node\<rparr>
      else d)"

text \<open>A document without a node makes \<open>first_node()\<close> null, which \<open>FOR\<close> dereferences.\<close>

definition parse_device :: "env \<Rightarrow> string \<Rightarrow> Device \<Rightarrow> Device res" where
  "parse_device E xml d =
     (case xml_parse E (c_str xml) of
        None \<Rightarrow> Inl Parse_error
      | Some [] \<Rightarrow> Inl Null_deref
      | Some (root_node # _) \<Rightarrow> Inr (FOR ''*'' root_node root_step d))"

section \<open>Fields of icons and services\<close>

interpretation icon_mime: field_step icon_step mimeType "''mimetype''" pvalue
  by unfold_locales (simp add: icon_step_def)
interpretation icon_width: field_step icon_step width "''width''" "\<lambda>n. atoi (pvalue n)"
  by unfold_locales (simp add: icon_step_def)
interpretation icon_height: field_step icon_step height "''height''" "\<lambda>n. atoi (pvalue n)"
  by unfold_locales (simp add: icon_step_def)
interpretation icon_depth: field_step icon_step depth "''depth''" "\<lambda>n. atoi (pvalue n)"
  by unfold_locales (simp add: icon_step_def)
interpretation icon_address: field_step icon_step icon_url "''url''" pvalue
  by unfold_locales (simp add: icon_step_def)

interpretation svc_type: field_step service_step serviceType "''serviceType''" pvalue
  by unfold_locales (simp add: service_step_def)
interpretation svc_id: field_step service_step serviceId "''serviceId''" pvalue
  by unfold_locales (simp add: service_step_def)
interpretation svc_scpd: field_step service_step scpdUrl "''SCPDURL''" pvalue
  by unfold_locales (simp add: service_step_def)
interpretation svc_control: field_step service_step controlUrl "''controlURL''" pvalue
  by unfold_locales (simp add: service_step_def)
interpretation svc_event: field_step service_step eventSubUrl "''eventSubURL''" pvalue
  by unfold_locales (simp add: service_step_def)

text \<open>What one \<open>icon\<close> and one \<open>service\<close> element contribute.\<close>

definition icon_of :: "pnode \<Rightarrow> Icon" where
  "icon_of n = FOR ''*'' n icon_step new_Icon"

definition service_of :: "pnode \<Rightarrow> Service" where
  "service_of n = FOR ''*'' n service_step new_Service"

definition named :: "string \<Rightarrow> pnode list \<Rightarrow> pnode list" where
  "named nm ns = filter (\<lambda>n. local_name n = nm) ns"

text \<open>The text of the last node of a name, or the given string without such a node.\<close>

definition text_of :: "string \<Rightarrow> pnode list \<Rightarrow> string \<Rightarrow> string" where
  "text_of nm ns old = (case last_named nm ns of None \<Rightarrow> old | Some n \<Rightarrow> pvalue n)"

definition int_of :: "string \<Rightarrow> pnode list \<Rightarrow> int \<Rightarrow> int" where
  "int_of nm ns old = (case last_named nm ns of None \<Rightarrow> old | Some n \<Rightarrow> atoi (pvalue n))"

lemma icon_of_eq:
  "icon_of n = \<lparr>width = int_of ''width'' (pkids n) 0, height = int_of ''height'' (pkids n) 0,
                depth = int_of ''depth'' (pkids n) 0, mimeType = text_of ''mimetype'' (pkids n) [],
                icon_url = text_of ''url'' (pkids n) []\<rparr>"
  using icon_mime.field_FOR [of n new_Icon] icon_width.field_FOR [of n new_Icon]
    icon_height.field_FOR [of n new_Icon] icon_depth.field_FOR [of n new_Icon]
    icon_address.field_FOR [of n new_Icon]
  by (intro Icon.equality) (simp_all add: icon_of_def text_of_def int_of_def new_Icon_def
      split: option.split)

lemma service_of_eq:
  "service_of n =
     \<lparr>serviceType = text_of ''serviceType'' (pkids n) [], serviceId = text_of ''serviceId'' (pkids n) [],
      scpdUrl = text_of ''SCPDURL'' (pkids n) [], controlUrl = text_of ''controlURL'' (pkids n) [],
      eventSubUrl = text_of ''eventSubURL'' (pkids n) []\<rparr>"
  using svc_type.field_FOR [of n new_Service] svc_id.field_FOR [of n new_Service]
    svc_scpd.field_FOR [of n new_Service] svc_control.field_FOR [of n new_Service]
    svc_event.field_FOR [of n new_Service]
  by (intro Service.equality) (simp_all add: service_of_def text_of_def new_Service_def
      split: option.split)

lemma FOR_icons:
  "FOR ''icon'' n iconlist_step d = d\<lparr>iconList := iconList d @ map icon_of (named ''icon'' (pkids n))\<rparr>"
proof -
  have "fold iconlist_step ns d = d\<lparr>iconList := iconList d @ map icon_of ns\<rparr>" for ns
    by (induction ns arbitrary: d) (simp_all add: iconlist_step_def addIcon_def icon_of_def)
  then show ?thesis by (simp add: FOR_fold filter_for_matches named_def)
qed

lemma FOR_services:
  "FOR ''service'' n servicelist_step d =
     d\<lparr>serviceList := serviceList d @ map service_of (named ''service'' (pkids n))\<rparr>"
proof -
  have "fold servicelist_step ns d = d\<lparr>serviceList := serviceList d @ map service_of ns\<rparr>" for ns
    by (induction ns arbitrary: d) (simp_all add: servicelist_step_def addService_def service_of_def)
  then show ?thesis by (simp add: FOR_fold filter_for_matches named_def)
qed

lemma FOR_version:
  "FOR ''*'' n version_step d =
     d\<lparr>versionMajor := int_of ''major'' (pkids n) (versionMajor d),
       versionMinor := int_of ''minor'' (pkids n) (versionMinor d)\<rparr>"
proof -
  have "fold version_step ns d =
      d\<lparr>versionMajor := int_of ''major'' ns (versionMajor d),
        versionMinor := int_of ''minor'' ns (versionMinor d)\<rparr>" for ns
    by (induction ns rule: rev_induct) (simp_all add: version_step_def int_of_def)
  then show ?thesis by (simp add: FOR_star)
qed

lemmas device_loops = FOR_icons FOR_services

section \<open>Fields of the device\<close>

text \<open>Frame of the device loop: it leaves the version numbers, the time stamp and the unread fields.\<close>

definition unread :: "Device \<Rightarrow> int \<times> int \<times> string \<times> string \<times> int \<times> int" where
  "unread d = (versionMajor d, versionMinor d, modelUrl d, upc d, timestamp d, timeout_secs d)"

lemma unread_device_step: "unread (device_step n d) = unread d"
  by (simp add: device_step_def unread_def device_loops)

interpretation dev_type: nested_field device_step deviceType "''deviceType''" pvalue root_step "''device''"
  by unfold_locales (simp_all add: device_step_def root_step_def device_loops FOR_version)
interpretation dev_presentation: nested_field device_step presentationUrl "''presentationURL''" pvalue root_step "''device''"
  by unfold_locales (simp_all add: device_step_def root_step_def device_loops FOR_version)
interpretation dev_friendly: nested_field device_step friendlyName "''friendlyName''" pvalue root_step "''device''"
  by unfold_locales (simp_all add: device_step_def root_step_def device_loops FOR_version)
interpretation dev_manufacturer: nested_field device_step manufacturer "''manufacturer''" pvalue root_step "''device''"
  by unfold_locales (simp_all add: device_step_def root_step_def device_loops FOR_version)
interpretation dev_manufacturer_url: nested_field device_step manufacturerUrl "''manufacturerURL''" pvalue root_step "''device''"
  by unfold_locales (simp_all add: device_step_def root_step_def device_loops FOR_version)
interpretation dev_model_number: nested_field device_step modelNumber "''modelNumber''" pvalue root_step "''device''"
  by unfold_locales (simp_all add: device_step_def root_step_def device_loops FOR_version)
interpretation dev_model_description: nested_field device_step modelDescription "''modelDescription''" pvalue root_step "''device''"
  by unfold_locales (simp_all add: device_step_def root_step_def device_loops FOR_version)
interpretation dev_model_name: nested_field device_step modelName "''modelName''" pvalue root_step "''device''"
  by unfold_locales (simp_all add: device_step_def root_step_def device_loops FOR_version)
interpretation dev_udn: nested_field device_step udn "''UDN''" pvalue root_step "''device''"
  by unfold_locales (simp_all add: device_step_def root_step_def device_loops FOR_version)
interpretation dev_serial: nested_field device_step serialNumber "''serialNumber''" pvalue root_step "''device''"
  by unfold_locales (simp_all add: device_step_def root_step_def device_loops FOR_version)

interpretation dev_major: nested_field version_step versionMajor "''major''" "\<lambda>n. atoi (pvalue n)" root_step "''specVersion''"
proof unfold_locales
  fix n d
  have "versionMajor (FOR ''*'' n device_step d) = versionMajor d"
    by (rule FOR_frame) (simp add: device_step_def device_loops)
  then show "versionMajor (root_step n d) =
      (if local_name n = ''specVersion'' then versionMajor (FOR ''*'' n version_step d) else versionMajor d)"
    by (simp add: root_step_def)
qed (simp add: version_step_def)

interpretation dev_minor: nested_field version_step versionMinor "''minor''" "\<lambda>n. atoi (pvalue n)" root_step "''specVersion''"
proof unfold_locales
  fix n d
  have "versionMinor (FOR ''*'' n device_step d) = versionMinor d"
    by (rule FOR_frame) (simp add: device_step_def device_loops)
  then show "versionMinor (root_step n d) =
      (if local_name n = ''specVersion'' then versionMinor (FOR ''*'' n version_step d) else versionMinor d)"
    by (simp add: root_step_def)
qed (simp add: version_step_def)

text \<open>Icons and services are collected in document order.\<close>

definition icons_in :: "pnode list \<Rightarrow> Icon list" where
  "icons_in ns = map icon_of (List.concat (map (\<lambda>n. named ''icon'' (pkids n)) (named ''iconList'' ns)))"

definition services_in :: "pnode list \<Rightarrow> Service list" where
  "services_in ns =
     map service_of (List.concat (map (\<lambda>n. named ''service'' (pkids n)) (named ''serviceList'' ns)))"

lemma icons_in_simps [simp]:
  "icons_in [] = []" "icons_in (xs @ ys) = icons_in xs @ icons_in ys"
  "icons_in [n] = (if local_name n = ''iconList'' then map icon_of (named ''icon'' (pkids n)) else [])"
  by (simp_all add: icons_in_def named_def)

lemma services_in_simps [simp]:
  "services_in [] = []" "services_in (xs @ ys) = services_in xs @ services_in ys"
  "services_in [n] =
     (if local_name n = ''serviceList'' then map service_of (named ''service'' (pkids n)) else [])"
  by (simp_all add: services_in_def named_def)

lemma icons_in_concat: "icons_in ns = List.concat (map (\<lambda>n. icons_in [n]) ns)"
  by (induction ns rule: rev_induct) auto

lemma services_in_concat: "services_in ns = List.concat (map (\<lambda>n. services_in [n]) ns)"
  by (induction ns rule: rev_induct) auto

interpretation dev_icons: gather_step device_step iconList "\<lambda>n. icons_in [n]"
  by unfold_locales (simp add: device_step_def device_loops)

interpretation dev_services: gather_step device_step serviceList "\<lambda>n. services_in [n]"
  by unfold_locales (simp add: device_step_def device_loops)

lemma iconList_device_FOR: "iconList (FOR ''*'' n device_step d) = iconList d @ icons_in (pkids n)"
  using dev_icons.gather_fold [of "pkids n" d] icons_in_concat [of "pkids n"] by (simp only: FOR_star)

interpretation root_icons: gather_step root_step iconList
    "\<lambda>n. if local_name n = ''device'' then icons_in (pkids n) else []"
  by unfold_locales
    (simp add: root_step_def FOR_version iconList_device_FOR)

lemma serviceList_device_FOR: "serviceList (FOR ''*'' n device_step d) = serviceList d @ services_in (pkids n)"
  using dev_services.gather_fold [of "pkids n" d] services_in_concat [of "pkids n"] by (simp only: FOR_star)

interpretation root_services: gather_step root_step serviceList
    "\<lambda>n. if local_name n = ''device'' then services_in (pkids n) else []"
  by unfold_locales
    (simp add: root_step_def FOR_version serviceList_device_FOR)

lemma root_icons_eq: "iconList (FOR ''*'' root root_step d) = iconList d @ icons_in (grandkids ''device'' root)"
proof -
  have "List.concat (map (\<lambda>n. if local_name n = ''device'' then icons_in (pkids n) else []) ns) =
      icons_in (List.concat (map pkids (filter (\<lambda>n. local_name n = ''device'') ns)))" for ns
    by (induction ns) auto
  then show ?thesis by (simp add: FOR_star root_icons.gather_fold grandkids_def)
qed

lemma root_services_eq:
  "serviceList (FOR ''*'' root root_step d) = serviceList d @ services_in (grandkids ''device'' root)"
proof -
  have "List.concat (map (\<lambda>n. if local_name n = ''device'' then services_in (pkids n) else []) ns) =
      services_in (List.concat (map pkids (filter (\<lambda>n. local_name n = ''device'') ns)))" for ns
    by (induction ns) auto
  then show ?thesis by (simp add: FOR_star root_services.gather_fold grandkids_def)
qed

text \<open>
  The base url comes from two places, \<open>URLBase\<close> beside the device and \<open>urlBase\<close> inside it; the last
  in document order decides.
\<close>

fun url_nodes :: "pnode list \<Rightarrow> pnode list" where
  "url_nodes [] = []"
| "url_nodes (n # ns) =
     (if local_name n = ''URLBase'' then [n]
      else if local_name n = ''device'' then named ''urlBase'' (pkids n) else []) @ url_nodes ns"

definition url_of :: "pnode list \<Rightarrow> string \<Rightarrow> string" where
  "url_of us old = (if us = [] then old else pvalue (last us))"

lemma url_of_append: "url_of (us @ vs) old = url_of vs (url_of us old)"
  by (simp add: url_of_def)

lemma urlBase_device_FOR: "urlBase (FOR ''*'' n device_step d) = url_of (named ''urlBase'' (pkids n)) (urlBase d)"
proof -
  have "urlBase (fold device_step ns d) = url_of (named ''urlBase'' ns) (urlBase d)" for ns
    by (induction ns arbitrary: d)
      (simp_all add: device_step_def device_loops named_def url_of_def)
  then show ?thesis by (simp add: FOR_star)
qed

lemma root_urlBase: "urlBase (FOR ''*'' root root_step d) = url_of (url_nodes (pkids root)) (urlBase d)"
proof -
  have "urlBase (fold root_step ns d) = url_of (url_nodes ns) (urlBase d)" for ns
  proof (induction ns arbitrary: d)
    case (Cons n ns)
    have "urlBase (root_step n d) = url_of (url_nodes [n]) (urlBase d)"
      by (simp add: root_step_def FOR_version urlBase_device_FOR) (simp add: url_of_def)
    with Cons show ?case by (simp add: url_of_append)
  qed (simp add: url_of_def)
  then show ?thesis by (simp add: FOR_star)
qed

lemma root_frame:
  "modelUrl (FOR ''*'' root root_step d) = modelUrl d" "upc (FOR ''*'' root root_step d) = upc d"
  "timestamp (FOR ''*'' root root_step d) = timestamp d"
  "timeout_secs (FOR ''*'' root root_step d) = timeout_secs d"
proof -
  define rest where "rest d = (modelUrl d, upc d, timestamp d, timeout_secs d)" for d :: Device
  have "rest (FOR ''*'' n device_step d) = rest d" for n d
    by (rule FOR_frame) (simp add: rest_def device_step_def device_loops)
  then have "rest (FOR ''*'' root root_step d) = rest d"
    by (intro FOR_frame) (simp add: rest_def root_step_def FOR_version)
  then show "modelUrl (FOR ''*'' root root_step d) = modelUrl d" "upc (FOR ''*'' root root_step d) = upc d"
    "timestamp (FOR ''*'' root root_step d) = timestamp d"
    "timeout_secs (FOR ''*'' root root_step d) = timeout_secs d"
    by (simp_all add: rest_def)
qed

lemma parse_device_fields:
  assumes "xml_parse E (c_str xml) = Some (root # rest)"
  shows "parse_device E xml d = Inr
    \<lparr>versionMajor = int_of ''major'' (grandkids ''specVersion'' root) (versionMajor d),
     versionMinor = int_of ''minor'' (grandkids ''specVersion'' root) (versionMinor d),
     deviceType = text_of ''deviceType'' (grandkids ''device'' root) (deviceType d),
     friendlyName = text_of ''friendlyName'' (grandkids ''device'' root) (friendlyName d),
     manufacturer = text_of ''manufacturer'' (grandkids ''device'' root) (manufacturer d),
     manufacturerUrl = text_of ''manufacturerURL'' (grandkids ''device'' root) (manufacturerUrl d),
     modelDescription = text_of ''modelDescription'' (grandkids ''device'' root) (modelDescription d),
     modelName = text_of ''modelName'' (grandkids ''device'' root) (modelName d),
     modelNumber = text_of ''modelNumber'' (grandkids ''device'' root) (modelNumber d),
     modelUrl = modelUrl d,
     serialNumber = text_of ''serialNumber'' (grandkids ''device'' root) (serialNumber d),
     udn = text_of ''UDN'' (grandkids ''device'' root) (udn d),
     upc = upc d,
     presentationUrl = text_of ''presentationURL'' (grandkids ''device'' root) (presentationUrl d),
     urlBase = url_of (url_nodes (pkids root)) (urlBase d),
     iconList = iconList d @ icons_in (grandkids ''device'' root),
     serviceList = serviceList d @ services_in (grandkids ''device'' root),
     timestamp = timestamp d, timeout_secs = timeout_secs d\<rparr>"
proof -
  let ?d = "FOR ''*'' root root_step d"
  have "parse_device E xml d = Inr ?d" using assms by (simp add: parse_device_def)
  moreover have "?d = ?d" ..
  ultimately show ?thesis
    using dev_type.outer_FOR [of root d] dev_friendly.outer_FOR [of root d]
      dev_manufacturer.outer_FOR [of root d] dev_manufacturer_url.outer_FOR [of root d]
      dev_model_description.outer_FOR [of root d] dev_model_name.outer_FOR [of root d]
      dev_model_number.outer_FOR [of root d] dev_serial.outer_FOR [of root d]
      dev_udn.outer_FOR [of root d] dev_presentation.outer_FOR [of root d]
      dev_major.outer_FOR [of root d] dev_minor.outer_FOR [of root d]
      root_urlBase [of root d] root_icons_eq [of root d] root_services_eq [of root d] root_frame [of root d]
    by (simp add: text_of_def int_of_def Device.equality)
qed


text \<open>the two ways in which a description is refused: text that is not XML raises the parser's error,
  and a document without a root element is a null dereference; the device is unchanged in both.
\<close>

theorem parse_device_refuses:
  "(xml_parse E (c_str xml) = None \<longleftrightarrow> parse_device E xml d = Inl Parse_error)
   \<and> (xml_parse E (c_str xml) = Some [] \<longleftrightarrow> parse_device E xml d = Inl Null_deref)"
  by (auto simp: parse_device_def split: option.splits list.splits)

text \<open>Numbers read from a description fit an \<^verbatim>\<open>int\<close>.\<close>

lemma int_of_range: "int32 old \<Longrightarrow> int32 (int_of nm ns old)"
  by (simp add: int_of_def atoi_range split: option.split)

lemma icon_of_range: "int32 (width (icon_of n)) \<and> int32 (height (icon_of n)) \<and> int32 (depth (icon_of n))"
  by (simp add: icon_of_eq int_of_range int32_def [of 0])

section \<open>Time-out\<close>

lemma secs32_small:
  assumes "0 \<le> dur" "dur < 2 ^ 32 * 1000000000"
  shows "secs32 dur = dur div 1000000000"
proof -
  have "0 \<le> dur div 1000000000" "dur div 1000000000 < 2 ^ 32"
    using assms by auto
  moreover have "sgn dur * (\<bar>dur\<bar> div 1000000000) = dur div 1000000000"
    using assms(1) by (cases "dur = 0") auto
  ultimately show ?thesis
    unfolding secs32_def by (simp only: uint_word_of_int) simp
qed

text \<open>C39: a device has timed out exactly when the whole seconds since it was last touched reach its
  time-out, as long as the difference fits the 32-bit seconds of the code (136 years); a touch starts
  the time again, and the time-out is the one that was set last.
\<close>

theorem timeout_after_touch:
  assumes "now \<le> later" "later - now < 2 ^ 32 * 1000000000"
  shows "(timeout later (touch now d) \<longleftrightarrow> timeout_secs d * 1000000000 \<le> later - now)
    \<and> (timeout later (touch now (set_timeout secs d)) \<longleftrightarrow> secs * 1000000000 \<le> later - now)"
proof -
  have "n \<le> (later - now) div 1000000000 \<longleftrightarrow> n * 1000000000 \<le> later - now" for n :: int
    by linarith
  then show ?thesis using assms by (simp add: timeout_def touch_def set_timeout_def secs32_small)
qed

end
