(* ===== verification/Server.thy ===== *)
theory Server
  imports Didl Device
begin

text \<open>
  \<^verbatim>\<open>src/src/server.h\<close> and \<^verbatim>\<open>src/src/server.cpp\<close>: the HTTP side of the media server.  SOAP commands are read
  (\<open>UpnpCommand\<close>, \<open>Server_parse\<close>), the content directory and the connection manager answer them
  (\<open>cds\<close>, \<open>cms\<close>), \<open>description\<close> writes the device description, \<open>config_handler\<close> the configuration, and
  the callbacks the constructor registers send the initial event of a subscription.  Handlers are actions
  on the \<open>world\<close>: the calls made on the response and the messages published on redis.  The database is an
  argument, because no handler writes to it.  The debug log is not modelled.
\<close>

section \<open>Commands\<close>

datatype UpnpType =
    NONE | BROWSE | GET_PROTOCOL_INFO | SORT_CAPABILITIES | SEARCH_CAPABILITIES | SYSTEM_UPDATE_ID
  | CURRENT_CONNECTION_IDS | CURRENT_CONNECTION_INFO

record UpnpCommand =
  cmd_type :: UpnpType
  cmd_values :: std_map

definition new_UpnpCommand :: UpnpCommand where
  "new_UpnpCommand = \<lparr>cmd_type = NONE, cmd_values = []\<rparr>"

text \<open>The names are compared with \<^verbatim>\<open>strcmp\<close>, as C strings.\<close>

definition UpnpCommand_parse :: "string \<Rightarrow> UpnpType" where
  "UpnpCommand_parse command =
     (if c_str command = ''Browse'' then BROWSE
      else if c_str command = ''GetSearchCapabilities'' then SEARCH_CAPABILITIES
      else if c_str command = ''GetSortCapabilities'' then SORT_CAPABILITIES
      else if c_str command = ''GetSystemUpdateID'' then SYSTEM_UPDATE_ID
      else if c_str command = ''GetCurrentConnectionIDs'' then CURRENT_CONNECTION_IDS
      else if c_str command = ''GetCurrentConnectionInfo'' then CURRENT_CONNECTION_INFO
      else if c_str command = ''GetProtocolInfo'' then GET_PROTOCOL_INFO
      else NONE)"

fun UpnpCommand_type_str :: "UpnpType \<Rightarrow> string" where
  "UpnpCommand_type_str BROWSE = BROWSE_FLAG"
| "UpnpCommand_type_str GET_PROTOCOL_INFO = ''GetProtocolInfo''"
| "UpnpCommand_type_str SORT_CAPABILITIES = ''GetSortCapabilities''"
| "UpnpCommand_type_str SEARCH_CAPABILITIES = ''GetSearchCapabilities''"
| "UpnpCommand_type_str SYSTEM_UPDATE_ID = ''GetSystemUpdateID''"
| "UpnpCommand_type_str CURRENT_CONNECTION_IDS = ''GetCurrentConnectionIDs''"
| "UpnpCommand_type_str CURRENT_CONNECTION_INFO = ''GetCurrentConnectionInfo''"
| "UpnpCommand_type_str NONE = ''(none)''"

definition UpnpCommand_contains :: "UpnpCommand \<Rightarrow> string \<Rightarrow> bool" where
  "UpnpCommand_contains c k = map_contains (cmd_values c) k"

text \<open>\<open>values[key]\<close> inserts a missing key, so \<open>get\<close> returns the changed command too.\<close>

definition UpnpCommand_get :: "UpnpCommand \<Rightarrow> string \<Rightarrow> string \<times> UpnpCommand" where
  "UpnpCommand_get c k =
     (case map_index (cmd_values c) k of (v, m) \<Rightarrow> (v, c\<lparr>cmd_values := m\<rparr>))"

fun values_json :: "std_map \<Rightarrow> string" where
  "values_json [] = []"
| \<open>values_json ((k, v) # m) = '', "'' @ k @ ''": "'' @ v @ ''"'' @ values_json m\<close>

definition UpnpCommand_str :: "UpnpCommand \<Rightarrow> string" where
  \<open>UpnpCommand_str c =
     ''{"type":"'' @ UpnpCommand_type_str (cmd_type c) @ ''"'' @ values_json (cmd_values c) @ ''}''\<close>

section \<open>The SOAP parser\<close>

definition flag_step :: "pnode \<Rightarrow> UpnpCommand \<Rightarrow> UpnpCommand" where
  "flag_step flag_node c = c\<lparr>cmd_values := map_set (cmd_values c) (local_name flag_node) (pvalue flag_node)\<rparr>"

definition action_step :: "pnode \<Rightarrow> UpnpCommand \<Rightarrow> UpnpCommand" where
  "action_step browse_node c =
     FOR ''*'' browse_node flag_step (c\<lparr>cmd_type := UpnpCommand_parse (local_name browse_node)\<rparr>)"

definition body_step :: "pnode \<Rightarrow> UpnpCommand \<Rightarrow> UpnpCommand" where
  "body_step body_node c = FOR ''*'' body_node action_step c"

definition Server_parse :: "env \<Rightarrow> string \<Rightarrow> UpnpCommand res" where
  "Server_parse E body =
     (case xml_parse E (c_str body) of
        None \<Rightarrow> Inl Parse_error
      | Some [] \<Rightarrow> Inl Null_deref
      | Some (root # _) \<Rightarrow> Inr (FOR ''Body'' root body_step new_UpnpCommand))"

section \<open>The server object\<close>

text \<open>
  The constructor takes the port as a \<^verbatim>\<open>short\<close>: the argument is reduced to 16 bits.  It connects, reads the
  configuration, and registers its four callbacks when the subscriber connection (\<open>sub_connect\<close>, of the redis
  client) succeeds.
\<close>

record Server =
  srv_config :: Config
  srv_topics :: "string list"

definition to_short :: "int \<Rightarrow> int" where
  "to_short p = sint (word_of_int p :: 16 word)"

definition new_Server ::
  "env \<Rightarrow> 'db redis \<Rightarrow> (string \<Rightarrow> int \<Rightarrow> bool) \<Rightarrow> 'db \<Rightarrow> string \<Rightarrow> int \<Rightarrow> Server res" where
  "new_Server E R sub_connect db redis_host p =
     (let port = to_short p in
      res_bind (make_connection R redis_host port) (\<lambda>_.
      res_bind (data_config R db) (\<lambda>json.
      res_bind (Config_of_json E json) (\<lambda>config.
      Inr \<lparr>srv_config = config,
           srv_topics = (if \<not> sub_connect redis_host port then []
                         else [''CDS_SUBSCRIBE'', ''CDS_UNSUBSCRIBE'', ''CMS_SUBSCRIBE'', ''CMS_UNSUBSCRIBE''])\<rparr>))))"

text \<open>A request sent by \<^verbatim>\<open>http::HttpClient\<close>: where to, and the calls that set it up.\<close>

record notify =
  nt_host :: string
  nt_proto :: string
  nt_uri :: string
  nt_method :: string
  nt_parameters :: "(string \<times> string) list"
  nt_body :: string

definition CDS_EVENT :: string where
  \<open>CDS_EVENT =
     ''<e:propertyset xmlns:e="urn:schemas-upnp-org:event-1-0" xmlns:s="urn:schemas-upnp-org:service:ContentDirectory'' @
     '':1"><e:property><TransferIDs></TransferIDs></e:property><e:property><SystemUpdateID>666</SystemUpdateID></e:pr'' @
     ''operty></e:propertyset>''\<close>

definition CMS_EVENT :: string where
  \<open>CMS_EVENT =
     ''<e:propertyset xmlns:e="urn:schemas-upnp-org:event-1-0" xmlns:s="urn:schemas-upnp-org:service:ConnectionManage'' @
     ''r:1"><e:property><SourceProtocolInfo>http-get:*:image/jpeg:DLNA.ORG_PN=JPEG_TN,http-get:*:image/jpeg:DLNA.ORG_'' @
     ''PN=JPEG_SM,http-get:*:image/jpeg:DLNA.ORG_PN=JPEG_MED,http-get:*:image/jpeg:DLNA.ORG_PN=JPEG_LRG,http-get:*:vi'' @
     ''deo/mpeg:DLNA.ORG_PN=AVC_TS_HD_50_AC3_ISO,http-get:*:video/mpeg:DLNA.ORG_PN=AVC_TS_HD_60_AC3_ISO,http-get:*:vi'' @
     ''deo/mpeg:DLNA.ORG_PN=AVC_TS_HP_HD_AC3_ISO,http-get:*:video/mpeg:DLNA.ORG_PN=AVC_TS_MP_HD_AAC_MULT5_ISO,http-ge'' @
     ''t:*:video/mpeg:DLNA.ORG_PN=AVC_TS_MP_HD_AC3_ISO,http-get:*:video/mpeg:DLNA.ORG_PN=AVC_TS_MP_HD_MPEG1_L3_ISO,ht'' @
     ''tp-get:*:video/mpeg:DLNA.ORG_PN=AVC_TS_MP_SD_AAC_MULT5_ISO,http-get:*:video/mpeg:DLNA.ORG_PN=AVC_TS_MP_SD_AC3_'' @
     ''ISO,http-get:*:video/mpeg:DLNA.ORG_PN=AVC_TS_MP_SD_MPEG1_L3_ISO,http-get:*:video/mpeg:DLNA.ORG_PN=MPEG_PS_NTSC'' @
     '',http-get:*:video/mpeg:DLNA.ORG_PN=MPEG_PS_PAL,http-get:*:video/mpeg:DLNA.ORG_PN=MPEG_TS_HD_NA_ISO,http-get:*:'' @
     ''video/mpeg:DLNA.ORG_PN=MPEG_TS_SD_NA_ISO,http-get:*:video/mpeg:DLNA.ORG_PN=MPEG_TS_SD_EU_ISO,http-get:*:video/'' @
     ''mpeg:DLNA.ORG_PN=MPEG1,http-get:*:video/mp4:DLNA.ORG_PN=AVC_MP4_MP_SD_AAC_MULT5,http-get:*:video/mp4:DLNA.ORG_'' @
     ''PN=AVC_MP4_MP_SD_AC3,http-get:*:video/mp4:DLNA.ORG_PN=AVC_MP4_BL_CIF15_AAC_520,http-get:*:video/mp4:DLNA.ORG_P'' @
     ''N=AVC_MP4_BL_CIF30_AAC_940,http-get:*:video/mp4:DLNA.ORG_PN=AVC_MP4_BL_L31_HD_AAC,http-get:*:video/mp4:DLNA.OR'' @
     ''G_PN=AVC_MP4_BL_L32_HD_AAC,http-get:*:video/mp4:DLNA.ORG_PN=AVC_MP4_BL_L3L_SD_AAC,http-get:*:video/mp4:DLNA.OR'' @
     ''G_PN=AVC_MP4_HP_HD_AAC,http-get:*:video/mp4:DLNA.ORG_PN=AVC_MP4_MP_HD_1080i_AAC,http-get:*:video/mp4:DLNA.ORG_'' @
     ''PN=AVC_MP4_MP_HD_720p_AAC,http-get:*:video/mp4:DLNA.ORG_PN=MPEG4_P2_MP4_ASP_AAC,http-get:*:video/mp4:DLNA.ORG_'' @
     ''PN=MPEG4_P2_MP4_SP_VGA_AAC,http-get:*:video/vnd.dlna.mpeg-tts:DLNA.ORG_PN=AVC_TS_HD_50_AC3,http-get:*:video/vn'' @
     ''d.dlna.mpeg-tts:DLNA.ORG_PN=AVC_TS_HD_50_AC3_T,http-get:*:video/vnd.dlna.mpeg-tts:DLNA.ORG_PN=AVC_TS_HD_60_AC3'' @
     '',http-get:*:video/vnd.dlna.mpeg-tts:DLNA.ORG_PN=AVC_TS_HD_60_AC3_T,http-get:*:video/vnd.dlna.mpeg-tts:DLNA.ORG'' @
     ''_PN=AVC_TS_HP_HD_AC3_T,http-get:*:video/vnd.dlna.mpeg-tts:DLNA.ORG_PN=AVC_TS_MP_HD_AAC_MULT5,http-get:*:video/'' @
     ''vnd.dlna.mpeg-tts:DLNA.ORG_PN=AVC_TS_MP_HD_AAC_MULT5_T,http-get:*:video/vnd.dlna.mpeg-tts:DLNA.ORG_PN=AVC_TS_M'' @
     ''P_HD_AC3,http-get:*:video/vnd.dlna.mpeg-tts:DLNA.ORG_PN=AVC_TS_MP_HD_AC3_T,http-get:*:video/vnd.dlna.mpeg-tts:'' @
     ''DLNA.ORG_PN=AVC_TS_MP_HD_MPEG1_L3,http-get:*:video/vnd.dlna.mpeg-tts:DLNA.ORG_PN=AVC_TS_MP_HD_MPEG1_L3_T,http-'' @
     ''get:*:video/vnd.dlna.mpeg-tts:DLNA.ORG_PN=AVC_TS_MP_SD_AAC_MULT5,http-get:*:video/vnd.dlna.mpeg-tts:DLNA.ORG_P'' @
     ''N=AVC_TS_MP_SD_AAC_MULT5_T,http-get:*:video/vnd.dlna.mpeg-tts:DLNA.ORG_PN=AVC_TS_MP_SD_AC3,http-get:*:video/vn'' @
     ''d.dlna.mpeg-tts:DLNA.ORG_PN=AVC_TS_MP_SD_AC3_T,http-get:*:video/vnd.dlna.mpeg-tts:DLNA.ORG_PN=AVC_TS_MP_SD_MPE'' @
     ''G1_L3,http-get:*:video/vnd.dlna.mpeg-tts:DLNA.ORG_PN=AVC_TS_MP_SD_MPEG1_L3_T,http-get:*:video/vnd.dlna.mpeg-tt'' @
     ''s:DLNA.ORG_PN=MPEG_TS_HD_NA,http-get:*:video/vnd.dlna.mpeg-tts:DLNA.ORG_PN=MPEG_TS_HD_NA_T,http-get:*:video/vn'' @
     ''d.dlna.mpeg-tts:DLNA.ORG_PN=MPEG_TS_SD_EU,http-get:*:video/vnd.dlna.mpeg-tts:DLNA.ORG_PN=MPEG_TS_SD_EU_T,http-'' @
     ''get:*:video/vnd.dlna.mpeg-tts:DLNA.ORG_PN=MPEG_TS_SD_NA,http-get:*:video/vnd.dlna.mpeg-tts:DLNA.ORG_PN=MPEG_TS'' @
     ''_SD_NA_T,http-get:*:video/x-ms-wmv:DLNA.ORG_PN=WMVSPLL_BASE,http-get:*:video/x-ms-wmv:DLNA.ORG_PN=WMVSPML_BASE'' @
     '',http-get:*:video/x-ms-wmv:DLNA.ORG_PN=WMVSPML_MP3,http-get:*:video/x-ms-wmv:DLNA.ORG_PN=WMVMED_BASE,http-get:'' @
     ''*:video/x-ms-wmv:DLNA.ORG_PN=WMVMED_FULL,http-get:*:video/x-ms-wmv:DLNA.ORG_PN=WMVMED_PRO,http-get:*:video/x-m'' @
     ''s-wmv:DLNA.ORG_PN=WMVHIGH_FULL,http-get:*:video/x-ms-wmv:DLNA.ORG_PN=WMVHIGH_PRO,http-get:*:video/3gpp:DLNA.OR'' @
     ''G_PN=MPEG4_P2_3GPP_SP_L0B_AAC,http-get:*:video/3gpp:DLNA.ORG_PN=MPEG4_P2_3GPP_SP_L0B_AMR,http-get:*:audio/mpeg'' @
     '':DLNA.ORG_PN=MP3,http-get:*:audio/x-ms-wma:DLNA.ORG_PN=WMABASE,http-get:*:audio/x-ms-wma:DLNA.ORG_PN=WMAFULL,h'' @
     ''ttp-get:*:audio/x-ms-wma:DLNA.ORG_PN=WMAPRO,http-get:*:audio/x-ms-wma:DLNA.ORG_PN=WMALSL,http-get:*:audio/x-ms'' @
     ''-wma:DLNA.ORG_PN=WMALSL_MULT5,http-get:*:audio/mp4:DLNA.ORG_PN=AAC_ISO_320,http-get:*:audio/3gpp:DLNA.ORG_PN=A'' @
     ''AC_ISO_320,http-get:*:audio/mp4:DLNA.ORG_PN=AAC_ISO,http-get:*:audio/mp4:DLNA.ORG_PN=AAC_MULT5_ISO,http-get:*:'' @
     ''audio/L16;rate=44100;channels=2:DLNA.ORG_PN=LPCM,http-get:*:image/jpeg:*,http-get:*:video/avi:*,http-get:*:vid'' @
     ''eo/divx:*,http-get:*:video/x-matroska:*,http-get:*:video/mpeg:*,http-get:*:video/mp4:*,http-get:*:video/x-ms-w'' @
     ''mv:*,http-get:*:video/x-msvideo:*,http-get:*:video/x-flv:*,http-get:*:video/x-tivo-mpeg:*,http-get:*:video/qui'' @
     ''cktime:*,http-get:*:audio/mp4:*,http-get:*:audio/x-wav:*,http-get:*:audio/x-flac:*,http-get:*:application/ogg:'' @
     ''*</SourceProtocolInfo></e:property><e:property><SinkProtocolInfo></SinkProtocolInfo></e:property><e:property><'' @
     ''CurrentConnectionIDs>0</CurrentConnectionIDs></e:property></e:propertyset>''\<close>

definition cds_subscribe_event :: "env \<Rightarrow> Config \<Rightarrow> string \<Rightarrow> notify" where
  "cds_subscribe_event E config msg =
     \<lparr>nt_host = url_host E msg, nt_proto = url_proto E msg, nt_uri = url_path E msg, nt_method = ''NOTIFY'',
      nt_parameters =
        [(HOST E, format E ''{}:{}'' [url_host E msg, url_proto E msg]),
         (CONTENT_TYPE E, mime_XML E),
         (CONNECTION E, CONNECTION_CLOSE E),
         (CACHE_CONTROL E, ''no-cache''),
         (''SID'', format E ''uuid:{}'' [uuid config]),
         (''NT'', ''upnp:event''),
         (''NTS'', ''upnp:propchange''),
         (''SEQ'', ''0'')],
      nt_body = CDS_EVENT\<rparr>"

definition cms_subscribe_event :: "env \<Rightarrow> string \<Rightarrow> notify" where
  "cms_subscribe_event E msg =
     \<lparr>nt_host = url_host E msg, nt_proto = url_proto E msg, nt_uri = url_path E msg, nt_method = ''NOTIFY'',
      nt_parameters = [], nt_body = c_str CMS_EVENT\<rparr>"

text \<open>
  A message arrives on a topic: its effect on the database, and the requests sent.  Only a registered
  topic has a callback; the two unsubscribe callbacks do nothing.
\<close>

definition on_message ::
  "env \<Rightarrow> 'db redis \<Rightarrow> Server \<Rightarrow> string \<times> string \<Rightarrow> 'db \<Rightarrow> 'db \<times> notify list" where
  "on_message E R srv = (\<lambda>(topic, msg) db.
     if topic \<notin> set (srv_topics srv) then (db, [])
     else if topic = ''CDS_SUBSCRIBE'' then
       (run_command R [redis_ZADD, make_key ''upnp'' ''event'' [''cds''], ''0'', msg] db,
        [cds_subscribe_event E (srv_config srv) msg])
     else if topic = ''CMS_SUBSCRIBE'' then (db, [cms_subscribe_event E msg])
     else (db, []))"

section \<open>Event subscriptions\<close>

text \<open>
  \<^verbatim>\<open>std::string::at\<close> throws for an index that is not below the length; the length minus one of the empty
  string is the largest \<^verbatim>\<open>size_t\<close>.
\<close>

definition str_at :: "string \<Rightarrow> nat \<Rightarrow> char res" where
  "str_at s i = (if i < length s then Inr (s ! i) else Inl Out_of_range)"

definition size_pred :: "nat \<Rightarrow> nat" where
  "size_pred n = (if n = 0 then 2 ^ 64 - 1 else n - 1)"

definition strip_callback :: "string \<Rightarrow> string res" where
  "strip_callback callback =
     res_bind (str_at callback 0) (\<lambda>c0.
       let callback = (if c0 = CHR ''<'' then tl callback else callback) in
       res_bind (str_at callback (size_pred (length callback))) (\<lambda>c1.
         Inr (if c1 = CHR ''>'' then butlast callback else callback)))"

definition publish_callback :: "request \<Rightarrow> string \<Rightarrow> (world, unit) act" where
  "publish_callback req topic =
     (let callback = req_parameter req ''Callback'' in
      if callback \<noteq> [] then
        andthen (lift_res (strip_callback callback)) (\<lambda>cb. publish topic cb)
      else ret ())"

section \<open>The content directory\<close>

definition int_arg :: "UpnpCommand \<Rightarrow> string \<Rightarrow> int res" where
  "int_arg c k = (if UpnpCommand_contains c k then stoi (fst (UpnpCommand_get c k)) else Inr 0)"

text \<open>The callback of the two child listings.\<close>

definition write_key :: "env \<Rightarrow> 'db redis \<Rightarrow> 'db \<Rightarrow> Config \<Rightarrow> string \<Rightarrow> (Didl, unit) act" where
  "write_key E R db config key =
     andthen (lift_res (data_node R db key)) (\<lambda>vs. Didl_write E R db config key vs)"

text \<open>A fresh \<open>Didl\<close> object lives for the time of one request.\<close>

definition with_Didl :: "(Didl, unit) act \<Rightarrow> (world, Didl) act" where
  "with_Didl m = (\<lambda>w. case m new_Didl of (Inl e, d) \<Rightarrow> (Inl e, w) | (Inr _, d) \<Rightarrow> (Inr d, w))"

definition cds_browse :: "env \<Rightarrow> 'db redis \<Rightarrow> 'db \<Rightarrow> Config \<Rightarrow> UpnpCommand \<Rightarrow> (world, unit) act" where
  "cds_browse E R db config cmd =
     andthen (lift_res (int_arg cmd ''StartingIndex'')) (\<lambda>index.
     andthen (lift_res (int_arg cmd ''RequestedCount'')) (\<lambda>count.
     let count = (if count = 0 then - 1 else count);
         (object_id, cmd) = UpnpCommand_get cmd OBJECT_ID;
         object_id = (if object_id = [] \<or> object_id = ''0'' then ''root'' else object_id)
     in
     if UpnpCommand_contains cmd BROWSE_FLAG \<and> fst (UpnpCommand_get cmd BROWSE_FLAG) = BROWSE_METADATA then
       andthen (lift_res (data_node R db object_id)) (\<lambda>node.
       andthen (with_Didl (Didl_write E R db config (fst (UpnpCommand_get cmd OBJECT_ID)) node)) (\<lambda>didl.
       respond (Write (soap_envelope E (Didl_str E didl) 1 1))))
     else if UpnpCommand_contains cmd BROWSE_FLAG \<and> fst (UpnpCommand_get cmd BROWSE_FLAG) = BROWSE_DIRECT_CHILDREN then
       andthen (with_Didl
         (if NodeType_parse (data_get R db object_id param_CLASS) = album
          then data_files R db object_id audio index count (write_key E R db config)
          else data_children R db object_id index count ''alpha'' ''asc'' [] (write_key E R db config))) (\<lambda>didl.
       respond (Write (soap_envelope E (Didl_str E didl) (Didl_count didl) (children_count R db object_id))))
     else ret ()))"

definition SORT_CAPABILITIES_RESPONSE :: string where
  \<open>SORT_CAPABILITIES_RESPONSE =
     ''<?xml version="1.0" encoding="utf-8"?>'' @
     [CHR 0x0A] @
     ''<s:Envelope xmlns:s="http://schemas.xmlsoap.org/soap/envelope/" s:encodingStyle="http://schemas.xmlsoap.org/so'' @
     ''ap/encoding/"><s:Body><u:GetSortCapabilitiesResponse xmlns:u="urn:schemas-upnp-org:service:ContentDirectory:1"'' @
     ''><SortCaps>dc:title,dc:date,upnp:class,upnp:album,upnp:originalTrackNumber</SortCaps></u:GetSortCapabilitiesRe'' @
     ''sponse></s:Body></s:Envelope>''\<close>

definition SEARCH_CAPABILITIES_RESPONSE :: string where
  \<open>SEARCH_CAPABILITIES_RESPONSE =
     ''<?xml version="1.0" encoding="utf-8"?>'' @
     [CHR 0x0A] @
     ''<s:Envelope xmlns:s="http://schemas.xmlsoap.org/soap/envelope/" s:encodingStyle="http://schemas.xmlsoap.org/so'' @
     ''ap/encoding/"><s:Body><u:GetSearchCapabilitiesResponse xmlns:u="urn:schemas-upnp-org:service:ContentDirectory:'' @
     ''1"><SearchCaps>dc:creator,dc:date,dc:title,upnp:album,upnp:actor,upnp:artist,upnp:class,upnp:genre,@refID</Sea'' @
     ''rchCaps></u:GetSearchCapabilitiesResponse></s:Body></s:Envelope>''\<close>

definition SYSTEM_UPDATE_ID_RESPONSE :: string where
  \<open>SYSTEM_UPDATE_ID_RESPONSE =
     ''<?xml version="1.0" encoding="utf-8"?>'' @
     [CHR 0x0A] @
     ''                        <s:Envelope xmlns:s="http://schemas.xmlsoap.org/soap/envelope/" s:encodingStyle="http:'' @
     ''//schemas.xmlsoap.org/soap/encoding/"><s:Body><u:GetSystemUpdateIDResponse xmlns:u="urn:schemas-upnp-org:servi'' @
     ''ce:ContentDirectory:1"><Id>32</Id></u:GetSystemUpdateIDResponse></s:Body></s:Envelope>''\<close>

definition cds_post :: "env \<Rightarrow> 'db redis \<Rightarrow> 'db \<Rightarrow> Config \<Rightarrow> UpnpCommand \<Rightarrow> (world, unit) act" where
  "cds_post E R db config cmd =
     (if cmd_type cmd = BROWSE then cds_browse E R db config cmd
      else if cmd_type cmd = SORT_CAPABILITIES then respond (Write SORT_CAPABILITIES_RESPONSE)
      else if cmd_type cmd = SEARCH_CAPABILITIES then respond (Write SEARCH_CAPABILITIES_RESPONSE)
      else if cmd_type cmd = SYSTEM_UPDATE_ID then respond (Write SYSTEM_UPDATE_ID_RESPONSE)
      else ret ())"

definition cds :: "env \<Rightarrow> 'db redis \<Rightarrow> 'db \<Rightarrow> Config \<Rightarrow> request \<Rightarrow> (world, http_status) act" where
  "cds E R db config req =
     seq (if req_method req = ''SUBSCRIBE'' then
            seq (respond (Set_parameter (CONTENT_LENGTH E) ''0'')) (
            seq (respond (Set_parameter ''Timeout'' ''Second-1800'')) (
            publish_callback req ''CDS_SUBSCRIBE''))
          else if req_method req = ''UNSUBSCRIBE'' then
            seq (respond (Set_parameter (CONTENT_LENGTH E) ''0'')) (
            seq (respond (Set_parameter ''SID'' (format E ''uuid:{}'' [uuid config]))) (
            seq (respond (Set_parameter ''EXT'' [])) (
            publish_callback req ''CDS_UNSUBSCRIBE'')))
          else if req_method req = ''POST'' then
            andthen (lift_res (Server_parse E (req_str req))) (cds_post E R db config)
          else ret ()) (
     seq (respond (Set_parameter (CONTENT_TYPE E) (mime_XML E))) (
     ret OK))"

section \<open>The connection manager\<close>

definition SOURCE_PROTOCOLS :: string where
  "SOURCE_PROTOCOLS =
     ''http-get:*:audio/mpeg:*,http-get:*:text/plain:*,http-get:*:video/mp4:*,'' @
     ''http-get:*:video/mpeg:*,http-get:*:video/quicktime:*''"

definition protocol_info_build :: "(xnode, unit) act" where
  "protocol_info_build =
     andthen (element [] ''s:Envelope'' []) (\<lambda>root_n.
     seq (attr root_n ''xmlns:s'' ''http://schemas.xmlsoap.org/soap/envelope/'') (
     seq (attr root_n ''xmlns:xsi'' ''http://www.w3.org/2001/XMLSchema-instance'') (
     seq (attr root_n ''s:encodingStyle'' ''http://schemas.xmlsoap.org/soap/encoding/'') (
     andthen (element root_n ''s:Body'' []) (\<lambda>body_n.
     andthen (element body_n ''u:GetProtocolInfoResponse'' []) (\<lambda>response_n.
     seq (attr response_n ''xmlns:u'' ''urn:schemas-upnp-org:service:ConnectionManager:1'') (
     andthen (element response_n ''Source'' SOURCE_PROTOCOLS) (\<lambda>source_n.
     seq (attr source_n ''xsi:type'' ''xsd:string'') (
     andthen (element response_n ''Sink'' []) (\<lambda>sink_n.
     attr sink_n ''xsi:type'' ''xsd:string''))))))))))"

definition protocol_info_doc :: xnode where
  "protocol_info_doc = snd (protocol_info_build new_document)"

definition cms_post :: "env \<Rightarrow> UpnpCommand \<Rightarrow> (world, unit) act" where
  "cms_post E cmd =
     (if cmd_type cmd = GET_PROTOCOL_INFO then
        seq (respond (Write (XML_DECL @ xml_print E protocol_info_doc))) (
        seq (respond (Set_parameter (CONTENT_TYPE E) (mime_XML E))) (
        respond (Set_status OK)))
      else ret ())"

definition cms :: "env \<Rightarrow> Config \<Rightarrow> request \<Rightarrow> (world, http_status) act" where
  "cms E config req =
     seq (if req_method req = ''SUBSCRIBE'' then
            seq (respond (Set_parameter (CONTENT_LENGTH E) ''0'')) (
            seq (respond (Set_parameter ''SID'' (format E ''uuid:{}'' [uuid config]))) (
            seq (respond (Set_parameter ''Timeout'' ''Second-1800'')) (
            publish_callback req ''CMS_SUBSCRIBE'')))
          else if req_method req = ''UNSUBSCRIBE'' then
            seq (respond (Set_parameter (CONTENT_LENGTH E) ''0'')) (
            seq (respond (Set_parameter ''SID'' (format E ''uuid:{}'' [uuid config]))) (
            publish ''CMS_UNSUBSCRIBE'' (req_str req)))
          else if req_method req = ''POST'' then
            andthen (lift_res (Server_parse E (req_str req))) (cms_post E)
          else ret ()) (
     seq (respond (Set_parameter (CONTENT_TYPE E) (mime_XML E))) (
     ret OK))"

section \<open>The device description\<close>

definition describe_icon :: "node_ptr \<Rightarrow> string \<Rightarrow> string \<Rightarrow> (xnode, unit) act" where
  "describe_icon icon_list px url =
     andthen (element icon_list ''icon'' []) (\<lambda>icon_n.
     andthen (element icon_n ''mimetype'' ''image/png'') (\<lambda>_.
     andthen (element icon_n ''width'' px) (\<lambda>_.
     andthen (element icon_n ''height'' px) (\<lambda>_.
     andthen (element icon_n ''depth'' ''24'') (\<lambda>_.
     andthen (element icon_n ''url'' url) (\<lambda>_. ret ()))))))"

definition describe_service ::
  "node_ptr \<Rightarrow> string \<Rightarrow> string \<Rightarrow> string \<Rightarrow> string \<Rightarrow> string \<Rightarrow> (xnode, unit) act" where
  "describe_service service_list type_str id_str control event scpd =
     andthen (element service_list ''service'' []) (\<lambda>service_n.
     andthen (element service_n ''serviceType'' type_str) (\<lambda>_.
     andthen (element service_n ''serviceId'' id_str) (\<lambda>_.
     andthen (element service_n ''controlURL'' control) (\<lambda>_.
     andthen (element service_n ''eventSubURL'' event) (\<lambda>_.
     andthen (element service_n ''SCPDURL'' scpd) (\<lambda>_. ret ()))))))"

definition describe_device :: "env \<Rightarrow> Config \<Rightarrow> node_ptr \<Rightarrow> (xnode, unit) act" where
  "describe_device E config device_n =
     andthen (element device_n ''deviceType'' ''urn:schemas-upnp-org:device:MediaServer:1'') (\<lambda>_.
     andthen (element device_n ''friendlyName'' (config_name config)) (\<lambda>_.
     andthen (element device_n ''manufacturer'' ''loudlabs'') (\<lambda>_.
     andthen (element device_n ''manufacturerURL'' ''https://github.com/squawkcpp'') (\<lambda>_.
     andthen (element device_n ''modelDescription'' ''Squawk Content Directory Server.'') (\<lambda>_.
     andthen (element device_n ''modelName'' ''Squawk Media Server'') (\<lambda>_.
     andthen (element device_n ''modelNumber'' ''0'') (\<lambda>_.
     andthen (element device_n ''modelURL'' ''https://github.com/squawkcpp'') (\<lambda>_.
     andthen (element device_n ''serialNumber'' ''0'') (\<lambda>_.
     andthen (element device_n ''UDN'' (format E ''uuid:{}'' [uuid config])) (\<lambda>_.
     andthen (element device_n ''dlna:X_DLNADOC'' ''DMS-1.50'') (\<lambda>dlna_doc_n.
     seq (attr dlna_doc_n ''xmlns:dlna'' ''urn:schemas-dlna-org:device-1-0'') (
     andthen (element device_n ''presentationURL'' ''/'') (\<lambda>_.
     ret ())))))))))))))"

definition describe_lists :: "node_ptr \<Rightarrow> (xnode, unit) act" where
  "describe_lists device_n =
     andthen (element device_n ''iconList'' []) (\<lambda>icon_list.
     seq (describe_icon icon_list ''48'' ''/squawk48.png'') (
     seq (describe_icon icon_list ''64'' ''/squawk64.png'') (
     seq (describe_icon icon_list ''128'' ''/squawk128.png'') (
     andthen (element device_n ''serviceList'' []) (\<lambda>service_list.
     seq (describe_service service_list ''urn:schemas-upnp-org:service:ContentDirectory:1''
            ''urn:upnp-org:serviceId:ContentDirectory'' ''/ctl/cds'' ''/ctl/cds'' ''/cds.xml'') (
     describe_service service_list ''urn:schemas-upnp-org:service:ConnectionManager:1''
            ''urn:upnp-org:serviceId:ConnectionManager'' ''/ctl/cms'' ''/ctl/cms'' ''/cms.xml''))))))"

definition description_build :: "env \<Rightarrow> Config \<Rightarrow> (xnode, unit) act" where
  "description_build E config =
     andthen (element [] ''root'' []) (\<lambda>root_n.
     seq (attr root_n ''xmlns'' ''urn:schemas-upnp-org:device-1-0'') (
     andthen (element root_n ''specVersion'' []) (\<lambda>spec_n.
     andthen (element spec_n ''major'' ''1'') (\<lambda>_.
     andthen (element spec_n ''minor'' ''0'') (\<lambda>_.
     andthen (element root_n ''device'' []) (\<lambda>device_n.
     seq (describe_device E config device_n) (
     describe_lists device_n)))))))"

definition description_doc :: "env \<Rightarrow> Config \<Rightarrow> xnode" where
  "description_doc E config = snd (description_build E config new_document)"

definition description_text :: "env \<Rightarrow> Config \<Rightarrow> string" where
  \<open>description_text E config =
     ''<?xml version="1.0"?>'' @ [CHR 0x0D, CHR 0x0A] @ xml_print E (description_doc E config)\<close>

definition description :: "env \<Rightarrow> Config \<Rightarrow> request \<Rightarrow> (world, http_status) act" where
  "description E config req =
     seq (respond (Write (description_text E config))) (
     seq (respond (Set_parameter (CONTENT_TYPE E) (mime_XML E))) (
     seq (respond (Set_parameter ''EXT'' [])) (
     ret OK)))"

section \<open>The configuration\<close>

definition config_handler :: "env \<Rightarrow> 'db redis \<Rightarrow> 'db \<Rightarrow> request \<Rightarrow> (world, http_status) act" where
  "config_handler E R db req =
     andthen (lift_res (data_config R db)) (\<lambda>json.
     seq (respond (Write json)) (
     seq (respond (Set_parameter (CONTENT_TYPE E) (mime_JSON E))) (
     seq (respond (Set_parameter ''Access-Control-Allow-Origin'' ''*'')) (
     ret OK))))"

section \<open>Lemmas on commands\<close>

text \<open>the action names.  Exactly seven names are recognised, each for its own command, and every other
  name is no command.  The printed name of a command reads back as the command, except for a browse, which
  prints as \<open>BrowseFlag\<close> and reads back as no command.
\<close>

theorem command_names:
  "(UpnpCommand_parse s \<noteq> NONE \<longleftrightarrow>
      c_str s \<in> {''Browse'', ''GetSearchCapabilities'', ''GetSortCapabilities'', ''GetSystemUpdateID'',
                ''GetCurrentConnectionIDs'', ''GetCurrentConnectionInfo'', ''GetProtocolInfo''})
   \<and> (UpnpCommand_parse s = UpnpCommand_parse s' \<and> UpnpCommand_parse s \<noteq> NONE \<longrightarrow> c_str s = c_str s')
   \<and> UpnpCommand_parse (UpnpCommand_type_str t) = (if t = BROWSE then NONE else t)"
proof (intro conjI)
  show "UpnpCommand_parse (UpnpCommand_type_str t) = (if t = BROWSE then NONE else t)"
    by (cases t) (simp_all add: UpnpCommand_parse_def)
qed (simp_all add: UpnpCommand_parse_def)

lemma UpnpCommand_get_fst [simp]:
  "fst (UpnpCommand_get c k) = (case map_find (cmd_values c) k of Some v \<Rightarrow> v | None \<Rightarrow> [])"
  by (simp add: UpnpCommand_get_def map_index_def split: option.split)

lemma UpnpCommand_get_find:
  "map_find (cmd_values (snd (UpnpCommand_get c k))) j =
     (if j = k \<and> map_find (cmd_values c) k = None then Some [] else map_find (cmd_values c) j)"
  by (simp add: UpnpCommand_get_def map_index_def split: option.split)

text \<open>Every argument of a command is a field of the inner loop.\<close>

interpretation arg: field_step flag_step "\<lambda>c. map_find (cmd_values c) k" k "\<lambda>n. Some (pvalue n)" for k
  by unfold_locales (simp add: flag_step_def)

lemma flags_type: "cmd_type (fold flag_step ns c) = cmd_type c"
  by (rule fold_frame) (simp add: flag_step_def)

lemma flags_sorted: "sorted_keys (cmd_values c) \<Longrightarrow> sorted_keys (cmd_values (fold flag_step ns c))"
  by (induction ns arbitrary: c) (simp_all add: flag_step_def)

lemma action_step_type [simp]: "cmd_type (action_step n c) = UpnpCommand_parse (local_name n)"
  by (simp add: action_step_def FOR_star flags_type)

lemma actions_type:
  "cmd_type (fold action_step as c) =
     (if as = [] then cmd_type c else UpnpCommand_parse (local_name (last as)))"
  by (induction as rule: rev_induct) (simp_all add: action_step_def FOR_star flags_type)

lemma actions_sorted: "sorted_keys (cmd_values c) \<Longrightarrow> sorted_keys (cmd_values (fold action_step as c))"
  by (induction as arbitrary: c) (simp_all add: action_step_def FOR_star flags_sorted)

lemma actions_find:
  "map_find (cmd_values (fold action_step as c)) k =
     (case last_named k (List.concat (map pkids as)) of
        None \<Rightarrow> map_find (cmd_values c) k | Some n \<Rightarrow> Some (pvalue n))"
  by (induction as rule: rev_induct)
    (simp_all add: action_step_def FOR_star arg.field_fold last_named_append split: option.split)

lemma bodies_actions: "fold body_step bs c = fold action_step (List.concat (map pkids bs)) c"
  by (induction bs arbitrary: c) (simp_all add: body_step_def FOR_star)

lemma Server_parse_run:
  assumes "xml_parse E (c_str body) = Some (root # rest)"
  shows "Server_parse E body = Inr (fold action_step (grandkids ''Body'' root) new_UpnpCommand)"
  using assms
  by (simp add: Server_parse_def FOR_fold filter_for_matches bodies_actions grandkids_def)

lemma Server_parse_sorted:
  assumes "Server_parse E body = Inr c"
  shows "sorted_keys (cmd_values c)"
proof -
  obtain root rest where "xml_parse E (c_str body) = Some (root # rest)"
    using assms by (auto simp: Server_parse_def split: option.splits list.splits)
  with assms Server_parse_run [OF this] show ?thesis
    by (auto simp: new_UpnpCommand_def intro: actions_sorted)
qed

text \<open>C21: what the SOAP parser reads.  The command is the one the last element inside a \<open>Body\<close> names, every
  argument has the text of the last element of its name among the children of those elements, and there are
  no other arguments.
\<close>

theorem Server_parse_reads:
  assumes "xml_parse E (c_str body) = Some (root # rest)"
  shows "\<exists>c. Server_parse E body = Inr c
    \<and> cmd_type c = (case rev (grandkids ''Body'' root) of
                      [] \<Rightarrow> NONE | action # _ \<Rightarrow> UpnpCommand_parse (local_name action))
    \<and> (\<forall>k. map_find (cmd_values c) k =
             map_option pvalue (last_named k (List.concat (map pkids (grandkids ''Body'' root)))))
    \<and> sorted_keys (cmd_values c)"
proof -
  let ?as = "grandkids ''Body'' root"
  let ?c = "fold action_step ?as new_UpnpCommand"
  have "cmd_type ?c = (case rev ?as of [] \<Rightarrow> NONE | a # _ \<Rightarrow> UpnpCommand_parse (local_name a))"
    by (cases ?as rule: rev_cases) (simp_all add: actions_type new_UpnpCommand_def)
  moreover have "\<forall>k. map_find (cmd_values ?c) k = map_option pvalue (last_named k (List.concat (map pkids ?as)))"
    by (simp add: actions_find new_UpnpCommand_def split: option.split)
  ultimately show ?thesis using Server_parse_run [OF assms] Server_parse_sorted [of E body] by blast
qed

section \<open>Lemmas on subscriptions\<close>

lemma str_at_Cons [simp]: "str_at (c # s) 0 = Inr c"
  by (simp add: str_at_def)

lemma str_at_last [simp]: "str_at s (size_pred (length s)) = (if s = [] then Inl Out_of_range else Inr (last s))"
  by (simp add: str_at_def size_pred_def last_conv_nth)

lemma strip_callback_Cons:
  "strip_callback (c # s) =
     (let t = (if c = CHR ''<'' then s else c # s) in
      if t = [] then Inl Out_of_range else Inr (if last t = CHR ''>'' then butlast t else t))"
  by (simp add: strip_callback_def Let_def del: last.simps butlast.simps)

lemma strip_callback_bracketed: "strip_callback (''<'' @ u @ ''>'') = Inr u"
  by (simp add: strip_callback_Cons)

text \<open>the callback url of a subscription.  The url between angle brackets is taken as it is, a url
  without them is unchanged, and among the non-empty values only the single character \<open><\<close> throws.
\<close>

theorem strip_callback_cases:
  "strip_callback (''<'' @ u @ ''>'') = Inr u
   \<and> (s \<noteq> [] \<longrightarrow> (strip_callback s = Inl Out_of_range \<longleftrightarrow> s = ''<''))
   \<and> (s \<noteq> [] \<and> hd s \<noteq> CHR ''<'' \<and> last s \<noteq> CHR ''>'' \<longrightarrow> strip_callback s = Inr s)"
proof (intro conjI)
  show "strip_callback (''<'' @ u @ ''>'') = Inr u" by (rule strip_callback_bracketed)
  show "s \<noteq> [] \<longrightarrow> (strip_callback s = Inl Out_of_range \<longleftrightarrow> s = ''<'')"
    by (cases s) (simp_all add: strip_callback_Cons Let_def del: last.simps butlast.simps)
  show "s \<noteq> [] \<and> hd s \<noteq> CHR ''<'' \<and> last s \<noteq> CHR ''>'' \<longrightarrow> strip_callback s = Inr s"
    by (cases s) (simp_all add: strip_callback_Cons Let_def del: last.simps butlast.simps)
qed

lemma publish_callback_run:
  "publish_callback req topic w =
     (if req_parameter req ''Callback'' = [] then (Inr (), w)
      else case strip_callback (req_parameter req ''Callback'') of
        Inl e \<Rightarrow> (Inl e, w)
      | Inr cb \<Rightarrow> (Inr (), w\<lparr>published := published w @ [(topic, cb)]\<rparr>))"
  by (simp add: publish_callback_def Let_def andthen_apply split: sum.split)

text \<open>C27: a subscription to the content directory.  With a callback between angle brackets the request
  succeeds, publishes exactly one message, the url on the topic \<open>CDS_SUBSCRIBE\<close>, and answers with an empty
  body of half an hour; without a callback it answers the same and publishes nothing.  The answer has no
  subscription id.
\<close>

theorem cds_subscribe:
  assumes "req_method req = ''SUBSCRIBE''"
    "req_parameter req ''Callback'' = [] \<and> msgs = [] \<or>
     req_parameter req ''Callback'' = ''<'' @ url @ ''>'' \<and> msgs = [(''CDS_SUBSCRIBE'', url)]"
  shows "cds E R db config req w = (Inr OK, w\<lparr>
     response := response w @ [Set_parameter (CONTENT_LENGTH E) ''0'', Set_parameter ''Timeout'' ''Second-1800'',
                               Set_parameter (CONTENT_TYPE E) (mime_XML E)],
     published := published w @ msgs\<rparr>)"
  using assms(2) strip_callback_bracketed [of url]
  by (auto simp: cds_def assms(1) andthen_apply publish_callback_run)

section \<open>The contract of a handler\<close>

text \<open>
  What the http server relies on: a handler that returns answers \<open>OK\<close> and has set the content type, and no
  handler, not even one that throws, takes back what was written or published before.
\<close>

definition serve :: "(request \<Rightarrow> (world, http_status) act) \<Rightarrow> request list \<Rightarrow> (world, unit) act" where
  "serve handler reqs = for_each (\<lambda>r. andthen (handler r) (\<lambda>_. ret ())) reqs"

lemma serve_Cons:
  "serve handler (r # reqs) w = (Inr (), w') \<longleftrightarrow>
     (\<exists>s v. handler r w = (Inr s, v) \<and> serve handler reqs v = (Inr (), w'))"
  by (auto simp: serve_def andthen_Inr)

lemma serve_Nil [simp]: "serve handler [] w = (Inr (), w)"
  by (simp add: serve_def)

locale http_handler =
  fixes handler :: "request \<Rightarrow> (world, http_status) act"
    and E :: env
    and ctype :: string
  assumes answers: "header_law E \<Longrightarrow> handler req w = (Inr s, w') \<Longrightarrow>
      s = OK \<and> parameter_of (response w') (CONTENT_TYPE E) = Some ctype"
    and keeps: "act_keeps grows (handler req)"
begin

lemma serve_keeps: "act_keeps grows (serve handler reqs)"
  unfolding serve_def
  by (intro grows.keeps_for_each grows.keeps_andthen keeps) (simp add: ret_def)

lemma handler_cases:
  assumes "header_law E"
  obtains (returns) w' where "handler req w = (Inr OK, w')" "grows w w'"
      "parameter_of (response w') (CONTENT_TYPE E) = Some ctype"
  | (throws) e w' where "handler req w = (Inl e, w')" "grows w w'"
proof (cases "handler req w")
  case (Pair r w')
  have grow: "grows w w'" using act_keepsD [OF keeps, of w req] Pair by simp
  show thesis
  proof (cases r)
    case (Inl e)
    with Pair grow throws show thesis by blast
  next
    case (Inr s)
    with Pair answers [OF assms] grow returns show thesis by blast
  qed
qed

lemma serve_answers:
  assumes "header_law E" "reqs \<noteq> []"
    "serve handler reqs w = (Inr (), w')"
  shows "parameter_of (response w') (CONTENT_TYPE E) = Some ctype"
  using assms(2,3)
proof (induction reqs arbitrary: w)
  case (Cons r reqs)
  then obtain s v where run: "handler r w = (Inr s, v)"
      "serve handler reqs v = (Inr (), w')"
    by (auto simp: serve_Cons)
  show ?case
  proof (cases "reqs = []")
    case True
    with run answers [OF assms(1)] show ?thesis by auto
  next
    case False
    with run Cons.IH show ?thesis by blast
  qed
qed simp

end

lemma keeps_lift [simp]: "act_keeps grows (lift_res r)"
  by (simp add: act_keeps_def grows.refl)

lemma keeps_ret [simp]: "act_keeps grows (ret x)"
  by (simp add: act_keeps_def grows.refl)

lemma keeps_with_Didl [simp]: "act_keeps grows (with_Didl m)"
  by (simp add: act_keeps_def with_Didl_def grows.refl split: prod.split sum.split)

lemma keeps_publish_callback [simp]: "act_keeps grows (publish_callback req topic)"
  by (simp add: publish_callback_def Let_def grows.keeps_andthen)

lemma keeps_cds_browse [simp]: "act_keeps grows (cds_browse E R db config cmd)"
  unfolding cds_browse_def Let_def
  by (intro grows.keeps_andthen) (simp_all add: grows.keeps_andthen split: prod.split)

lemma keeps_cds_post [simp]: "act_keeps grows (cds_post E R db config cmd)"
  by (simp add: cds_post_def)

lemma keeps_cms_post [simp]: "act_keeps grows (cms_post E cmd)"
  by (simp add: cms_post_def grows.keeps_andthen)

lemma answers_last:
  assumes "seq m (seq (respond (Set_parameter k v)) (ret OK)) w = (Inr s, w')"
  shows "s = OK \<and> parameter_of (response w') k = Some v"
  using assms by (auto simp: andthen_Inr)

interpretation cds_handler: http_handler "cds E R db config" E "mime_XML E" for E R db config
proof
  show "act_keeps grows (cds E R db config req)" for req
    by (simp add: cds_def grows.keeps_andthen)
qed (unfold cds_def, erule answers_last)

interpretation cms_handler: http_handler "cms E config" E "mime_XML E" for E config
proof
  show "act_keeps grows (cms E config req)" for req
    by (simp add: cms_def grows.keeps_andthen)
qed (unfold cms_def, erule answers_last)

interpretation description_handler: http_handler "description E config" E "mime_XML E" for E config
proof
  show "act_keeps grows (description E config req)" for req
    by (simp add: description_def grows.keeps_andthen)
next
  fix req w s w'
  assume "header_law E" "description E config req w = (Inr s, w')"
  then show "s = OK \<and> parameter_of (response w') (CONTENT_TYPE E) = Some (mime_XML E)"
    by (auto simp: description_def andthen_apply header_law_def)
qed

interpretation config_handler: http_handler "config_handler E R db" E "mime_JSON E" for E R db
proof
  show "act_keeps grows (config_handler E R db req)" for req
    by (simp add: config_handler_def grows.keeps_andthen)
next
  fix req w s w'
  assume "header_law E" "config_handler E R db req w = (Inr s, w')"
  then show "s = OK \<and> parameter_of (response w') (CONTENT_TYPE E) = Some (mime_JSON E)"
    by (auto simp: config_handler_def andthen_Inr header_law_def)
qed

text \<open>the handlers of the two services.  A run of any requests through \<open>cds\<close>, or through \<open>cms\<close>, never
  withdraws a call on the response or a published message, and when it returns, the content type is that of
  XML.
\<close>

theorem services_answer:
  assumes "header_law E" "reqs \<noteq> []"
    "handler = cds E R db config \<or> handler = cms E config"
    "serve handler reqs w = (r, w')"
  shows "grows w w' \<and> (r = Inr () \<longrightarrow> parameter_of (response w') (CONTENT_TYPE E) = Some (mime_XML E))"
  using assms(3)
proof
  assume h: "handler = cds E R db config"
  show ?thesis
    using act_keepsD [OF cds_handler.serve_keeps, of w E R db config reqs] assms(4)
      cds_handler.serve_answers [OF assms(1,2), of R db config w w']
    by (simp add: h)
next
  assume h: "handler = cms E config"
  show ?thesis
    using act_keepsD [OF cms_handler.serve_keeps, of w E config reqs] assms(4)
      cms_handler.serve_answers [OF assms(1,2), of config w w']
    by (simp add: h)
qed

end
