(* ===== verification/Browse.thy ===== *)
theory Browse
  imports Server
begin

text \<open>
  The content directory as a client sees it: what \<open>cds\<close> of the theory \<open>Server\<close> answers to a SOAP browse
  request, from the SOAP command through the database and the DIDL-Lite document to the envelope.  The
  hypotheses are the documented behaviour of redis and that the nodes concerned are complete.
\<close>

section \<open>The answer\<close>

definition didl_document :: "xnode list \<Rightarrow> xnode" where
  "didl_document entries =
     XNode [] [] [] [XNode ''DIDL-Lite'' []
       [(''xmlns'', XML_NS_DIDL), (''xmlns:dc'', XML_NS_PURL), (''xmlns:dlna'', XML_NS_DLNA),
        (''xmlns:upnp'', XML_NS_UPNP), (''xmlns:pv'', XML_NS_PV)] entries]"

text \<open>The envelope for a list of entries, with the two numbers it reports.\<close>

definition browse_answer :: "env \<Rightarrow> xnode list \<Rightarrow> int \<Rightarrow> int \<Rightarrow> resp_op list" where
  "browse_answer E entries returned matches =
     [Write (soap_envelope E (XML_DECL @ xml_print E (didl_document entries)) returned matches),
      Set_parameter (CONTENT_TYPE E) (mime_XML E)]"

definition node_of :: "'db redis \<Rightarrow> 'db \<Rightarrow> string \<Rightarrow> std_map" where
  "node_of R db k = (case data_node R db k of Inr m \<Rightarrow> m | Inl _ \<Rightarrow> [])"

text \<open>A node can be listed when it has no class, or all the attributes its class requires.\<close>

definition listable :: "'db redis \<Rightarrow> 'db \<Rightarrow> string \<Rightarrow> bool" where
  "listable R db k \<longleftrightarrow> (map_contains (node_of R db k) param_CLASS \<longrightarrow> complete (node_of R db k))"

definition entries_at :: "env \<Rightarrow> 'db redis \<Rightarrow> 'db \<Rightarrow> Config \<Rightarrow> string list \<Rightarrow> xnode list" where
  "entries_at E R db config keys = entries_of E R db config (map (\<lambda>k. (k, node_of R db k)) keys)"

text \<open>The object of a request: the given id, where the empty id and \<open>0\<close> stand for the root.\<close>

definition arg_of :: "UpnpCommand \<Rightarrow> string \<Rightarrow> string" where
  "arg_of cmd k = (case map_find (cmd_values cmd) k of Some v \<Rightarrow> v | None \<Rightarrow> [])"

definition browsed_object :: "UpnpCommand \<Rightarrow> string" where
  "browsed_object cmd = (let k = arg_of cmd OBJECT_ID in if k = [] \<or> k = ''0'' then ''root'' else k)"

text \<open>A request is a browse command with a flag, a first index and a count.\<close>

definition is_browse :: "env \<Rightarrow> request \<Rightarrow> UpnpCommand \<Rightarrow> string \<Rightarrow> int \<Rightarrow> int \<Rightarrow> bool" where
  "is_browse E req cmd flag i c \<longleftrightarrow>
     req_method req = ''POST'' \<and> Server_parse E (req_str req) = Inr cmd \<and> cmd_type cmd = BROWSE
     \<and> map_find (cmd_values cmd) BROWSE_FLAG = Some flag
     \<and> int_arg cmd ''StartingIndex'' = Inr i \<and> int_arg cmd ''RequestedCount'' = Inr c"

section \<open>Lemmas\<close>

lemma data_node_total:
  assumes "hash_law R hashes"
  shows "data_node R db k = Inr (node_of R db k)"
proof -
  obtain ps where "sync_vec R db [redis_HGETALL, make_key_node k] = Some (push_pairs ps)"
    using assms unfolding hash_law_iff by blast
  then show ?thesis by (simp add: node_of_def data_node_def to_map_push_pairs)
qed

lemma write_keys:
  assumes "hash_law R hashes"
  shows "for_each (write_key E R db config) keys =
    for_each (\<lambda>(key, vs). Didl_write E R db config key vs) (map (\<lambda>k. (k, node_of R db k)) keys)"
  by (induction keys) (simp_all add: write_key_def data_node_total [OF assms])

lemma with_Didl_keys:
  assumes "hash_law R hashes" "\<forall>k \<in> set keys. listable R db k"
  shows "with_Didl (for_each (write_key E R db config) keys) w =
    (Inr \<lparr>didl_doc = didl_document (entries_at E R db config keys),
          didl_result = int (length (entries_at E R db config keys))\<rparr>, w)"
proof -
  let ?nodes = "map (\<lambda>k. (k, node_of R db k)) keys"
  have "\<forall>(key, vs) \<in> set ?nodes. map_contains vs param_CLASS \<longrightarrow> complete vs"
    using assms(2) by (auto simp: listable_def)
  from Didl_write_list [OF new_Didl_root this, of E R db config] show ?thesis
    by (simp add: with_Didl_def write_keys [OF assms(1)] didl_document_def add_kids_def entries_at_def
        new_Didl_def)
qed

lemma get_object_id:
  "UpnpCommand_get cmd OBJECT_ID = (arg_of cmd OBJECT_ID, snd (UpnpCommand_get cmd OBJECT_ID))"
  by (simp add: arg_of_def prod_eq_iff split: option.split)

text \<open>The three ways through a browse.\<close>

lemma cds_browse_eq:
  assumes "is_browse E req cmd flag i c"
  shows "cds_browse E R db config cmd w =
    (if flag = BROWSE_METADATA then
       andthen (lift_res (data_node R db (browsed_object cmd))) (\<lambda>node.
       andthen (with_Didl (Didl_write E R db config (arg_of cmd OBJECT_ID) node)) (\<lambda>didl.
       respond (Write (soap_envelope E (Didl_str E didl) 1 1)))) w
     else if flag = BROWSE_DIRECT_CHILDREN then
       andthen (with_Didl
         (if NodeType_parse (data_get R db (browsed_object cmd) param_CLASS) = album
          then data_files R db (browsed_object cmd) audio i (if c = 0 then - 1 else c) (write_key E R db config)
          else data_children R db (browsed_object cmd) i (if c = 0 then - 1 else c) ''alpha'' ''asc'' []
                 (write_key E R db config))) (\<lambda>didl.
       respond (Write (soap_envelope E (Didl_str E didl) (Didl_count didl)
         (children_count R db (browsed_object cmd))))) w
     else (Inr (), w))"
proof -
  define cmd' where "cmd' = snd (UpnpCommand_get cmd OBJECT_ID)"
  have get: "UpnpCommand_get cmd OBJECT_ID = (arg_of cmd OBJECT_ID, cmd')"
    unfolding cmd'_def by (rule get_object_id)
  have flag: "map_find (cmd_values cmd') BROWSE_FLAG = Some flag"
    using assms by (simp add: is_browse_def UpnpCommand_get_find cmd'_def)
  have oid: "fst (UpnpCommand_get cmd' OBJECT_ID) = arg_of cmd OBJECT_ID"
    by (simp add: UpnpCommand_get_find cmd'_def arg_of_def split: option.split)
  have obj: "(if arg_of cmd OBJECT_ID = [] \<or> arg_of cmd OBJECT_ID = ''0'' then ''root'' else arg_of cmd OBJECT_ID) =
      browsed_object cmd"
    by (simp only: browsed_object_def Let_def)
  have has: "UpnpCommand_contains cmd' BROWSE_FLAG" "fst (UpnpCommand_get cmd' BROWSE_FLAG) = flag"
    by (simp_all add: UpnpCommand_contains_def map_contains_def flag)
  have args: "int_arg cmd ''StartingIndex'' = Inr i" "int_arg cmd ''RequestedCount'' = Inr c"
    using assms by (simp_all add: is_browse_def)
  show ?thesis
    unfolding cds_browse_def args andthen_lift Let_def get prod.case obj oid has
    by (simp only: has simp_thms if_distrib [of "\<lambda>m. m w"] ret_run)
qed

lemma cds_browse_post:
  assumes "is_browse E req cmd flag i c" "cds_browse E R db config cmd w = (Inr (), w')"
  shows "cds E R db config req w = (Inr OK, w'\<lparr>response := response w' @ [Set_parameter (CONTENT_TYPE E) (mime_XML E)]\<rparr>)"
  using assms by (simp add: cds_def is_browse_def andthen_apply cds_post_def)

lemma browse_children_run:
  assumes "is_browse E req cmd BROWSE_DIRECT_CHILDREN i c" "k = browsed_object cmd"
    "(if NodeType_parse (data_get R db k param_CLASS) = album
      then data_files R db k audio i (if c = 0 then - 1 else c) (write_key E R db config)
      else data_children R db k i (if c = 0 then - 1 else c) ''alpha'' ''asc'' [] (write_key E R db config)) =
     for_each (write_key E R db config) keys"
    "hash_law R hashes" "\<forall>k \<in> set keys. listable R db k"
  shows "cds E R db config req w = (Inr OK, w\<lparr>response := response w @
    browse_answer E (entries_at E R db config keys) (int (length (entries_at E R db config keys)))
      (children_count R db k)\<rparr>)"
proof -
  have "cds_browse E R db config cmd w = (Inr (), w\<lparr>response := response w @
      [hd (browse_answer E (entries_at E R db config keys) (int (length (entries_at E R db config keys)))
        (children_count R db k))]\<rparr>)"
    unfolding cds_browse_eq [OF assms(1)] assms(2) [symmetric] assms(3)
    by (simp add: andthen_apply with_Didl_keys [OF assms(4,5)] browse_answer_def Didl_str_def Didl_count_def)
  from cds_browse_post [OF assms(1) this] show ?thesis by (simp add: browse_answer_def)
qed

lemma children_count_zset: "zset_law R zset \<Longrightarrow> children_count R db k = int (length (zset db (make_key_list k)))"
  by (simp add: children_count_def zcard_reply)

lemma window_keys:
  assumes "0 \<le> i" "1 \<le> c" "int32 (i + c)"
  shows "last_index i c = Inr (i + c - 1)"
  using assms by (auto simp: int32_def)

section \<open>Browsing the children\<close>

text \<open>C1: browse a window of the children.  For a container other than an album, a first index and a positive
  count, the answer is the DIDL-Lite document of exactly the children in that window of the alphabetical list,
  in order; it reports the number of entries it holds and, as the total, the number of members of the
  container.  Nothing else is written and nothing is published.
\<close>

theorem browse_window:
  assumes "list_law R lst" "zset_law R zset" "hash_law R hashes"
    "is_browse E req cmd BROWSE_DIRECT_CHILDREN i c" "0 \<le> i" "1 \<le> c" "int32 (i + c)"
    "k = browsed_object cmd" "NodeType_parse (data_get R db k param_CLASS) \<noteq> album"
    "keys = take (nat c) (drop (nat i) (lst db (sort_key k ''alpha'' ''asc'')))"
    "\<forall>k \<in> set keys. listable R db k"
  shows "cds E R db config req w = (Inr OK, w\<lparr>response := response w @
    browse_answer E (entries_at E R db config keys) (int (length (entries_at E R db config keys)))
      (int (length (zset db (make_key_list k))))\<rparr>)"
proof -
  have "data_children R db k i c ''alpha'' ''asc'' [] (write_key E R db config) =
      for_each (write_key E R db config) keys"
    using assms(5,6) by (simp add: data_children_sorted [OF assms(1)] redis_range_window window_keys [OF assms(5-7)] assms(10))
  with assms(6,9) show ?thesis
    by (subst browse_children_run [OF assms(4,8) _ assms(3,11)])
      (simp_all add: children_count_zset [OF assms(2)])
qed

text \<open>C3: browse an album.  The entries are the window of the album's audio files, but the total is the number of
  members of the album's general list, which need not be the number of its audio files.
\<close>

theorem browse_album:
  assumes "zset_law R zset" "hash_law R hashes"
    "is_browse E req cmd BROWSE_DIRECT_CHILDREN i c" "0 \<le> i" "1 \<le> c" "int32 (i + c)"
    "k = browsed_object cmd" "NodeType_parse (data_get R db k param_CLASS) = album"
    "keys = take (nat c) (drop (nat i) (zset db (''fs:'' @ k @ '':types:audio'')))"
    "\<forall>k \<in> set keys. listable R db k"
  shows "cds E R db config req w = (Inr OK, w\<lparr>response := response w @
    browse_answer E (entries_at E R db config keys) (int (length (entries_at E R db config keys)))
      (int (length (zset db (make_key_list k))))\<rparr>)"
proof -
  have "data_files R db k audio i c (write_key E R db config) = for_each (write_key E R db config) keys"
    using assms(4,5)
    by (simp add: data_files_range [OF assms(1)] make_key_types_eq window_keys [OF assms(4-6)]
        redis_range_window assms(9))
  with assms(5,8) show ?thesis
    by (subst browse_children_run [OF assms(3,7) _ assms(2,10)])
      (simp_all add: children_count_zset [OF assms(1)])
qed

text \<open>C4: browse all children.  A count of zero, or none, asks for everything (UPnP ContentDirectory, and the
  comment in the code).  The answer leaves the last child out when the index is zero, holds all children from the
  second on when it is one, and is empty from any later index.
\<close>

theorem browse_all:
  assumes "list_law R lst" "hash_law R hashes"
    "is_browse E req cmd BROWSE_DIRECT_CHILDREN i 0" "0 \<le> i" "i \<le> INT_MAX"
    "k = browsed_object cmd" "NodeType_parse (data_get R db k param_CLASS) \<noteq> album"
    "chs = lst db (sort_key k ''alpha'' ''asc'')"
    "keys = (if i = 0 then butlast chs else if i = 1 then tl chs else [])"
    "\<forall>k \<in> set keys. listable R db k"
  shows "cds E R db config req w = (Inr OK, w\<lparr>response := response w @
    browse_answer E (entries_at E R db config keys) (int (length (entries_at E R db config keys)))
      (children_count R db k)\<rparr>)"
proof -
  have "last_index i (- 1) = Inr (i - 2)" using assms(4,5) by (auto simp: int32_def)
  then have "data_children R db k i (- 1) ''alpha'' ''asc'' [] (write_key E R db config) =
      for_each (write_key E R db config) keys"
    using assms(4) by (simp add: data_children_sorted [OF assms(1)] redis_range_minus2 assms(8,9))
  with assms(7) show ?thesis
    by (subst browse_children_run [OF assms(3,6) _ assms(2,10)]) simp_all
qed

section \<open>Browsing one object\<close>

lemma browse_metadata_run:
  assumes "hash_law R hashes" "is_browse E req cmd BROWSE_METADATA i c"
    "k = browsed_object cmd" "listable R db k"
    "entries = (if map_contains (node_of R db k) param_CLASS
                then [didl_entry E R db config (arg_of cmd OBJECT_ID) (node_of R db k)] else [])"
  shows "cds E R db config req w =
    (Inr OK, w\<lparr>response := response w @ browse_answer E entries 1 1\<rparr>)"
proof -
  let ?nodes = "[(arg_of cmd OBJECT_ID, node_of R db k)]"
  have "entries_of E R db config ?nodes = entries"
    by (simp add: entries_of_def assms(5))
  moreover have "\<forall>(key, vs) \<in> set ?nodes. map_contains vs param_CLASS \<longrightarrow> complete vs"
    using assms(4) by (simp add: listable_def)
  ultimately have "Didl_write E R db config (arg_of cmd OBJECT_ID) (node_of R db k) new_Didl =
      (Inr (), \<lparr>didl_doc = didl_document entries, didl_result = int (length entries)\<rparr>)"
    using Didl_write_list [OF new_Didl_root, of ?nodes E R db config]
    by (simp add: andthen_apply resume_def didl_document_def add_kids_def new_Didl_def split: prod.splits sum.splits)
  then have "cds_browse E R db config cmd w =
      (Inr (), w\<lparr>response := response w @ [hd (browse_answer E entries 1 1)]\<rparr>)"
    unfolding cds_browse_eq [OF assms(2)] assms(3) [symmetric]
    by (simp add: andthen_apply data_node_total [OF assms(1)] with_Didl_def browse_answer_def Didl_str_def)
  from cds_browse_post [OF assms(2) this] show ?thesis by (simp add: browse_answer_def)
qed

text \<open>C2: browse the metadata of an object.  The answer holds the entry of the object, under the id the client
  sent, or no entry when the object has no class; it reports one result of one in both cases.
\<close>

theorem browse_metadata:
  assumes "hash_law R hashes" "is_browse E req cmd BROWSE_METADATA i c"
    "k = browsed_object cmd" "listable R db k"
    "entries = (if map_contains (node_of R db k) param_CLASS
                then [didl_entry E R db config (arg_of cmd OBJECT_ID) (node_of R db k)] else [])"
  shows "cds E R db config req w =
    (Inr OK, w\<lparr>response := response w @ browse_answer E entries 1 1\<rparr>)"
  using assms by (rule browse_metadata_run)

section \<open>Errors\<close>

lemma with_Didl_keys_fail:
  assumes "hash_law R hashes" "k \<in> set keys" "\<not> listable R db k"
  shows "with_Didl (for_each (write_key E R db config) keys) w = (Inl Out_of_range, w)"
proof -
  let ?nodes = "map (\<lambda>k. (k, node_of R db k)) keys"
  have "(k, node_of R db k) \<in> set ?nodes" using assms(2) by simp
  from Didl_write_list_incomplete [OF new_Didl_root this, of E R db config] assms(3) show ?thesis
    by (auto simp: with_Didl_def write_keys [OF assms(1)] listable_def)
qed

lemma int_arg_throws: "int_arg cmd k = Inl e \<Longrightarrow> e \<in> {Invalid_argument, Out_of_range}"
  by (auto simp: int_arg_def stoi_def split: option.splits if_splits)

lemma cds_browse_throws:
  assumes "is_browse E req cmd flag i c" "cds_browse E R db config cmd w = (Inl e, w)"
  shows "cds E R db config req w = (Inl e, w)"
  using assms by (simp add: cds_def is_browse_def andthen_apply cds_post_def)

lemma browse_children_throws:
  assumes "is_browse E req cmd BROWSE_DIRECT_CHILDREN i c" "c \<noteq> 0" "k = browsed_object cmd"
    "NodeType_parse (data_get R db k param_CLASS) \<noteq> album"
    "with_Didl (data_children R db k i c ''alpha'' ''asc'' [] (write_key E R db config)) w = (Inl e, w)"
  shows "cds E R db config req w = (Inl e, w)"
  using assms(2,4,5) cds_browse_eq [OF assms(1), of R db config w]
  by (intro cds_browse_throws [OF assms(1)]) (simp add: assms(3) andthen_apply)

lemma browse_window_fails:
  assumes "list_law R lst" "hash_law R hashes" "is_browse E req cmd BROWSE_DIRECT_CHILDREN i c"
    "0 \<le> i" "1 \<le> c" "int32 (i + c)" "k = browsed_object cmd" "NodeType_parse (data_get R db k param_CLASS) \<noteq> album"
  shows "cds E R db config req w = (Inl Out_of_range, w) \<longleftrightarrow>
    (\<exists>child \<in> set (take (nat c) (drop (nat i) (lst db (sort_key k ''alpha'' ''asc'')))). \<not> listable R db child)"
proof -
  define keys where "keys = take (nat c) (drop (nat i) (lst db (sort_key k ''alpha'' ''asc'')))"
  have lst: "data_children R db k i c ''alpha'' ''asc'' [] (write_key E R db config) = for_each (write_key E R db config) keys"
    using assms(4,5) by (simp add: data_children_sorted [OF assms(1)] redis_range_window window_keys [OF assms(4-6)] keys_def)
  show ?thesis
  proof (cases "\<forall>child \<in> set keys. listable R db child")
    case True
    then show ?thesis using assms(5,8) lst
      by (subst browse_children_run [OF assms(3,7) _ assms(2) True]) (simp_all add: keys_def)
  next
    case False
    then obtain child where "child \<in> set keys" "\<not> listable R db child" by blast
    with assms(5) lst have "cds E R db config req w = (Inl Out_of_range, w)"
      by (intro browse_children_throws [OF assms(3) _ assms(7,8)]) (simp_all add: with_Didl_keys_fail [OF assms(2)])
    with False show ?thesis by (simp add: keys_def)
  qed
qed

text \<open>C7: how browsing the children of a container fails.  An index or a count that is no number, or does not fit an
  \<^verbatim>\<open>int\<close>, throws what \<^verbatim>\<open>std::stoi\<close> throws; a window whose end does not fit an \<^verbatim>\<open>int\<close> overflows; and any other window
  throws \<^verbatim>\<open>std::out_of_range\<close> exactly when one of its children lacks an attribute its class requires, so one such
  child makes the whole window unreadable.  In every case nothing was written to the response.
\<close>

theorem browse_failures:
  assumes "list_law R lst" "hash_law R hashes"
    "req_method req = ''POST''" "Server_parse E (req_str req) = Inr cmd" "cmd_type cmd = BROWSE"
    "map_find (cmd_values cmd) BROWSE_FLAG = Some BROWSE_DIRECT_CHILDREN"
    "k = browsed_object cmd" "NodeType_parse (data_get R db k param_CLASS) \<noteq> album"
  shows "case int_arg cmd ''StartingIndex'' of
      Inl e \<Rightarrow> cds E R db config req w = (Inl e, w) \<and> e \<in> {Invalid_argument, Out_of_range}
    | Inr i \<Rightarrow> (case int_arg cmd ''RequestedCount'' of
        Inl e \<Rightarrow> cds E R db config req w = (Inl e, w) \<and> e \<in> {Invalid_argument, Out_of_range}
      | Inr c \<Rightarrow> 0 \<le> i \<and> 1 \<le> c \<longrightarrow>
          (if \<not> int32 (i + c) then cds E R db config req w = (Inl Signed_overflow, w)
           else cds E R db config req w = (Inl Out_of_range, w) \<longleftrightarrow>
             (\<exists>child \<in> set (take (nat c) (drop (nat i) (lst db (sort_key k ''alpha'' ''asc'')))). \<not> listable R db child)))"
proof -
  have post: "cds_browse E R db config cmd w = (Inl e, w) \<Longrightarrow> cds E R db config req w = (Inl e, w)" for e
    using assms(3-5) by (simp add: cds_def andthen_apply cds_post_def)
  show ?thesis
  proof (cases "int_arg cmd ''StartingIndex''")
    case (Inl e)
    then show ?thesis using post int_arg_throws [OF Inl] by (simp add: cds_browse_def)
  next
    case first: (Inr i)
    show ?thesis
    proof (cases "int_arg cmd ''RequestedCount''")
      case (Inl e)
      then show ?thesis using post int_arg_throws [OF Inl] by (simp add: cds_browse_def first)
    next
      case count: (Inr c)
      have browse: "is_browse E req cmd BROWSE_DIRECT_CHILDREN i c"
        using assms(3-6) first count by (simp add: is_browse_def)
      note windows = browse_window_fails [OF assms(1,2) browse _ _ _ assms(7,8)]
      have overflow: "cds E R db config req w = (Inl Signed_overflow, w)" if "1 \<le> c" "\<not> int32 (i + c)"
        using that by (intro browse_children_throws [OF browse _ assms(7,8)])
          (simp_all add: with_Didl_def data_children_def children_command_def last_index_def add32_def)
      show ?thesis using windows overflow by (simp add: first count)
    qed
  qed
qed

end
