(* ===== verification/Description.thy ===== *)
theory Description
  imports Server
begin

text \<open>
  The device description from both ends: \<open>description\<close> of the theory \<open>Server\<close> writes it, \<open>parse_device\<close> of the
  theory \<open>Device\<close> reads it.  What lies between them, printing and parsing, is the XML library; the hypothesis is
  that it reads back the document it printed.
\<close>

section \<open>The document\<close>

text \<open>Icons and services as the description lists them.\<close>

definition icon_doc :: "string \<Rightarrow> string \<Rightarrow> xnode" where
  "icon_doc px url = XNode ''icon'' [] []
     [XNode ''mimetype'' ''image/png'' [] [], XNode ''width'' px [] [], XNode ''height'' px [] [],
      XNode ''depth'' ''24'' [] [], XNode ''url'' url [] []]"

definition service_doc :: "string \<Rightarrow> string \<Rightarrow> string \<Rightarrow> string \<Rightarrow> string \<Rightarrow> xnode" where
  "service_doc type_str id_str control event scpd = XNode ''service'' [] []
     [XNode ''serviceType'' type_str [] [], XNode ''serviceId'' id_str [] [],
      XNode ''controlURL'' control [] [], XNode ''eventSubURL'' event [] [], XNode ''SCPDURL'' scpd [] []]"

text \<open>
  The document while the device is written: the parts before it, and the children of the device so far.
\<close>

definition dev_doc :: "xnode \<Rightarrow> xnode list \<Rightarrow> xnode" where
  "dev_doc spec ks =
     XNode [] [] [] [XNode ''root'' [] [(''xmlns'', ''urn:schemas-upnp-org:device-1-0'')]
       [spec, XNode ''device'' [] [] ks]]"

lemma describe_icon_run:
  "describe_icon [0, Suc 0, length ds] px url (dev_doc spec (ds @ [XNode a b as is])) =
     (Inr (), dev_doc spec (ds @ [XNode a b as (is @ [icon_doc (c_str px) (c_str url)])]))"
  by (simp add: describe_icon_def build_run dev_doc_def icon_doc_def)

lemma describe_service_run:
  "describe_service [0, Suc 0, length ds] type_str id_str control event scpd (dev_doc spec (ds @ [XNode a b as is])) =
     (Inr (), dev_doc spec (ds @ [XNode a b as (is @
        [service_doc (c_str type_str) (c_str id_str) (c_str control) (c_str event) (c_str scpd)])]))"
  by (simp add: describe_service_def build_run dev_doc_def service_doc_def)

lemma dev_doc_element:
  "element [0, Suc 0] nm v (dev_doc spec ds) =
     (Inr [0, Suc 0, length ds], dev_doc spec (ds @ [XNode (c_str nm) (c_str v) [] []]))"
  by (simp add: build_run dev_doc_def)

lemma dev_doc_attr:
  "attr [0, Suc 0, length ds] nm v (dev_doc spec (ds @ [XNode a b as ks])) =
     (Inr (), dev_doc spec (ds @ [XNode a b (as @ [(c_str nm, c_str v)]) ks]))"
  by (simp add: build_run dev_doc_def)

definition list_docs :: "xnode list" where
  "list_docs =
     [XNode ''iconList'' [] []
        [icon_doc ''48'' ''/squawk48.png'', icon_doc ''64'' ''/squawk64.png'',
         icon_doc ''128'' ''/squawk128.png''],
      XNode ''serviceList'' [] []
        [service_doc NS_CONTENT_DIRECTORY ''urn:upnp-org:serviceId:ContentDirectory''
           ''/ctl/cds'' ''/ctl/cds'' ''/cds.xml'',
         service_doc NS_CONNECTION_MANAGER ''urn:upnp-org:serviceId:ConnectionManager''
           ''/ctl/cms'' ''/ctl/cms'' ''/cms.xml'']]"

lemma describe_lists_run: "describe_lists [0, Suc 0] (dev_doc spec ds) = (Inr (), dev_doc spec (ds @ list_docs))"
  using describe_icon_run [of ds] describe_service_run [of "ds @ [x]" for x]
  by (simp add: describe_lists_def andthen_apply dev_doc_element list_docs_def c_str_Cons)

definition device_docs :: "string \<Rightarrow> string \<Rightarrow> xnode list" where
  "device_docs friendly udn_str =
     [XNode ''deviceType'' NS_MEDIASERVER [] [],
      XNode ''friendlyName'' friendly [] [],
      XNode ''manufacturer'' ''loudlabs'' [] [],
      XNode ''manufacturerURL'' ''https://github.com/squawkcpp'' [] [],
      XNode ''modelDescription'' ''Squawk Content Directory Server.'' [] [],
      XNode ''modelName'' ''Squawk Media Server'' [] [],
      XNode ''modelNumber'' ''0'' [] [],
      XNode ''modelURL'' ''https://github.com/squawkcpp'' [] [],
      XNode ''serialNumber'' ''0'' [] [],
      XNode ''UDN'' udn_str [] [],
      XNode ''dlna:X_DLNADOC'' ''DMS-1.50'' [(''xmlns:dlna'', ''urn:schemas-dlna-org:device-1-0'')] [],
      XNode ''presentationURL'' ''/'' [] []]"

lemma describe_device_run:
  "describe_device E config [0, Suc 0] (dev_doc spec []) =
     (Inr (), dev_doc spec (device_docs (c_str (config_name config)) (c_str (format E ''uuid:{}'' [uuid config]))))"
  by (simp add: describe_device_def build_run dev_doc_def device_docs_def)

lemma description_doc_eq:
  "description_doc E config =
     dev_doc (XNode ''specVersion'' [] [] [XNode ''major'' ''1'' [] [], XNode ''minor'' ''0'' [] []])
       (device_docs (c_str (config_name config)) (c_str (format E ''uuid:{}'' [uuid config])) @ list_docs)"
proof -
  let ?spec = "XNode ''specVersion'' [] [] [XNode ''major'' ''1'' [] [], XNode ''minor'' ''0'' [] []]"
  have "description_build E config new_document =
      seq (describe_device E config [0, Suc 0]) (describe_lists [0, Suc 0]) (dev_doc ?spec [])"
    by (simp add: description_build_def build_run dev_doc_def)
  then show ?thesis
    by (simp add: description_doc_def andthen_apply describe_device_run describe_lists_run)
qed

section \<open>Reading it back\<close>

text \<open>
  The parsed form of a node: the name without its prefix, and the text, when there is any, as the first
  child besides.
\<close>

definition local_part :: "string \<Rightarrow> string" where
  "local_part nm = (if CHR '':'' \<in> set nm then tl (dropWhile (\<lambda>c. c \<noteq> CHR '':'') nm) else nm)"

fun pnode_of :: "xnode \<Rightarrow> pnode" where
  "pnode_of (XNode nm v as ks) =
     PNode (local_part nm) v ((if v = [] then [] else [PNode [] v []]) @ map pnode_of ks)"

lemma local_name_doc [simp]:
  "local_name (pnode_of (icon_doc px url)) = ''icon''"
  "local_name (pnode_of (service_doc a b c d e)) = ''service''"
  by (simp_all add: icon_doc_def service_doc_def local_part_def)

lemma icon_of_doc [simp]:
  "icon_of (pnode_of (icon_doc px url)) =
     \<lparr>width = atoi px, height = atoi px, depth = atoi ''24'', mimeType = ''image/png'', icon_url = url\<rparr>"
  by (simp add: icon_of_eq icon_doc_def local_part_def text_of_def int_of_def last_named_def)

lemma service_of_doc [simp]:
  "service_of (pnode_of (service_doc type_str id_str control event scpd)) =
     \<lparr>serviceType = type_str, serviceId = id_str, scpdUrl = scpd, controlUrl = control, eventSubUrl = event\<rparr>"
  by (simp add: service_of_eq service_doc_def local_part_def text_of_def last_named_def)

lemma atoi_sizes:
  "atoi ''0'' = 0" "atoi ''1'' = 1" "atoi ''24'' = 24" "atoi ''48'' = 48" "atoi ''64'' = 64" "atoi ''128'' = 128"
  by code_simp+

text \<open>The device a reader finds in the description of a server with a given configuration.\<close>

definition described :: "env \<Rightarrow> Config \<Rightarrow> int \<Rightarrow> Device" where
  "described E config now =
    \<lparr>versionMajor = 1, versionMinor = 0, deviceType = NS_MEDIASERVER,
     friendlyName = c_str (config_name config), manufacturer = ''loudlabs'',
     manufacturerUrl = ''https://github.com/squawkcpp'',
     modelDescription = ''Squawk Content Directory Server.'', modelName = ''Squawk Media Server'',
     modelNumber = ''0'', modelUrl = [], serialNumber = ''0'',
     udn = c_str (format E ''uuid:{}'' [uuid config]), upc = [], presentationUrl = ''/'', urlBase = [],
     iconList =
       [\<lparr>width = 48, height = 48, depth = 24, mimeType = ''image/png'', icon_url = ''/squawk48.png''\<rparr>,
        \<lparr>width = 64, height = 64, depth = 24, mimeType = ''image/png'', icon_url = ''/squawk64.png''\<rparr>,
        \<lparr>width = 128, height = 128, depth = 24, mimeType = ''image/png'', icon_url = ''/squawk128.png''\<rparr>],
     serviceList =
       [\<lparr>serviceType = NS_CONTENT_DIRECTORY, serviceId = ''urn:upnp-org:serviceId:ContentDirectory'',
         scpdUrl = ''/cds.xml'', controlUrl = ''/ctl/cds'', eventSubUrl = ''/ctl/cds''\<rparr>,
        \<lparr>serviceType = NS_CONNECTION_MANAGER, serviceId = ''urn:upnp-org:serviceId:ConnectionManager'',
         scpdUrl = ''/cms.xml'', controlUrl = ''/ctl/cms'', eventSubUrl = ''/ctl/cms''\<rparr>],
     timestamp = now, timeout_secs = 1800\<rparr>"

text \<open>The writer and the reader may have libraries of their own.\<close>

lemma description_reads:
  assumes "xml_parse F (c_str (description_text E config)) = Some (map pnode_of (xkids (description_doc E config)))"
  shows "parse_device F (description_text E config) (new_Device vmaj vmin now) = Inr (described E config now)"
proof -
  let ?root = "hd (map pnode_of (xkids (description_doc E config)))"
  have "xml_parse F (c_str (description_text E config)) = Some (?root # [])"
    using assms by (simp add: description_doc_eq dev_doc_def)
  from parse_device_fields [OF this, of "new_Device vmaj vmin now"] show ?thesis
    by (simp add: description_doc_eq dev_doc_def device_docs_def list_docs_def local_part_def grandkids_def text_of_def int_of_def last_named_def
        new_Device_def described_def icons_in_def services_in_def named_def url_of_def atoi_sizes)
qed

text \<open>C20: our own description, read by our own parser.  Provided the XML library of the reader reads back the document
  that the writer printed, the parser finds in the text that \<open>description\<close> writes exactly the device \<open>described\<close>: the
  configured name, the uuid as the device name, the three icons with their sizes and the two services with their urls; the
  model url is written but not read.
\<close>

theorem description_read_back:
  assumes "xml_parse F (c_str (description_text E config)) = Some (map pnode_of (xkids (description_doc E config)))"
  shows "parse_device F (description_text E config) (new_Device vmaj vmin now) = Inr (described E config now)"
  using assms by (rule description_reads)

end
