(* ===== verification/Ssdp.thy ===== *)
theory Ssdp
  imports Utils Config Device
begin

text \<open>
  \<^verbatim>\<open>src/src/ssdpserver.h\<close>, \<^verbatim>\<open>src/src/ssdpserver.cpp\<close> and the two connection classes
  (\<^verbatim>\<open>src/src/ssdpserverconnection.cpp\<close>, \<^verbatim>\<open>src/src/ssdpclientconnection.cpp\<close>): discovery.  The server answers
  searches, announces its services and takes them back, and parses what other devices send.  Its methods are
  actions on the record \<open>ssdp\<close>.  The network is a parameter: what \<^verbatim>\<open>asio\<close> does with a datagram, and which
  addresses it accepts.  The thread that announces again and again is the theory \<open>Announce\<close>.
\<close>

section \<open>The network\<close>

datatype datagram =
    Multicast (dg_address: string) (dg_port: int) (dg_text: string)   \<comment> \<open>to the multicast group\<close>
  | Reply (dg_to: string) (dg_text: string)                           \<comment> \<open>to the sender of the last request\<close>

text \<open>
  \<open>send_error\<close> tells for the datagrams sent so far and a new one whether the socket throws
  \<^verbatim>\<open>std::system_error\<close>, and with which code; \<open>address_error\<close> the same for \<^verbatim>\<open>asio::ip::address::from_string\<close>, and
  \<open>open_error\<close> for opening, binding and joining the group.
\<close>

record net =
  send_error :: "datagram list \<Rightarrow> datagram \<Rightarrow> int option"
  address_error :: "string \<Rightarrow> int option"
  open_error :: "string \<Rightarrow> int \<Rightarrow> string \<Rightarrow> int option"

section \<open>State\<close>

text \<open>
  The members of the server that change, its connection included: the sender of the last request, whether the
  connection waits for the next one, and the datagrams sent.
\<close>

record ssdp =
  namespaces :: std_map
  announce_thread_run :: bool
  announce_time :: int
  sender_endpoint :: string
  listening :: bool
  sent :: "datagram list"

text \<open>The parameters of a server: its configuration and the port, read when it is created.\<close>

record ssdp_params =
  sp_config :: Config
  sp_port :: int

section \<open>Constants\<close>

abbreviation SSDP_THREAD_SLEEP :: nat where "SSDP_THREAD_SLEEP \<equiv> 5000"
abbreviation NETWORK_COUNT :: nat where "NETWORK_COUNT \<equiv> 3"
abbreviation ANNOUNCE_INTERVAL :: nat where "ANNOUNCE_INTERVAL \<equiv> 1800"
abbreviation SSDP_HEADER_SERVER :: string where "SSDP_HEADER_SERVER \<equiv> ''Server''"
abbreviation SSDP_HEADER_DATE :: string where "SSDP_HEADER_DATE \<equiv> ''Date''"
abbreviation SSDP_HEADER_ST :: string where "SSDP_HEADER_ST \<equiv> ''St''"
abbreviation SSDP_HEADER_NTS :: string where "SSDP_HEADER_NTS \<equiv> ''Nts''"
abbreviation SSDP_HEADER_USN :: string where "SSDP_HEADER_USN \<equiv> ''Usn''"
abbreviation SSDP_HEADER_LOCATION :: string where "SSDP_HEADER_LOCATION \<equiv> ''Location''"
abbreviation SSDP_HEADER_NT :: string where "SSDP_HEADER_NT \<equiv> ''Nt''"
abbreviation SSDP_HEADER_MX :: string where "SSDP_HEADER_MX \<equiv> ''Mx''"
abbreviation SSDP_HEADER_MAN :: string where "SSDP_HEADER_MAN \<equiv> ''Man''"
abbreviation SSDP_HEADER_EXT :: string where "SSDP_HEADER_EXT \<equiv> ''Ext''"
abbreviation SSDP_OPTION_MAX_AGE :: string where "SSDP_OPTION_MAX_AGE \<equiv> ''max-age=''"
abbreviation SSDP_REQUEST_LINE_OK :: string where "SSDP_REQUEST_LINE_OK \<equiv> ''HTTP/1.1 200 OK''"
abbreviation SSDP_STATUS_DISCOVER :: string where "SSDP_STATUS_DISCOVER \<equiv> ''ssdp:discover''"
abbreviation SSDP_STATUS_ALIVE :: string where "SSDP_STATUS_ALIVE \<equiv> ''ssdp:alive''"
abbreviation SSDP_STATUS_BYE :: string where "SSDP_STATUS_BYE \<equiv> ''ssdp:byebye''"
abbreviation SSDP_NS_ALL :: string where "SSDP_NS_ALL \<equiv> ''ssdp:all''"
abbreviation SSDP_MSEARCH :: string where "SSDP_MSEARCH \<equiv> ''M-SEARCH''"
abbreviation SSDP_NOTIFY :: string where "SSDP_NOTIFY \<equiv> ''NOTIFY''"
abbreviation SSDP_HEADER_REQUEST_LINE :: string where "SSDP_HEADER_REQUEST_LINE \<equiv> ''NOTIFY * HTTP/1.1''"
abbreviation SSDP_HEADER_SEARCH_REQUEST_LINE :: string where "SSDP_HEADER_SEARCH_REQUEST_LINE \<equiv> ''M-SEARCH * HTTP/1.1''"

section \<open>The connections\<close>

definition read_state :: "('s \<Rightarrow> 'a) \<Rightarrow> ('s, 'a) act" where
  "read_state f = (\<lambda>s. (Inr (f s), s))"

text \<open>\<^verbatim>\<open>socket.send_to\<close>, and \<^verbatim>\<open>address::from_string\<close>.\<close>

definition send_to :: "net \<Rightarrow> datagram \<Rightarrow> (ssdp, unit) act" where
  "send_to N d = (\<lambda>s. case send_error N (sent s) d of
       Some code \<Rightarrow> (Inl (System_error code), s)
     | None \<Rightarrow> (Inr (), s\<lparr>sent := sent s @ [d]\<rparr>))"

definition from_string :: "net \<Rightarrow> string \<Rightarrow> unit res" where
  "from_string N a = (case address_error N a of Some code \<Rightarrow> Inl (System_error code) | None \<Rightarrow> Inr ())"

definition connection_send :: "net \<Rightarrow> ssdp_params \<Rightarrow> string \<Rightarrow> std_map \<Rightarrow> (ssdp, unit) act" where
  "connection_send N P request_line headers =
     (let message = create_header request_line headers in
      andthen (lift_res (from_string N (c_str (multicast_address (sp_config P))))) (\<lambda>_.
      send_to N (Multicast (multicast_address (sp_config P)) (sp_port P) message)))"

text \<open>The other overload answers the sender, and catches \<^verbatim>\<open>std::system_error\<close>.\<close>

definition catch_system_error :: "('s, unit) act \<Rightarrow> ('s, unit) act" where
  "catch_system_error m = (\<lambda>s. case m s of
       (Inl e, s') \<Rightarrow> (case e of System_error code \<Rightarrow> (Inr (), s') | _ \<Rightarrow> (Inl e, s'))
     | (Inr x, s') \<Rightarrow> (Inr x, s'))"

definition connection_send_response :: "net \<Rightarrow> SsdpResponse \<Rightarrow> (ssdp, unit) act" where
  "connection_send_response N resp =
     catch_system_error (
       let buffer = create_header (ssdp_request_line resp) (ssdp_headers resp) in
       andthen (read_state sender_endpoint) (\<lambda>endpoint.
       send_to N (Reply endpoint buffer)))"

section \<open>Messages\<close>

definition time_string :: "env \<Rightarrow> int \<Rightarrow> string" where
  "time_string E rawtime = trim_copy E (ctime E rawtime)"

definition server_name :: "env \<Rightarrow> string" where
  "server_name E = format E ''{} DLNADOC/1.50 UPnP/1.0 SSDP/1.0.0'' [uname E]"

definition multicast_host :: "env \<Rightarrow> Config \<Rightarrow> string" where
  "multicast_host E config = format E ''{}:{}'' [multicast_address config, multicast_port config]"

definition max_age :: "env \<Rightarrow> string" where
  "max_age E = format E ''max-age={}'' [nat_digits ANNOUNCE_INTERVAL]"

definition usn :: "env \<Rightarrow> Config \<Rightarrow> string \<Rightarrow> string" where
  "usn E config nt = format E ''uuid:{}::{}'' [uuid config, nt]"

definition create_response :: "env \<Rightarrow> Config \<Rightarrow> string \<Rightarrow> string \<Rightarrow> std_map" where
  "create_response E config nt location =
    (let m = [];
         m = map_set m (to_upper_copy E (CACHE_CONTROL E)) (max_age E);
         m = map_set m (to_upper_copy E SSDP_HEADER_LOCATION) location;
         m = map_set m (to_upper_copy E SSDP_HEADER_SERVER) (server_name E);
         m = map_set m (to_upper_copy E SSDP_HEADER_ST) nt;
         m = map_set m (to_upper_copy E SSDP_HEADER_USN) (usn E config nt);
         m = map_set m (to_upper_copy E SSDP_HEADER_EXT) [];
         m = map_set m (to_upper_copy E (DATE E)) ''Mon, 16 Oct 2017 09:59:53 GMT'';
         m = map_set m (CONTENT_LENGTH E) ''0''
     in m)"

definition announce_headers :: "env \<Rightarrow> Config \<Rightarrow> string \<Rightarrow> string \<Rightarrow> std_map" where
  "announce_headers E config nt location =
    (let m = [];
         m = map_set m (to_upper_copy E (HOST E)) (multicast_host E config);
         m = map_set m (to_upper_copy E (CACHE_CONTROL E)) (max_age E);
         m = map_set m (to_upper_copy E SSDP_HEADER_LOCATION) location;
         m = map_set m (to_upper_copy E SSDP_HEADER_SERVER) (server_name E);
         m = map_set m (to_upper_copy E SSDP_HEADER_NT) nt;
         m = map_set m (to_upper_copy E SSDP_HEADER_USN) (usn E config nt);
         m = map_set m (to_upper_copy E SSDP_HEADER_NTS) SSDP_STATUS_ALIVE;
         m = map_set m (to_upper_copy E SSDP_HEADER_EXT) [];
         m = map_set m (to_upper_copy E SSDP_HEADER_DATE) ''Mon, 16 Oct 2017 09:59:53 GMT'';
         m = map_set m (CONTENT_LENGTH E) ''0''
     in m)"

definition suppress_headers :: "env \<Rightarrow> int \<Rightarrow> Config \<Rightarrow> string \<Rightarrow> std_map" where
  "suppress_headers E rawtime config nt =
    (let m = [];
         m = map_set m (to_upper_copy E (HOST E)) (multicast_host E config);
         m = map_set m (to_upper_copy E SSDP_HEADER_NT) nt;
         m = map_set m (to_upper_copy E SSDP_HEADER_USN) (usn E config nt);
         m = map_set m (to_upper_copy E SSDP_HEADER_NTS) SSDP_STATUS_BYE;
         m = map_set m (to_upper_copy E SSDP_HEADER_SERVER) (server_name E);
         m = map_set m (to_upper_copy E SSDP_HEADER_EXT) [];
         m = map_set m (to_upper_copy E SSDP_HEADER_DATE) (time_string E rawtime);
         m = map_set m (to_upper_copy E (CONTENT_LENGTH E)) ''0''
     in m)"

definition search_headers :: "env \<Rightarrow> Config \<Rightarrow> string \<Rightarrow> std_map" where
  "search_headers E config service =
    (let m = [];
         m = map_set m (to_upper_copy E (HOST E)) (multicast_host E config);
         m = map_set m (to_upper_copy E SSDP_HEADER_ST) service;
         m = map_set m (to_upper_copy E SSDP_HEADER_MX) ''2'';
         m = map_set m (to_upper_copy E SSDP_HEADER_MAN) SSDP_STATUS_DISCOVER;
         m = map_set m (to_upper_copy E (CONTENT_LENGTH E)) ''0''
     in m)"

definition send_anounce :: "env \<Rightarrow> net \<Rightarrow> ssdp_params \<Rightarrow> string \<Rightarrow> string \<Rightarrow> (ssdp, unit) act" where
  "send_anounce E N P nt location =
     connection_send N P SSDP_HEADER_REQUEST_LINE (announce_headers E (sp_config P) nt location)"

text \<open>The time of day is \<open>wall n\<close> when the n-th datagram is composed.\<close>

definition send_suppress :: "env \<Rightarrow> net \<Rightarrow> (nat \<Rightarrow> int) \<Rightarrow> ssdp_params \<Rightarrow> string \<Rightarrow> (ssdp, unit) act" where
  "send_suppress E N wall P nt =
     andthen (read_state (\<lambda>s. wall (length (sent s)))) (\<lambda>rawtime.
     connection_send N P SSDP_HEADER_REQUEST_LINE (suppress_headers E rawtime (sp_config P) nt))"

section \<open>Announcing and searching\<close>

definition register_namespace :: "string \<Rightarrow> string \<Rightarrow> (ssdp, unit) act" where
  "register_namespace ns location = update (\<lambda>s. s\<lparr>namespaces := map_set (namespaces s) ns location\<rparr>)"

text \<open>A loop over the namespaces, and its repetition.\<close>

definition for_namespaces :: "(string \<Rightarrow> string \<Rightarrow> (ssdp, unit) act) \<Rightarrow> (ssdp, unit) act" where
  "for_namespaces f = andthen (read_state namespaces) (for_each (\<lambda>(ns, location). f ns location))"

definition network_times :: "(ssdp, unit) act \<Rightarrow> (ssdp, unit) act" where
  "network_times m = for_each (\<lambda>i. m) [0..<NETWORK_COUNT]"

definition suppress :: "env \<Rightarrow> net \<Rightarrow> (nat \<Rightarrow> int) \<Rightarrow> ssdp_params \<Rightarrow> (ssdp, unit) act" where
  "suppress E N wall P = network_times (for_namespaces (\<lambda>ns location. send_suppress E N wall P ns))"

definition announce :: "env \<Rightarrow> net \<Rightarrow> (nat \<Rightarrow> int) \<Rightarrow> ssdp_params \<Rightarrow> (ssdp, unit) act" where
  "announce E N wall P =
     seq (suppress E N wall P) (
     network_times (for_namespaces (send_anounce E N P)))"

text \<open>
  A search runs in a task whose result is dropped, and its exceptions with it.  It sends through a connection of
  its own, whose destructor joins the receiver thread; when the multicast address is refused that thread was
  never started, and the destructor dereferences a null pointer.
\<close>

definition client_send :: "net \<Rightarrow> string \<Rightarrow> int \<Rightarrow> string \<Rightarrow> std_map \<Rightarrow> (ssdp, unit) act" where
  "client_send N address port request_line headers =
     (let message = create_header request_line headers in
      case address_error N (c_str address) of
        Some code \<Rightarrow> throw Null_deref
      | None \<Rightarrow> send_to N (Multicast address port message))"

definition drop_exception :: "('s, unit) act \<Rightarrow> ('s, unit) act" where
  "drop_exception m = (\<lambda>s. case m s of
       (Inl e, s') \<Rightarrow> (if e \<in> {Null_deref, Signed_overflow, Assertion} then Inl e else Inr (), s')
     | (Inr x, s') \<Rightarrow> (Inr x, s'))"

definition search :: "env \<Rightarrow> net \<Rightarrow> ssdp_params \<Rightarrow> string \<Rightarrow> (ssdp, unit) act" where
  "search E N P service =
     drop_exception (
       andthen (lift_res (stoi (multicast_port (sp_config P)))) (\<lambda>port.
       client_send N (multicast_address (sp_config P)) port SSDP_HEADER_SEARCH_REQUEST_LINE
         (search_headers E (sp_config P) service)))"

section \<open>Receiving\<close>

record reply =
  rep_status :: http_status
  rep_parameter :: "string \<Rightarrow> string"
  rep_contains_parameter :: "string \<Rightarrow> bool"

text \<open>\<open>handle_response\<close> tests the response and does nothing with it: its calls are commented out.\<close>

definition handle_response :: "ssdp_params \<Rightarrow> reply \<Rightarrow> (ssdp, unit) act" where
  "handle_response P rep =
     (if rep_status rep = OK then
        (if str_find (uuid (sp_config P)) (rep_parameter rep SSDP_HEADER_USN) = None then ret () else ret ())
      else ret ())"

definition handle_receive :: "env \<Rightarrow> net \<Rightarrow> ssdp_params \<Rightarrow> request \<Rightarrow> (ssdp, unit) act" where
  "handle_receive E N P req =
     (if str_find (uuid (sp_config P)) (req_parameter req SSDP_HEADER_USN) = None then
        if req_method req = SSDP_MSEARCH then
          (if req_parameter req SSDP_HEADER_ST = SSDP_NS_ALL then
             for_namespaces (\<lambda>ns location.
               connection_send_response N
                 \<lparr>ssdp_status = OK, ssdp_request_line = SSDP_REQUEST_LINE_OK,
                  ssdp_headers = create_response E (sp_config P) ns location\<rparr>)
           else
             andthen (read_state namespaces) (\<lambda>nss.
             case map_find nss (req_parameter req SSDP_HEADER_ST) of
               Some location \<Rightarrow>
                 connection_send_response N
                   \<lparr>ssdp_status = OK, ssdp_request_line = SSDP_REQUEST_LINE_OK,
                    ssdp_headers = create_response E (sp_config P) (req_parameter req SSDP_HEADER_ST) location\<rparr>
             | None \<Rightarrow> ret ()))
        else if req_method req = SSDP_NOTIFY then
          (if req_parameter req SSDP_HEADER_NTS = SSDP_STATUS_ALIVE then ret () else ret ())
        else throw Assertion
      else ret ())"

text \<open>
  A datagram arrives, or an error (\<open>None\<close>).  The request is what the HTTP parser (\<open>parse_request\<close>, of the http
  library) makes of the data; the connection waits for the next datagram only after the handler has returned.
\<close>

definition handle_receive_from ::
  "env \<Rightarrow> net \<Rightarrow> (string \<Rightarrow> request) \<Rightarrow> ssdp_params \<Rightarrow> (string \<times> string) option \<Rightarrow> (ssdp, unit) act" where
  "handle_receive_from E N parse_request P received =
     (case received of
        Some (sender, data) \<Rightarrow>
          seq (update (\<lambda>s. s\<lparr>sender_endpoint := sender, listening := False\<rparr>)) (
          seq (handle_receive E N P (parse_request data)) (
          update (\<lambda>s. s\<lparr>listening := True\<rparr>)))
      | None \<Rightarrow> update (\<lambda>s. s\<lparr>listening := False\<rparr>))"

text \<open>
  The connection of a search receives the replies and hands them to \<open>handler\<close>, which is \<open>handle_response\<close>; the result
  tells whether it waits for another one, which it does not after an error.
\<close>

definition client_handle_receive_from ::
  "(string \<Rightarrow> reply) \<Rightarrow> (reply \<Rightarrow> (ssdp, unit) act) \<Rightarrow> (string \<times> string) option \<Rightarrow> (ssdp, bool) act" where
  "client_handle_receive_from parse_response handler received =
     (case received of
        Some (sender, data) \<Rightarrow> seq (handler (parse_response data)) (ret True)
      | None \<Rightarrow> ret False)"

definition parse_keep_alive :: "env \<Rightarrow> string \<Rightarrow> int res" where
  "parse_keep_alive E cache_control =
     (let clean = erase_all_copy E cache_control '' '' in
      if str_find SSDP_OPTION_MAX_AGE clean = Some 0 then
        (case lexical_cast_time E (drop (length SSDP_OPTION_MAX_AGE) clean) of
           Some t \<Rightarrow> Inr t
         | None \<Rightarrow> Inl Bad_lexical_cast)
      else Inl Assertion)"

definition parseRequest :: "env \<Rightarrow> int \<Rightarrow> request \<Rightarrow> SsdpEvent res" where
  "parseRequest E now req =
     res_bind (if req_contains_parameter req (CACHE_CONTROL E)
               then parse_keep_alive E (req_parameter req (CACHE_CONTROL E)) else Inr 0) (\<lambda>cache_control.
     Inr \<lparr>ev_host = req_parameter req (HOST E), ev_location = req_parameter req SSDP_HEADER_LOCATION,
          ev_nt = req_parameter req SSDP_HEADER_NT, ev_nts = req_parameter req SSDP_HEADER_NTS,
          ev_server = req_parameter req SSDP_HEADER_SERVER, ev_usn = req_parameter req SSDP_HEADER_USN,
          ev_last_seen = now, ev_cache_control = cache_control\<rparr>)"

definition parseResponse :: "env \<Rightarrow> int \<Rightarrow> reply \<Rightarrow> SsdpEvent res" where
  "parseResponse E now rep =
     res_bind (if rep_contains_parameter rep (CACHE_CONTROL E)
               then parse_keep_alive E (rep_parameter rep (CACHE_CONTROL E)) else Inl Assertion) (\<lambda>cache_control.
     Inr \<lparr>ev_host = rep_parameter rep (HOST E), ev_location = rep_parameter rep SSDP_HEADER_LOCATION,
          ev_nt = rep_parameter rep SSDP_HEADER_ST, ev_nts = rep_parameter rep SSDP_HEADER_NTS,
          ev_server = rep_parameter rep SSDP_HEADER_SERVER, ev_usn = rep_parameter rep SSDP_HEADER_USN,
          ev_last_seen = now, ev_cache_control = cache_control\<rparr>)"

section \<open>Construction and destruction\<close>

text \<open>The connection: the two addresses are checked, then the socket is opened and bound and joins the group.\<close>

definition new_connection :: "net \<Rightarrow> string \<Rightarrow> int \<Rightarrow> string \<Rightarrow> unit res" where
  "new_connection N address port listen =
     res_bind (from_string N address) (\<lambda>_.
     res_bind (from_string N listen) (\<lambda>_.
     case open_error N address port listen of Some code \<Rightarrow> Inl (System_error code) | None \<Rightarrow> Inr ()))"

definition new_SSDPServerImpl :: "net \<Rightarrow> Config \<Rightarrow> std_map \<Rightarrow> (ssdp_params \<times> ssdp) res" where
  "new_SSDPServerImpl N config nss =
     (let nm = foldl (\<lambda>m (ns, location). map_set m ns location) [] nss in
      res_bind (stoi (multicast_port config)) (\<lambda>port.
      res_bind (new_connection N (multicast_address config) port (listen_address config)) (\<lambda>_.
      Inr (\<lparr>sp_config = config, sp_port = port\<rparr>,
           \<lparr>namespaces = nm, announce_thread_run = True, announce_time = 0, sender_endpoint = [],
            listening = True, sent = []\<rparr>))))"

text \<open>
  The destructor clears the flag, waits for the announcing thread and takes the services back; then the connection is
  destroyed, which stops its receiver.
\<close>

definition delete_connection :: "(ssdp, unit) act" where
  "delete_connection = update (\<lambda>s. s\<lparr>listening := False\<rparr>)"

definition delete_SSDPServerImpl :: "env \<Rightarrow> net \<Rightarrow> (nat \<Rightarrow> int) \<Rightarrow> ssdp_params \<Rightarrow> (ssdp, unit) act" where
  "delete_SSDPServerImpl E N wall P =
     seq (update (\<lambda>s. s\<lparr>announce_thread_run := False\<rparr>)) (
     seq (suppress E N wall P)
     delete_connection)"

section \<open>Bursts of messages\<close>

text \<open>A network on which everything can be sent.\<close>

definition net_up :: "net \<Rightarrow> bool" where
  "net_up N \<longleftrightarrow> (\<forall>ds d. send_error N ds d = None) \<and> (\<forall>a. address_error N a = None)"

lemma read_state_run [simp]: "read_state f s = (Inr (f s), s)"
  by (simp add: read_state_def)

lemma for_each_repeat: "for_each (\<lambda>i. m) [0..<Suc n] = seq (for_each (\<lambda>i. m) [0..<n]) m"
proof -
  have "seq m (ret ()) = m"
    by (auto simp: andthen_def fun_eq_iff split: prod.splits sum.splits)
  then show ?thesis by (simp only: upt_Suc_append for_each_append for_each.simps le0)
qed

lemma concat_replicate_Suc: "List.concat (replicate (Suc n) xs) = List.concat (replicate n xs) @ xs"
  by (induction n) simp_all

text \<open>
  The contract of an operation that sends one datagram for a namespace, which may depend on how many were sent
  before.  A loop over the namespaces, repeated as often as the code repeats it, sends one datagram per namespace
  and repetition, in order, and changes nothing else.
\<close>

locale burst =
  fixes up :: bool
    and f :: "string \<Rightarrow> string \<Rightarrow> (ssdp, unit) act"
    and d :: "nat \<Rightarrow> string \<Rightarrow> string \<Rightarrow> datagram"
  assumes sends: "up \<Longrightarrow> f ns location s = (Inr (), s\<lparr>sent := sent s @ [d (length (sent s)) ns location]\<rparr>)"
begin

lemma for_each_sends:
  "up \<Longrightarrow> for_each (\<lambda>(ns, location). f ns location) nss s =
     (Inr (), s\<lparr>sent := sent s @ map (\<lambda>(i, ns, location). d i ns location) (List.enumerate (length (sent s)) nss)\<rparr>)"
proof (induction nss arbitrary: s)
  case (Cons x nss)
  then show ?case by (cases x) (simp add: andthen_apply sends)
qed simp

lemma for_namespaces_sends:
  "up \<Longrightarrow> for_namespaces f s =
     (Inr (), s\<lparr>sent := sent s @ map (\<lambda>(i, ns, location). d i ns location)
        (List.enumerate (length (sent s)) (namespaces s))\<rparr>)"
  by (simp add: for_namespaces_def andthen_apply for_each_sends)

lemma repeat_sends:
  "up \<Longrightarrow> for_each (\<lambda>i. for_namespaces f) [0..<n] s =
     (Inr (), s\<lparr>sent := sent s @ map (\<lambda>(i, ns, location). d i ns location)
        (List.enumerate (length (sent s)) (List.concat (replicate n (namespaces s))))\<rparr>)"
proof (induction n)
  case (Suc n)
  then show ?case
    by (simp only: for_each_repeat concat_replicate_Suc andthen_apply Suc.IH resume_simps for_namespaces_sends)
      (simp add: enumerate_append_eq ac_simps)
qed simp

lemma network_times_sends:
  "up \<Longrightarrow> network_times (for_namespaces f) s =
     (Inr (), s\<lparr>sent := sent s @ map (\<lambda>(i, ns, location). d i ns location)
        (List.enumerate (length (sent s)) (List.concat (replicate 3 (namespaces s))))\<rparr>)"
  unfolding network_times_def by (rule repeat_sends)

end

text \<open>The two kinds of multicast message.\<close>

definition alive_msg :: "env \<Rightarrow> ssdp_params \<Rightarrow> string \<Rightarrow> string \<Rightarrow> datagram" where
  "alive_msg E P ns location =
     Multicast (multicast_address (sp_config P)) (sp_port P)
       (create_header SSDP_HEADER_REQUEST_LINE (announce_headers E (sp_config P) ns location))"

definition bye_msg :: "env \<Rightarrow> int \<Rightarrow> ssdp_params \<Rightarrow> string \<Rightarrow> datagram" where
  "bye_msg E rawtime P ns =
     Multicast (multicast_address (sp_config P)) (sp_port P)
       (create_header SSDP_HEADER_REQUEST_LINE (suppress_headers E rawtime (sp_config P) ns))"

lemma connection_send_up:
  "net_up N \<Longrightarrow> connection_send N P line hs s =
     (Inr (), s\<lparr>sent := sent s @ [Multicast (multicast_address (sp_config P)) (sp_port P) (create_header line hs)]\<rparr>)"
  by (simp add: connection_send_def from_string_def net_up_def send_to_def andthen_apply)

interpretation alive: burst "net_up N" "send_anounce E N P" "\<lambda>i. alive_msg E P" for E N P
  by unfold_locales (simp add: send_anounce_def connection_send_up alive_msg_def)

interpretation bye: burst "net_up N" "\<lambda>ns location. send_suppress E N wall P ns"
    "\<lambda>i ns location. bye_msg E (wall i) P ns" for E N wall P
  by unfold_locales (simp add: send_suppress_def andthen_apply connection_send_up bye_msg_def)

text \<open>C18: an announcement.  On a network that works, the server first takes back every namespace, three times over,
  and then announces every namespace with its location, three times over, always in the order of the names and
  with nothing in between; its own state does not change.
\<close>

theorem announce_sends:
  assumes "net_up N"
  shows "announce E N wall P s = (Inr (), s\<lparr>sent := sent s
     @ map (\<lambda>(i, ns, location). bye_msg E (wall i) P ns)
         (List.enumerate (length (sent s)) (List.concat (replicate 3 (namespaces s))))
     @ map (\<lambda>(ns, location). alive_msg E P ns location) (List.concat (replicate 3 (namespaces s)))\<rparr>)"
proof -
  have [simp]: "map (\<lambda>(i, ns, location). alive_msg E P ns location) (List.enumerate n xs) =
      map (\<lambda>(ns, location). alive_msg E P ns location) xs" for n xs
    by (induction xs arbitrary: n) auto
  show ?thesis
    by (simp add: announce_def suppress_def andthen_apply bye.network_times_sends [OF assms]
        alive.network_times_sends [OF assms])
qed

section \<open>Answering searches\<close>

text \<open>What is sent of a list of replies: those the socket accepts; a failed one is dropped and the next is tried.\<close>

fun deliver :: "net \<Rightarrow> datagram list \<Rightarrow> datagram list \<Rightarrow> datagram list" where
  "deliver N ds [] = ds"
| "deliver N ds (d # r) = deliver N (case send_error N ds d of None \<Rightarrow> ds @ [d] | Some c \<Rightarrow> ds) r"

lemma deliver_up: "net_up N \<Longrightarrow> deliver N ds r = ds @ r"
  by (induction N ds r rule: deliver.induct) (simp_all add: net_up_def)

definition answer :: "env \<Rightarrow> ssdp_params \<Rightarrow> string \<Rightarrow> string \<times> string \<Rightarrow> datagram" where
  "answer E P sender = (\<lambda>(ns, location).
     Reply sender (create_header SSDP_REQUEST_LINE_OK (create_response E (sp_config P) ns location)))"

lemma send_response_run:
  "connection_send_response N \<lparr>ssdp_status = st, ssdp_request_line = SSDP_REQUEST_LINE_OK,
      ssdp_headers = create_response E (sp_config P) ns location\<rparr> s =
    (Inr (), s\<lparr>sent := deliver N (sent s) [answer E P (sender_endpoint s) (ns, location)]\<rparr>)"
  by (simp add: connection_send_response_def catch_system_error_def andthen_apply send_to_def answer_def Let_def
      split: option.split)

lemma deliver_append: "deliver N ds (xs @ ys) = deliver N (deliver N ds xs) ys"
  by (induction N ds xs rule: deliver.induct) simp_all

lemma send_responses_run:
  "for_each (\<lambda>(ns, location). connection_send_response N
      \<lparr>ssdp_status = st, ssdp_request_line = SSDP_REQUEST_LINE_OK,
       ssdp_headers = create_response E (sp_config P) ns location\<rparr>) nss s =
    (Inr (), s\<lparr>sent := deliver N (sent s) (map (answer E P (sender_endpoint s)) nss)\<rparr>)"
proof (induction nss arbitrary: s)
  case (Cons x nss)
  then show ?case
    using deliver_append [of N "sent s" "[answer E P (sender_endpoint s) x]"]
    by (cases x) (simp add: andthen_apply send_response_run)
qed simp

text \<open>The namespaces a search target asks for.\<close>

definition targets :: "std_map \<Rightarrow> string \<Rightarrow> std_map" where
  "targets nss st =
     (if st = SSDP_NS_ALL then nss
      else case map_find nss st of Some location \<Rightarrow> [(st, location)] | None \<Rightarrow> [])"

definition foreign :: "ssdp_params \<Rightarrow> request \<Rightarrow> bool" where
  "foreign P req \<longleftrightarrow> str_find (uuid (sp_config P)) (req_parameter req SSDP_HEADER_USN) = None"

lemma handle_receive_search:
  assumes "foreign P req" "req_method req = SSDP_MSEARCH"
  shows "handle_receive E N P req s =
    (Inr (), s\<lparr>sent := deliver N (sent s)
       (map (answer E P (sender_endpoint s)) (targets (namespaces s) (req_parameter req SSDP_HEADER_ST)))\<rparr>)"
proof (cases "req_parameter req SSDP_HEADER_ST = SSDP_NS_ALL")
  case True
  with assms show ?thesis
    by (simp add: handle_receive_def foreign_def targets_def for_namespaces_def andthen_apply send_responses_run)
next
  case False
  then have "targets (namespaces s) (req_parameter req SSDP_HEADER_ST) =
      (case map_find (namespaces s) (req_parameter req SSDP_HEADER_ST) of
         Some location \<Rightarrow> [(req_parameter req SSDP_HEADER_ST, location)] | None \<Rightarrow> [])"
    by (simp add: targets_def)
  with False assms show ?thesis
    by (simp add: handle_receive_def foreign_def andthen_apply send_response_run split: option.split)
qed

lemma handle_receive_other:
  "\<not> foreign P req \<Longrightarrow> handle_receive E N P req s = (Inr (), s)"
  "foreign P req \<Longrightarrow> req_method req = SSDP_NOTIFY \<Longrightarrow> handle_receive E N P req s = (Inr (), s)"
  "foreign P req \<Longrightarrow> req_method req \<notin> {SSDP_MSEARCH, SSDP_NOTIFY} \<Longrightarrow>
     handle_receive E N P req s = (Inl Assertion, s)"
  unfolding handle_receive_def foreign_def by (simp_all only: if_False if_True ret_run) simp_all

text \<open>C10: answering a search.  A search from another device is answered with one reply per requested namespace, in
  the order of the names: all of them for \<open>ssdp:all\<close>, the one asked for when it is registered, and none otherwise.
  Each reply carries the location of its namespace.  A reply the socket refuses is dropped and the others are
  still sent; the handler never throws, and nothing but the replies changes.
\<close>

theorem search_answered:
  assumes "foreign P req" "req_method req = SSDP_MSEARCH"
  shows "handle_receive E N P req s =
    (Inr (), s\<lparr>sent := deliver N (sent s)
       (map (answer E P (sender_endpoint s)) (targets (namespaces s) (req_parameter req SSDP_HEADER_ST)))\<rparr>)"
  using assms by (rule handle_receive_search)

lemma usn_eq: "fmt_law E \<Longrightarrow> usn E config nt = ''uuid:'' @ uuid config @ ''::'' @ nt"
  unfolding usn_def by (rule fmt_lawD) simp_all



section \<open>What a peer reads\<close>

lemma upper_law_E: "upper_law E \<Longrightarrow> to_upper_copy E s = map upper_char s"
  by (simp add: upper_law_def)

lemma format_values:
  assumes "fmt_law E"
  shows "max_age E = ''max-age=1800''"
    and "server_name E = uname E @ '' DLNADOC/1.50 UPnP/1.0 SSDP/1.0.0''"
    and "multicast_host E config = multicast_address config @ '':'' @ multicast_port config"
proof -
  have "nat_digits 1800 = ''1800''" by code_simp
  then show "max_age E = ''max-age=1800''"
    unfolding max_age_def by (intro fmt_lawD [OF assms]) simp
  show "server_name E = uname E @ '' DLNADOC/1.50 UPnP/1.0 SSDP/1.0.0''"
    unfolding server_name_def by (intro fmt_lawD [OF assms]) simp
  show "multicast_host E config = multicast_address config @ '':'' @ multicast_port config"
    unfolding multicast_host_def by (intro fmt_lawD [OF assms]) simp
qed

text \<open>The header names as they are sent.\<close>

lemma upper_names:
  assumes "upper_law E"
  shows "to_upper_copy E ''Host'' = ''HOST''" "to_upper_copy E ''Cache-Control'' = ''CACHE-CONTROL''"
    "to_upper_copy E ''Content-Length'' = ''CONTENT-LENGTH''" "to_upper_copy E ''Location'' = ''LOCATION''"
    "to_upper_copy E ''Server'' = ''SERVER''" "to_upper_copy E ''Date'' = ''DATE''"
    "to_upper_copy E ''St'' = ''ST''" "to_upper_copy E ''Nt'' = ''NT''" "to_upper_copy E ''Nts'' = ''NTS''"
    "to_upper_copy E ''Usn'' = ''USN''" "to_upper_copy E ''Ext'' = ''EXT''"
    "to_upper_copy E ''Mx'' = ''MX''" "to_upper_copy E ''Man'' = ''MAN''"
  unfolding upper_law_E [OF assms] by code_simp+

lemma create_response_eq:
  assumes "fmt_law E" "upper_law E" "header_law E"
  shows "create_response E config nt location =
    [(''CACHE-CONTROL'', ''max-age=1800''), (''Content-Length'', ''0''),
     (''DATE'', ''Mon, 16 Oct 2017 09:59:53 GMT''), (''EXT'', []), (''LOCATION'', location),
     (''SERVER'', uname E @ '' DLNADOC/1.50 UPnP/1.0 SSDP/1.0.0''), (''ST'', nt),
     (''USN'', ''uuid:'' @ uuid config @ ''::'' @ nt)]"
  using assms(3)
  by (simp add: create_response_def Let_def upper_names [OF assms(2)] format_values [OF assms(1)]
      usn_eq [OF assms(1)] header_law_def less_char_def)

lemma announce_headers_eq:
  assumes "fmt_law E" "upper_law E" "header_law E"
  shows "announce_headers E config nt location =
    [(''CACHE-CONTROL'', ''max-age=1800''), (''Content-Length'', ''0''),
     (''DATE'', ''Mon, 16 Oct 2017 09:59:53 GMT''), (''EXT'', []),
     (''HOST'', multicast_address config @ '':'' @ multicast_port config), (''LOCATION'', location), (''NT'', nt),
     (''NTS'', ''ssdp:alive''), (''SERVER'', uname E @ '' DLNADOC/1.50 UPnP/1.0 SSDP/1.0.0''),
     (''USN'', ''uuid:'' @ uuid config @ ''::'' @ nt)]"
  using assms(3)
  by (simp add: announce_headers_def Let_def upper_names [OF assms(2)] format_values [OF assms(1)]
      usn_eq [OF assms(1)] header_law_def less_char_def)

text \<open>Parts of a message that cannot break a line.\<close>

definition clean :: "env \<Rightarrow> Config \<Rightarrow> string \<Rightarrow> string \<Rightarrow> bool" where
  "clean E config nt location \<longleftrightarrow>
     list_all one_line [uts_sysname E, uts_version E, uuid config, multicast_address config,
                        multicast_port config, nt, location]"

text \<open>what a peer reads in a reply to its search and in an announcement.  Provided no configured value contains a
  line break, the reply is the status line and exactly eight headers, the announcement the request line and ten,
  in the order of the names, with the location and the service name of the namespace and the life time of half an
  hour.
\<close>

theorem messages_read_back:
  assumes "fmt_law E" "upper_law E" "header_law E" "clean E config nt location"
  shows "read_message (create_header SSDP_REQUEST_LINE_OK (create_response E config nt location)) =
      Some (''HTTP/1.1 200 OK'',
        [(''CACHE-CONTROL'', ''max-age=1800''), (''Content-Length'', ''0''),
         (''DATE'', ''Mon, 16 Oct 2017 09:59:53 GMT''), (''EXT'', []), (''LOCATION'', location),
         (''SERVER'', uname E @ '' DLNADOC/1.50 UPnP/1.0 SSDP/1.0.0''), (''ST'', nt),
         (''USN'', ''uuid:'' @ uuid config @ ''::'' @ nt)])
    \<and> read_message (create_header SSDP_HEADER_REQUEST_LINE (announce_headers E config nt location)) =
      Some (''NOTIFY * HTTP/1.1'',
        [(''CACHE-CONTROL'', ''max-age=1800''), (''Content-Length'', ''0''),
         (''DATE'', ''Mon, 16 Oct 2017 09:59:53 GMT''), (''EXT'', []),
         (''HOST'', multicast_address config @ '':'' @ multicast_port config), (''LOCATION'', location), (''NT'', nt),
         (''NTS'', ''ssdp:alive''), (''SERVER'', uname E @ '' DLNADOC/1.50 UPnP/1.0 SSDP/1.0.0''),
         (''USN'', ''uuid:'' @ uuid config @ ''::'' @ nt)])"
proof
  from assms(4) show "read_message (create_header SSDP_REQUEST_LINE_OK (create_response E config nt location)) = Some (''HTTP/1.1 200 OK'',
        [(''CACHE-CONTROL'', ''max-age=1800''), (''Content-Length'', ''0''),
         (''DATE'', ''Mon, 16 Oct 2017 09:59:53 GMT''), (''EXT'', []), (''LOCATION'', location),
         (''SERVER'', uname E @ '' DLNADOC/1.50 UPnP/1.0 SSDP/1.0.0''), (''ST'', nt),
         (''USN'', ''uuid:'' @ uuid config @ ''::'' @ nt)])"
    unfolding create_response_eq [OF assms(1-3)]
    by (intro read_created) (simp_all add: clean_def one_line_def header_name_def uname_def)
  from assms(4) show "read_message (create_header SSDP_HEADER_REQUEST_LINE (announce_headers E config nt location)) =
      Some (''NOTIFY * HTTP/1.1'',
        [(''CACHE-CONTROL'', ''max-age=1800''), (''Content-Length'', ''0''),
         (''DATE'', ''Mon, 16 Oct 2017 09:59:53 GMT''), (''EXT'', []),
         (''HOST'', multicast_address config @ '':'' @ multicast_port config), (''LOCATION'', location), (''NT'', nt),
         (''NTS'', ''ssdp:alive''), (''SERVER'', uname E @ '' DLNADOC/1.50 UPnP/1.0 SSDP/1.0.0''),
         (''USN'', ''uuid:'' @ uuid config @ ''::'' @ nt)])"
    unfolding announce_headers_eq [OF assms(1-3)]
    by (intro read_created) (simp_all add: clean_def one_line_def header_name_def uname_def)
qed

section \<open>The life time of a device\<close>

text \<open>
  Documented behaviour of \<^verbatim>\<open>boost::erase_all_copy\<close> with a space, and of \<^verbatim>\<open>boost::lexical_cast\<close> to the 64-bit
  \<^verbatim>\<open>time_t\<close> on a decimal number.
\<close>

definition keep_alive_law :: "env \<Rightarrow> bool" where
  "keep_alive_law E \<longleftrightarrow>
     (\<forall>s. erase_all_copy E s '' '' = filter (\<lambda>c. c \<noteq> CHR '' '') s) \<and>
     (\<forall>n. n < 2 ^ 63 \<longrightarrow> lexical_cast_time E (nat_digits n) = Some (int n))"

lemma parse_keep_alive_eq:
  assumes "keep_alive_law E"
  shows "parse_keep_alive E cc =
      (if is_prefix ''max-age='' (filter (\<lambda>c. c \<noteq> CHR '' '') cc)
       then case lexical_cast_time E (drop (length ''max-age='') (filter (\<lambda>c. c \<noteq> CHR '' '') cc)) of
              Some t \<Rightarrow> Inr t | None \<Rightarrow> Inl Bad_lexical_cast
       else Inl Assertion)"
proof -
  have "str_find m s = Some 0 \<longleftrightarrow> is_prefix m s" for m s
    by (cases s; cases m) auto
  with assms show ?thesis by (simp add: parse_keep_alive_def Let_def keep_alive_law_def)
qed

lemma parse_keep_alive_number:
  assumes "keep_alive_law E" "n < 2 ^ 63" "filter (\<lambda>c. c \<noteq> CHR '' '') cc = ''max-age='' @ nat_digits n"
  shows "parse_keep_alive E cc = Inr (int n)"
  using assms(1,2) unfolding parse_keep_alive_eq [OF assms(1)] assms(3) by (simp add: keep_alive_law_def)

lemma parse_keep_alive_1800: "keep_alive_law E \<Longrightarrow> parse_keep_alive E ''max-age=1800'' = Inr 1800"
proof -
  have "nat_digits 1800 = ''1800''" by code_simp
  then show "keep_alive_law E \<Longrightarrow> parse_keep_alive E ''max-age=1800'' = Inr 1800"
    using parse_keep_alive_number [of E 1800 "''max-age=1800''"] by simp
qed

text \<open>C38: the life time in a \<open>Cache-Control\<close> header.  A value that is \<open>max-age=\<close> and a number, with spaces anywhere, is
  read as that number; in particular the value this server sends is read as half an hour.  A value that begins
  with anything else fails an assertion.
\<close>

theorem keep_alive_read:
  assumes "keep_alive_law E" "fmt_law E"
  shows "(\<forall>n cc. n < 2 ^ 63 \<and> filter (\<lambda>c. c \<noteq> CHR '' '') cc = ''max-age='' @ nat_digits n \<longrightarrow>
            parse_keep_alive E cc = Inr (int n))
    \<and> parse_keep_alive E (max_age E) = Inr 1800
    \<and> (\<forall>cc. \<not> is_prefix ''max-age='' (filter (\<lambda>c. c \<noteq> CHR '' '') cc) \<longrightarrow> parse_keep_alive E cc = Inl Assertion)"
  using parse_keep_alive_number [OF assms(1)] parse_keep_alive_1800 [OF assms(1)]
  unfolding format_values [OF assms(2)] by (simp add: parse_keep_alive_eq [OF assms(1)]) blast

section \<open>Creation and destruction\<close>

lemma new_server_state:
  assumes "new_SSDPServerImpl N config nss = Inr (P, s)"
  shows "sp_config P = config" "sorted_keys (namespaces s)" "sent s = []" "announce_thread_run s"
    "map_find (namespaces s) ns = map_of (rev nss) ns"
  using assms smap.find_puts [of "[]" nss ns] smap.inv_puts [of "[]" nss]
  by (auto simp: new_SSDPServerImpl_def split: option.splits)

text \<open>a new server is created exactly when the port is a number that fits an \<^verbatim>\<open>int\<close>, both addresses are valid and
  the socket can be opened.  It knows exactly the namespaces it was given, in the order of their names, its
  announcing thread may run, and it has sent nothing.
\<close>

theorem new_server:
  "((\<exists>P s. new_SSDPServerImpl N config nss = Inr (P, s)) \<longleftrightarrow>
     (\<exists>port. stoi (multicast_port config) = Inr port
        \<and> address_error N (multicast_address config) = None \<and> address_error N (listen_address config) = None
        \<and> open_error N (multicast_address config) port (listen_address config) = None))
   \<and> (\<forall>P s. new_SSDPServerImpl N config nss = Inr (P, s) \<longrightarrow>
        sp_config P = config \<and> sorted_keys (namespaces s) \<and> sent s = [] \<and> announce_thread_run s
        \<and> (\<forall>ns. map_find (namespaces s) ns = map_of (rev nss) ns))"
proof
  show "(\<exists>P s. new_SSDPServerImpl N config nss = Inr (P, s)) \<longleftrightarrow>
     (\<exists>port. stoi (multicast_port config) = Inr port
        \<and> address_error N (multicast_address config) = None \<and> address_error N (listen_address config) = None
        \<and> open_error N (multicast_address config) port (listen_address config) = None)"
    by (auto simp: new_SSDPServerImpl_def new_connection_def from_string_def split: option.splits)
qed (blast dest: new_server_state)

text \<open>destruction says goodbye.  When a server goes on a working network, its thread is told to stop, every
  namespace is taken back, three times over, and the receiver is stopped.
\<close>

theorem delete_server:
  assumes "net_up N"
  shows "delete_SSDPServerImpl E N wall P s = (Inr (), s\<lparr>announce_thread_run := False, listening := False, sent := sent s
     @ map (\<lambda>(i, ns, location). bye_msg E (wall i) P ns)
         (List.enumerate (length (sent s)) (List.concat (replicate 3 (namespaces s))))\<rparr>)"
  by (simp add: delete_SSDPServerImpl_def delete_connection_def suppress_def andthen_apply bye.network_times_sends [OF assms])

end
