(* ===== verification/Announce.thy ===== *)
theory Announce
  imports Ssdp
begin

text \<open>
  The thread \<^verbatim>\<open>SSDPServerImpl::annouceThread\<close> of \<^verbatim>\<open>src/src/ssdpserver.cpp\<close>, which announces the services again
  and again, beside the other threads that use the server: the receiver of the connection, and the main thread,
  which announces once and at the end destroys the server.  The thread is a step relation on its program counter,
  the clock and the server; the other threads take whole calls as single steps.
\<close>

section \<open>Operations leave the rest of the server alone\<close>

text \<open>
  What every operation of the server keeps: the namespaces, the time of the last announcement, the stop flag, and
  the datagrams already sent.
\<close>

definition same_core :: "ssdp \<Rightarrow> ssdp \<Rightarrow> bool" where
  "same_core s t \<longleftrightarrow> namespaces t = namespaces s \<and> announce_time t = announce_time s
     \<and> announce_thread_run t = announce_thread_run s \<and> is_prefix (sent s) (sent t)"

interpretation core: step_rel same_core
  by unfold_locales (auto simp: same_core_def is_prefix_iff)

lemma core_send_to [simp]: "act_keeps same_core (send_to N d)"
  by (simp add: act_keeps_def send_to_def same_core_def is_prefix_iff split: option.split)

lemma core_pure [simp]:
  "act_keeps same_core (ret x)" "act_keeps same_core (throw e)" "act_keeps same_core (lift_res r)"
  "act_keeps same_core (read_state f)"
  by (simp_all add: act_keeps_def core.refl)

lemma snd_handlers [simp]:
  "snd (catch_system_error m s) = snd (m s)" "snd (drop_exception m s) = snd (m s)"
  by (cases "m s"; auto simp: catch_system_error_def drop_exception_def split: sum.split exn.split)+

lemma core_catch [simp]:
  "act_keeps same_core m \<Longrightarrow> act_keeps same_core (catch_system_error m)"
  "act_keeps same_core m \<Longrightarrow> act_keeps same_core (drop_exception m)"
  by (simp_all add: act_keeps_def)

lemma core_connection_send [simp]: "act_keeps same_core (connection_send N P l h)"
  by (simp add: connection_send_def Let_def core.keeps_andthen)

lemma core_send_response [simp]: "act_keeps same_core (connection_send_response N resp)"
  by (simp add: connection_send_response_def Let_def core.keeps_andthen)

lemma core_for_namespaces [simp]:
  "(\<And>ns location. act_keeps same_core (f ns location)) \<Longrightarrow> act_keeps same_core (for_namespaces f)"
  unfolding for_namespaces_def
  by (rule core.keeps_andthen) (simp_all add: core.keeps_for_each split: prod.split)

lemma core_network_times [simp]: "act_keeps same_core m \<Longrightarrow> act_keeps same_core (network_times m)"
  unfolding network_times_def by (rule core.keeps_for_each)

lemma core_send_anounce [simp]: "act_keeps same_core (send_anounce E N P ns location)"
  by (simp add: send_anounce_def)

lemma core_send_suppress [simp]: "act_keeps same_core (send_suppress E N wall P ns)"
  by (simp add: send_suppress_def core.keeps_andthen)

lemma core_announce [simp]: "act_keeps same_core (announce E N wall P)"
  by (simp add: announce_def suppress_def core.keeps_andthen)

lemma core_handle_receive [simp]: "act_keeps same_core (handle_receive E N P req)"
  by (simp add: handle_receive_def core.keeps_andthen split: option.split)

lemma core_update [simp]:
  "(\<And>s. same_core s (f s)) \<Longrightarrow> act_keeps same_core (update f)"
  by (simp add: act_keeps_def)

lemma core_handle_receive_from [simp]: "act_keeps same_core (handle_receive_from E N parse_request P received)"
proof -
  have "same_core s (s\<lparr>sender_endpoint := a, listening := b\<rparr>)" "same_core s (s\<lparr>listening := b\<rparr>)" for s a b
    by (simp_all add: same_core_def is_prefix_iff)
  then show ?thesis
    by (auto simp: handle_receive_from_def intro!: core.keeps_andthen split: option.split)
qed

section \<open>The thread\<close>

text \<open>
  One pass of the loop body before it sleeps.  \<open>end_time\<close> is the time at which the timer is checked, \<open>after\<close> the
  time after the messages were sent.
\<close>

definition reannounce_due :: "int \<Rightarrow> ssdp \<Rightarrow> bool" where
  "reannounce_due end_time s \<longleftrightarrow> secs32 (end_time - announce_time s) \<ge> 60"

definition check_timer :: "env \<Rightarrow> net \<Rightarrow> ssdp_params \<Rightarrow> int \<Rightarrow> int \<Rightarrow> (ssdp, unit) act" where
  "check_timer E N P end_time after =
     andthen (read_state (reannounce_due end_time)) (\<lambda>due.
     if due then
       seq (network_times (for_namespaces (send_anounce E N P))) (
       update (\<lambda>s. s\<lparr>announce_time := after\<rparr>))
     else ret ())"

datatype pc = Enter | Test | Check | Sleep | Exit | Crashed

text \<open>
  The state of the whole: the clock in nanoseconds, the program counter of the thread, the server, and, for the
  statements only, the times at which a round of announcements began.
\<close>

record runner =
  clock :: int
  thread_pc :: pc
  srv :: ssdp
  rounds :: "int list"

text \<open>
  The steps of the thread, of the receiver, and of the main thread; the clock may go on at any time, and never goes
  back.  An exception in the thread is not caught: the program is terminated.
\<close>

inductive step :: "env \<Rightarrow> net \<Rightarrow> (nat \<Rightarrow> int) \<Rightarrow> (string \<Rightarrow> request) \<Rightarrow> ssdp_params \<Rightarrow> runner \<Rightarrow> runner \<Rightarrow> bool"
  for E N wall parse_request P where
  enter: "thread_pc r = Enter \<Longrightarrow>
    step E N wall parse_request P r (r\<lparr>thread_pc := Test, srv := (srv r)\<lparr>announce_time := clock r\<rparr>\<rparr>)"
| leave: "thread_pc r = Test \<Longrightarrow> \<not> announce_thread_run (srv r) \<Longrightarrow>
    step E N wall parse_request P r (r\<lparr>thread_pc := Exit\<rparr>)"
| continue: "thread_pc r = Test \<Longrightarrow> announce_thread_run (srv r) \<Longrightarrow>
    step E N wall parse_request P r (r\<lparr>thread_pc := Check\<rparr>)"
| check: "thread_pc r = Check \<Longrightarrow> clock r \<le> after \<Longrightarrow>
    check_timer E N P (clock r) after (srv r) = (Inr (), s') \<Longrightarrow>
    step E N wall parse_request P r
      (r\<lparr>clock := after, thread_pc := Sleep, srv := s',
         rounds := rounds r @ (if reannounce_due (clock r) (srv r) then [clock r] else [])\<rparr>)"
| crash: "thread_pc r = Check \<Longrightarrow> check_timer E N P (clock r) after (srv r) = (Inl e, s') \<Longrightarrow>
    step E N wall parse_request P r (r\<lparr>thread_pc := Crashed, srv := s'\<rparr>)"
| sleep: "thread_pc r = Sleep \<Longrightarrow> clock r + int SSDP_THREAD_SLEEP * 1000000 \<le> after \<Longrightarrow>
    step E N wall parse_request P r (r\<lparr>clock := after, thread_pc := Test\<rparr>)"
| tick: "clock r \<le> after \<Longrightarrow> step E N wall parse_request P r (r\<lparr>clock := after\<rparr>)"
| receive: "handle_receive_from E N parse_request P received (srv r) = (res, s') \<Longrightarrow>
    step E N wall parse_request P r (r\<lparr>srv := s'\<rparr>)"
| main_announce: "announce E N wall P (srv r) = (res, s') \<Longrightarrow>
    step E N wall parse_request P r (r\<lparr>srv := s'\<rparr>)"
| main_stop: "step E N wall parse_request P r (r\<lparr>srv := (srv r)\<lparr>announce_thread_run := False\<rparr>\<rparr>)"

inductive_cases stepE: "step E N wall parse_request P r r'"

inductive reaches :: "env \<Rightarrow> net \<Rightarrow> (nat \<Rightarrow> int) \<Rightarrow> (string \<Rightarrow> request) \<Rightarrow> ssdp_params \<Rightarrow> runner \<Rightarrow> runner \<Rightarrow> bool"
  for E N wall parse_request P where
  start: "reaches E N wall parse_request P r r"
| more: "reaches E N wall parse_request P r r' \<Longrightarrow> step E N wall parse_request P r' r'' \<Longrightarrow>
    reaches E N wall parse_request P r r''"

text \<open>The thread has just been started.\<close>

definition started :: "runner \<Rightarrow> bool" where
  "started r \<longleftrightarrow> thread_pc r = Enter \<and> rounds r = []"

section \<open>Invariants\<close>

abbreviation minute :: int where "minute \<equiv> 60 * 1000000000"

text \<open>The rounds, from the time the thread was started on, are at least a minute apart.\<close>

definition spaced :: "int list \<Rightarrow> bool" where
  "spaced ts \<longleftrightarrow> successively (\<lambda>a b. a + minute \<le> b) ts"

definition thread_inv :: "int \<Rightarrow> std_map \<Rightarrow> runner \<Rightarrow> bool" where
  "thread_inv t0 nss r \<longleftrightarrow>
     namespaces (srv r) = nss \<and> t0 \<le> clock r
     \<and> (if thread_pc r = Enter then rounds r = []
        else announce_time (srv r) \<le> clock r \<and> spaced (t0 # rounds r) \<and> last (t0 # rounds r) \<le> announce_time (srv r))"

lemma secs32_le:
  assumes "0 \<le> dur"
  shows "secs32 dur \<le> dur div 1000000000"
proof -
  have "sgn dur * (\<bar>dur\<bar> div 1000000000) = dur div 1000000000"
    using assms by (cases "dur = 0") auto
  moreover have "0 \<le> dur div 1000000000" using assms by simp
  ultimately show ?thesis
    unfolding secs32_def by (simp only: uint_word_of_int) (simp add: zmod_le_nonneg_dividend)
qed

lemma due_minute: "announce_time s \<le> t \<Longrightarrow> reannounce_due t s \<Longrightarrow> announce_time s + minute \<le> t"
  using secs32_le [of "t - announce_time s"] unfolding reannounce_due_def by linarith

lemma check_timer_effect:
  assumes "check_timer E N P t after s = (Inr (), s')"
  shows "namespaces s' = namespaces s"
    "announce_time s' = (if reannounce_due t s then after else announce_time s)"
    "announce_thread_run s' = announce_thread_run s"
  using assms act_keepsD [of same_core "network_times (for_namespaces (send_anounce E N P))" s]
  by (auto simp: check_timer_def andthen_apply andthen_Inr same_core_def resume_def split: if_splits prod.splits sum.splits)

lemma check_timer_throws:
  assumes "check_timer E N P t after s = (Inl e, s')"
  shows "same_core s s'"
  using assms act_keepsD [of same_core "network_times (for_namespaces (send_anounce E N P))" s]
  by (auto simp: check_timer_def andthen_apply resume_def split: if_splits prod.splits sum.splits)

lemma spaced_snoc: "spaced (t0 # ts) \<Longrightarrow> last (t0 # ts) + minute \<le> t \<Longrightarrow> spaced (t0 # ts @ [t])"
  unfolding spaced_def using successively_append_iff [of _ "t0 # ts" "[t]"] by auto

lemma thread_inv_step:
  assumes "step E N wall parse_request P r r'" "thread_inv t0 nss r"
  shows "thread_inv t0 nss r'"
  using assms
proof (induction rule: step.induct)
  case (check r after s')
  show ?case
  proof (cases "reannounce_due (clock r) (srv r)")
    case True
    with check have "announce_time (srv r) + minute \<le> clock r"
      by (intro due_minute) (auto simp: thread_inv_def)
    with check True have "spaced (t0 # rounds r @ [clock r])"
      by (intro spaced_snoc) (auto simp: thread_inv_def)
    with check True check_timer_effect [OF check(3)] show ?thesis by (auto simp: thread_inv_def)
  next
    case False
    with check check_timer_effect [OF check(3)] show ?thesis by (auto simp: thread_inv_def)
  qed
next
  case (crash r after e s')
  with check_timer_throws [OF crash(2)] show ?case by (auto simp: thread_inv_def same_core_def)
next
  case (receive received r res s')
  with act_keepsD [OF core_handle_receive_from, of "srv r" E N parse_request P received] show ?case
    by (auto simp: thread_inv_def same_core_def)
next
  case (main_announce r res s')
  with act_keepsD [OF core_announce, of "srv r" E N wall P] show ?case
    by (auto simp: thread_inv_def same_core_def)
qed (auto simp: thread_inv_def spaced_def)

lemma thread_inv_reaches:
  assumes "reaches E N wall parse_request P r r'" "thread_inv t0 nss r"
  shows "thread_inv t0 nss r'"
  using assms by (induction rule: reaches.induct) (auto intro: thread_inv_step)

lemma thread_inv_started: "started r \<Longrightarrow> thread_inv (clock r) (namespaces (srv r)) r"
  by (simp add: started_def thread_inv_def)


lemma due_iff:
  assumes "announce_time s \<le> now" "now - announce_time s < 2 ^ 32 * 1000000000"
  shows "reannounce_due now s \<longleftrightarrow> announce_time s + minute \<le> now"
  using assms by (simp add: reannounce_due_def secs32_small) linarith

text \<open>The datagrams of a round: every namespace, three times over.\<close>

definition round_msgs :: "env \<Rightarrow> ssdp_params \<Rightarrow> std_map \<Rightarrow> datagram list" where
  "round_msgs E P nss = map (\<lambda>(ns, location). alive_msg E P ns location) (List.concat (replicate 3 nss))"

lemma check_timer_eq:
  assumes "net_up N"
  shows "check_timer E N P now after s =
    (if reannounce_due now s
     then (Inr (), s\<lparr>sent := sent s @ round_msgs E P (namespaces s), announce_time := after\<rparr>)
     else (Inr (), s))"
proof -
  have "map (\<lambda>(i, ns, location). alive_msg E P ns location) (List.enumerate n xs) =
      map (\<lambda>(ns, location). alive_msg E P ns location) xs" for n xs
    by (induction xs arbitrary: n) auto
  then show ?thesis
    by (simp add: check_timer_def andthen_apply round_msgs_def alive.network_times_sends [OF assms(1)])
qed

text \<open>an announcement that is due is made.  When the timer is checked at least a minute after the last round, and
  less than 136 years, every namespace is announced three times over and the timer starts again; when it is checked
  earlier, nothing is sent and the timer runs on.
\<close>

theorem check_timer_runs:
  assumes "net_up N" "announce_time s \<le> now" "now - announce_time s < 2 ^ 32 * 1000000000"
  shows "check_timer E N P now after s =
    (if announce_time s + minute \<le> now
     then (Inr (), s\<lparr>sent := sent s @ map (\<lambda>(ns, location). alive_msg E P ns location)
                       (List.concat (replicate 3 (namespaces s))), announce_time := after\<rparr>)
     else (Inr (), s))"
  using assms by (simp add: check_timer_eq due_iff round_msgs_def)

text \<open>After the stop flag is cleared at most the round that is just being checked is still begun.\<close>

definition stop_inv :: "nat \<Rightarrow> runner \<Rightarrow> bool" where
  "stop_inv n r \<longleftrightarrow> \<not> announce_thread_run (srv r) \<and>
     length (rounds r) + (if thread_pc r = Check then 1 else 0) \<le> n"

lemma stop_inv_step:
  assumes "step E N wall parse_request P r r'" "stop_inv n r"
  shows "stop_inv n r'"
  using assms
proof (induction rule: step.induct)
  case (check r after s')
  with check_timer_effect [OF check(3)] show ?case by (auto simp: stop_inv_def)
next
  case (crash r after e s')
  with check_timer_throws [OF crash(2)] show ?case by (auto simp: stop_inv_def same_core_def)
next
  case (receive received r res s')
  with act_keepsD [OF core_handle_receive_from, of "srv r" E N parse_request P received] show ?case
    by (auto simp: stop_inv_def same_core_def)
next
  case (main_announce r res s')
  with act_keepsD [OF core_announce, of "srv r" E N wall P] show ?case
    by (auto simp: stop_inv_def same_core_def)
qed (auto simp: stop_inv_def split: if_splits)

lemma stop_inv_reaches:
  assumes "reaches E N wall parse_request P r r'" "stop_inv n r"
  shows "stop_inv n r'"
  using assms by (induction rule: reaches.induct) (auto intro: stop_inv_step)


text \<open>nothing a server has sent is lost from its record, and no operation changes the namespaces, the flag or the
  timer, except for the thread itself: every handler and every announcement keeps them, also when it throws.
\<close>

theorem operations_keep_core:
  "act_keeps same_core (handle_receive_from E N parse_request P received)
   \<and> act_keeps same_core (announce E N wall P) \<and> act_keeps same_core (suppress E N wall P)
   \<and> act_keeps same_core (search E N P service) \<and> act_keeps same_core (handle_response P rep)"
proof (intro conjI)
  show "act_keeps same_core (search E N P service)"
    by (simp add: search_def client_send_def Let_def core.keeps_andthen split: option.split)
qed (simp_all add: suppress_def handle_response_def)

end
