(* ===== verification/Renewal.thy ===== *)
theory Renewal
  imports Announce
begin

text \<open>
  The announcing thread over time.  The theory \<open>Announce\<close> bounds from below how far two rounds of announcements are apart;
  here the loop runs on a schedule, and a thread that is scheduled in time renews the announcements before the life time
  they promise (\<^verbatim>\<open>max-age\<close>) is over.  A run on a schedule is a run of the step relation, and once the flag is cleared
  the thread comes to its end, so that the destructor, which joins it, returns.
\<close>

section \<open>The loop as a function of its schedule\<close>

text \<open>
  The thread by itself, as long as nobody clears the flag or refuses a datagram between two passes: a pass is the time at
  which the timer is checked and the time after the messages were sent, and the result lists the times at which a round
  began.  The loop ends with the schedule, or when the flag is found cleared.
\<close>

fun announce_loop :: "env \<Rightarrow> net \<Rightarrow> ssdp_params \<Rightarrow> (int \<times> int) list \<Rightarrow> (ssdp, int list) act" where
  "announce_loop E N P [] = ret []"
| "announce_loop E N P ((now, after) # passes) =
     andthen (read_state announce_thread_run) (\<lambda>run.
     if run then
       andthen (read_state (reannounce_due now)) (\<lambda>due.
       seq (check_timer E N P now after) (
       andthen (announce_loop E N P passes) (\<lambda>ts.
       ret (if due then now # ts else ts))))
     else ret [])"

definition annouceThread :: "env \<Rightarrow> net \<Rightarrow> ssdp_params \<Rightarrow> int \<Rightarrow> (int \<times> int) list \<Rightarrow> (ssdp, int list) act" where
  "annouceThread E N P now passes =
     seq (update (\<lambda>s. s\<lparr>announce_time := now\<rparr>)) (announce_loop E N P passes)"

abbreviation sleep_ns :: int where
  "sleep_ns \<equiv> int SSDP_THREAD_SLEEP * 1000000"

text \<open>
  A schedule in which the thread is never scheduled more than \<open>d\<close> late and a round never takes longer than \<open>e\<close>:
  \<open>t\<close> is the earliest time of the next check.
\<close>

fun on_time :: "int \<Rightarrow> int \<Rightarrow> int \<Rightarrow> (int \<times> int) list \<Rightarrow> bool" where
  "on_time d e t [] = True"
| "on_time d e t ((now, after) # passes) \<longleftrightarrow>
     t \<le> now \<and> now \<le> t + d \<and> now \<le> after \<and> after \<le> now + e \<and> on_time d e (after + sleep_ns) passes"

text \<open>The life time of an announcement, in nanoseconds.\<close>

abbreviation life_ns :: int where
  "life_ns \<equiv> int ANNOUNCE_INTERVAL * 1000000000"

definition renewed :: "int list \<Rightarrow> bool" where
  "renewed ts \<longleftrightarrow> successively (\<lambda>a b. b < a + life_ns) ts"

section \<open>Renewal in time\<close>

lemma annouceThread_run:
  "annouceThread E N P now passes s = announce_loop E N P passes (s\<lparr>announce_time := now\<rparr>)"
  by (simp add: annouceThread_def andthen_update)

text \<open>One pass.\<close>

lemma announce_loop_pass:
  assumes "net_up N" "announce_thread_run s" "announce_time s \<le> now"
    "now - announce_time s < 2 ^ 32 * 1000000000"
    "announce_loop E N P passes
       (if announce_time s + minute \<le> now
        then s\<lparr>sent := sent s @ round_msgs E P (namespaces s), announce_time := after\<rparr> else s) = (Inr ts, s')"
  shows "announce_loop E N P ((now, after) # passes) s =
    (Inr (if announce_time s + minute \<le> now then now # ts else ts), s')"
  using assms by (simp add: andthen_apply check_timer_eq due_iff split: if_splits)

lemma announce_loop_renews:
  assumes "net_up N" "0 \<le> d" "0 \<le> e" "sleep_ns + minute + d + 2 * e < life_ns"
    "on_time d e t passes" "announce_thread_run s"
    "announce_time s \<le> t" "t \<le> announce_time s + minute + sleep_ns + e"
    "lst \<le> announce_time s" "announce_time s \<le> lst + e"
  shows "\<exists>ts s'. announce_loop E N P passes s = (Inr ts, s') \<and> renewed (lst # ts)
    \<and> last (lst # map fst passes) < last (lst # ts) + life_ns
    \<and> sent s' = sent s @ List.concat (replicate (length ts) (round_msgs E P (namespaces s)))
    \<and> announce_thread_run s' \<and> namespaces s' = namespaces s"
  using assms(5-)
proof (induction passes arbitrary: t s lst)
  case Nil
  then show ?case by (auto simp: renewed_def intro!: exI [of _ "[]"])
next
  case (Cons p passes)
  obtain now after where p: "p = (now, after)" by (cases p)
  have now: "announce_time s \<le> now" "now - announce_time s < 2 ^ 32 * 1000000000" "now < lst + life_ns"
    "now \<le> after" "after \<le> now + e" "on_time d e (after + sleep_ns) passes"
    using Cons.prems assms(2-4) unfolding p by auto
  show ?case
  proof (cases "announce_time s + minute \<le> now")
    case True
    let ?s = "s\<lparr>sent := sent s @ round_msgs E P (namespaces s), announce_time := after\<rparr>"
    obtain ts s' where run: "announce_loop E N P passes ?s = (Inr ts, s')" and ts: "renewed (now # ts)"
      and s': "sent s' = sent ?s @ List.concat (replicate (length ts) (round_msgs E P (namespaces ?s)))"
        "announce_thread_run s'" "namespaces s' = namespaces ?s"
      and lt: "last (now # map fst passes) < last (now # ts) + life_ns"
      using Cons.IH [of "after + sleep_ns" ?s now] Cons.prems now assms(2,3) by auto
    have "announce_loop E N P (p # passes) s = (Inr (now # ts), s')"
      using announce_loop_pass [OF assms(1) _ now(1,2), of E P passes after ts s'] Cons.prems(2) True run
      unfolding p by simp
    moreover have "renewed (lst # now # ts)" using ts now(3) by (simp add: renewed_def)
    ultimately show ?thesis using lt s' by (intro exI [of _ "now # ts"] exI [of _ s']) (simp add: p)
  next
    case False
    obtain ts s' where run: "announce_loop E N P passes s = (Inr ts, s')" and ts: "renewed (lst # ts)"
      and s': "sent s' = sent s @ List.concat (replicate (length ts) (round_msgs E P (namespaces s)))"
        "announce_thread_run s'" "namespaces s' = namespaces s"
      and lt: "last (lst # map fst passes) < last (lst # ts) + life_ns"
      using Cons.IH [of "after + sleep_ns" s lst] Cons.prems now False assms(2,3) by auto
    have "announce_loop E N P (p # passes) s = (Inr ts, s')"
      using announce_loop_pass [OF assms(1) _ now(1,2), of E P passes after ts s'] Cons.prems(2) False run
      unfolding p by simp
    moreover have "last (lst # map fst (p # passes)) < last (lst # ts) + life_ns"
      using lt now(3) run by (cases passes) (simp_all add: p)
    ultimately show ?thesis using ts s' by blast
  qed
qed

text \<open>C15: the services do not expire.  As long as the network works, the thread runs, is never scheduled more than \<open>d\<close>
  late and a round never takes longer than \<open>e\<close>, where these delays together stay below the margin of 1735 seconds, the
  first round begins before the life time of the announcement made at the start is over, every later round before that of
  the round before, and no check of the timer comes later than that either; each round announces all namespaces.
\<close>

theorem announcements_renewed:
  assumes "net_up N" "announce_thread_run s" "0 \<le> d" "0 \<le> e" "sleep_ns + minute + d + 2 * e < life_ns"
    "on_time d e now passes"
  shows "\<exists>ts s'. annouceThread E N P now passes s = (Inr ts, s') \<and> renewed (now # ts)
    \<and> last (now # map fst passes) < last (now # ts) + life_ns
    \<and> sent s' = sent s @ List.concat (replicate (length ts) (round_msgs E P (namespaces s)))
    \<and> announce_thread_run s' \<and> namespaces s' = namespaces s"
  using announce_loop_renews [OF assms(1,3-6), of "s\<lparr>announce_time := now\<rparr>" now E P] assms(2-4)
  by (simp add: annouceThread_run cong: conj_cong)

section \<open>A run on a schedule is a run of the thread\<close>

lemma reaches_trans:
  assumes "reaches E N wall parse_request P r' r''" "reaches E N wall parse_request P r r'"
  shows "reaches E N wall parse_request P r r''"
  using assms by (induction rule: reaches.induct) (blast intro: reaches.more)+

lemma step_reaches:
  "step E N wall parse_request P r r' \<Longrightarrow> reaches E N wall parse_request P r r'"
  by (rule reaches.more [OF reaches.start])

text \<open>One pass of the loop: the test, the wait, the check and the sleep.\<close>

lemma pass_reaches:
  assumes "thread_pc r = Test" "announce_thread_run (srv r)" "clock r \<le> now" "now \<le> after"
    "check_timer E N P now after (srv r) = (Inr (), s')"
  shows "reaches E N wall parse_request P r
    (r\<lparr>clock := after + sleep_ns, srv := s',
       rounds := rounds r @ (if reannounce_due now (srv r) then [now] else [])\<rparr>)"
proof -
  let ?S = "step E N wall parse_request P"
  let ?c = "r\<lparr>thread_pc := Check\<rparr>" and ?d = "r\<lparr>thread_pc := Check, clock := now\<rparr>"
  let ?z = "r\<lparr>clock := after, thread_pc := Sleep, srv := s',
       rounds := rounds r @ (if reannounce_due now (srv r) then [now] else [])\<rparr>"
  have test: "?S r ?c" using assms(1,2) by (rule step.continue)
  have wait: "?S ?c ?d" using step.tick [of ?c now E N wall parse_request P] assms(3) by simp
  have check: "?S ?d ?z"
    using step.check [of ?d after E N P s' wall parse_request] assms(4,5)
    by (cases "reannounce_due now (srv r)") simp_all
  have "?S ?z (?z\<lparr>clock := after + sleep_ns, thread_pc := Test\<rparr>)" by (rule step.sleep) simp_all
  moreover have "?z\<lparr>clock := after + sleep_ns, thread_pc := Test\<rparr> =
      r\<lparr>clock := after + sleep_ns, srv := s',
        rounds := rounds r @ (if reannounce_due now (srv r) then [now] else [])\<rparr>"
    using assms(1) by (cases r) simp
  ultimately show ?thesis
    using reaches.more [OF reaches.more [OF step_reaches [OF test] wait] check]
    by (simp only: reaches.more)
qed

lemma announce_loop_Cons_Inr:
  assumes "announce_loop E N P ((now, after) # passes) s = (Inr ts, s')" "announce_thread_run s"
  obtains s1 ts' where "check_timer E N P now after s = (Inr (), s1)"
    "announce_loop E N P passes s1 = (Inr ts', s')"
    "ts = (if reannounce_due now s then [now] else []) @ ts'"
  using assms by (auto simp: andthen_Inr read_state_run split: if_splits)

lemma announce_loop_reaches:
  assumes "announce_loop E N P passes s = (Inr ts, s')" "on_time d e t passes" 
    "thread_pc r = Test" "clock r \<le> t" "srv r = s"
  shows "\<exists>r'. reaches E N wall parse_request P r r' \<and> srv r' = s' \<and> rounds r' = rounds r @ ts"
  using assms
proof (induction passes arbitrary: t r s ts)
  case Nil
  then show ?case by (auto intro: reaches.start)
next
  case (Cons p passes)
  obtain now after where p: "p = (now, after)" by (cases p)
  show ?case
  proof (cases "announce_thread_run s")
    case False
    with Cons.prems show ?thesis by (auto simp: p andthen_apply read_state_run intro: reaches.start)
  next
    case True
    from Cons.prems(1) True obtain s1 ts' where run: "check_timer E N P now after s = (Inr (), s1)"
        "announce_loop E N P passes s1 = (Inr ts', s')" "ts = (if reannounce_due now s then [now] else []) @ ts'"
      unfolding p by (rule announce_loop_Cons_Inr)
    let ?r = "r\<lparr>clock := after + sleep_ns, srv := s1,
       rounds := rounds r @ (if reannounce_due now (srv r) then [now] else [])\<rparr>"
    have pass: "reaches E N wall parse_request P r ?r"
      using Cons.prems True run(1) by (intro pass_reaches) (auto simp: p)
    obtain r' where "reaches E N wall parse_request P ?r r'" "srv r' = s'" "rounds r' = rounds ?r @ ts'"
      using Cons.IH [OF run(2), of "after + sleep_ns" ?r] Cons.prems by (auto simp: p)
    with pass run(3) Cons.prems(5) show ?thesis
      by (intro exI [of _ r'] conjI) (auto intro: reaches_trans)
  qed
qed


section \<open>The end of the thread\<close>

text \<open>The steps the thread still has to take once the flag is cleared.\<close>

fun steps_left :: "pc \<Rightarrow> nat" where
  "steps_left Enter = 2"
| "steps_left Test = 1"
| "steps_left Check = 3"
| "steps_left Sleep = 2"
| "steps_left Exit = 0"
| "steps_left Crashed = 0"

lemma stopped_step:
  assumes "step E N wall parse_request P r r'" "\<not> announce_thread_run (srv r)"
  shows "thread_pc r' = thread_pc r \<or> steps_left (thread_pc r') < steps_left (thread_pc r)"
  using assms by (induction rule: step.induct) auto

lemma stopped_progress:
  assumes "\<not> announce_thread_run (srv r)" "steps_left (thread_pc r) \<noteq> 0"
  shows "\<exists>r'. step E N wall parse_request P r r' \<and> steps_left (thread_pc r') < steps_left (thread_pc r)"
proof (cases "thread_pc r")
  case Enter
  then show ?thesis using step.enter [of r E N wall parse_request P] by force
next
  case Test
  then show ?thesis using step.leave [of r E N wall parse_request P] assms(1) by force
next
  case Check
  obtain x s' where run: "check_timer E N P (clock r) (clock r) (srv r) = (x, s')" by (meson surj_pair)
  show ?thesis
  proof (cases x)
    case (Inl exc)
    then show ?thesis using step.crash [OF Check] run Check by force
  next
    case (Inr u)
    then show ?thesis using step.check [OF Check order_refl] run Check by force
  qed
next
  case Sleep
  then show ?thesis using step.sleep [of r "clock r + sleep_ns" E N wall parse_request P] by force
qed (use assms(2) in auto)

text \<open>C16: the destructor's join returns.  Once the flag is cleared no step of any thread prolongs the announcing
  thread, a step of its own is always possible until it has ended, and each of its steps brings it closer to its end: at
  most three are left, whatever the others do in between.
\<close>

theorem stopped_thread_ends:
  assumes "\<not> announce_thread_run (srv r)" "reaches E N wall parse_request P r r'"
  shows "steps_left (thread_pc r') \<le> 3
    \<and> (step E N wall parse_request P r' r'' \<longrightarrow>
         thread_pc r'' = thread_pc r' \<or> steps_left (thread_pc r'') < steps_left (thread_pc r'))
    \<and> (thread_pc r' \<in> {Exit, Crashed} \<or>
         (\<exists>t. step E N wall parse_request P r' t \<and> steps_left (thread_pc t) < steps_left (thread_pc r')))"
proof -
  have stop: "\<not> announce_thread_run (srv r')"
    using stop_inv_reaches [OF assms(2), of "Suc (length (rounds r))"] assms(1) by (auto simp: stop_inv_def)
  have "steps_left (thread_pc r') \<le> 3 \<and> (thread_pc r' \<in> {Exit, Crashed} \<or> steps_left (thread_pc r') \<noteq> 0)"
    by (cases "thread_pc r'") simp_all
  with stopped_step stopped_progress stop show ?thesis by blast
qed

end
