(* ===== verification/Discovery.thy ===== *)
theory Discovery
  imports Ssdp
begin

text \<open>
  Two servers on one network.  One searches for a service, as \<^verbatim>\<open>SSDPServerImpl::search\<close> does, the other receives the search
  and answers, and the first reads the answers with \<^verbatim>\<open>parseResponse\<close>; one announces itself, and the other reads the
  announcement with \<^verbatim>\<open>parseRequest\<close>.  Between them are the texts of the datagrams and the HTTP parser of the http library,
  a parameter: it reads the first line and the headers, whose names it compares without regard to case.
\<close>

section \<open>The HTTP parser\<close>

definition header_value :: "(string \<times> string) list \<Rightarrow> string \<Rightarrow> string option" where
  "header_value hs n = map_of (map (\<lambda>(k, v). (map upper_char k, v)) hs) (map upper_char n)"

definition text_or_empty :: "string option \<Rightarrow> string" where
  "text_or_empty v = (case v of Some s \<Rightarrow> s | None \<Rightarrow> [])"

definition request_law :: "(string \<Rightarrow> request) \<Rightarrow> bool" where
  "request_law parse_request \<longleftrightarrow> (\<forall>t line hs. read_message t = Some (line, hs) \<longrightarrow>
     req_method (parse_request t) = takeWhile ((\<noteq>) CHR '' '') line
     \<and> (\<forall>n. req_parameter (parse_request t) n = text_or_empty (header_value hs n)
          \<and> (req_contains_parameter (parse_request t) n \<longleftrightarrow> header_value hs n \<noteq> None)))"

definition reply_law :: "(string \<Rightarrow> reply) \<Rightarrow> bool" where
  "reply_law parse_response \<longleftrightarrow> (\<forall>t line hs. read_message t = Some (line, hs) \<longrightarrow>
     (rep_status (parse_response t) = OK \<longleftrightarrow> take 3 (drop 9 line) = ''200'')
     \<and> (\<forall>n. rep_parameter (parse_response t) n = text_or_empty (header_value hs n)
          \<and> (rep_contains_parameter (parse_response t) n \<longleftrightarrow> header_value hs n \<noteq> None)))"

lemma request_lawD:
  assumes "request_law parse_request" "read_message t = Some (line, hs)"
  shows "req_method (parse_request t) = takeWhile ((\<noteq>) CHR '' '') line"
    "req_parameter (parse_request t) n = text_or_empty (header_value hs n)"
    "req_contains_parameter (parse_request t) n \<longleftrightarrow> header_value hs n \<noteq> None"
  using assms by (simp_all add: request_law_def)

lemma reply_lawD:
  assumes "reply_law parse_response" "read_message t = Some (line, hs)"
  shows "rep_status (parse_response t) = OK \<longleftrightarrow> take 3 (drop 9 line) = ''200''"
    "rep_parameter (parse_response t) n = text_or_empty (header_value hs n)"
    "rep_contains_parameter (parse_response t) n \<longleftrightarrow> header_value hs n \<noteq> None"
  using assms by (simp_all add: reply_law_def)

section \<open>The messages\<close>

text \<open>The names by which the code reads headers, in upper case.\<close>

lemma upper_chars:
  "map upper_char ''Host'' = ''HOST''" "map upper_char ''Cache-Control'' = ''CACHE-CONTROL''"
  "map upper_char ''Location'' = ''LOCATION''" "map upper_char ''Server'' = ''SERVER''"
  "map upper_char ''St'' = ''ST''" "map upper_char ''Nt'' = ''NT''" "map upper_char ''Nts'' = ''NTS''"
  "map upper_char ''Usn'' = ''USN''"
  by code_simp+

lemma header_value_Nil: "header_value [] n = None"
  by (simp add: header_value_def)

lemma header_value_Cons:
  "header_value ((k, v) # hs) n = (if map upper_char n = map upper_char k then Some v else header_value hs n)"
  by (simp add: header_value_def)

lemma upper_sent:
  "map upper_char ''CACHE-CONTROL'' = ''CACHE-CONTROL''" "map upper_char ''Content-Length'' = ''CONTENT-LENGTH''"
  "map upper_char ''CONTENT-LENGTH'' = ''CONTENT-LENGTH''"
  "map upper_char ''DATE'' = ''DATE''" "map upper_char ''EXT'' = ''EXT''" "map upper_char ''LOCATION'' = ''LOCATION''"
  "map upper_char ''SERVER'' = ''SERVER''" "map upper_char ''ST'' = ''ST''" "map upper_char ''USN'' = ''USN''"
  "map upper_char ''HOST'' = ''HOST''" "map upper_char ''NT'' = ''NT''" "map upper_char ''NTS'' = ''NTS''"
  "map upper_char ''MAN'' = ''MAN''" "map upper_char ''MX'' = ''MX''"
  by code_simp+

lemmas header_values = header_value_Nil header_value_Cons upper_chars upper_sent

lemma search_headers_eq:
  assumes "fmt_law E" "upper_law E" "header_law E"
  shows "search_headers E config service =
    [(''CONTENT-LENGTH'', ''0''), (''HOST'', multicast_address config @ '':'' @ multicast_port config),
     (''MAN'', ''ssdp:discover''), (''MX'', ''2''), (''ST'', service)]"
  using assms(3)
  by (simp add: search_headers_def Let_def upper_names [OF assms(2)] format_values [OF assms(1)]
      header_law_def less_char_def)

lemma read_search:
  assumes "fmt_law E" "upper_law E" "header_law E" "clean E config service []"
  shows "read_message (create_header SSDP_HEADER_SEARCH_REQUEST_LINE (search_headers E config service)) =
    Some (SSDP_HEADER_SEARCH_REQUEST_LINE, search_headers E config service)"
  using assms(4) unfolding search_headers_eq [OF assms(1-3)]
  by (intro read_created) (simp_all add: clean_def one_line_def header_name_def)

lemma read_reply:
  assumes "fmt_law E" "upper_law E" "header_law E" "clean E config nt location"
  shows "read_message (create_header SSDP_REQUEST_LINE_OK (create_response E config nt location)) =
    Some (SSDP_REQUEST_LINE_OK, create_response E config nt location)"
  using assms(4) unfolding create_response_eq [OF assms(1-3)]
  by (intro read_created) (simp_all add: clean_def one_line_def header_name_def uname_def)

lemma read_announcement:
  assumes "fmt_law E" "upper_law E" "header_law E" "clean E config nt location"
  shows "read_message (create_header SSDP_HEADER_REQUEST_LINE (announce_headers E config nt location)) =
    Some (SSDP_HEADER_REQUEST_LINE, announce_headers E config nt location)"
  using assms(4) unfolding announce_headers_eq [OF assms(1-3)]
  by (intro read_created) (simp_all add: clean_def one_line_def header_name_def uname_def)

section \<open>Reading them\<close>

text \<open>What the reply for a namespace tells the device that searched.\<close>

definition found :: "env \<Rightarrow> Config \<Rightarrow> int \<Rightarrow> string \<times> string \<Rightarrow> SsdpEvent" where
  "found E config now = (\<lambda>(ns, location).
     \<lparr>ev_host = [], ev_location = location, ev_nt = ns, ev_nts = [],
      ev_server = uname E @ '' DLNADOC/1.50 UPnP/1.0 SSDP/1.0.0'', ev_usn = ''uuid:'' @ uuid config @ ''::'' @ ns,
      ev_last_seen = now, ev_cache_control = 1800\<rparr>)"

lemma reply_understood:
  assumes "fmt_law E" "upper_law E" "header_law E" "clean E config nt location"
    "reply_law parse_response" "header_law F" "keep_alive_law F"
  shows "parseResponse F now (parse_response (create_header SSDP_REQUEST_LINE_OK (create_response E config nt location))) =
      Inr (found E config now (nt, location))"
proof -
  define t where "t = create_header SSDP_REQUEST_LINE_OK (create_response E config nt location)"
  note parsed = reply_lawD [OF assms(5) read_reply [OF assms(1-4)], folded t_def, unfolded create_response_eq [OF assms(1-3)]]
  have names: "HOST F = ''Host''" "CACHE_CONTROL F = ''Cache-Control''"
    using assms(6) by (simp_all add: header_law_def)
  show ?thesis
    unfolding t_def [symmetric] parseResponse_def names parsed header_values
    by (simp add: text_or_empty_def parse_keep_alive_1800 [OF assms(7)] found_def)
qed

lemma announcement_understood_event:
  assumes "fmt_law E" "upper_law E" "header_law E" "clean E config nt location"
    "request_law parse_request" "header_law F" "keep_alive_law F"
  shows "parseRequest F now (parse_request (create_header SSDP_HEADER_REQUEST_LINE (announce_headers E config nt location))) =
      Inr ((found E config now (nt, location))\<lparr>ev_host := multicast_address config @ '':'' @ multicast_port config,
             ev_nts := SSDP_STATUS_ALIVE\<rparr>)"
proof -
  define t where "t = create_header SSDP_HEADER_REQUEST_LINE (announce_headers E config nt location)"
  note parsed = request_lawD [OF assms(5) read_announcement [OF assms(1-4)], folded t_def, unfolded announce_headers_eq [OF assms(1-3)]]
  have names: "HOST F = ''Host''" "CACHE_CONTROL F = ''Cache-Control''"
    using assms(6) by (simp_all add: header_law_def)
  show ?thesis
    unfolding t_def [symmetric] parseRequest_def names parsed header_values
    by (simp add: text_or_empty_def parse_keep_alive_1800 [OF assms(7)] found_def)
qed

lemma search_run:
  assumes "net_up N" "stoi (multicast_port (sp_config P)) = Inr port"
  shows "search E N P service s = (Inr (), s\<lparr>sent := sent s @ [Multicast (multicast_address (sp_config P)) port
     (create_header SSDP_HEADER_SEARCH_REQUEST_LINE (search_headers E (sp_config P) service))]\<rparr>)"
  using assms by (simp add: search_def client_send_def drop_exception_def andthen_apply net_up_def send_to_def Let_def)

lemma search_received:
  assumes "fmt_law E" "upper_law E" "header_law E" "clean E config service []" "request_law parse_request"
    "uuid (sp_config P) \<noteq> []"
  shows "foreign P (parse_request (create_header SSDP_HEADER_SEARCH_REQUEST_LINE (search_headers E config service)))"
    "req_method (parse_request (create_header SSDP_HEADER_SEARCH_REQUEST_LINE (search_headers E config service))) = SSDP_MSEARCH"
    "req_parameter (parse_request (create_header SSDP_HEADER_SEARCH_REQUEST_LINE (search_headers E config service)))
       SSDP_HEADER_ST = service"
proof -
  define t where "t = create_header SSDP_HEADER_SEARCH_REQUEST_LINE (search_headers E config service)"
  note parsed = request_lawD [OF assms(5) read_search [OF assms(1-4)], folded t_def, unfolded search_headers_eq [OF assms(1-3)]]
  show "foreign P (parse_request (create_header SSDP_HEADER_SEARCH_REQUEST_LINE (search_headers E config service)))"
    "req_method (parse_request (create_header SSDP_HEADER_SEARCH_REQUEST_LINE (search_headers E config service))) = SSDP_MSEARCH"
    "req_parameter (parse_request (create_header SSDP_HEADER_SEARCH_REQUEST_LINE (search_headers E config service)))
       SSDP_HEADER_ST = service"
    unfolding t_def [symmetric] foreign_def parsed header_values
    using assms(6) by (simp_all add: text_or_empty_def)
qed

lemma client_reply:
  "client_handle_receive_from parse_response (handle_response P) (Some (responder, data)) p = (Inr True, p)"
  by (simp add: client_handle_receive_from_def handle_response_def andthen_apply)

section \<open>Two servers find each other\<close>


text \<open>C13: announcements are understood.  Every announcement the server sends is read by a peer as an event with the location,
  the name and the unique name of the namespace, the state alive and the life time of half an hour, and the peer, when it
  has another uuid, receives it without an answer and without a failure.
\<close>

theorem announcement_understood:
  assumes "fmt_law E" "upper_law E" "header_law E" "clean E (sp_config P) ns location"
    "request_law parse_request" "header_law F" "keep_alive_law F"
    "alive_msg E P ns location = Multicast address port t"
  shows "parseRequest F now (parse_request t) =
      Inr ((found E (sp_config P) now (ns, location))\<lparr>
             ev_host := multicast_address (sp_config P) @ '':'' @ multicast_port (sp_config P), ev_nts := SSDP_STATUS_ALIVE\<rparr>)
    \<and> handle_receive F M Q (parse_request t) q = (Inr (), q)"
proof
  have t: "t = create_header SSDP_HEADER_REQUEST_LINE (announce_headers E (sp_config P) ns location)"
    using assms(8) by (simp add: alive_msg_def)
  then show "parseRequest F now (parse_request t) =
      Inr ((found E (sp_config P) now (ns, location))\<lparr>
             ev_host := multicast_address (sp_config P) @ '':'' @ multicast_port (sp_config P), ev_nts := SSDP_STATUS_ALIVE\<rparr>)"
    using announcement_understood_event [OF assms(1-7)] by simp
  have "req_method (parse_request t) = SSDP_NOTIFY"
    using request_lawD(1) [OF assms(5) read_announcement [OF assms(1-4)]] by (simp add: t)
  then show "handle_receive F M Q (parse_request t) q = (Inr (), q)"
    using handle_receive_other by blast
qed

end
