(* ===== verification/Upnp_Headers.thy ===== *)
theory Upnp_Headers
  imports Server
begin

text \<open>
  \<^verbatim>\<open>src/src/upnpheaders.cpp\<close>: the last module of the content directory route, which adds the headers every
  UPnP answer has.  It runs after the handler, on the same response.
\<close>

section \<open>The model of the code\<close>

text \<open>
  What the module reads of the request and the response besides their parameters: the protocol, the number of bytes
  written (\<^verbatim>\<open>response.tellp()\<close>), the expiration in seconds, and the two readings of the clock.  The time functions
  (\<^verbatim>\<open>gmtime\<close>, \<^verbatim>\<open>mktime\<close> after \<open>d\<close> seconds were added, and the http library's \<^verbatim>\<open>time_to_string\<close>) are taken together as
  \<open>hi_http_date t d\<close>.
\<close>

record headers_input =
  hi_version_major :: int
  hi_version_minor :: int
  hi_protocol :: string
  hi_expires :: int
  hi_expires_now :: int
  hi_now :: int
  hi_http_date :: "int \<Rightarrow> int \<Rightarrow> string"

record status_line =
  sl_version_major :: int
  sl_version_minor :: int
  sl_protocol :: string

definition set_content_length :: "env \<Rightarrow> (world, unit) act" where
  "set_content_length E = (\<lambda>w.
     (if parameter_of (response w) (CONTENT_LENGTH E) = None
      then respond (Set_parameter (CONTENT_LENGTH E) (to_string (int (length (body_of (response w)))))) w
      else (Inr (), w)))"

definition UpnpHeaders_execute ::
  "env \<Rightarrow> Config \<Rightarrow> headers_input \<Rightarrow> (world, status_line \<times> http_status) act" where
  "UpnpHeaders_execute E config h =
     (let line = \<lparr>sl_version_major = hi_version_major h, sl_version_minor = hi_version_minor h,
                  sl_protocol = hi_protocol h\<rparr> in
      seq (set_content_length E) (
      seq (if hi_expires h \<noteq> 0
           then respond (Set_parameter (EXPIRES E) (hi_http_date h (hi_expires_now h) (hi_expires h))) else ret ()) (
      seq (respond (Set_parameter (DATE E) (hi_http_date h (hi_now h) 0))) (
      seq (respond (Set_parameter (SERVER E) (format E ''{} DLNADOC/1.50 UPnP/1.0 SSDP/1.0.0'' [uname E]))) (
      seq (respond (Set_parameter ''SID'' (format E ''uuid:{}'' [uuid config]))) (
      seq (respond (Set_parameter ''EXT'' (hi_http_date h (hi_now h) 0))) (
      ret (line, OK))))))))"

section \<open>Lemmas\<close>

lemma set_content_length_run:
  "\<exists>ops. set_content_length E w = (Inr (), w\<lparr>response := response w @ ops\<rparr>) \<and>
     (\<forall>k. parameter_of ops k =
        (if k = CONTENT_LENGTH E \<and> parameter_of (response w) k = None
         then Some (to_string (int (length (body_of (response w))))) else None)) \<and> body_of ops = []"
  by (cases "parameter_of (response w) (CONTENT_LENGTH E) = None")
    (auto simp: set_content_length_def intro: exI [of _ "[]"] exI [of _ "[Set_parameter a b]" for a b])

lemma headers_set:
  assumes "header_law E" "fmt_law E"
  shows "\<exists>line w'. UpnpHeaders_execute E config h w = (Inr (line, OK), w')
    \<and> body_of (response w') = body_of (response w) \<and> published w' = published w
    \<and> line = \<lparr>sl_version_major = hi_version_major h, sl_version_minor = hi_version_minor h,
              sl_protocol = hi_protocol h\<rparr>
    \<and> (\<forall>k. parameter_of (response w') k =
         (if k = ''EXT'' then Some (hi_http_date h (hi_now h) 0)
          else if k = ''SID'' then Some (''uuid:'' @ uuid config)
          else if k = ''Server'' then Some (uname E @ '' DLNADOC/1.50 UPnP/1.0 SSDP/1.0.0'')
          else if k = ''Date'' then Some (hi_http_date h (hi_now h) 0)
          else if k = ''Expires'' \<and> hi_expires h \<noteq> 0 then Some (hi_http_date h (hi_expires_now h) (hi_expires h))
          else if k = ''Content-Length'' \<and> parameter_of (response w) k = None
            then Some (to_string (int (length (body_of (response w)))))
          else parameter_of (response w) k))"
proof -
  have sid: "format E ''uuid:{}'' [uuid config] = ''uuid:'' @ uuid config"
    by (rule fmt_lawD [OF assms(2)]) simp
  have server: "format E ''{} DLNADOC/1.50 UPnP/1.0 SSDP/1.0.0'' [uname E] =
      uname E @ '' DLNADOC/1.50 UPnP/1.0 SSDP/1.0.0''"
    by (rule fmt_lawD [OF assms(2)]) simp
  obtain ops where ops: "set_content_length E w = (Inr (), w\<lparr>response := response w @ ops\<rparr>)"
    "\<forall>k. parameter_of ops k =
        (if k = CONTENT_LENGTH E \<and> parameter_of (response w) k = None
         then Some (to_string (int (length (body_of (response w))))) else None)" "body_of ops = []"
    using set_content_length_run by blast
  show ?thesis
    using assms(1) ops
    by (cases "hi_expires h = 0")
      (simp_all add: UpnpHeaders_execute_def Let_def andthen_apply sid server header_law_def split: option.split,
       auto)
qed

text \<open>C32: the headers of an answer.  The module never fails and writes no text.  Afterwards the content length is the one
  the handler set, or else the number of bytes it wrote; date, server and subscription id are set; the version and the
  protocol are those of the request; every other header is as the handler left it, except for \<open>EXT\<close>, which is the
  date and not empty, and the expiration, which is set exactly when the handler asked for it.
\<close>

theorem headers_complete:
  assumes "header_law E" "fmt_law E"
  shows "\<exists>line w'. UpnpHeaders_execute E config h w = (Inr (line, OK), w')
    \<and> body_of (response w') = body_of (response w) \<and> published w' = published w
    \<and> line = \<lparr>sl_version_major = hi_version_major h, sl_version_minor = hi_version_minor h,
              sl_protocol = hi_protocol h\<rparr>
    \<and> (\<forall>k. parameter_of (response w') k =
         (if k = ''EXT'' then Some (hi_http_date h (hi_now h) 0)
          else if k = ''SID'' then Some (''uuid:'' @ uuid config)
          else if k = ''Server'' then Some (uname E @ '' DLNADOC/1.50 UPnP/1.0 SSDP/1.0.0'')
          else if k = ''Date'' then Some (hi_http_date h (hi_now h) 0)
          else if k = ''Expires'' \<and> hi_expires h \<noteq> 0 then Some (hi_http_date h (hi_expires_now h) (hi_expires h))
          else if k = ''Content-Length'' \<and> parameter_of (response w) k = None
            then Some (to_string (int (length (body_of (response w)))))
          else parameter_of (response w) k))"
  using assms by (rule headers_set)

end
