(* ===== verification/Scpd.thy ===== *)
theory Scpd
  imports Main
begin

text \<open>
  The two service descriptions of \<^verbatim>\<open>src/src/_utils.h\<close>, as the program serves them under \<^verbatim>\<open>/cds.xml\<close> and
  \<^verbatim>\<open>/cms.xml\<close>: texts, character for character.
\<close>

definition CDS_DESCRIPTION :: string where
  \<open>CDS_DESCRIPTION =
     ''<?xml version="1.0"?>'' @
     [CHR 0x0A] @
     ''<scpd xmlns="urn:schemas-upnp-org:service-1-0"><specVersion><major>1</major><minor>0</minor></specVersion><act'' @
     ''ionList><action><name>GetSearchCapabilities</name><argumentList><argument><name>SearchCaps</name><direction>ou'' @
     ''t</direction><relatedStateVariable>SearchCapabilities</relatedStateVariable></argument></argumentList></action'' @
     ''><action><name>GetSortCapabilities</name><argumentList><argument><name>SortCaps</name><direction>out</directio'' @
     ''n><relatedStateVariable>SortCapabilities</relatedStateVariable></argument></argumentList></action><action><nam'' @
     ''e>GetSystemUpdateID</name><argumentList><argument><name>Id</name><direction>out</direction><relatedStateVariab'' @
     ''le>SystemUpdateID</relatedStateVariable></argument></argumentList></action><action><name>Browse</name><argumen'' @
     ''tList><argument><name>ObjectID</name><direction>in</direction><relatedStateVariable>A_ARG_TYPE_ObjectID</relat'' @
     ''edStateVariable></argument><argument><name>BrowseFlag</name><direction>in</direction><relatedStateVariable>A_A'' @
     ''RG_TYPE_BrowseFlag</relatedStateVariable></argument><argument><name>Filter</name><direction>in</direction><rel'' @
     ''atedStateVariable>A_ARG_TYPE_Filter</relatedStateVariable></argument><argument><name>StartingIndex</name><dire'' @
     ''ction>in</direction><relatedStateVariable>A_ARG_TYPE_Index</relatedStateVariable></argument><argument><name>Re'' @
     ''questedCount</name><direction>in</direction><relatedStateVariable>A_ARG_TYPE_Count</relatedStateVariable></arg'' @
     ''ument><argument><name>SortCriteria</name><direction>in</direction><relatedStateVariable>A_ARG_TYPE_SortCriteri'' @
     ''a</relatedStateVariable></argument><argument><name>Result</name><direction>out</direction><relatedStateVariabl'' @
     ''e>A_ARG_TYPE_Result</relatedStateVariable></argument><argument><name>NumberReturned</name><direction>out</dire'' @
     ''ction><relatedStateVariable>A_ARG_TYPE_Count</relatedStateVariable></argument><argument><name>TotalMatches</na'' @
     ''me><direction>out</direction><relatedStateVariable>A_ARG_TYPE_Count</relatedStateVariable></argument><argument'' @
     ''><name>UpdateID</name><direction>out</direction><relatedStateVariable>A_ARG_TYPE_UpdateID</relatedStateVariabl'' @
     ''e></argument></argumentList></action><action><name>Search</name><argumentList><argument><name>ContainerID</nam'' @
     ''e><direction>in</direction><relatedStateVariable>A_ARG_TYPE_ObjectID</relatedStateVariable></argument><argumen'' @
     ''t><name>SearchCriteria</name><direction>in</direction><relatedStateVariable>A_ARG_TYPE_SearchCriteria</related'' @
     ''StateVariable></argument><argument><name>Filter</name><direction>in</direction><relatedStateVariable>A_ARG_TYP'' @
     ''E_Filter</relatedStateVariable></argument><argument><name>StartingIndex</name><direction>in</direction><relate'' @
     ''dStateVariable>A_ARG_TYPE_Index</relatedStateVariable></argument><argument><name>RequestedCount</name><directi'' @
     ''on>in</direction><relatedStateVariable>A_ARG_TYPE_Count</relatedStateVariable></argument><argument><name>SortC'' @
     ''riteria</name><direction>in</direction><relatedStateVariable>A_ARG_TYPE_SortCriteria</relatedStateVariable></a'' @
     ''rgument><argument><name>Result</name><direction>out</direction><relatedStateVariable>A_ARG_TYPE_Result</relate'' @
     ''dStateVariable></argument><argument><name>NumberReturned</name><direction>out</direction><relatedStateVariable'' @
     ''>A_ARG_TYPE_Count</relatedStateVariable></argument><argument><name>TotalMatches</name><direction>out</directio'' @
     ''n><relatedStateVariable>A_ARG_TYPE_Count</relatedStateVariable></argument><argument><name>UpdateID</name><dire'' @
     ''ction>out</direction><relatedStateVariable>A_ARG_TYPE_UpdateID</relatedStateVariable></argument></argumentList'' @
     ''></action></actionList><serviceStateTable><stateVariable sendEvents="yes"><name>TransferIDs</name><dataType>st'' @
     ''ring</dataType></stateVariable><stateVariable sendEvents="no"><name>A_ARG_TYPE_ObjectID</name><dataType>string'' @
     ''</dataType></stateVariable><stateVariable sendEvents="no"><name>A_ARG_TYPE_Result</name><dataType>string</data'' @
     ''Type></stateVariable><stateVariable sendEvents="no"><name>A_ARG_TYPE_SearchCriteria</name><dataType>string</da'' @
     ''taType></stateVariable><stateVariable sendEvents="no"><name>A_ARG_TYPE_BrowseFlag</name><dataType>string</data'' @
     ''Type><allowedValueList><allowedValue>BrowseMetadata</allowedValue><allowedValue>BrowseDirectChildren</allowedV'' @
     ''alue></allowedValueList></stateVariable><stateVariable sendEvents="no"><name>A_ARG_TYPE_Filter</name><dataType'' @
     ''>string</dataType></stateVariable><stateVariable sendEvents="no"><name>A_ARG_TYPE_SortCriteria</name><dataType'' @
     ''>string</dataType></stateVariable><stateVariable sendEvents="no"><name>A_ARG_TYPE_Index</name><dataType>ui4</d'' @
     ''ataType></stateVariable><stateVariable sendEvents="no"><name>A_ARG_TYPE_Count</name><dataType>ui4</dataType></'' @
     ''stateVariable><stateVariable sendEvents="no"><name>A_ARG_TYPE_UpdateID</name><dataType>ui4</dataType></stateVa'' @
     ''riable><stateVariable sendEvents="no"><name>SearchCapabilities</name><dataType>string</dataType></stateVariabl'' @
     ''e><stateVariable sendEvents="no"><name>SortCapabilities</name><dataType>string</dataType></stateVariable><stat'' @
     ''eVariable sendEvents="yes"><name>SystemUpdateID</name><dataType>ui4</dataType></stateVariable></serviceStateTa'' @
     ''ble></scpd>''\<close>

definition CMS_DESCRIPTION :: string where
  \<open>CMS_DESCRIPTION =
     ''<?xml version="1.0"?>'' @
     [CHR 0x0A] @
     ''<scpd xmlns="urn:schemas-upnp-org:service-1-0"><specVersion><major>1</major><minor>0</minor></specVersion><act'' @
     ''ionList><action><name>GetProtocolInfo</name><argumentList><argument><name>Source</name><direction>out</directi'' @
     ''on><relatedStateVariable>SourceProtocolInfo</relatedStateVariable></argument><argument><name>Sink</name><direc'' @
     ''tion>out</direction><relatedStateVariable>SinkProtocolInfo</relatedStateVariable></argument></argumentList></a'' @
     ''ction><action><name>GetCurrentConnectionIDs</name><argumentList><argument><name>ConnectionIDs</name><direction'' @
     ''>out</direction><relatedStateVariable>CurrentConnectionIDs</relatedStateVariable></argument></argumentList></a'' @
     ''ction><action><name>GetCurrentConnectionInfo</name><argumentList><argument><name>ConnectionID</name><direction'' @
     ''>in</direction><relatedStateVariable>A_ARG_TYPE_ConnectionID</relatedStateVariable></argument><argument><name>'' @
     ''RcsID</name><direction>out</direction><relatedStateVariable>A_ARG_TYPE_RcsID</relatedStateVariable></argument>'' @
     ''<argument><name>AVTransportID</name><direction>out</direction><relatedStateVariable>A_ARG_TYPE_AVTransportID</'' @
     ''relatedStateVariable></argument><argument><name>ProtocolInfo</name><direction>out</direction><relatedStateVari'' @
     ''able>A_ARG_TYPE_ProtocolInfo</relatedStateVariable></argument><argument><name>PeerConnectionManager</name><dir'' @
     ''ection>out</direction><relatedStateVariable>A_ARG_TYPE_ConnectionManager</relatedStateVariable></argument><arg'' @
     ''ument><name>PeerConnectionID</name><direction>out</direction><relatedStateVariable>A_ARG_TYPE_ConnectionID</re'' @
     ''latedStateVariable></argument><argument><name>Direction</name><direction>out</direction><relatedStateVariable>'' @
     ''A_ARG_TYPE_Direction</relatedStateVariable></argument><argument><name>Status</name><direction>out</direction><'' @
     ''relatedStateVariable>A_ARG_TYPE_ConnectionStatus</relatedStateVariable></argument></argumentList></action></ac'' @
     ''tionList><serviceStateTable><stateVariable sendEvents="yes"><name>SourceProtocolInfo</name><dataType>string</d'' @
     ''ataType></stateVariable><stateVariable sendEvents="yes"><name>SinkProtocolInfo</name><dataType>string</dataTyp'' @
     ''e></stateVariable><stateVariable sendEvents="yes"><name>CurrentConnectionIDs</name><dataType>string</dataType>'' @
     ''</stateVariable><stateVariable sendEvents="no"><name>A_ARG_TYPE_ConnectionStatus</name><dataType>string</dataT'' @
     ''ype><allowedValueList><allowedValue>OK</allowedValue><allowedValue>ContentFormatMismatch</allowedValue><allowe'' @
     ''dValue>InsufficientBandwidth</allowedValue><allowedValue>UnreliableChannel</allowedValue><allowedValue>Unknown'' @
     ''</allowedValue></allowedValueList></stateVariable><stateVariable sendEvents="no"><name>A_ARG_TYPE_ConnectionMa'' @
     ''nager</name><dataType>string</dataType></stateVariable><stateVariable sendEvents="no"><name>A_ARG_TYPE_Directi'' @
     ''on</name><dataType>string</dataType><allowedValueList><allowedValue>Input</allowedValue><allowedValue>Output</'' @
     ''allowedValue></allowedValueList></stateVariable><stateVariable sendEvents="no"><name>A_ARG_TYPE_ProtocolInfo</'' @
     ''name><dataType>string</dataType></stateVariable><stateVariable sendEvents="no"><name>A_ARG_TYPE_ConnectionID</'' @
     ''name><dataType>i4</dataType></stateVariable><stateVariable sendEvents="no"><name>A_ARG_TYPE_AVTransportID</nam'' @
     ''e><dataType>i4</dataType></stateVariable><stateVariable sendEvents="no"><name>A_ARG_TYPE_RcsID</name><dataType'' @
     ''>i4</dataType></stateVariable></serviceStateTable></scpd>''\<close>

end
