(* ===== verification/Main_App.thy ===== *)
theory Main_App
  imports Server Announce Upnp_Headers Scpd
begin

text \<open>
  \<^verbatim>\<open>src/main.cpp\<close>: the program.  It reads its options, connects to redis, completes the configuration and stores it,
  creates the HTTP and the SSDP server, and announces.  The command line parser, the HTTP server and its regular
  expressions are libraries: the options are an argument, and the routes are a table.  The endless loop at the end and the
  signal handler, which only calls \<^verbatim>\<open>exit\<close>, are left out.
\<close>

section \<open>Configuration\<close>

abbreviation PARAM_LISTEN_ADDRESS :: string where "PARAM_LISTEN_ADDRESS \<equiv> ''listen''"
abbreviation PARAM_MULTICAST_ADDRESS :: string where "PARAM_MULTICAST_ADDRESS \<equiv> ''multicast''"
abbreviation PARAM_MULTICAST_PORT :: string where "PARAM_MULTICAST_PORT \<equiv> ''multicast-port''"
abbreviation PARAM_HTTP_PORT :: string where "PARAM_HTTP_PORT \<equiv> ''http-port''"
abbreviation PARAM_CDS_URI :: string where "PARAM_CDS_URI \<equiv> ''cds''"
abbreviation PARAM_REDIS :: string where "PARAM_REDIS \<equiv> ''redis''"
abbreviation PARAM_REDIS_PORT :: string where "PARAM_REDIS_PORT \<equiv> ''redis-port''"

text \<open>The options given on the command line.\<close>

type_synonym options = "string \<rightharpoonup> string"

definition option_or :: "options \<Rightarrow> string \<Rightarrow> string \<Rightarrow> string" where
  "option_or opts k d = (case opts k of Some v \<Rightarrow> v | None \<Rightarrow> d)"

definition load_config :: "env \<Rightarrow> 'db redis \<Rightarrow> 'db \<Rightarrow> Config res" where
  "load_config E R db =
     (if config_exists R db then res_bind (data_config R db) (Config_of_json E) else Inr new_Config)"

definition apply_options :: "options \<Rightarrow> Config \<Rightarrow> Config" where
  "apply_options opts c =
    (let c = (case opts PARAM_HTTP_PORT of Some v \<Rightarrow> c\<lparr>http_port := v\<rparr> | None \<Rightarrow> c);
         c = (case opts PARAM_MULTICAST_ADDRESS of Some v \<Rightarrow> c\<lparr>multicast_address := v\<rparr> | None \<Rightarrow> c);
         c = (case opts PARAM_MULTICAST_PORT of Some v \<Rightarrow> c\<lparr>multicast_port := v\<rparr> | None \<Rightarrow> c);
         c = (case opts PARAM_LISTEN_ADDRESS of Some v \<Rightarrow> c\<lparr>listen_address := v\<rparr> | None \<Rightarrow> c);
         c = (case opts param_NAME of Some v \<Rightarrow> c\<lparr>config_name := v\<rparr> | None \<Rightarrow> c);
         c = (case opts PARAM_CDS_URI of Some v \<Rightarrow> c\<lparr>cds_uri := v\<rparr> | None \<Rightarrow> c)
     in c)"

text \<open>A \<^verbatim>\<open>std::map\<close> from an initializer list: the first of two entries with the same key stays.\<close>

definition map_insert :: "std_map \<Rightarrow> string \<times> string \<Rightarrow> std_map" where
  "map_insert m = (\<lambda>(k, v). if map_contains m k then m else map_set m k v)"

definition device_uri :: "env \<Rightarrow> Config \<Rightarrow> string" where
  "device_uri E c = format E ''http://{}:{}/root.xml'' [listen_address c, http_port c]"

definition make_namespaces :: "env \<Rightarrow> Config \<Rightarrow> std_map" where
  "make_namespaces E c =
     foldl map_insert []
       [(uuid c, device_uri E c),
        (NS_ROOT_DEVICE, device_uri E c),
        (NS_MEDIASERVER, device_uri E c),
        (NS_CONTENT_DIRECTORY, device_uri E c),
        (NS_MEDIA_RECEIVER_REGISTRAR, device_uri E c),
        (format E ''uuid:{}'' [uuid c], device_uri E c)]"

section \<open>Routes\<close>

datatype route_action = A_config | A_description | A_cds_scpd | A_cms_scpd | A_cds | A_cms | A_icon

text \<open>The module that finishes an answer: the one of the http library, or \<open>UpnpHeaders\<close>.\<close>

datatype route_end = End_http | End_upnp

definition routes :: "(string \<times> route_action \<times> route_end) list" where
  "routes =
     [(''^'' @ [CHR 0x5C] @ ''/config$'', A_config, End_http),
      (''^'' @ [CHR 0x5C] @ ''/root.xml$'', A_description, End_http),
      (''^'' @ [CHR 0x5C] @ ''/cds.xml$'', A_cds_scpd, End_http),
      (''^'' @ [CHR 0x5C] @ ''/cms.xml'', A_cms_scpd, End_http),
      (''^/ctl/cds$'', A_cds, End_upnp),
      (''^/ctl/cms$'', A_cms, End_http),
      (''^'' @ [CHR 0x5C] @ ''/+squawk([[:digit:]]+).png$'', A_icon, End_http)]"

text \<open>The icons, as the texts that are written; the theory \<open>Icon_Route\<close> takes them from \<^verbatim>\<open>src/src/_icons.h\<close>.\<close>

record icons =
  icon_120 :: string
  icon_64 :: string
  icon_48 :: string
  icon_32 :: string
  icon_16 :: string

definition icon_handler :: "env \<Rightarrow> icons \<Rightarrow> request \<Rightarrow> (world, http_status) act" where
  "icon_handler E I req =
     (let k = req_attribute req key_KEY in
      seq (if k = ''120'' then respond (Write (icon_120 I))
           else if k = ''64'' then respond (Write (icon_64 I))
           else if k = ''48'' then respond (Write (icon_48 I))
           else if k = ''32'' then respond (Write (icon_32 I))
           else respond (Write (icon_16 I))) (
      seq (respond (Set_parameter (CONTENT_TYPE E) (mime_PNG E))) (
      ret OK)))"

definition scpd_handler :: "env \<Rightarrow> string \<Rightarrow> request \<Rightarrow> (world, http_status) act" where
  "scpd_handler E scpd req =
     seq (respond (Write (c_str scpd))) (
     seq (respond (Set_parameter (CONTENT_TYPE E) (mime_XML E))) (
     ret OK))"

definition run_action ::
  "env \<Rightarrow> 'db redis \<Rightarrow> 'db \<Rightarrow> Server \<Rightarrow> icons \<Rightarrow> route_action \<Rightarrow> request \<Rightarrow> (world, http_status) act" where
  "run_action E R db server I a =
     (case a of
        A_config \<Rightarrow> config_handler E R db
      | A_description \<Rightarrow> description E (srv_config server)
      | A_cds_scpd \<Rightarrow> scpd_handler E CDS_DESCRIPTION
      | A_cms_scpd \<Rightarrow> scpd_handler E CMS_DESCRIPTION
      | A_cds \<Rightarrow> cds E R db (srv_config server)
      | A_cms \<Rightarrow> cms E (srv_config server)
      | A_icon \<Rightarrow> icon_handler E I)"

section \<open>Starting\<close>

text \<open>The \<^verbatim>\<open>Container\<close> of the running program.\<close>

record app =
  app_config :: Config
  app_server :: Server
  app_params :: ssdp_params
  app_ssdp :: ssdp

datatype main_result = Exited int | Running app

text \<open>The redis connection and the configuration before it is completed.\<close>

definition prepare :: "env \<Rightarrow> 'db redis \<Rightarrow> options \<Rightarrow> 'db \<Rightarrow> Config res" where
  "prepare E R opts db =
     res_bind (stoi (option_or opts PARAM_REDIS_PORT ''6379'')) (\<lambda>port.
     res_bind (make_connection R (option_or opts PARAM_REDIS ''localhost'') port) (\<lambda>_.
     res_bind (load_config E R db) (\<lambda>config.
     Inr (apply_options opts config))))"

text \<open>The servers, once the configuration is stored.\<close>

definition start_servers ::
  "env \<Rightarrow> 'db redis \<Rightarrow> net \<Rightarrow> (string \<Rightarrow> int \<Rightarrow> bool) \<Rightarrow> (nat \<Rightarrow> int) \<Rightarrow> options \<Rightarrow> Config \<Rightarrow> std_map \<Rightarrow> 'db \<Rightarrow> app res" where
  "start_servers E R N sub_connect wall opts config nss db =
     res_bind (stoi (option_or opts PARAM_REDIS_PORT ''6379'')) (\<lambda>port.
     res_bind (new_Server E R sub_connect db (option_or opts PARAM_REDIS ''localhost'') port) (\<lambda>server.
     res_bind (new_SSDPServerImpl N config nss) (\<lambda>(params, s).
     case announce E N wall params s of
       (Inl e, s') \<Rightarrow> Inl e
     | (Inr _, s') \<Rightarrow> Inr \<lparr>app_config = config, app_server = server, app_params = params, app_ssdp = s'\<rparr>)))"

definition main_start ::
  "env \<Rightarrow> 'db redis \<Rightarrow> net \<Rightarrow> (string \<Rightarrow> int \<Rightarrow> bool) \<Rightarrow> (nat \<Rightarrow> int) \<Rightarrow> ifaddr list \<Rightarrow> options \<Rightarrow>
   ('db, main_result) act" where
  "main_start E R N sub_connect wall ifas opts = (\<lambda>db.
     if opts ''help'' \<noteq> None then (Inr (Exited 0), db)
     else case prepare E R opts db of
       Inl e \<Rightarrow> (Inl e, db)
     | Inr config \<Rightarrow>
         let nss = make_namespaces E config in
         (case validate E ifas config of
            Inl e \<Rightarrow> (Inl e, db)
          | Inr (ok, config) \<Rightarrow>
              if \<not> ok then (Inr (Exited (- 1)), db)
              else
                let db = data_config_store R (json_of_Config E config) db in
                (case start_servers E R N sub_connect wall opts config nss db of
                   Inl e \<Rightarrow> (Inl e, db)
                 | Inr a \<Rightarrow> (Inr (Running a), db))))"

section \<open>Lemmas\<close>

text \<open>the command line overrides the stored configuration.  Every option that is given replaces its field, every
  field without an option stays as it was loaded, and no option changes the uuid.
\<close>

theorem options_override:
  "apply_options opts c =
     \<lparr>listen_address = option_or opts PARAM_LISTEN_ADDRESS (listen_address c),
      http_port = option_or opts PARAM_HTTP_PORT (http_port c),
      multicast_address = option_or opts PARAM_MULTICAST_ADDRESS (multicast_address c),
      multicast_port = option_or opts PARAM_MULTICAST_PORT (multicast_port c),
      config_name = option_or opts param_NAME (config_name c),
      cds_uri = option_or opts PARAM_CDS_URI (cds_uri c),
      uuid = uuid c\<rparr>"
  by (simp add: apply_options_def option_or_def split: option.split)

subsection \<open>Starting\<close>

text \<open>What a start that ends with the program running went through.\<close>

lemma main_start_Running:
  assumes "main_start E R N sub_connect wall ifas opts db = (Inr (Running a), db')"
  obtains c0 c where "prepare E R opts db = Inr c0" "validate E ifas c0 = Inr (True, c)"
    "db' = data_config_store R (json_of_Config E c) db"
    "start_servers E R N sub_connect wall opts c (make_namespaces E c0) db' = Inr a"
  using assms that
  by (auto simp: main_start_def Let_def split: if_splits sum.splits prod.splits)

lemma start_servers_parts:
  assumes "start_servers E R N sub_connect wall opts c nss db = Inr a"
  obtains port server P s s' where "stoi (option_or opts PARAM_REDIS_PORT ''6379'') = Inr port"
    "new_Server E R sub_connect db (option_or opts PARAM_REDIS ''localhost'') port = Inr server"
    "new_SSDPServerImpl N c nss = Inr (P, s)" "announce E N wall P s = (Inr (), s')"
    "a = \<lparr>app_config = c, app_server = server, app_params = P, app_ssdp = s'\<rparr>"
proof -
  obtain port server P s where p: "stoi (option_or opts PARAM_REDIS_PORT ''6379'') = Inr port"
    "new_Server E R sub_connect db (option_or opts PARAM_REDIS ''localhost'') port = Inr server"
    "new_SSDPServerImpl N c nss = Inr (P, s)"
    and a: "(case announce E N wall P s of (Inl e, s') \<Rightarrow> Inl e
       | (Inr _, s') \<Rightarrow> Inr \<lparr>app_config = c, app_server = server, app_params = P, app_ssdp = s'\<rparr>) = Inr a"
    using assms by (auto simp: start_servers_def)
  show thesis
  proof (cases "announce E N wall P s")
    case (Pair r s')
    with a p that show thesis by (cases r) auto
  qed
qed

lemma new_Server_config:
  assumes "new_Server E R sub_connect db h p = Inr server" "data_config R db = Inr json"
  shows "Config_of_json E json = Inr (srv_config server)"
  using assms by (auto simp: new_Server_def Let_def)

definition c_strings :: "Config \<Rightarrow> Config" where
  "c_strings c = \<lparr>listen_address = c_str (listen_address c), http_port = c_str (http_port c),
     multicast_address = c_str (multicast_address c), multicast_port = c_str (multicast_port c),
     config_name = c_str (config_name c), cds_uri = c_str (cds_uri c), uuid = c_str (uuid c)\<rparr>"

lemma start_parts:
  assumes "string_law R" "json_law E" "fmt_law E"
    "\<forall>ifa \<in> set ifas. \<forall>x. ifa_addr ifa \<noteq> Some (True, x) \<or> x \<noteq> []"
    "main_start E R N sub_connect wall ifas opts db = (Inr (Running a), db')"
  shows "(\<forall>f \<in> {http_port, multicast_address, multicast_port, listen_address, config_name, uuid}. f (app_config a) \<noteq> [])
    \<and> sp_config (app_params a) = app_config a
    \<and> data_config R db' = Inr (json_of_Config E (app_config a))
    \<and> srv_config (app_server a) = c_strings (app_config a)
    \<and> load_config E R db' = Inr (c_strings (app_config a))"
proof -
  obtain c0 c where c: "validate E ifas c0 = Inr (True, c)" "db' = data_config_store R (json_of_Config E c) db"
    "start_servers E R N sub_connect wall opts c (make_namespaces E c0) db' = Inr a"
    using assms(5) by (rule main_start_Running)
  obtain port server P s s' where p:
    "new_Server E R sub_connect db' (option_or opts PARAM_REDIS ''localhost'') port = Inr server"
    "new_SSDPServerImpl N c (make_namespaces E c0) = Inr (P, s)"
    "a = \<lparr>app_config = c, app_server = server, app_params = P, app_ssdp = s'\<rparr>"
    using c(3) by (rule start_servers_parts)
  have stored: "data_config R db' = Inr (json_of_Config E c)" "config_exists R db'"
    using config_after_store [OF assms(1)] by (simp_all add: c(2))
  have read: "Config_of_json E (json_of_Config E c) = Inr (c_strings c)"
    unfolding c_strings_def by (rule json_reads [OF assms(2)])
  have "srv_config server = c_strings c"
    using new_Server_config [OF p(1) stored(1)] read by simp
  moreover have "load_config E R db' = Inr (c_strings c)"
    using stored read by (simp add: load_config_def)
  moreover have "sp_config P = c" using new_server_state(1) [OF p(2)] .
  moreover have "\<forall>f \<in> {http_port, multicast_address, multicast_port, listen_address, config_name, uuid}. f c \<noteq> []"
    using validate_complete [OF c(1) assms(3,4)] by blast
  ultimately show ?thesis by (simp add: p(3) stored(1))
qed

text \<open>C17: all parts run on one configuration.  When the program has started, the configuration is complete; the SSDP server
  uses it, the database holds its JSON form, the HTTP server has read the same values back from there, and a
  later start would load them again.
\<close>

theorem start_consistent:
  assumes "string_law R" "json_law E" "fmt_law E"
    "\<forall>ifa \<in> set ifas. \<forall>x. ifa_addr ifa \<noteq> Some (True, x) \<or> x \<noteq> []"
    "main_start E R N sub_connect wall ifas opts db = (Inr (Running a), db')"
  shows "(\<forall>f \<in> {http_port, multicast_address, multicast_port, listen_address, config_name, uuid}. f (app_config a) \<noteq> [])
    \<and> sp_config (app_params a) = app_config a
    \<and> data_config R db' = Inr (json_of_Config E (app_config a))
    \<and> srv_config (app_server a) = c_strings (app_config a)
    \<and> load_config E R db' = Inr (c_strings (app_config a))"
  using assms by (rule start_parts)

lemma find_map_insert:
  "map_find (foldl map_insert m kvs) k = (case map_find m k of Some v \<Rightarrow> Some v | None \<Rightarrow> map_of kvs k)"
proof (induction kvs arbitrary: m)
  case (Cons x kvs)
  have "map_find (map_insert m x) k =
      (case map_find m k of Some v \<Rightarrow> Some v | None \<Rightarrow> if k = fst x then Some (snd x) else None)"
    by (cases x; cases "map_find m (fst x)")
      (auto simp: map_insert_def map_contains_def split: option.split)
  with Cons show ?case by (cases x) (simp split: option.split)
qed (simp split: option.split)

text \<open>The names under which the services are announced.\<close>

definition service_names :: "Config \<Rightarrow> string set" where
  "service_names c =
     {uuid c, NS_ROOT_DEVICE, NS_MEDIASERVER, NS_CONTENT_DIRECTORY, NS_MEDIA_RECEIVER_REGISTRAR, ''uuid:'' @ uuid c}"

lemma make_namespaces_find:
  assumes "fmt_law E"
  shows "map_find (make_namespaces E c) k =
    (if k \<in> service_names c then Some (''http://'' @ listen_address c @ '':'' @ http_port c @ ''/root.xml'') else None)"
proof -
  have "format E ''http://{}:{}/root.xml'' [listen_address c, http_port c] =
      ''http://'' @ listen_address c @ '':'' @ http_port c @ ''/root.xml''"
    by (rule fmt_lawD [OF assms]) simp
  moreover have "format E ''uuid:{}'' [uuid c] = ''uuid:'' @ uuid c"
    by (rule fmt_lawD [OF assms]) simp
  ultimately show ?thesis
    unfolding make_namespaces_def find_map_insert device_uri_def service_names_def by auto
qed

lemma make_namespaces_sorted: "sorted_keys (make_namespaces E c)"
proof -
  have "sorted_keys m \<Longrightarrow> sorted_keys (foldl map_insert m kvs)" for m kvs
    by (induction kvs arbitrary: m) (auto simp: map_insert_def split: prod.split)
  then show ?thesis unfolding make_namespaces_def using sorted_keys_Nil by blast
qed

lemma started_namespaces:
  assumes "new_SSDPServerImpl N c nss = Inr (P, s)" "announce E N wall P s = (Inr (), s')" "sorted_keys nss"
  shows "map_find (namespaces s') k = map_find nss k"
proof -
  have "namespaces s' = namespaces s"
    using act_keepsD [OF core_announce, of s E N wall P] assms(2) by (simp add: same_core_def)
  moreover have "map_of (rev nss) = map_of nss"
    using assms(3) by (intro map_of_rev_distinct) (simp add: sorted_keys_def strict_sorted_iff)
  ultimately show ?thesis
    using new_server_state(5) [OF assms(1), of k] by (simp add: map_find_def)
qed

lemma announced_find:
  assumes "fmt_law E" "prepare E R opts db = Inr c0"
    "main_start E R N sub_connect wall ifas opts db = (Inr (Running a), db')"
  shows "map_find (namespaces (app_ssdp a)) k =
    (if k \<in> service_names c0
     then Some (''http://'' @ listen_address c0 @ '':'' @ http_port c0 @ ''/root.xml'') else None)"
proof -
  obtain c where c: "start_servers E R N sub_connect wall opts c (make_namespaces E c0) db' = Inr a"
    using assms(2,3) by (auto elim: main_start_Running)
  obtain port server P s s' where p: "new_SSDPServerImpl N c (make_namespaces E c0) = Inr (P, s)"
    "announce E N wall P s = (Inr (), s')" "a = \<lparr>app_config = c, app_server = server, app_params = P, app_ssdp = s'\<rparr>"
    using c by (rule start_servers_parts)
  show ?thesis
    using started_namespaces [OF p(1,2) make_namespaces_sorted, of k] make_namespaces_find [OF assms(1), of c0 k]
    by (simp add: p(3))
qed

text \<open>C25: what is announced.  The services are announced under exactly six names, all with one location, whose address,
  port and uuid are those of the configuration as it was before it was completed.
\<close>

theorem announced_services:
  assumes "fmt_law E" "prepare E R opts db = Inr c0"
    "main_start E R N sub_connect wall ifas opts db = (Inr (Running a), db')"
  shows "map_find (namespaces (app_ssdp a)) k =
    (if k \<in> service_names c0
     then Some (''http://'' @ listen_address c0 @ '':'' @ http_port c0 @ ''/root.xml'') else None)"
  using assms by (rule announced_find)

text \<open>C26: the first start.  With an empty database and no options the services are announced at \<open>http://:/root.xml\<close>, an url
  without host and port, and under the name \<open>uuid:\<close> without a uuid, although the program then listens on a proper
  address, port and uuid.
\<close>

theorem first_start:
  assumes "fmt_law E" "\<not> config_exists R db" "opts = Map.empty"
    "\<forall>ifa \<in> set ifas. \<forall>x. ifa_addr ifa \<noteq> Some (True, x) \<or> x \<noteq> []"
    "main_start E R N sub_connect wall ifas opts db = (Inr (Running a), db')"
  shows "map_find (namespaces (app_ssdp a)) NS_ROOT_DEVICE = Some ''http://:/root.xml''
    \<and> map_find (namespaces (app_ssdp a)) ''uuid:'' = Some ''http://:/root.xml''
    \<and> listen_address (app_config a) \<noteq> [] \<and> http_port (app_config a) \<noteq> [] \<and> uuid (app_config a) \<noteq> []"
proof -
  obtain c0 c where c: "prepare E R opts db = Inr c0" "validate E ifas c0 = Inr (True, c)"
    "start_servers E R N sub_connect wall opts c (make_namespaces E c0) db' = Inr a"
    using assms(5) by (rule main_start_Running)
  obtain port server P s s' where p: "new_SSDPServerImpl N c (make_namespaces E c0) = Inr (P, s)"
    "announce E N wall P s = (Inr (), s')" "a = \<lparr>app_config = c, app_server = server, app_params = P, app_ssdp = s'\<rparr>"
    using c(3) by (rule start_servers_parts)
  have "c0 = new_Config"
    using c(1) assms(2,3) by (auto simp: prepare_def load_config_def apply_options_def)
  then have "map_find (namespaces s') k = (if k \<in> service_names new_Config then Some ''http://:/root.xml'' else None)" for k
    using started_namespaces [OF p(1,2) make_namespaces_sorted, of k] make_namespaces_find [OF assms(1), of c0 k]
    by (simp add: new_Config_def)
  then show ?thesis
    using validate_complete [OF c(2) assms(1,4)] by (simp add: p(3) service_names_def new_Config_def)
qed

text \<open>A configuration that is complete before the start is the one the program runs on.\<close>

abbreviation config_complete :: "Config \<Rightarrow> bool" where
  "config_complete c \<equiv>
     (\<forall>f \<in> {http_port, multicast_address, multicast_port, listen_address, config_name, uuid}. f c \<noteq> [])"

lemma started_complete:
  assumes "fmt_law E" "\<forall>ifa \<in> set ifas. \<forall>x. ifa_addr ifa \<noteq> Some (True, x) \<or> x \<noteq> []"
    "prepare E R opts db = Inr c0" "config_complete c0"
    "main_start E R N sub_connect wall ifas opts db = (Inr (Running a), db')"
  shows "app_config a = c0"
proof -
  obtain c where c: "validate E ifas c0 = Inr (True, c)"
    "start_servers E R N sub_connect wall opts c (make_namespaces E c0) db' = Inr a"
    using assms(3,5) by (auto elim: main_start_Running)
  have "app_config a = c" using c(2) by (auto elim: start_servers_parts)
  moreover have "c = c0" using validate_complete [OF c(1) assms(1,2)] assms(4) by simp
  ultimately show ?thesis by simp
qed

subsection \<open>Routes\<close>

definition action_type :: "env \<Rightarrow> route_action \<Rightarrow> string" where
  "action_type E a = (case a of A_config \<Rightarrow> mime_JSON E | A_icon \<Rightarrow> mime_PNG E | _ \<Rightarrow> mime_XML E)"

lemma icon_answers:
  "icon_handler E I req w = (Inr s, w') \<Longrightarrow>
     s = OK \<and> parameter_of (response w') (CONTENT_TYPE E) = Some (mime_PNG E)"
  unfolding icon_handler_def Let_def by (erule answers_last)

interpretation scpd_handler: http_handler "scpd_handler E scpd" E "mime_XML E" for E scpd
proof
  show "act_keeps grows (scpd_handler E scpd req)" for req
    by (simp add: scpd_handler_def grows.keeps_andthen)
qed (unfold scpd_handler_def, erule answers_last)

interpretation icon_handler: http_handler "icon_handler E I" E "mime_PNG E" for E I
proof
  show "act_keeps grows (icon_handler E I req)" for req
    by (simp add: icon_handler_def Let_def grows.keeps_andthen)
qed (erule icon_answers)

interpretation action_handler: http_handler "run_action E R db server I a" E "action_type E a" for E R db server I a
proof
  show "act_keeps grows (run_action E R db server I a req)" for req
    by (cases a) (simp_all add: run_action_def cds_handler.keeps cms_handler.keeps description_handler.keeps
        config_handler.keeps scpd_handler.keeps icon_handler.keeps)
next
  fix req w s w'
  assume "header_law E" "run_action E R db server I a req w = (Inr s, w')"
  then show "s = OK \<and> parameter_of (response w') (CONTENT_TYPE E) = Some (action_type E a)"
    by (cases a) (simp_all add: run_action_def action_type_def cds_handler.answers cms_handler.answers
        description_handler.answers config_handler.answers scpd_handler.answers icon_handler.answers)
qed

text \<open>C29: every route answers properly.  Whatever action a request is routed to, it either returns \<open>OK\<close> with the content
  type of the action, or throws; in both cases everything written or published before is still there.
\<close>

theorem routes_answer:
  assumes "header_law E" "run_action E R db server I a req w = (r, w')"
  shows "grows w w' \<and> (\<forall>s. r = Inr s \<longrightarrow>
    s = OK \<and> parameter_of (response w') (CONTENT_TYPE E) = Some (action_type E a))"
  using act_keepsD [OF action_handler.keeps, of w E R db server I a req]
    action_handler.answers [OF assms(1), of R db server I a req w] assms(2)
  by auto


subsection \<open>The redis port\<close>

lemma to_short_id: "- 32768 \<le> p \<Longrightarrow> p \<le> 32767 \<Longrightarrow> to_short p = p"
  by (simp add: to_short_def sint_sbintrunc' signed_take_bit_int_eq_self)

lemma to_short_range: "- 32768 \<le> to_short p \<and> to_short p \<le> 32767"
  using sint_range_size [of "word_of_int p :: 16 word"] by (simp add: to_short_def word_size)


end
