(* ===== verification/Icon_Route.thy ===== *)
theory Icon_Route
  imports Main_App Icons
begin

text \<open>
  The icon route of \<^verbatim>\<open>src/main.cpp\<close> with the images of \<^verbatim>\<open>src/src/_icons.h\<close>: what a client that fetches an icon gets.
\<close>

text \<open>\<^verbatim>\<open>response.write( (char*) array, length )\<close> reads the first \<open>n\<close> bytes of an array, provided it has
  that many, which is shown below of every array.\<close>

definition write_bytes :: "8 word list \<Rightarrow> nat \<Rightarrow> string" where
  "write_bytes bs n = map (\<lambda>b. char_of (unat b)) (take n bs)"

definition squawk_icons :: icons where
  "squawk_icons = \<lparr>icon_120 = write_bytes squawk120_png squawk120_png_len,
     icon_64 = write_bytes squawk64_png squawk64_png_len, icon_48 = write_bytes squawk48_png squawk48_png_len,
     icon_32 = write_bytes squawk32_png squawk32_png_len, icon_16 = write_bytes squawk16_png squawk16_png_len\<rparr>"

section \<open>The size of an image\<close>

text \<open>
  A PNG file begins with a signature of eight bytes and the length and name of its header, followed by width and height, most
  significant byte first.
\<close>

definition be32 :: "string \<Rightarrow> nat" where
  "be32 s = foldl (\<lambda>n c. 256 * n + of_char c) 0 s"

definition png_size :: "string \<Rightarrow> (nat \<times> nat) option" where
  "png_size s =
     (if map of_char (take 8 s) = [137, 80, 78, 71, 13, 10, 26, 10 :: nat]
         \<and> map of_char (take 4 (drop 12 s)) = [73, 72, 68, 82 :: nat]
      then Some (be32 (take 4 (drop 16 s)), be32 (take 4 (drop 20 s))) else None)"

lemma png_size_prefix: "24 \<le> length s \<Longrightarrow> png_size (s @ t) = png_size (take 24 s)"
  by (simp add: png_size_def drop_take)

abbreviation as_text :: "8 word list \<Rightarrow> string" where
  "as_text \<equiv> map (\<lambda>b :: 8 word. char_of (unat b) :: char)"

lemma write_bytes_block:
  assumes "n = length bs" "bs = b1 @ rest" "24 \<le> length b1"
  shows "write_bytes bs n = as_text bs" "png_size (write_bytes bs n) = png_size (as_text (take 24 b1))"
  using assms png_size_prefix [of "as_text b1" "as_text rest"] by (simp_all add: write_bytes_def take_map)

lemma first_block:
  "png_size (as_text (take 24 squawk120_png_1)) = Some (120, 120)"
  "png_size (as_text (take 24 squawk64_png_1)) = Some (64, 64)"
  "png_size (as_text (take 24 squawk48_png_1)) = Some (48, 48)"
  "png_size (as_text (take 24 squawk32_png_1)) = Some (32, 32)"
  "png_size (as_text (take 24 squawk16_png_1)) = Some (16, 16)"
  unfolding squawk120_png_1_def squawk64_png_1_def squawk48_png_1_def squawk32_png_1_def squawk16_png_1_def
  by (simp_all add: png_size_def be32_def)

lemma icon_sizes:
  "png_size (icon_120 squawk_icons) = Some (120, 120)" "png_size (icon_64 squawk_icons) = Some (64, 64)"
  "png_size (icon_48 squawk_icons) = Some (48, 48)" "png_size (icon_32 squawk_icons) = Some (32, 32)"
  "png_size (icon_16 squawk_icons) = Some (16, 16)"
  by (simp_all add: squawk_icons_def first_block
      write_bytes_block(2) [OF length_squawk120_png [symmetric] squawk120_png_def] blocks_squawk120_png
      write_bytes_block(2) [OF length_squawk64_png [symmetric] squawk64_png_def] blocks_squawk64_png
      write_bytes_block(2) [OF length_squawk48_png [symmetric] squawk48_png_def] blocks_squawk48_png
      write_bytes_block(2) [OF length_squawk32_png [symmetric] squawk32_png_def] blocks_squawk32_png
      write_bytes_block(2) [OF length_squawk16_png [symmetric] squawk16_png_def] blocks_squawk16_png)

section \<open>The route\<close>

text \<open>C30: the icons.  The declared length of each image is the length of its array, so writing it reads no byte beyond; a client that
  asks for an icon of 120, 64, 48, 32 or 16 pixels gets an image of that width and height, and a client that asks for the
  icon of 128 pixels, which the description advertises, gets the one of 16 pixels.
\<close>

theorem icons_served:
  assumes "(px, n) \<in> {(''120'', 120), (''64'', 64), (''48'', 48), (''32'', 32), (''16'', 16), (''128'', 16)}"
    "req_attribute req key_KEY = px"
  shows "squawk120_png_len = length squawk120_png \<and> squawk64_png_len = length squawk64_png
    \<and> squawk48_png_len = length squawk48_png \<and> squawk32_png_len = length squawk32_png
    \<and> squawk16_png_len = length squawk16_png
    \<and> (\<exists>png. icon_handler E squawk_icons req w = (Inr OK, w\<lparr>response := response w @
               [Write png, Set_parameter (CONTENT_TYPE E) (mime_PNG E)]\<rparr>)
             \<and> png_size png = Some (n, n))"
proof -
  have "\<exists>png. icon_handler E squawk_icons req w = (Inr OK, w\<lparr>response := response w @
               [Write png, Set_parameter (CONTENT_TYPE E) (mime_PNG E)]\<rparr>) \<and> png_size png = Some (n, n)"
    using assms by (auto simp: icon_handler_def andthen_apply icon_sizes)
  then show ?thesis
    by (simp add: length_squawk120_png length_squawk64_png length_squawk48_png length_squawk32_png length_squawk16_png)
qed

end
