(* ===== verification/Witnesses.thy ===== *)
theory Witnesses
  imports Reference Directory Browse Description Renewal Discovery Icon_Route
begin

text \<open>
  The theorems at work: each is applied to a small concrete system (the environment \<open>std_env\<close> and the database
  \<open>ref_redis\<close> of the theory \<open>Reference\<close>), where all its hypotheses hold.
\<close>

section \<open>A small media library\<close>

definition ex_config :: Config where
  "ex_config = \<lparr>listen_address = ''10.0.0.1'', http_port = ''9003'', multicast_address = ''239.255.255.250'',
     multicast_port = ''1900'', config_name = ''squawk'', cds_uri = ''http://10.0.0.1:9001'', uuid = ''u1''\<rparr>"

text \<open>The root holds an album and a folder; the album has one track.\<close>

definition ex_db :: store where
  "ex_db = \<lparr>
     st_hash = (\<lambda>k. if k = ''fs:a:node'' then [(''cls'', ''album''), (''parent'', ''root''), (''name'', ''A'')]
                    else if k = ''fs:f:node'' then [(''cls'', ''folder''), (''parent'', ''root''), (''name'', ''F'')]
                    else if k = ''fs:t:node'' then
                      [(''cls'', ''audio''), (''parent'', ''a''), (''name'', ''T''), (''ext'', ''.mp3''),
                       (''mimeType'', ''audio/mpeg'')]
                    else []),
     st_zset = (\<lambda>k. if k = ''fs:root:list'' then [''a'', ''f'']
                    else if k = ''fs:a:types:audio'' then [''t''] else []),
     st_list = (\<lambda>k. if k = ''fs:root:list:sort:alpha:asc'' then [''a'', ''f''] else []),
     st_str = (\<lambda>_. None)\<rparr>"

definition arg_node :: "string \<times> string \<Rightarrow> pnode" where
  "arg_node = (\<lambda>(k, v). PNode k v [])"

text \<open>An environment whose XML parser reads every text as one SOAP call.\<close>

definition soap_env :: "string \<Rightarrow> (string \<times> string) list \<Rightarrow> env" where
  "soap_env action args = std_env\<lparr>xml_parse := (\<lambda>s.
     Some [PNode ''Envelope'' [] [PNode ''Body'' [] [PNode action [] (map arg_node args)]]])\<rparr>"

definition ex_request :: "string \<Rightarrow> (string \<times> string) list \<Rightarrow> string \<Rightarrow> request" where
  "ex_request verb params body = \<lparr>req_method = verb, req_uri = ''/'',
     req_parameter = (\<lambda>k. case map_of params k of Some v \<Rightarrow> v | None \<Rightarrow> []),
     req_contains_parameter = (\<lambda>k. map_of params k \<noteq> None),
     req_str = body, req_attribute = (\<lambda>k. ''128'')\<rparr>"

definition ex_world :: world where
  "ex_world = \<lparr>response = [], published = []\<rparr>"

text \<open>The browse commands used below.\<close>

definition browse_args :: "string \<Rightarrow> string \<Rightarrow> string \<Rightarrow> string \<Rightarrow> (string \<times> string) list" where
  "browse_args obj flag index count =
     [(BROWSE_FLAG, flag), (OBJECT_ID, obj), (''RequestedCount'', count), (''StartingIndex'', index)]"

definition browse_env :: "string \<Rightarrow> string \<Rightarrow> string \<Rightarrow> string \<Rightarrow> env" where
  "browse_env obj flag index count = soap_env ''Browse'' (browse_args obj flag index count)"

definition browse_cmd :: "string \<Rightarrow> string \<Rightarrow> string \<Rightarrow> string \<Rightarrow> UpnpCommand" where
  "browse_cmd obj flag index count =
     \<lparr>cmd_type = BROWSE, cmd_values = browse_args obj flag index count\<rparr>"

abbreviation post :: request where
  "post \<equiv> ex_request ''POST'' [] ''x''"

section \<open>Browsing\<close>

theorem browse_window_witness:
  "cds (browse_env ''0'' BROWSE_DIRECT_CHILDREN ''0'' ''1'') ref_redis ex_db ex_config post ex_world =
    (Inr OK, ex_world\<lparr>response := response ex_world @
      browse_answer (browse_env ''0'' BROWSE_DIRECT_CHILDREN ''0'' ''1'')
        (entries_at (browse_env ''0'' BROWSE_DIRECT_CHILDREN ''0'' ''1'') ref_redis ex_db ex_config [''a''])
        (int (length (entries_at (browse_env ''0'' BROWSE_DIRECT_CHILDREN ''0'' ''1'') ref_redis ex_db ex_config [''a''])))
        (int (length (ref_zset ex_db (make_key_list ''root''))))\<rparr>)"
  by (rule browse_window [OF ref_list_law ref_zset_law ref_hash_law,
        where cmd = "browse_cmd ''0'' BROWSE_DIRECT_CHILDREN ''0'' ''1''" and i = 0 and c = 1]) code_simp+

theorem browse_album_witness:
  "cds (browse_env ''a'' BROWSE_DIRECT_CHILDREN ''0'' ''5'') ref_redis ex_db ex_config post ex_world =
    (Inr OK, ex_world\<lparr>response := response ex_world @
      browse_answer (browse_env ''a'' BROWSE_DIRECT_CHILDREN ''0'' ''5'')
        (entries_at (browse_env ''a'' BROWSE_DIRECT_CHILDREN ''0'' ''5'') ref_redis ex_db ex_config [''t''])
        (int (length (entries_at (browse_env ''a'' BROWSE_DIRECT_CHILDREN ''0'' ''5'') ref_redis ex_db ex_config [''t''])))
        (int (length (ref_zset ex_db (make_key_list ''a''))))\<rparr>)"
  by (rule browse_album [OF ref_zset_law ref_hash_law,
        where cmd = "browse_cmd ''a'' BROWSE_DIRECT_CHILDREN ''0'' ''5''" and i = 0 and c = 5]) code_simp+

theorem browse_all_witness:
  "cds (browse_env ''0'' BROWSE_DIRECT_CHILDREN ''0'' ''0'') ref_redis ex_db ex_config post ex_world =
    (Inr OK, ex_world\<lparr>response := response ex_world @
      browse_answer (browse_env ''0'' BROWSE_DIRECT_CHILDREN ''0'' ''0'')
        (entries_at (browse_env ''0'' BROWSE_DIRECT_CHILDREN ''0'' ''0'') ref_redis ex_db ex_config [''a''])
        (int (length (entries_at (browse_env ''0'' BROWSE_DIRECT_CHILDREN ''0'' ''0'') ref_redis ex_db ex_config [''a''])))
        (children_count ref_redis ex_db ''root'')\<rparr>)"
  by (rule browse_all [OF ref_list_law ref_hash_law,
        where cmd = "browse_cmd ''0'' BROWSE_DIRECT_CHILDREN ''0'' ''0''" and i = 0 and chs = "[''a'', ''f'']"]) code_simp+

theorem browse_metadata_witness:
  "cds (browse_env ''a'' BROWSE_METADATA ''0'' ''0'') ref_redis ex_db ex_config post ex_world =
    (Inr OK, ex_world\<lparr>response := response ex_world @
      browse_answer (browse_env ''a'' BROWSE_METADATA ''0'' ''0'')
        [didl_entry (browse_env ''a'' BROWSE_METADATA ''0'' ''0'') ref_redis ex_db ex_config ''a'' (node_of ref_redis ex_db ''a'')]
        1 1\<rparr>)"
proof (rule browse_metadata [OF ref_hash_law,
      where cmd = "browse_cmd ''a'' BROWSE_METADATA ''0'' ''0''" and i = 0 and c = 0 and k = "''a''"])
  have "map_contains (node_of ref_redis ex_db ''a'') param_CLASS" by code_simp
  moreover have "arg_of (browse_cmd ''a'' BROWSE_METADATA ''0'' ''0'') OBJECT_ID = ''a''" by code_simp
  ultimately show "[didl_entry (browse_env ''a'' BROWSE_METADATA ''0'' ''0'') ref_redis ex_db ex_config ''a'' (node_of ref_redis ex_db ''a'')] =
      (if map_contains (node_of ref_redis ex_db ''a'') param_CLASS
       then [didl_entry (browse_env ''a'' BROWSE_METADATA ''0'' ''0'') ref_redis ex_db ex_config
               (arg_of (browse_cmd ''a'' BROWSE_METADATA ''0'' ''0'') OBJECT_ID) (node_of ref_redis ex_db ''a'')] else [])"
    by (simp only: if_True)
qed code_simp+

text \<open>The folder has lost its name and its parent.\<close>

definition broken_db :: store where
  "broken_db = ex_db\<lparr>st_hash := (st_hash ex_db)(''fs:f:node'' := [(''cls'', ''folder'')])\<rparr>"

theorem browse_failures_witness:
  "cds (browse_env ''0'' BROWSE_DIRECT_CHILDREN ''0'' ''2'') ref_redis broken_db ex_config post ex_world =
     (Inl Out_of_range, ex_world)"
proof -
  let ?E = "browse_env ''0'' BROWSE_DIRECT_CHILDREN ''0'' ''2''"
  let ?cmd = "browse_cmd ''0'' BROWSE_DIRECT_CHILDREN ''0'' ''2''"
  have child: "\<exists>child \<in> set (take (nat 2) (drop (nat 0) (st_list broken_db (sort_key ''root'' ''alpha'' ''asc'')))).
      \<not> listable ref_redis broken_db child" by code_simp
  have args: "int_arg ?cmd ''StartingIndex'' = Inr 0" "int_arg ?cmd ''RequestedCount'' = Inr 2" by code_simp+
  have hyps: "req_method post = ''POST''" "Server_parse ?E (req_str post) = Inr ?cmd" "cmd_type ?cmd = BROWSE"
    "map_find (cmd_values ?cmd) BROWSE_FLAG = Some BROWSE_DIRECT_CHILDREN" "''root'' = browsed_object ?cmd"
    "NodeType_parse (data_get ref_redis broken_db ''root'' param_CLASS) \<noteq> album" by code_simp+
  show ?thesis
    using browse_failures [OF ref_list_law ref_hash_law hyps, of ex_config ex_world] child
    by (simp add: args int32_def)
qed

section \<open>DIDL-Lite\<close>

abbreviation ex_node :: std_map where
  "ex_node \<equiv> [(''cls'', ''folder''), (''name'', ''F''), (''parent'', ''root'')]"

theorem Didl_write_adds_witness:
  "Didl_write std_env ref_redis ex_db ex_config ''f'' ex_node new_Didl =
    (Inr (), \<lparr>didl_doc = XNode [] [] [] [add_kids [didl_entry std_env ref_redis ex_db ex_config ''f'' ex_node]
       (the (didl_root new_Didl))], didl_result = didl_result new_Didl + 1\<rparr>)"
  by (rule Didl_write_adds) code_simp+

theorem Didl_write_throws_witness:
  "fst (Didl_write std_env ref_redis ex_db ex_config ''f'' [(''cls'', ''folder'')] new_Didl) = Inl Out_of_range"
proof -
  have "didl_root new_Didl = Some (the (didl_root new_Didl))" by code_simp
  moreover have "map_contains [(''cls'', ''folder'')] param_CLASS" "\<not> complete [(''cls'', ''folder'')]" by code_simp+
  ultimately show ?thesis
    using Didl_write_throws [of new_Didl _ std_env ref_redis ex_db ex_config "''f''" "[(''cls'', ''folder'')]"] by blast
qed

section \<open>Requests and descriptions\<close>

theorem Server_parse_reads_witness:
  "\<exists>c. Server_parse (soap_env ''Browse'' []) ''x'' = Inr c \<and> cmd_type c = BROWSE"
proof -
  let ?body = "PNode ''Body'' [] [PNode ''Browse'' [] []]"
  have "xml_parse (soap_env ''Browse'' []) (c_str ''x'') = Some (PNode ''Envelope'' [] [?body] # [])" by code_simp
  from Server_parse_reads [OF this] show ?thesis
    by (auto simp: grandkids_def UpnpCommand_parse_def c_str_Cons)
qed


definition description_env :: env where
  "description_env = std_env\<lparr>xml_parse := (\<lambda>s. Some (map pnode_of (xkids (description_doc std_env ex_config))))\<rparr>"

theorem description_read_back_witness:
  "\<exists>d. parse_device description_env (description_text description_env ex_config) (new_Device 0 0 0) = Inr d
     \<and> friendlyName d = ''squawk'' \<and> length (iconList d) = 3"
proof -
  have "description_doc description_env ex_config = description_doc std_env ex_config"
    by (simp add: description_doc_eq description_env_def)
  then have "xml_parse description_env (c_str (description_text description_env ex_config)) =
      Some (map pnode_of (xkids (description_doc description_env ex_config)))"
    by (simp add: description_env_def)
  from description_read_back [OF this, of 0 0 0] show ?thesis
    by (simp add: described_def ex_config_def c_str_Cons)
qed

theorem cds_subscribe_witness:
  "cds std_env ref_redis ex_db ex_config (ex_request ''SUBSCRIBE'' [(''Callback'', ''<http://h/>'')] []) ex_world =
    (Inr OK, ex_world\<lparr>
      response := response ex_world @ [Set_parameter (CONTENT_LENGTH std_env) ''0'', Set_parameter ''Timeout'' ''Second-1800'',
                               Set_parameter (CONTENT_TYPE std_env) (mime_XML std_env)],
      published := published ex_world @ [(''CDS_SUBSCRIBE'', ''http://h/'')]\<rparr>)"
  by (rule cds_subscribe [where url = "''http://h/''"]) (simp_all add: ex_request_def)

theorem command_names_witness:
  "UpnpCommand_parse ''Browse'' \<noteq> NONE \<and> UpnpCommand_parse (UpnpCommand_type_str BROWSE) = NONE"
  using command_names [of "''Browse''" "''Browse''" BROWSE] by (simp add: c_str_Cons)

theorem strip_callback_cases_witness:
  "strip_callback ''<http://h/>'' = Inr ''http://h/'' \<and> strip_callback ''<'' = Inl Out_of_range
   \<and> strip_callback ''http://h/'' = Inr ''http://h/''"
  using strip_callback_cases [of "''http://h/''" "''<''"] strip_callback_cases [of "''http://h/''" "''http://h/''"]
  by simp

section \<open>Discovery\<close>

definition ex_net :: net where
  "ex_net = \<lparr>send_error = (\<lambda>ds d. None), address_error = (\<lambda>a. None), open_error = (\<lambda>a p l. None)\<rparr>"

definition ex_params :: ssdp_params where
  "ex_params = \<lparr>sp_config = ex_config, sp_port = 1900\<rparr>"

definition ex_ssdp :: ssdp where
  "ex_ssdp = \<lparr>namespaces = [(''ns'', ''http://10.0.0.1:9003/root.xml'')], announce_thread_run = True,
     announce_time = 0, sender_endpoint = ''10.0.0.2:1900'', listening = True, sent = []\<rparr>"

lemma ex_net_up: "net_up ex_net"
  by (simp add: net_up_def ex_net_def)

abbreviation ex_wall :: "nat \<Rightarrow> int" where
  "ex_wall \<equiv> (\<lambda>n :: nat. 0 :: int)"

theorem announce_sends_witness:
  "announce std_env ex_net ex_wall ex_params ex_ssdp = (Inr (), ex_ssdp\<lparr>sent := sent ex_ssdp
     @ map (\<lambda>(i, ns, location). bye_msg std_env (ex_wall i) ex_params ns)
         (List.enumerate (length (sent ex_ssdp)) (List.concat (replicate 3 (namespaces ex_ssdp))))
     @ map (\<lambda>(ns, location). alive_msg std_env ex_params ns location)
         (List.concat (replicate 3 (namespaces ex_ssdp)))\<rparr>)"
  by (rule announce_sends [OF ex_net_up])

theorem search_answered_witness:
  "handle_receive std_env ex_net ex_params (ex_request SSDP_MSEARCH [(''St'', ''ssdp:all'')] []) ex_ssdp =
    (Inr (), ex_ssdp\<lparr>sent := deliver ex_net (sent ex_ssdp)
       (map (answer std_env ex_params (sender_endpoint ex_ssdp)) (targets (namespaces ex_ssdp)
          (req_parameter (ex_request SSDP_MSEARCH [(''St'', ''ssdp:all'')] []) SSDP_HEADER_ST)))\<rparr>)"
  by (rule search_answered) (simp_all add: ex_request_def foreign_def ex_params_def ex_config_def)


lemma ex_clean: "clean std_env ex_config ''ns'' ''http://10.0.0.1:9003/root.xml''"
  by (simp add: clean_def one_line_def std_env_def ex_config_def)

theorem messages_read_back_witness:
  "\<exists>l hs. read_message (create_header SSDP_REQUEST_LINE_OK
       (create_response std_env ex_config ''ns'' ''http://10.0.0.1:9003/root.xml'')) = Some (l, hs)
     \<and> (''LOCATION'', ''http://10.0.0.1:9003/root.xml'') \<in> set hs"
  using messages_read_back [OF std_fmt_law std_upper_law std_header_law ex_clean] by simp

lemma std_keep_alive_law: "keep_alive_law std_env"
  by (simp add: keep_alive_law_def std_env_def list_all_iff nat_digits_digits)

theorem keep_alive_read_witness:
  "parse_keep_alive std_env (max_age std_env) = Inr 1800 \<and> parse_keep_alive std_env ''no-cache'' = Inl Assertion"
  using keep_alive_read [OF std_keep_alive_law std_fmt_law] by simp

theorem new_server_witness:
  "\<exists>P s. new_SSDPServerImpl ex_net ex_config [(''ns'', ''l'')] = Inr (P, s) \<and> map_find (namespaces s) ''ns'' = Some ''l''"
proof -
  have "stoi (multicast_port ex_config) = Inr 1900" by code_simp
  then obtain P s where "new_SSDPServerImpl ex_net ex_config [(''ns'', ''l'')] = Inr (P, s)"
    using new_server [of ex_net ex_config "[(''ns'', ''l'')]"] by (auto simp: ex_net_def)
  then show ?thesis using new_server [of ex_net ex_config "[(''ns'', ''l'')]"] by auto
qed


text \<open>An HTTP parser that reads the first line and the headers, and two servers, the second of which searches.\<close>

definition http_request :: "string \<Rightarrow> request" where
  "http_request t =
     (let (line, hs) = (case read_message t of Some m \<Rightarrow> m | None \<Rightarrow> ([], [])) in
      \<lparr>req_method = takeWhile ((\<noteq>) CHR '' '') line, req_uri = [],
       req_parameter = (\<lambda>n. text_or_empty (header_value hs n)),
       req_contains_parameter = (\<lambda>n. header_value hs n \<noteq> None), req_str = [], req_attribute = (\<lambda>k. [])\<rparr>)"

definition http_reply :: "string \<Rightarrow> reply" where
  "http_reply t =
     (let (line, hs) = (case read_message t of Some m \<Rightarrow> m | None \<Rightarrow> ([], [])) in
      \<lparr>rep_status = (if take 3 (drop 9 line) = ''200'' then OK else NOT_FOUND),
       rep_parameter = (\<lambda>n. text_or_empty (header_value hs n)),
       rep_contains_parameter = (\<lambda>n. header_value hs n \<noteq> None)\<rparr>)"

lemma http_laws: "request_law http_request" "reply_law http_reply"
  by (simp_all add: request_law_def reply_law_def http_request_def http_reply_def)

abbreviation ex_peer :: ssdp_params where
  "ex_peer \<equiv> \<lparr>sp_config = ex_config\<lparr>uuid := ''u2''\<rparr>, sp_port = 1900\<rparr>"

lemma ex_peer_clean: "clean std_env (sp_config ex_peer) ''ssdp:all'' []"
  by (simp add: clean_def one_line_def std_env_def ex_config_def)


theorem announcement_understood_witness:
  "\<exists>ev. parseRequest std_env 0 (http_request (dg_text
       (alive_msg std_env ex_params ''ns'' ''http://10.0.0.1:9003/root.xml''))) = Inr ev
     \<and> ev_location ev = ''http://10.0.0.1:9003/root.xml'' \<and> ev_cache_control ev = 1800"
proof -
  have "clean std_env (sp_config ex_params) ''ns'' ''http://10.0.0.1:9003/root.xml''"
    using ex_clean by (simp add: ex_params_def)
  note read = announcement_understood [OF std_fmt_law std_upper_law std_header_law this http_laws(1) std_header_law std_keep_alive_law]
  show ?thesis by (subst read) (simp_all add: alive_msg_def found_def)
qed

section \<open>The announcing thread\<close>

definition ex_runner :: runner where
  "ex_runner = \<lparr>clock = 0, thread_pc = Enter, srv = ex_ssdp, rounds = []\<rparr>"

text \<open>Three passes: at the start, after 61 seconds and after 122 seconds; the last two announce.\<close>

abbreviation ex_passes :: "(int \<times> int) list" where
  "ex_passes \<equiv> [(0, 0), (61000000000, 61000000000), (122000000000, 122000000000)]"

lemma ex_loop: "\<exists>s'. annouceThread std_env ex_net ex_params 0 ex_passes ex_ssdp = (Inr [61000000000, 122000000000], s')"
  by (simp add: annouceThread_run andthen_apply check_timer_eq [OF ex_net_up] due_iff ex_ssdp_def)

lemma ex_runner_started: "started ex_runner" "clock ex_runner = 0" "srv ex_runner = ex_ssdp"
  by (simp_all add: started_def ex_runner_def)

abbreviation ex_parser :: "string \<Rightarrow> request" where
  "ex_parser \<equiv> (\<lambda>d. ex_request SSDP_NOTIFY [] d)"

lemma ex_reaches:
  obtains r' where "reaches std_env ex_net ex_wall ex_parser ex_params ex_runner r'"
    "rounds r' = [61000000000, 122000000000]"
proof -
  let ?r = "ex_runner\<lparr>thread_pc := Test, srv := (srv ex_runner)\<lparr>announce_time := clock ex_runner\<rparr>\<rparr>"
  obtain s' where loop: "announce_loop std_env ex_net ex_params ex_passes (ex_ssdp\<lparr>announce_time := 0\<rparr>) =
      (Inr [61000000000, 122000000000], s')"
    using ex_loop by (auto simp: annouceThread_run)
  have "\<exists>r'. reaches std_env ex_net ex_wall ex_parser ex_params ?r r' \<and> srv r' = s'
      \<and> rounds r' = rounds ?r @ [61000000000, 122000000000]"
    by (rule announce_loop_reaches [OF loop, of 60000000000 0 0]) (simp_all add: ex_runner_def)
  moreover have "reaches std_env ex_net ex_wall ex_parser ex_params ex_runner ?r"
    by (rule step_reaches, rule step.enter) (simp add: ex_runner_def)
  ultimately show thesis using that by (auto simp: ex_runner_def intro: reaches_trans)
qed


theorem announcements_renewed_witness:
  "\<exists>s'. annouceThread std_env ex_net ex_params 0 ex_passes ex_ssdp = (Inr [61000000000, 122000000000], s')
     \<and> renewed [0, 61000000000, 122000000000] \<and> length (sent s') = 6"
proof -
  obtain s' where s': "annouceThread std_env ex_net ex_params 0 ex_passes ex_ssdp = (Inr [61000000000, 122000000000], s')"
    using ex_loop by blast
  have "announce_thread_run ex_ssdp" "on_time 60000000000 0 0 ex_passes" by (simp_all add: ex_ssdp_def)
  from announcements_renewed [OF ex_net_up this(1) _ _ _ this(2), of std_env ex_params] s' show ?thesis
    by (auto simp: round_msgs_def ex_ssdp_def numeral_2_eq_2 numeral_3_eq_3)
qed


theorem stopped_thread_ends_witness:
  "\<exists>t. step std_env ex_net ex_wall ex_parser ex_params (ex_runner\<lparr>srv := ex_ssdp\<lparr>announce_thread_run := False\<rparr>\<rparr>) t
     \<and> steps_left (thread_pc t) < 2"
proof -
  let ?r = "ex_runner\<lparr>srv := ex_ssdp\<lparr>announce_thread_run := False\<rparr>\<rparr>"
  have "reaches std_env ex_net ex_wall ex_parser ex_params ?r ?r" by (rule reaches.start)
  from stopped_thread_ends [OF _ this, of ?r] show ?thesis by (simp add: ex_runner_def)
qed

theorem check_timer_runs_witness:
  "check_timer std_env ex_net ex_params 70000000000 71000000000 ex_ssdp =
     (Inr (), ex_ssdp\<lparr>sent := sent ex_ssdp @ map (\<lambda>(ns, location). alive_msg std_env ex_params ns location)
        (List.concat (replicate 3 (namespaces ex_ssdp))), announce_time := 71000000000\<rparr>)"
proof -
  have "announce_time ex_ssdp = 0" by (simp add: ex_ssdp_def)
  then show ?thesis
    using check_timer_runs [OF ex_net_up, of ex_ssdp 70000000000 std_env ex_params 71000000000] by simp
qed


section \<open>The database\<close>

theorem get_after_set_witness:
  "data_get ref_redis (data_set ref_redis ''a'' ''name'' ''B'' ex_db) ''a'' ''name'' = ''B''
   \<and> data_get ref_redis (data_set ref_redis ''a'' ''name'' ''B'' ex_db) ''f'' ''name'' = data_get ref_redis ex_db ''f'' ''name''"
  using get_after_set [OF ref_hash_law, of "''a''" "''name''" "''B''" ex_db] by simp

theorem node_after_save_witness:
  "data_node ref_redis (data_save ref_redis ''n'' ex_node empty_store) ''n'' = Inr ex_node"
  by (rule node_after_save [OF ref_hash_law])
    (simp_all add: sorted_keys_def less_char_def ref_hashes_def empty_store_def fun_eq_iff)

theorem rem_after_add_nodes_witness:
  "\<exists>db1 db2. add_nodes ref_redis album ''a'' 0 empty_store = Inr db1 \<and> rem_nodes ref_redis album ''a'' db1 = Inr db2
     \<and> ''a'' \<in> set (ref_zset db1 ''fs:album:list'') \<and> set (ref_zset db2 ''fs:album:list'') = {}"
proof -
  obtain db1 where db1: "add_nodes ref_redis album ''a'' 0 empty_store = Inr db1"
    by (simp add: add_nodes_def make_key_list_type_eq)
  obtain db2 where db2: "rem_nodes ref_redis album ''a'' db1 = Inr db2"
    by (simp add: rem_nodes_def make_key_list_type_eq)
  obtain db3 where db3: "add_nodes_parent ref_redis ''p'' album ''a'' 0 empty_store = Inr db3"
    by (simp add: add_nodes_parent_def make_key_types_eq)
  obtain db4 where db4: "rem_nodes_parent ref_redis ''p'' album ''a'' db3 = Inr db4"
    by (simp add: rem_nodes_parent_def make_key_types_eq)
  have "make_key_list (type_name album) = ''fs:album:list''" by (simp add: make_key_list_eq)
  with rem_after_add_nodes [OF ref_zset_law db1 db2 db3 db4, of "''fs:album:list''"] db1 db2 show ?thesis
    by (auto simp: ref_zset_def empty_store_def)
qed

theorem rem_types_keeps_key_witness:
  "''/music'' \<in> set (ref_zset (rem_types std_env ref_redis ''root'' ''/music''
      (add_types ref_redis ''root'' ''/music'' 0 empty_store)) (make_key_list ''root''))"
proof -
  have "data_hash std_env ''/music'' \<noteq> ''/music''" by code_simp
  then show ?thesis using rem_types_keeps_key [OF ref_zset_law] by blast
qed

abbreviation ex_ops :: "store_op list" where
  "ex_ops \<equiv> [Save_node ''n'' ex_node, Add_types ''root'' ''n'' 7, Set_attr ''n'' ''name'' ''G'',
  Add_nodes_parent ''n'' audio ''t'' 9, Incr_mime ''audio/mpeg'']"

lemma empty_directory: "directory_of ref_hashes ref_zset empty_store =
    \<lparr>attrs = (\<lambda>_. Map.empty), members = (\<lambda>_. {}), typed_files = (\<lambda>_ _. {})\<rparr>"
  by (simp add: directory_of_def ref_zset_def ref_hashes_def empty_store_def)


section \<open>Configuration and devices\<close>

definition ex_ifas :: "ifaddr list" where
  "ex_ifas = [\<lparr>ifa_name = ''lo'', ifa_addr = Some (True, ''127.0.0.1'')\<rparr>,
              \<lparr>ifa_name = ''eth0'', ifa_addr = Some (True, ''10.0.0.1'')\<rparr>]"

lemma ex_ifas_named: "\<forall>ifa \<in> set ex_ifas. \<forall>x. ifa_addr ifa \<noteq> Some (True, x) \<or> x \<noteq> []"
  by (simp add: ex_ifas_def)


theorem timeout_after_touch_witness:
  "timeout 1800000000000 (touch 0 (new_Device 1 0 0)) \<and> \<not> timeout 1799999999999 (touch 0 (new_Device 1 0 0))
   \<and> timeout 1799999999999 (touch 0 (set_timeout 60 (new_Device 1 0 0)))"
  using timeout_after_touch [of 0 1800000000000 "new_Device 1 0 0"]
    timeout_after_touch [of 0 1799999999999 "new_Device 1 0 0"]
  by (simp add: new_Device_def)

section \<open>The program\<close>

lemma ex_start_from:
  assumes "prepare std_env ref_redis Map.empty db = Inr c0" "validate std_env ex_ifas c0 = Inr (True, c)"
    "stoi (multicast_port c) = Inr 1900"
  obtains a where "main_start std_env ref_redis ex_net (\<lambda>h p. True) ex_wall ex_ifas Map.empty db =
    (Inr (Running a), data_config_store ref_redis (json_of_Config std_env c) db)"
proof -
  have json: "Config_of_json std_env (json_of_Config std_env c) = Inr (c_strings c)"
    unfolding c_strings_def by (rule json_reads [OF std_json_law])
  have stored: "data_config ref_redis (data_config_store ref_redis j db) = Inr j" for j db
    by (rule config_after_store [OF ref_string_law])
  have port: "stoi (option_or Map.empty PARAM_REDIS_PORT ''6379'') = Inr 6379" by code_simp
  have conn: "make_connection ref_redis h p = Inr ()" for h p
    by (simp add: make_connection_def ref_redis_def)
  have up: "announce std_env ex_net ex_wall P s = (Inr (), snd (announce std_env ex_net ex_wall P s))" for P s
    by (simp add: announce_def suppress_def andthen_apply bye.network_times_sends [OF ex_net_up]
        alive.network_times_sends [OF ex_net_up])
  have "\<exists>a. start_servers std_env ref_redis ex_net (\<lambda>h p. True) ex_wall Map.empty c nss
      (data_config_store ref_redis (json_of_Config std_env c) db) = Inr a" for nss
  proof -
    obtain server where server: "new_Server std_env ref_redis (\<lambda>h p. True)
        (data_config_store ref_redis (json_of_Config std_env c) db)
        (option_or Map.empty PARAM_REDIS ''localhost'') 6379 = Inr server"
      by (simp add: new_Server_def Let_def conn stored json)
    have "new_connection ex_net a p l = Inr ()" for a p l
      by (simp add: new_connection_def from_string_def ex_net_def)
    then obtain P s where "new_SSDPServerImpl ex_net c nss = Inr (P, s)"
      by (simp add: new_SSDPServerImpl_def assms(3))
    with server port show ?thesis
      by (simp only: start_servers_def res_bind_simps prod.case) (subst up, simp)
  qed
  then obtain a where "start_servers std_env ref_redis ex_net (\<lambda>h p. True) ex_wall Map.empty c
      (make_namespaces std_env c0) (data_config_store ref_redis (json_of_Config std_env c) db) = Inr a" by blast
  with that show thesis
    by (auto simp only: main_start_def assms(1,2) Let_def prod.case sum.case simp_thms if_False if_True)
qed

text \<open>The first start, on an empty database.\<close>

lemma ex_start_ex:
  obtains a db where
    "main_start std_env ref_redis ex_net (\<lambda>h p. True) ex_wall ex_ifas Map.empty empty_store = (Inr (Running a), db)"
proof -
  define c where "c = \<lparr>listen_address = ''10.0.0.1'', http_port = ''9003'', multicast_address = ''239.255.255.250'',
    multicast_port = ''1900'', config_name = ''Squawk Media Server: 1.0'', cds_uri = [],
    uuid = ''7499a4b3-8c03-49a2-9bce-aebbf4512dc8''\<rparr>"
  have "prepare std_env ref_redis Map.empty empty_store = Inr new_Config" by code_simp
  moreover have "validate std_env ex_ifas new_Config = Inr (True, c)" "stoi (multicast_port c) = Inr 1900"
    unfolding c_def by code_simp+
  ultimately show thesis by (rule ex_start_from) (rule that)
qed

theorem start_consistent_witness:
  "\<exists>a db. main_start std_env ref_redis ex_net (\<lambda>h p. True) ex_wall ex_ifas Map.empty empty_store = (Inr (Running a), db)
     \<and> sp_config (app_params a) = app_config a \<and> srv_config (app_server a) = c_strings (app_config a)
     \<and> load_config std_env ref_redis db = Inr (c_strings (app_config a))"
proof -
  obtain a db where run: "main_start std_env ref_redis ex_net (\<lambda>h p. True) ex_wall ex_ifas Map.empty empty_store =
      (Inr (Running a), db)" by (rule ex_start_ex)
  from start_consistent [OF ref_string_law std_json_law std_fmt_law ex_ifas_named run] run show ?thesis by blast
qed

theorem announced_services_witness:
  "\<exists>a db. main_start std_env ref_redis ex_net (\<lambda>h p. True) ex_wall ex_ifas Map.empty empty_store = (Inr (Running a), db)
     \<and> map_find (namespaces (app_ssdp a)) NS_CONTENT_DIRECTORY \<noteq> None
     \<and> map_find (namespaces (app_ssdp a)) NS_CONNECTION_MANAGER = None"
proof -
  obtain a db where run: "main_start std_env ref_redis ex_net (\<lambda>h p. True) ex_wall ex_ifas Map.empty empty_store =
      (Inr (Running a), db)" by (rule ex_start_ex)
  have prep: "prepare std_env ref_redis Map.empty empty_store = Inr new_Config" by code_simp
  from announced_services [OF std_fmt_law prep run, of NS_CONTENT_DIRECTORY]
    announced_services [OF std_fmt_law prep run, of NS_CONNECTION_MANAGER] run
  show ?thesis by (auto simp: service_names_def new_Config_def)
qed

theorem first_start_witness:
  "\<exists>a db. main_start std_env ref_redis ex_net (\<lambda>h p. True) ex_wall ex_ifas Map.empty empty_store = (Inr (Running a), db)
     \<and> map_find (namespaces (app_ssdp a)) NS_ROOT_DEVICE = Some ''http://:/root.xml''"
proof -
  obtain a db where run: "main_start std_env ref_redis ex_net (\<lambda>h p. True) ex_wall ex_ifas Map.empty empty_store =
      (Inr (Running a), db)" by (rule ex_start_ex)
  have "\<not> config_exists ref_redis empty_store" by code_simp
  from first_start [OF std_fmt_law this refl ex_ifas_named run] run show ?thesis by blast
qed

definition ex_server :: Server where
  "ex_server = \<lparr>srv_config = ex_config,
     srv_topics = [''CDS_SUBSCRIBE'', ''CDS_UNSUBSCRIBE'', ''CMS_SUBSCRIBE'', ''CMS_UNSUBSCRIBE'']\<rparr>"

theorem icons_served_witness:
  "\<exists>png. icon_handler std_env squawk_icons (ex_request ''GET'' [] []) ex_world =
      (Inr OK, ex_world\<lparr>response := response ex_world @ [Write png, Set_parameter (CONTENT_TYPE std_env) (mime_PNG std_env)]\<rparr>)
    \<and> png_size png = Some (16, 16)"
  using icons_served [of "''128''" 16 "ex_request ''GET'' [] []" std_env ex_world] by (simp add: ex_request_def)

definition ex_icons :: icons where
  "ex_icons = \<lparr>icon_120 = ''120'', icon_64 = ''64'', icon_48 = ''48'', icon_32 = ''32'',
     icon_16 = ''16''\<rparr>"

theorem routes_answer_witness:
  "\<exists>w'. run_action std_env ref_redis ex_db ex_server ex_icons A_icon (ex_request ''GET'' [] []) ex_world = (Inr OK, w')
     \<and> parameter_of (response w') (CONTENT_TYPE std_env) = Some ''image/png''"
proof -
  obtain w' where run: "run_action std_env ref_redis ex_db ex_server ex_icons A_icon (ex_request ''GET'' [] []) ex_world =
      (Inr OK, w')"
    by (simp add: run_action_def icon_handler_def andthen_apply ex_request_def)
  from routes_answer [OF std_header_law run] run show ?thesis
    by (simp add: action_type_def std_env_def)
qed

definition ex_headers :: headers_input where
  "ex_headers = \<lparr>hi_version_major = 1, hi_version_minor = 1, hi_protocol = ''HTTP'', hi_expires = 0, hi_expires_now = 0,
     hi_now = 0, hi_http_date = (\<lambda>t d. ''Thu, 01 Jan 1970 00:00:00 GMT'')\<rparr>"

theorem headers_complete_witness:
  "\<exists>line w'. UpnpHeaders_execute std_env ex_config ex_headers ex_world = (Inr (line, OK), w')
     \<and> parameter_of (response w') ''Content-Length'' = Some ''0''"
proof -
  have "to_string 0 = ''0''" by code_simp
  with headers_complete [OF std_header_law std_fmt_law, of ex_config ex_headers ex_world] show ?thesis
    by (auto simp: ex_world_def)
qed



end
