(* ===== verification/Spec2Isabelle.thy ===== *)
theory Spec2Isabelle
  imports Witnesses
begin

text \<open>
  A verification development of the squawk UPnP media server (\<^verbatim>\<open>main.cpp\<close> and \<^verbatim>\<open>src/src/\<close> of the repository).

  \<^bold>\<open>The program.\<close>  The server makes a media library that other programs keep in a redis database visible to UPnP
  players.  It announces itself over SSDP (UDP multicast), describes itself in an XML document, answers the SOAP calls of
  the ContentDirectory and ConnectionManager services over HTTP, and accepts event subscriptions, which it passes through
  redis channels back to itself and answers with a first notification.  \<^verbatim>\<open>main\<close> reads the options and the stored
  configuration, completes and stores it, starts the HTTP server with its routes and the SSDP server, and sleeps.

  \<^bold>\<open>How it is modelled.\<close>  A C++ function without effects is a HOL function; one that can throw has a result of
  type \<open>exn + 'a\<close>; a method that changes the server, the response or a document under construction is an action
  \<open>('s, 'a) act\<close> on that state, which keeps the state reached when an exception is thrown.  A \<^verbatim>\<open>std::map\<close> is a
  list in key order; numbers that can leave their type carry the check or the wrap-around of their width (\<^verbatim>\<open>int\<close> overflow,
  \<^verbatim>\<open>unsigned int\<close> seconds, the \<^verbatim>\<open>short\<close> port, \<^verbatim>\<open>stoi\<close> and \<^verbatim>\<open>atoi\<close>).  The libraries (redox and redis, rapidxml_ns, rapidjson,
  fmt, boost, asio and the http library) are fields of the records \<open>env\<close>, \<open>redis\<close> and \<open>net\<close>, arguments of every definition
  that uses them; what a theorem needs of them is one of the laws \<open>fmt_law\<close>, \<open>upper_law\<close>, \<open>header_law\<close>, \<open>json_law\<close>,
  \<open>hash_law\<close>, \<open>zset_law\<close>, \<open>list_law\<close>, \<open>string_law\<close>, \<open>frame_law\<close>, \<open>keep_alive_law\<close>, \<open>request_law\<close>, \<open>reply_law\<close>, which state documented behaviour.
  The laws of redis speak of keys that hold a value of the kind the program uses them for; the theory \<open>Directory\<close> shows that
  the program never uses one key for two kinds of content.

  \<^bold>\<open>The theories\<close>, in the order of their imports:

  \<^item> \<open>Upnp_Prelude\<close>: exceptions, actions, C strings, and the locale \<open>step_rel\<close> for relations that all steps of an action keep.
  \<^item> \<open>Std_Map\<close>: \<^verbatim>\<open>std::map\<close>, with the interfaces \<open>keyed_store\<close> and \<open>ordered_store\<close>.  \<open>Numbers\<close>: \<^verbatim>\<open>std::to_string\<close>,
    \<^verbatim>\<open>std::stoi\<close>, \<^verbatim>\<open>std::atoi\<close>, \<^verbatim>\<open>int\<close> arithmetic.  \<open>Xml\<close>: \<^verbatim>\<open>FOR\<close>, \<^verbatim>\<open>element\<close> and \<^verbatim>\<open>attr\<close> of \<^verbatim>\<open>_utils.h\<close>, and
    locales for what a loop over sibling elements collects.  \<open>Environment\<close>: the libraries, requests and responses.
  \<^item> \<open>Datastore\<close> (\<^verbatim>\<open>datastore.h\<close>): keys, node types, all reading and writing of the library.  \<open>Reference\<close>: a concrete
    environment and database in which the laws hold.  \<open>Directory\<close>: the abstract content directory that the store implements.
  \<^item> \<open>Config\<close> (\<^verbatim>\<open>config.h\<close>), \<open>Utils\<close> (the rest of \<^verbatim>\<open>_utils.h\<close>), \<open>Scpd\<close> (its two service descriptions), \<open>Device\<close> (\<^verbatim>\<open>device.h\<close>),
    \<open>Didl\<close> (\<^verbatim>\<open>didl.h\<close>, \<^verbatim>\<open>didl.cpp\<close>).
  \<^item> \<open>Server\<close> (\<^verbatim>\<open>server.h\<close>, \<^verbatim>\<open>server.cpp\<close>): the SOAP parser, the HTTP handlers, the subscriptions; \<open>Browse\<close> and \<open>Description\<close>:
    what a client sees of the content directory and of the device description.
  \<^item> \<open>Ssdp\<close> (\<^verbatim>\<open>ssdpserver.h\<close>, \<^verbatim>\<open>ssdpserver.cpp\<close>, the two connection classes), \<open>Discovery\<close> (two servers on one
    network), \<open>Announce\<close> and \<open>Renewal\<close> (the announcing thread), \<open>Upnp_Headers\<close> (\<^verbatim>\<open>upnpheaders.cpp\<close>), \<open>Main_App\<close> (\<^verbatim>\<open>main.cpp\<close>),
    \<open>Icons\<close> (\<^verbatim>\<open>_icons.h\<close>) and \<open>Icon_Route\<close> (the route that serves them).
  \<^item> \<open>Witnesses\<close> applies the theorems to concrete systems; this theory holds what spans the components.

  \<^bold>\<open>What is shown.\<close>  Browsing: which entries, counts and totals the answer to a browse has, for a window, for an album, for
  everything, for one object, and when it fails (\<open>Browse\<close>); what entry \<^verbatim>\<open>Didl::write\<close> adds and exactly when it throws (\<open>Didl\<close>).
  The store refines an abstract directory for every sequence of operations, and its key spaces are apart (\<open>Directory\<close>).
  Parsers read exactly what the document holds, also for the description the server itself writes (\<open>Server\<close>, \<open>Device\<close>,
  \<open>Description\<close>).  Discovery: what a search is answered, what an announcement sends and a peer reads, that own messages
  are ignored and when the receiver stops (\<open>Ssdp\<close>); that a search by one server is answered by another so that the first
  learns its location, and announcements are understood (\<open>Discovery\<close>).  The announcing thread: over all interleavings rounds are at least a minute
  apart; on a schedule with bounded delays announcements are renewed before they expire; after the stop at most one more
  round is begun and the thread ends (\<open>Announce\<close>, \<open>Renewal\<close>).  The program: after a start all parts work with one complete
  configuration, which a later start reads again; what is announced; how the routes answer (\<open>Main_App\<close>), and that an icon
  is served in the size that was asked for (\<open>Icon_Route\<close>).  Well-formed maps
  throughout, a saved node as a client gets it, the device a search finds as the description presents it, and a subscription from
  the request to the notification (this theory).

  \<^bold>\<open>Bounds.\<close>  The model has no fuel: every loop of the code is a structural recursion or has a measure, except for the
  announcing thread, which is a step relation and, on a finite schedule, a function; the two are related by a theorem.  Time is in
  nanoseconds; statements about the 32-bit seconds of the code assume that less than \<open>2 ^ 32\<close> seconds (136 years) have passed.

  \<^bold>\<open>Not modelled.\<close>  Log output and the text of help; the matching of paths by regular expressions, which the http library does
  (the table of routes is modelled, and every action it leads to); the 404 route of debug builds; the signal
  handler and the endless sleep of \<^verbatim>\<open>main\<close>; sockets, threads and timers of asio below the calls the code makes.  Handlers run one after the
  other on a given database; the announcing thread is interleaved with the receiver and the main thread by whole calls.
\<close>

section \<open>Maps are in key order\<close>

lemma data_node_sorted: "data_node R db k = Inr m \<Longrightarrow> sorted_keys m"
  by (auto simp: data_node_def intro: to_map_sorted split: option.splits)

lemma headers_sorted:
  "sorted_keys (create_response E config nt location)" "sorted_keys (announce_headers E config nt location)"
  "sorted_keys (suppress_headers E rawtime config nt)" "sorted_keys (search_headers E config nt)"
  unfolding create_response_def announce_headers_def suppress_headers_def search_headers_def Let_def
  by (intro map_set_puts sorted_keys_Nil)+



section \<open>From the store to the client\<close>

text \<open>C6: a saved node is what a client gets.  After a complete node was saved under a key that held nothing, a client that asks for
  the metadata of this key gets exactly the entry of the node's attributes, under the id it asked for.
\<close>

theorem saved_node_browsed:
  assumes "hash_law R hashes" "is_browse E req cmd BROWSE_METADATA i c" "browsed_object cmd = k"
    "sorted_keys m" "map_contains m param_CLASS" "complete m" "hashes db (make_key_node k) = Map.empty"
    "db' = data_save R k m db"
  shows "cds E R db' config req w = (Inr OK, w\<lparr>response := response w @
    browse_answer E [didl_entry E R db' config (arg_of cmd OBJECT_ID) m] 1 1\<rparr>)"
proof -
  have "m \<noteq> []" using assms(5) by (auto simp: map_contains_def)
  with assms have "data_node R db' k = Inr m" by (simp add: node_after_save)
  then have "node_of R db' k = m" by (simp add: node_of_def)
  with assms(3,5,6) browse_metadata_run [OF assms(1,2) refl _ refl, of db' config w] show ?thesis
    by (simp add: listable_def)
qed

abbreviation movie_node :: std_map where
  "movie_node \<equiv> [(''cls'', ''movie''), (''ext'', ''.mkv''), (''mimeType'', ''video/mp4''), (''name'', ''M''),
  (''parent'', ''root'')]"

theorem saved_node_browsed_witness:
  "\<exists>w'. cds (browse_env ''m'' BROWSE_METADATA ''0'' ''0'') ref_redis (data_save ref_redis ''m'' movie_node ex_db) ex_config
          post ex_world = (Inr OK, w') \<and> length (response w') = 2"
proof -
  let ?E = "browse_env ''m'' BROWSE_METADATA ''0'' ''0''" and ?cmd = "browse_cmd ''m'' BROWSE_METADATA ''0'' ''0''"
  have "is_browse ?E post ?cmd BROWSE_METADATA 0 0" by code_simp
  moreover have "browsed_object ?cmd = ''m''" by code_simp
  moreover have "sorted_keys movie_node" by (simp add: sorted_keys_def less_char_def)
  moreover have "map_contains movie_node param_CLASS" "complete movie_node" by code_simp+
  moreover have "ref_hashes ex_db (make_key_node ''m'') = Map.empty"
    by (simp add: ref_hashes_def ex_db_def make_key_node_eq)
  ultimately show ?thesis
    using saved_node_browsed [OF ref_hash_law _ _ _ _ _ _ refl] by (auto simp: browse_answer_def ex_world_def)
qed

section \<open>From the search to the description\<close>

lemma reply_found:
  assumes "fmt_law E" "upper_law E" "header_law E" "clean E (sp_config P) ns location"
    "reply_law parse_response" "header_law F" "keep_alive_law F" "net_up N"
    "foreign P req" "req_method req = SSDP_MSEARCH" "req_parameter req SSDP_HEADER_ST = ns" "ns \<noteq> SSDP_NS_ALL"
    "map_find (namespaces s) ns = Some location"
  shows "\<exists>t. handle_receive E N P req s = (Inr (), s\<lparr>sent := sent s @ [Reply (sender_endpoint s) t]\<rparr>)
    \<and> parseResponse F now (parse_response t) = Inr (found E (sp_config P) now (ns, location))"
proof -
  have "targets (namespaces s) (req_parameter req SSDP_HEADER_ST) = [(ns, location)]"
    using assms(11-13) by (simp add: targets_def)
  then show ?thesis
    using handle_receive_search [OF assms(9,10), of E N s] reply_understood [OF assms(1-7), of now]
    by (simp only: deliver_up [OF assms(8)] answer_def list.map prod.case) blast
qed

lemma description_run:
  "run_action E R db server I A_description req w = (Inr OK, w\<lparr>response := response w @
     [Write (description_text E (srv_config server)), Set_parameter (CONTENT_TYPE E) (mime_XML E), Set_parameter ''EXT'' []]\<rparr>)"
  by (simp add: run_action_def description_def andthen_apply)

text \<open>C12: the device that is found is the device that is described.  When the program was started on a complete
  configuration, a search for one of its names is answered with one reply, in which the control point reads the address
  and port the program listens on and the unique name of the service.  The description at that location, read by the device
  parser, has the configured name and the same uuid as the reply, and every service it lists has a control url with a route
  of its own.
\<close>

theorem found_device_described:
  assumes "string_law R" "json_law E" "fmt_law E" "upper_law E" "header_law E"
    "\<forall>ifa \<in> set ifas. \<forall>x. ifa_addr ifa \<noteq> Some (True, x) \<or> x \<noteq> []"
    "prepare E R opts db = Inr c" "config_complete c" "nul_free (uuid c)" "net_up N"
    "main_start E R N sub_connect wall ifas opts db = (Inr (Running a), db')"
    "foreign (app_params a) req" "req_method req = SSDP_MSEARCH" "req_parameter req SSDP_HEADER_ST = service"
    "service \<in> service_names c" "service \<noteq> SSDP_NS_ALL"
    "location = ''http://'' @ listen_address c @ '':'' @ http_port c @ ''/root.xml''" "clean E c service location"
    "reply_law parse_response" "header_law F" "keep_alive_law F"
    "xml_parse F (c_str (description_text E (c_strings c))) = Some (map pnode_of (xkids (description_doc E (c_strings c))))"
  shows "\<exists>t ev body d.
      handle_receive E N (app_params a) req (app_ssdp a) =
        (Inr (), (app_ssdp a)\<lparr>sent := sent (app_ssdp a) @ [Reply (sender_endpoint (app_ssdp a)) t]\<rparr>)
    \<and> parseResponse F now (parse_response t) = Inr ev \<and> ev_nt ev = service \<and> ev_location ev = location
    \<and> run_action E R db' (app_server a) I A_description get w = (Inr OK, w\<lparr>response := response w @
        [Write body, Set_parameter (CONTENT_TYPE E) (mime_XML E), Set_parameter ''EXT'' []]\<rparr>)
    \<and> parse_device F body (new_Device vmaj vmin now) = Inr d
    \<and> friendlyName d = c_str (config_name c) \<and> ev_usn ev = udn d @ ''::'' @ service
    \<and> (\<forall>s \<in> set (serviceList d). \<exists>act finish. (''^'' @ controlUrl s @ ''$'', act, finish) \<in> set routes)"
proof -
  have config: "app_config a = c" by (rule started_complete [OF assms(3,6,7,8,11)])
  have parts: "sp_config (app_params a) = c" "srv_config (app_server a) = c_strings c"
    using start_parts [OF assms(1,2,3,6,11)] by (simp_all add: config)
  have "map_find (namespaces (app_ssdp a)) service = Some location"
    using announced_find [OF assms(3,7,11), of service] assms(15,17) by simp
  then obtain t where t: "handle_receive E N (app_params a) req (app_ssdp a) =
      (Inr (), (app_ssdp a)\<lparr>sent := sent (app_ssdp a) @ [Reply (sender_endpoint (app_ssdp a)) t]\<rparr>)"
    "parseResponse F now (parse_response t) = Inr (found E c now (service, location))"
    using reply_found [OF assms(3-5) _ assms(19-21,10,12-14,16), of location] assms(18) parts(1) by auto
  have "format E ''uuid:{}'' [uuid (c_strings c)] = ''uuid:'' @ uuid c"
    using assms(9) by (subst fmt_lawD [OF assms(3)]) (simp_all add: c_strings_def)
  then have "udn (described E (c_strings c) now) = ''uuid:'' @ uuid c"
    using assms(9) by (simp add: described_def c_str_Cons)
  moreover have "\<forall>s \<in> set (serviceList (described E (c_strings c) now)).
      \<exists>act finish. (''^'' @ controlUrl s @ ''$'', act, finish) \<in> set routes"
    by (simp add: described_def routes_def)
  ultimately show ?thesis
    using t description_reads [OF assms(22), of vmaj vmin now]
    by (intro exI conjI) (assumption | rule description_run [of E R db' "app_server a" I get w, unfolded parts] |
        simp add: found_def described_def c_strings_def)+
qed

text \<open>A second start, on a database that holds a complete configuration.\<close>

definition second_db :: store where
  "second_db = data_config_store ref_redis (json_of_Config std_env ex_config) empty_store"

lemma c_strings_ex: "c_strings ex_config = ex_config"
  by (simp add: c_strings_def ex_config_def c_str_Cons)

lemma second_prepared: "prepare std_env ref_redis Map.empty second_db = Inr ex_config"
proof -
  have "load_config std_env ref_redis second_db = Inr ex_config"
    using json_reads [OF std_json_law, of ex_config] c_strings_ex
    by (simp add: load_config_def second_db_def config_after_store [OF ref_string_law] c_strings_def)
  moreover have "stoi (option_or Map.empty PARAM_REDIS_PORT ''6379'') = Inr 6379" by code_simp
  ultimately show ?thesis
    by (simp add: prepare_def make_connection_def ref_redis_def apply_options_def)
qed

lemma description_env_laws: "header_law description_env" "keep_alive_law description_env"
  using std_header_law std_keep_alive_law by (simp_all add: description_env_def header_law_def keep_alive_law_def)

theorem found_device_described_witness:
  "\<exists>a db t ev d. main_start std_env ref_redis ex_net (\<lambda>h p. True) ex_wall ex_ifas Map.empty second_db = (Inr (Running a), db)
     \<and> sent (snd (handle_receive std_env ex_net (app_params a) (ex_request SSDP_MSEARCH [(SSDP_HEADER_ST, NS_CONTENT_DIRECTORY)] [])
         (app_ssdp a))) = sent (app_ssdp a) @ [Reply (sender_endpoint (app_ssdp a)) t]
     \<and> parseResponse description_env 0 (http_reply t) = Inr ev \<and> ev_location ev = ''http://10.0.0.1:9003/root.xml''
     \<and> parse_device description_env (description_text std_env ex_config) (new_Device 0 0 0) = Inr d
     \<and> ev_usn ev = udn d @ ''::'' @ NS_CONTENT_DIRECTORY"
proof -
  let ?req = "ex_request SSDP_MSEARCH [(SSDP_HEADER_ST, NS_CONTENT_DIRECTORY)] []"
  have "validate std_env ex_ifas ex_config = Inr (True, ex_config)" "stoi (multicast_port ex_config) = Inr 1900"
    by code_simp+
  then obtain a db where run: "main_start std_env ref_redis ex_net (\<lambda>h p. True) ex_wall ex_ifas Map.empty second_db =
      (Inr (Running a), db)"
    using ex_start_from [OF second_prepared] by metis
  have complete: "config_complete ex_config" "nul_free (uuid ex_config)" by (simp_all add: ex_config_def nul_free_def)
  have "sp_config (app_params a) = ex_config"
    using started_complete [OF std_fmt_law ex_ifas_named second_prepared complete(1) run]
      start_parts [OF ref_string_law std_json_law std_fmt_law ex_ifas_named run] by simp
  then have req: "foreign (app_params a) ?req" "req_method ?req = SSDP_MSEARCH"
    "req_parameter ?req SSDP_HEADER_ST = NS_CONTENT_DIRECTORY"
    by (simp_all add: foreign_def ex_request_def ex_config_def)
  have names: "NS_CONTENT_DIRECTORY \<in> service_names ex_config" "NS_CONTENT_DIRECTORY \<noteq> SSDP_NS_ALL"
    "''http://10.0.0.1:9003/root.xml'' = ''http://'' @ listen_address ex_config @ '':'' @ http_port ex_config @ ''/root.xml''"
    by (simp_all add: service_names_def ex_config_def)
  have clean: "clean std_env ex_config NS_CONTENT_DIRECTORY ''http://10.0.0.1:9003/root.xml''"
    using ex_clean by (simp add: clean_def one_line_def)
  have "xml_parse description_env (c_str (description_text std_env (c_strings ex_config))) =
      Some (map pnode_of (xkids (description_doc std_env (c_strings ex_config))))"
    by (simp add: description_env_def c_strings_ex)
  from found_device_described [OF ref_string_law std_json_law std_fmt_law std_upper_law std_header_law ex_ifas_named
      second_prepared complete ex_net_up run req names clean http_laws(2) description_env_laws this,
      of 0 ex_icons "ex_request ''GET'' [] []" ex_world 0 0]
  obtain t ev body d where got: "handle_receive std_env ex_net (app_params a) ?req (app_ssdp a) =
      (Inr (), (app_ssdp a)\<lparr>sent := sent (app_ssdp a) @ [Reply (sender_endpoint (app_ssdp a)) t]\<rparr>)"
    "parseResponse description_env 0 (http_reply t) = Inr ev" "ev_location ev = ''http://10.0.0.1:9003/root.xml''"
    "run_action std_env ref_redis db (app_server a) ex_icons A_description (ex_request ''GET'' [] []) ex_world =
      (Inr OK, ex_world\<lparr>response := response ex_world @
        [Write body, Set_parameter (CONTENT_TYPE std_env) (mime_XML std_env), Set_parameter ''EXT'' []]\<rparr>)"
    "parse_device description_env body (new_Device 0 0 0) = Inr d" "ev_usn ev = udn d @ ''::'' @ NS_CONTENT_DIRECTORY"
    by blast
  have "body = description_text std_env (srv_config (app_server a))"
    using got(4) description_run [of std_env ref_redis db "app_server a" ex_icons "ex_request ''GET'' [] []" ex_world]
    by (simp add: ex_world_def)
  moreover have "srv_config (app_server a) = ex_config"
    using started_complete [OF std_fmt_law ex_ifas_named second_prepared complete(1) run]
      start_parts [OF ref_string_law std_json_law std_fmt_law ex_ifas_named run] c_strings_ex by simp
  ultimately show ?thesis using run got by auto
qed

section \<open>A subscription from end to end\<close>

text \<open>All messages published, delivered to the callbacks of the server in order.\<close>

fun deliver_messages ::
  "env \<Rightarrow> 'db redis \<Rightarrow> Server \<Rightarrow> (string \<times> string) list \<Rightarrow> 'db \<Rightarrow> 'db \<times> notify list" where
  "deliver_messages E R server [] db = (db, [])"
| "deliver_messages E R server (m # ms) db =
     (let (db1, out) = on_message E R server m db; (db2, outs) = deliver_messages E R server ms db1
      in (db2, out @ outs))"

text \<open>C28: a subscription reaches the subscriber.  A client subscribes to the content directory with its url between angle
  brackets; once the published message has come back to the server, the url is a member of the stored subscribers, no
  sorted set has lost a member, and exactly one notification was sent, to the host and path of the url, with the
  uuid of the server.
\<close>

theorem subscription_flow:
  assumes "zset_law R zset" "fmt_law E" "''CDS_SUBSCRIBE'' \<in> set (srv_topics server)"
    "req_method req = ''SUBSCRIBE''" "req_parameter req ''Callback'' = ''<'' @ url @ ''>''" "published w = []"
    "cds E R db (srv_config server) req w = (Inr st, w')"
    "deliver_messages E R server (published w') db = (db', out)"
  shows "st = OK \<and> url \<in> set (zset db' ''upnp:event:cds'') \<and> (\<forall>k. set (zset db k) \<subseteq> set (zset db' k))
    \<and> (\<exists>n. out = [n] \<and> nt_host n = url_host E url \<and> nt_uri n = url_path E url \<and> nt_method n = ''NOTIFY''
           \<and> (''SID'', ''uuid:'' @ uuid (srv_config server)) \<in> set (nt_parameters n))"
proof -
  have "cds E R db (srv_config server) req w = (Inr OK, w\<lparr>
     response := response w @ [Set_parameter (CONTENT_LENGTH E) ''0'', Set_parameter ''Timeout'' ''Second-1800'',
                               Set_parameter (CONTENT_TYPE E) (mime_XML E)],
     published := [(''CDS_SUBSCRIBE'', url)]\<rparr>)"
    using assms(4-6) strip_callback_bracketed [of url]
    by (simp add: cds_def andthen_apply publish_callback_run)
  with assms(7) have st: "st = OK" and pub: "published w' = [(''CDS_SUBSCRIBE'', url)]" by auto
  have key: "make_key ''upnp'' ''event'' [''cds''] = ''upnp:event:cds''" by (simp add: make_key_concat)
  have "(db', out) = (run_command R [redis_ZADD, ''upnp:event:cds'', ''0'', url] db,
      [cds_subscribe_event E (srv_config server) url])"
    using assms(3,8) by (simp add: pub on_message_def key)
  moreover have "format E ''uuid:{}'' [uuid (srv_config server)] = ''uuid:'' @ uuid (srv_config server)"
    by (rule fmt_lawD [OF assms(2)]) simp
  ultimately show ?thesis
    using zadd_effect [OF assms(1)] by (auto simp: st cds_subscribe_event_def)
qed

theorem subscription_flow_witness:
  "\<exists>w' db' out. cds std_env ref_redis ex_db ex_config (ex_request ''SUBSCRIBE'' [(''Callback'', ''<http://h/>'')] []) ex_world =
       (Inr OK, w')
     \<and> deliver_messages std_env ref_redis ex_server (published w') ex_db = (db', out)
     \<and> ''http://h/'' \<in> set (ref_zset db' ''upnp:event:cds'') \<and> length out = 1"
proof -
  let ?req = "ex_request ''SUBSCRIBE'' [(''Callback'', ''<http://h/>'')] []"
  have strip: "strip_callback ''<http://h/>'' = Inr ''http://h/''"
    using strip_callback_bracketed [of "''http://h/''"] by simp
  obtain w' where run: "cds std_env ref_redis ex_db (srv_config ex_server) ?req ex_world = (Inr OK, w')"
    by (simp add: cds_def andthen_apply publish_callback_run strip ex_request_def)
  obtain db' out where del: "deliver_messages std_env ref_redis ex_server (published w') ex_db = (db', out)"
    by (cases "deliver_messages std_env ref_redis ex_server (published w') ex_db")
  have "st = OK \<and> ''http://h/'' \<in> set (ref_zset db' ''upnp:event:cds'') \<and> (\<exists>n. out = [n])"
    if "st = OK" for st
    using subscription_flow [OF ref_zset_law std_fmt_law _ _ _ _ run del, of "''http://h/''"] that
    by (auto simp: ex_server_def ex_request_def ex_world_def)
  then show ?thesis using run del by (auto simp: ex_server_def)
qed

end
